(* ===== verification/Prelude.thy ===== *)
theory Prelude
  imports Main "HOL-Library.State_Monad"
begin

text \<open>
  The vocabulary every component of the development shares:

  \<^item> Go errors as values (\<open>error\<close>), with the wrapping of \<^verbatim>\<open>fmt.Errorf("...: %w", err)\<close> and the
    search of \<^verbatim>\<open>errors.Is\<close> along the chain of wrapped errors;
  \<^item> the state monad of the library, used with results of type \<open>error + 'a\<close>: \<open>onErr\<close> is the
    Go idiom \<^verbatim>\<open>x, err := m; if err != nil { return h(err) }\<close>, \<open>forE\<close> and \<open>forS\<close> are the
    \<^verbatim>\<open>range\<close> loops that stop at the first error and that go on;
  \<^item> the functions of the Go string library the sources use;
  \<^item> frame reasoning: a locale for reflexive and transitive relations between the state before and
    the state after a computation, whose lemmas reduce a frame property of a function to the frame
    properties of the calls it makes.
\<close>

named_theorems run_simps \<open>evaluation rules of monadic code\<close>
named_theorems frame_intros \<open>introduction rules for frame properties\<close>

section \<open>Errors\<close>

text \<open>
  \<open>Wrap t e\<close> is \<^verbatim>\<open>fmt.Errorf("t: %w", e)\<close>, \<open>Errorf t\<close> an error without a cause,
  \<open>Join es\<close> is \<^verbatim>\<open>errors.Join\<close>. \<open>ErrNotExist\<close>, \<open>ErrClosed\<close>, \<open>Canceled\<close> and
  \<open>DeadlineExceeded\<close> are the sentinel errors the sources compare with, \<open>ErrNotFound\<close> is the
  API server's answer recognised by \<^verbatim>\<open>IsNotFound\<close>, \<open>ErrNoMatch\<close> a REST mapper's
  \<^verbatim>\<open>NoResourceMatchError\<close>, and \<open>ErrOther t\<close> any other error of the operating system or of
  a library. \<open>Panic t\<close> is a run-time panic, which ends the command.
\<close>

datatype error =
    ErrNotExist
  | ErrClosed
  | Canceled
  | DeadlineExceeded
  | ErrNotFound
  | ErrNoMatch
  | ErrOther string
  | Errorf string
  | Wrap string error
  | Join "error list"
  | Panic string

fun errors_Is :: "error \<Rightarrow> error \<Rightarrow> bool" where
  "errors_Is (Wrap t e) target = (Wrap t e = target \<or> errors_Is e target)"
| "errors_Is (Join es) target = (Join es = target \<or> (\<exists>e \<in> set es. errors_Is e target))"
| "errors_Is e target = (e = target)"

text \<open>
  \<^verbatim>\<open>os.IsNotExist\<close> predates wrapping and does not look behind \<^verbatim>\<open>fmt.Errorf\<close>.
\<close>

definition os_IsNotExist :: "error \<Rightarrow> bool" where
  "os_IsNotExist e \<longleftrightarrow> e = ErrNotExist"

lemma errors_Is_refl [simp]: "errors_Is e e"
  by (cases e) auto

lemma os_IsNotExist_errors_Is: "os_IsNotExist e \<Longrightarrow> errors_Is e ErrNotExist"
  by (simp add: os_IsNotExist_def)

text \<open>\<^verbatim>\<open>errors.Join\<close> of a list of non-nil errors: nil when the list is empty.\<close>

definition errors_Join :: "error list \<Rightarrow> error option" where
  "errors_Join es = (if es = [] then None else Some (Join es))"

lemma errors_Join_None [simp]: "errors_Join es = None \<longleftrightarrow> es = []"
  by (simp add: errors_Join_def)

section \<open>Monadic code\<close>

abbreviation ret :: "'a \<Rightarrow> ('s, error + 'a) state" where
  "ret x \<equiv> State_Monad.return (Inr x)"

abbreviation throw :: "error \<Rightarrow> ('s, error + 'a) state" where
  "throw e \<equiv> State_Monad.return (Inl e)"

abbreviation skip :: "('s, unit) state" where
  "skip \<equiv> State_Monad.return ()"

definition gets :: "('s \<Rightarrow> 'a) \<Rightarrow> ('s, 'a) state" where
  "gets f = State (\<lambda>s. (f s, s))"

definition modify :: "('s \<Rightarrow> 's) \<Rightarrow> ('s, unit) state" where
  "modify f = State (\<lambda>s. ((), f s))"

definition onErr ::
  "('s, error + 'a) state \<Rightarrow> (error \<Rightarrow> error) \<Rightarrow> ('a \<Rightarrow> ('s, error + 'b) state) \<Rightarrow> ('s, error + 'b) state"
where
  "onErr m h k = State_Monad.bind m (\<lambda>r. case r of Inl e \<Rightarrow> throw (h e) | Inr x \<Rightarrow> k x)"

text \<open>An error that is logged and dropped.\<close>

definition ignoreErr :: "('s, error + 'a) state \<Rightarrow> ('s, unit) state" where
  "ignoreErr m = State_Monad.bind m (\<lambda>_. skip)"

fun forE :: "('a \<Rightarrow> ('s, error + unit) state) \<Rightarrow> 'a list \<Rightarrow> ('s, error + unit) state" where
  "forE f [] = ret ()"
| "forE f (x # xs) = onErr (f x) id (\<lambda>_. forE f xs)"

fun forS :: "('a \<Rightarrow> ('s, unit) state) \<Rightarrow> 'a list \<Rightarrow> ('s, unit) state" where
  "forS f [] = skip"
| "forS f (x # xs) = State_Monad.bind (f x) (\<lambda>_. forS f xs)"

lemma run_gets [simp, run_simps]: "run_state (gets f) s = (f s, s)"
  by (simp add: gets_def)

lemma run_modify [simp, run_simps]: "run_state (modify f) s = ((), f s)"
  by (simp add: modify_def)

lemma run_onErr [run_simps]:
  "run_state (onErr m h k) s =
     (case run_state m s of (r, s') \<Rightarrow> (case r of Inl e \<Rightarrow> (Inl (h e), s') | Inr x \<Rightarrow> run_state (k x) s'))"
  by (auto simp: onErr_def split: prod.splits sum.splits)

lemma run_ignoreErr [run_simps]: "run_state (ignoreErr m) s = ((), snd (run_state m s))"
  by (auto simp: ignoreErr_def split: prod.splits)

lemma onErr_Inr_elim:
  assumes "run_state (onErr m h k) s = (Inr y, s')"
  obtains x t where "run_state m s = (Inr x, t)" "run_state (k x) t = (Inr y, s')"
  using assms by (auto simp: run_onErr split: prod.splits sum.splits)

lemma onErr_InlI: "run_state m s = (Inl e, s') \<Longrightarrow> run_state (onErr m h k) s = (Inl (h e), s')"
  by (simp add: run_onErr)

lemma onErr_InrI: "run_state m s = (Inr x, t) \<Longrightarrow> run_state (onErr m h k) s = run_state (k x) t"
  by (simp add: run_onErr)

lemma run_forE_append:
  "run_state (forE f (xs @ ys)) s = run_state (onErr (forE f xs) id (\<lambda>_. forE f ys)) s"
  by (induction xs arbitrary: s) (auto simp: run_onErr split: prod.splits sum.splits)

section \<open>Frames\<close>

text \<open>
  \<open>state_io_rel R m\<close> of the state monad library says that every run of \<open>m\<close> relates the state it
  starts in to the state it ends in. For a reflexive and transitive \<open>R\<close> such facts compose.
\<close>

locale frame =
  fixes R :: "'s \<Rightarrow> 's \<Rightarrow> bool"
  assumes R_refl: "R s s"
    and R_trans: "R s t \<Longrightarrow> R t u \<Longrightarrow> R s u"
begin

lemma frame_return: "state_io_rel R (State_Monad.return x)"
  by (auto simp: R_refl)

lemma frame_gets: "state_io_rel R (gets f)"
  by (auto simp: R_refl)

lemma frame_bind:
  assumes "state_io_rel R m" and "\<And>x. state_io_rel R (f x)"
  shows "state_io_rel R (State_Monad.bind m f)"
proof
  fix a s s'
  assume "run_state (State_Monad.bind m f) s = (a, s')"
  then obtain x t where "run_state m s = (x, t)" "run_state (f x) t = (a, s')"
    by (auto split: prod.splits)
  with assms show "R s s'" by (meson R_trans state_io_relD)
qed

lemma frame_onErr:
  assumes "state_io_rel R m" and "\<And>x. state_io_rel R (k x)"
  shows "state_io_rel R (onErr m h k)"
  unfolding onErr_def using assms
  by (auto intro!: frame_bind frame_return split: sum.splits)

lemma frame_ignoreErr: "state_io_rel R m \<Longrightarrow> state_io_rel R (ignoreErr m)"
  unfolding ignoreErr_def by (intro frame_bind frame_return)

lemma frame_if:
  "(b \<Longrightarrow> state_io_rel R m) \<Longrightarrow> (\<not> b \<Longrightarrow> state_io_rel R n) \<Longrightarrow> state_io_rel R (if b then m else n)"
  by simp

lemma frame_case_sum:
  "(\<And>e. state_io_rel R (f e)) \<Longrightarrow> (\<And>x. state_io_rel R (g x)) \<Longrightarrow>
   state_io_rel R (case r of Inl e \<Rightarrow> f e | Inr x \<Rightarrow> g x)"
  by (cases r) auto

lemma frame_case_option:
  "state_io_rel R m \<Longrightarrow> (\<And>x. state_io_rel R (f x)) \<Longrightarrow>
   state_io_rel R (case r of None \<Rightarrow> m | Some x \<Rightarrow> f x)"
  by (cases r) auto

lemma frame_case_prod:
  "(\<And>x y. state_io_rel R (f x y)) \<Longrightarrow> state_io_rel R (case p of (x, y) \<Rightarrow> f x y)"
  by (cases p) auto

lemma frame_forE: "(\<And>x. x \<in> set xs \<Longrightarrow> state_io_rel R (f x)) \<Longrightarrow> state_io_rel R (forE f xs)"
  by (induction xs) (auto intro!: frame_onErr simp: R_refl)

lemma frame_forS: "(\<And>x. x \<in> set xs \<Longrightarrow> state_io_rel R (f x)) \<Longrightarrow> state_io_rel R (forS f xs)"
  by (induction xs) (auto intro!: frame_bind simp: R_refl)

lemmas frame_rules =
  frame_return frame_gets frame_bind frame_onErr frame_ignoreErr frame_if
  frame_case_sum frame_case_option frame_case_prod frame_forE frame_forS

end

section \<open>File modes\<close>

abbreviation mode755 :: nat where "mode755 \<equiv> 493"
abbreviation mode700 :: nat where "mode700 \<equiv> 448"
abbreviation mode644 :: nat where "mode644 \<equiv> 420"
abbreviation mode600 :: nat where "mode600 \<equiv> 384"

section \<open>Go strings\<close>

text \<open>
  Strings are byte lists. \<open>TrimSpace\<close> and \<open>Fields\<close> use the ASCII white space of the Go library
  (tab, newline, vertical tab, form feed, carriage return, space).
\<close>

definition is_space :: "char \<Rightarrow> bool" where
  "is_space c \<longleftrightarrow> c \<in> {CHR 0x09, CHR 0x0A, CHR 0x0B, CHR 0x0C, CHR 0x0D, CHR '' ''}"

definition NL :: string where "NL = [CHR 0x0A]"

definition TrimSpace :: "string \<Rightarrow> string" where
  "TrimSpace s = rev (dropWhile is_space (rev (dropWhile is_space s)))"

text \<open>\<^verbatim>\<open>strings.TrimRight(s, "\n")\<close>\<close>

definition TrimRightNL :: "string \<Rightarrow> string" where
  "TrimRightNL s = rev (dropWhile (\<lambda>c. c = CHR 0x0A) (rev s))"

definition HasPrefix :: "string \<Rightarrow> string \<Rightarrow> bool" where
  "HasPrefix s p \<longleftrightarrow> take (length p) s = p"

definition HasSuffix :: "string \<Rightarrow> string \<Rightarrow> bool" where
  "HasSuffix s p \<longleftrightarrow> HasPrefix (rev s) (rev p)"

fun Contains :: "string \<Rightarrow> string \<Rightarrow> bool" where
  "Contains [] p = (p = [])"
| "Contains (c # s) p = (HasPrefix (c # s) p \<or> Contains s p)"

text \<open>\<^verbatim>\<open>strings.Split\<close> by a one-byte separator: always at least one part.\<close>

fun Split :: "char \<Rightarrow> string \<Rightarrow> string list" where
  "Split d [] = [[]]"
| "Split d (c # s) =
     (if c = d then [] # Split d s
      else (case Split d s of [] \<Rightarrow> [[c]] | p # ps \<Rightarrow> (c # p) # ps))"

fun Join_strings :: "string \<Rightarrow> string list \<Rightarrow> string" where
  "Join_strings sep [] = []"
| "Join_strings sep [x] = x"
| "Join_strings sep (x # y # ys) = x @ sep @ Join_strings sep (y # ys)"

fun fields_aux :: "string \<Rightarrow> string \<Rightarrow> string list" where
  "fields_aux acc [] = (if acc = [] then [] else [rev acc])"
| "fields_aux acc (c # s) =
     (if is_space c then (if acc = [] then fields_aux [] s else rev acc # fields_aux [] s)
      else fields_aux (c # acc) s)"

definition Fields :: "string \<Rightarrow> string list" where
  "Fields s = fields_aux [] s"

lemma Split_nonempty [simp]: "Split d s \<noteq> []"
  by (induction s) (auto split: list.splits)

lemma Join_Split: "Join_strings [d] (Split d s) = s"
proof (induction s)
  case (Cons c s)
  obtain p ps where "Split d s = p # ps" by (cases "Split d s") auto
  with Cons show ?case by (cases ps) auto
qed simp

lemma Split_no_sep: "p \<in> set (Split d s) \<Longrightarrow> d \<notin> set p"
  by (induction s arbitrary: p) (auto split: list.splits if_splits)

lemma Split_absent: "d \<notin> set s \<Longrightarrow> Split d s = [s]"
  by (induction s) auto

lemma Split_append: "d \<notin> set x \<Longrightarrow> Split d (x @ d # y) = x # Split d y"
  by (induction x) auto

lemma HasPrefix_append [simp]: "HasPrefix (p @ s) p"
  by (simp add: HasPrefix_def)

lemma HasPrefix_iff: "HasPrefix s p \<longleftrightarrow> (\<exists>r. s = p @ r)"
  unfolding HasPrefix_def by (metis append_eq_conv_conj append_take_drop_id)

lemma Contains_iff: "Contains s p \<longleftrightarrow> (\<exists>u v. s = u @ p @ v)"
proof (induction s)
  case (Cons c s)
  have "(\<exists>u v. c # s = u @ p @ v) \<longleftrightarrow> HasPrefix (c # s) p \<or> (\<exists>u v. s = u @ p @ v)"
    unfolding HasPrefix_iff by (metis append_Cons append_Nil list.inject neq_Nil_conv)
  with Cons show ?case by simp
qed simp

lemma Contains_refl [simp]: "Contains s s"
  unfolding Contains_iff by (metis append_Nil append_Nil2)

lemma Contains_append_left: "Contains s p \<Longrightarrow> Contains (t @ s) p"
  unfolding Contains_iff by (metis append.assoc)

lemma Contains_append_right: "Contains s p \<Longrightarrow> Contains (s @ t) p"
  unfolding Contains_iff by (metis append.assoc)

lemma dropWhile_head: "(s = [] \<or> \<not> P (hd s)) \<Longrightarrow> dropWhile P s = s"
  by (cases s) auto

lemma TrimSpace_id:
  assumes "s = [] \<or> (\<not> is_space (hd s) \<and> \<not> is_space (last s))"
  shows "TrimSpace s = s"
  using assms by (cases "s = []") (auto simp: TrimSpace_def dropWhile_head hd_rev)

lemma dropWhile_last: "\<not> P (last s) \<Longrightarrow> s \<noteq> [] \<Longrightarrow> dropWhile P (rev s) = rev s"
  by (simp add: dropWhile_head hd_rev)

lemma TrimSpace_append_NL:
  assumes "s \<noteq> []" and "\<not> is_space (hd s)" and "\<not> is_space (last s)"
  shows "TrimSpace (s @ NL) = s"
proof -
  have "dropWhile is_space (s @ NL) = s @ NL" using assms by (intro dropWhile_head) simp
  moreover have "is_space (CHR 0x0A)" by (simp add: is_space_def)
  ultimately show ?thesis using assms by (simp add: TrimSpace_def NL_def dropWhile_last)
qed

section \<open>Decimal numerals\<close>

text \<open>\<^verbatim>\<open>%d\<close>, \<^verbatim>\<open>strconv.Itoa\<close> and \<^verbatim>\<open>strconv.Atoi\<close> on 64-bit integers.\<close>

definition digit :: "nat \<Rightarrow> char" where
  "digit d = char_of (48 + d)"

fun nat_digits :: "nat \<Rightarrow> string" where
  "nat_digits n = (if n < 10 then [digit n] else nat_digits (n div 10) @ [digit (n mod 10)])"

declare nat_digits.simps [simp del]

definition Itoa :: "int \<Rightarrow> string" where
  "Itoa i = (if i < 0 then CHR ''-'' # nat_digits (nat (- i)) else nat_digits (nat i))"

definition is_digit :: "char \<Rightarrow> bool" where
  "is_digit c \<longleftrightarrow> 48 \<le> (of_char c :: nat) \<and> (of_char c :: nat) \<le> 57"

definition digits_value :: "string \<Rightarrow> nat" where
  "digits_value s = foldl (\<lambda>n c. 10 * n + (of_char c - 48)) 0 s"

definition in_int64 :: "int \<Rightarrow> bool" where
  "in_int64 i \<longleftrightarrow> - (2 ^ 63) \<le> i \<and> i < 2 ^ 63"

definition Atoi :: "string \<Rightarrow> int option" where
  "Atoi s =
     (let (neg, ds) = (case s of
            [] \<Rightarrow> (False, [])
          | c # cs \<Rightarrow> if c = CHR ''-'' then (True, cs) else if c = CHR ''+'' then (False, cs) else (False, s));
          v = (if neg then - int (digits_value ds) else int (digits_value ds))
      in if ds \<noteq> [] \<and> list_all is_digit ds \<and> in_int64 v then Some v else None)"

lemma of_char_digit [simp]: "d < 10 \<Longrightarrow> (of_char (digit d) :: nat) = 48 + d"
  by (simp add: digit_def)

lemma is_digit_digit [simp]: "d < 10 \<Longrightarrow> is_digit (digit d)"
  by (simp add: is_digit_def)

lemma nat_digits_nonempty [simp]: "nat_digits n \<noteq> []"
  by (subst nat_digits.simps) simp

lemma nat_digits_all: "list_all is_digit (nat_digits n)"
proof (induction n rule: nat_digits.induct)
  case (1 n)
  then show ?case by (subst nat_digits.simps) auto
qed

lemma digits_value_snoc: "digits_value (s @ [c]) = 10 * digits_value s + (of_char c - 48)"
  by (simp add: digits_value_def)

lemma digits_value_nat_digits: "digits_value (nat_digits n) = n"
proof (induction n rule: nat_digits.induct)
  case (1 n)
  show ?case
  proof (cases "n < 10")
    case True
    then show ?thesis by (subst nat_digits.simps) (simp add: digits_value_def)
  next
    case False
    with 1 have "digits_value (nat_digits (n div 10)) = n div 10" by simp
    with False show ?thesis by (subst nat_digits.simps) (simp add: digits_value_snoc)
  qed
qed

lemma nat_digits_inject [simp]: "nat_digits m = nat_digits n \<longleftrightarrow> m = n"
  by (metis digits_value_nat_digits)

lemma is_digit_nat_digits: "c \<in> set (nat_digits n) \<Longrightarrow> is_digit c"
  using nat_digits_all [of n] by (simp add: list_all_iff)

lemma is_digit_not_space: "is_digit c \<Longrightarrow> \<not> is_space c"
  by (auto simp: is_digit_def is_space_def)

lemma is_digit_sign: "is_digit c \<Longrightarrow> c \<noteq> CHR ''-'' \<and> c \<noteq> CHR ''+''"
  by (auto simp: is_digit_def)

text \<open>Printing and parsing a decimal number are inverse to each other.\<close>

lemma Atoi_Itoa:
  assumes "in_int64 i"
  shows "Atoi (Itoa i) = Some i"
proof (cases "i < 0")
  case True
  then have "int (digits_value (nat_digits (nat (- i)))) = - i"
    by (simp add: digits_value_nat_digits)
  with True assms show ?thesis
    by (simp add: Atoi_def Itoa_def nat_digits_all)
next
  case False
  obtain c cs where c: "nat_digits (nat i) = c # cs" by (cases "nat_digits (nat i)") auto
  have "is_digit c" using is_digit_nat_digits [of c "nat i"] c by simp
  then have "c \<noteq> CHR ''-''" and "c \<noteq> CHR ''+''" by (auto dest: is_digit_sign)
  moreover have "list_all is_digit (c # cs)" and "digits_value (c # cs) = nat i"
    using nat_digits_all [of "nat i"] digits_value_nat_digits [of "nat i"] c by simp_all
  ultimately show ?thesis using False assms c by (simp add: Atoi_def Itoa_def)
qed

lemma Itoa_ends: "\<not> is_space (hd (Itoa i)) \<and> \<not> is_space (last (Itoa i))"
proof -
  have "is_digit (hd (nat_digits n))" and "is_digit (last (nat_digits n))" for n
    by (rule is_digit_nat_digits [of _ n], simp)+
  then show ?thesis
    by (auto simp: Itoa_def is_digit_not_space) (simp add: is_space_def)
qed

lemma Itoa_nonempty [simp]: "Itoa i \<noteq> []"
  by (simp add: Itoa_def)

lemma TrimSpace_Itoa [simp]: "TrimSpace (Itoa i) = Itoa i"
  using Itoa_ends by (simp add: TrimSpace_id)

lemma TrimSpace_Itoa_NL [simp]: "TrimSpace (Itoa i @ NL) = Itoa i"
  using Itoa_ends by (simp add: TrimSpace_append_NL)

end
