(* ===== verification/Checks.thy ===== *)
theory Checks
  imports Prelude "HOL-Library.Multiset"
begin

text \<open>
  The runner of the status checks, \<^verbatim>\<open>pkg/check/status_check.go\<close>. A check has a function, the names of
  the checks it depends on and sub-checks; every check of a run has a result and runs in a goroutine of
  its own that waits for the results it depends on, then starts its sub-checks and waits for them, or
  calls its function.

  A \<^verbatim>\<open>CheckResult\<close> of the source is split: its check and its sub-results never change once it has
  been made and form a tree (\<open>CheckResult\<close>, with the address of the object), and the fields that
  change are a record (\<open>result_cell\<close>) kept in a store under that address. The goroutines are program
  counters, one for each result; closing \<^verbatim>\<open>Done\<close> is the last thing a goroutine does, so a closed
  channel is the program counter \<open>Ended\<close>. One action of a goroutine is one step between two points where
  the others can see a difference; a check function is called in one step, on the data the checks
  share. The lemmas show that every run is finite, what each verdict means, and under which condition
  on the dependencies no goroutine waits for ever.
\<close>

section \<open>Checks and results\<close>

datatype CheckStatus = StatusPending | StatusRunning | StatusSkipped | StatusSuccess | StatusFailed

fun status_String :: "CheckStatus \<Rightarrow> string" where
  "status_String StatusPending = ''pending''"
| "status_String StatusRunning = ''running''"
| "status_String StatusSkipped = ''skipped''"
| "status_String StatusSuccess = ''success''"
| "status_String StatusFailed = ''failed''"

type_synonym outcome = "bool \<times> string \<times> error option"

datatype 'd Check = Check
  (check_CheckFn: "('d, outcome) state option")
  (check_Name: string)
  (check_Description: string)
  (DependsOn: "string list")
  (SubChecks: "'d Check list")

datatype 'd CheckResult = CheckResult
  (addr: nat)
  (result_Check: "'d Check")
  (SubResults: "'d CheckResult list")

record 'd result_cell =
  result_Error :: "error option"
  result_Message :: string
  ParentResults :: "'d CheckResult list"
  result_Status :: CheckStatus

type_synonym 'd store = "nat \<Rightarrow> 'd result_cell"

definition new_cell :: "'d result_cell" where
  "new_cell = \<lparr>result_Error = None, result_Message = '''', ParentResults = [], result_Status = StatusPending\<rparr>"

definition result_Name :: "'d CheckResult \<Rightarrow> string" where
  "result_Name r = check_Name (result_Check r)"

text \<open>
  \<open>NewResult c n\<close> allocates the results of a check and of its sub-checks from address \<open>n\<close> on, the
  sub-results first, and returns the next free address.
\<close>

fun NewResult :: "'d Check \<Rightarrow> nat \<Rightarrow> 'd CheckResult \<times> nat"
and NewResults :: "'d Check list \<Rightarrow> nat \<Rightarrow> 'd CheckResult list \<times> nat"
where
  "NewResult (Check fn nm ds deps subs) n =
     (let (rs, m) = NewResults subs n in (CheckResult m (Check fn nm ds deps subs) rs, Suc m))"
| "NewResults [] n = ([], n)"
| "NewResults (c # cs) n = (let (r, m) = NewResult c n; (rs, k) = NewResults cs m in (r # rs, k))"

fun FillResultNameMap ::
  "'d CheckResult list \<Rightarrow> (string \<rightharpoonup> 'd CheckResult) \<Rightarrow> (string \<rightharpoonup> 'd CheckResult)"
where
  "FillResultNameMap [] m = m"
| "FillResultNameMap (CheckResult a c subs # rs) m =
     FillResultNameMap rs (FillResultNameMap subs (m(check_Name c \<mapsto> CheckResult a c subs)))"

fun FillDependencies :: "(string \<rightharpoonup> 'd CheckResult) \<Rightarrow> 'd CheckResult \<Rightarrow> 'd store \<Rightarrow> 'd store"
and FillAllDependencies :: "(string \<rightharpoonup> 'd CheckResult) \<Rightarrow> 'd CheckResult list \<Rightarrow> 'd store \<Rightarrow> 'd store"
where
  "FillDependencies m (CheckResult a c subs) h =
     FillAllDependencies m subs
       (h(a := (h a)\<lparr>ParentResults := ParentResults (h a) @ List.map_filter m (DependsOn c)\<rparr>))"
| "FillAllDependencies m [] h = h"
| "FillAllDependencies m (r # rs) h = FillAllDependencies m rs (FillDependencies m r h)"

definition NewPhase :: "string \<Rightarrow> string \<Rightarrow> 'd Check list \<Rightarrow> 'd Check" where
  "NewPhase name description subChecks = Check None name description [] subChecks"

text \<open>
  The results of a list of checks: made, entered in a fresh name map, and linked to the results they
  depend on. A dependency whose name is not in the map is ignored.
\<close>

definition PrepareChecks :: "'d Check list \<Rightarrow> nat \<Rightarrow> 'd store \<Rightarrow> 'd CheckResult list \<times> nat \<times> 'd store" where
  "PrepareChecks checks n h =
     (let (results, m) = NewResults checks n;
          h' = (\<lambda>a. if n \<le> a \<and> a < m then new_cell else h a)
      in (results, m, FillAllDependencies (FillResultNameMap results Map.empty) results h'))"

record 'd CheckExecutor =
  Checks :: "'d Check list"
  resultNameMap :: "string \<rightharpoonup> 'd CheckResult"
  Results :: "'d CheckResult list"
  nextAddr :: nat
  executor_store :: "'d store"

definition NewCheckExecutor :: "'d CheckExecutor" where
  "NewCheckExecutor = \<lparr>Checks = [], resultNameMap = Map.empty, Results = [], nextAddr = 0,
     executor_store = (\<lambda>_. new_cell)\<rparr>"

definition AddCheck :: "'d Check \<Rightarrow> 'd CheckExecutor \<Rightarrow> 'd CheckExecutor" where
  "AddCheck c e = e\<lparr>Checks := Checks e @ [c]\<rparr>"

text \<open>
  \<^verbatim>\<open>PrepareRun\<close> links the results a second time: every dependency is listed twice.
\<close>

definition PrepareRun :: "'d CheckExecutor \<Rightarrow> 'd CheckExecutor" where
  "PrepareRun e =
     (let (results, m, h) = PrepareChecks (Checks e) (nextAddr e) (executor_store e);
          names = FillResultNameMap results (resultNameMap e)
      in e\<lparr>Results := results, nextAddr := m, resultNameMap := names,
           executor_store := FillAllDependencies names results h\<rparr>)"

section \<open>A run\<close>

text \<open>
  Where a goroutine stands: not started, started, waiting for the listed dependencies, waiting for the
  listed sub-checks with the names of the failed ones so far, about to call the check function, about
  to close \<^verbatim>\<open>Done\<close>, ended.
\<close>

datatype 'd pc =
    Idle
  | Spawned
  | WaitDependencies "'d CheckResult list"
  | WaitSubChecks "'d CheckResult list" "string list"
  | Calling
  | Returning
  | Ended

record 'd run =
  cells :: "'d store"
  counters :: "nat \<Rightarrow> 'd pc"
  cancelled :: bool
  checkData :: 'd

definition at :: "'d run \<Rightarrow> 'd CheckResult \<Rightarrow> 'd pc" where
  "at s r = counters s (addr r)"

definition cell :: "'d run \<Rightarrow> 'd CheckResult \<Rightarrow> 'd result_cell" where
  "cell s r = cells s (addr r)"

definition ended :: "'d run \<Rightarrow> 'd CheckResult \<Rightarrow> bool" where
  "ended s r \<longleftrightarrow> at s r = Ended"

definition result_Success :: "'d run \<Rightarrow> 'd CheckResult \<Rightarrow> bool" where
  "result_Success s r \<longleftrightarrow> result_Status (cell s r) = StatusSuccess"

definition result_Failed :: "'d run \<Rightarrow> 'd CheckResult \<Rightarrow> bool" where
  "result_Failed s r \<longleftrightarrow> result_Status (cell s r) = StatusFailed"

definition set_cell :: "'d CheckResult \<Rightarrow> ('d result_cell \<Rightarrow> 'd result_cell) \<Rightarrow> 'd run \<Rightarrow> 'd run" where
  "set_cell r f s = s\<lparr>cells := (cells s)(addr r := f (cells s (addr r)))\<rparr>"

definition goto :: "'d CheckResult \<Rightarrow> 'd pc \<Rightarrow> 'd run \<Rightarrow> 'd run" where
  "goto r p s = s\<lparr>counters := (counters s)(addr r := p)\<rparr>"

text \<open>\<^verbatim>\<open>Run\<close> of a result starts its goroutine.\<close>

fun spawn_all :: "'d CheckResult list \<Rightarrow> 'd run \<Rightarrow> 'd run" where
  "spawn_all [] s = s"
| "spawn_all (r # rs) s = spawn_all rs (goto r Spawned s)"

text \<open>The end of \<^verbatim>\<open>CheckFn\<close> of a result: the check function has returned, or there is none.\<close>

definition run_CheckFn :: "'d CheckResult \<Rightarrow> 'd run \<Rightarrow> 'd run" where
  "run_CheckFn r s = (case check_CheckFn (result_Check r) of
       Some fn \<Rightarrow> (case run_state fn (checkData s) of
         ((success, message, err), d) \<Rightarrow>
           set_cell r (\<lambda>c. c\<lparr>result_Message := message, result_Error := err,
             result_Status := (if success then StatusSuccess else StatusFailed)\<rparr>) (s\<lparr>checkData := d\<rparr>))
     | None \<Rightarrow> set_cell r (\<lambda>c. c\<lparr>result_Error := Some (Errorf (''no check function defined for '' @ result_Name r)),
         result_Status := StatusFailed\<rparr>) s)"

definition wait_cancelled :: "'d CheckResult \<Rightarrow> 'd run \<Rightarrow> 'd run list" where
  "wait_cancelled r s = (if cancelled s then [goto r Returning s] else [])"

definition dependency_ended :: "'d CheckResult \<Rightarrow> 'd CheckResult \<Rightarrow> 'd CheckResult list \<Rightarrow> 'd run \<Rightarrow> 'd run" where
  "dependency_ended r parent ps s =
     (if \<not> result_Success s parent
      then goto r Returning (set_cell r (\<lambda>c. c\<lparr>result_Status := StatusSkipped,
             result_Message := ''Skipped due to failure of '' @ result_Name parent\<rparr>) s)
      else goto r (WaitDependencies ps) s)"

definition subchecks_ended :: "'d CheckResult \<Rightarrow> string list \<Rightarrow> 'd run \<Rightarrow> 'd run" where
  "subchecks_ended r errs s = goto r Returning
     (if errs \<noteq> []
      then set_cell r (\<lambda>c. c\<lparr>result_Status := StatusFailed,
             result_Error := Some (Errorf ('' '' @ nat_digits (length errs) @ '' subChecks failed''))\<rparr>) s
      else set_cell r (\<lambda>c. c\<lparr>result_Status := StatusSuccess\<rparr>) s)"

definition start_running :: "'d CheckResult \<Rightarrow> 'd run \<Rightarrow> 'd run" where
  "start_running r s =
     (let s' = set_cell r (\<lambda>c. c\<lparr>result_Status := StatusRunning\<rparr>) s
      in if SubResults r \<noteq> [] then goto r (WaitSubChecks (SubResults r) []) (spawn_all (SubResults r) s')
         else goto r Calling s')"

text \<open>
  The next actions of the goroutine of a result: none while it waits, two where a \<^verbatim>\<open>select\<close> has both
  the cancelled context and the awaited result to choose from.
\<close>

definition act :: "'d CheckResult \<Rightarrow> 'd run \<Rightarrow> 'd run list" where
  "act r s = (case at s r of
       Idle \<Rightarrow> []
     | Spawned \<Rightarrow> [goto r (WaitDependencies (ParentResults (cell s r)))
                    (set_cell r (\<lambda>c. c\<lparr>result_Status := StatusPending\<rparr>) s)]
     | WaitDependencies [] \<Rightarrow> [start_running r s]
     | WaitDependencies (p # ps) \<Rightarrow>
         wait_cancelled r s @ (if ended s p then [dependency_ended r p ps s] else [])
     | WaitSubChecks [] errs \<Rightarrow> [subchecks_ended r errs s]
     | WaitSubChecks (q # qs) errs \<Rightarrow>
         wait_cancelled r s @
         (if ended s q then [goto r (WaitSubChecks qs (if result_Failed s q then errs @ [result_Name q] else errs)) s]
          else [])
     | Calling \<Rightarrow> [goto r Returning (run_CheckFn r s)]
     | Returning \<Rightarrow> [goto r Ended s]
     | Ended \<Rightarrow> [])"

fun result_tree :: "'d CheckResult \<Rightarrow> 'd CheckResult list" where
  "result_tree (CheckResult a c subs) = concat (map result_tree subs) @ [CheckResult a c subs]"

abbreviation all_results :: "'d CheckResult list \<Rightarrow> 'd CheckResult list" where
  "all_results rs \<equiv> concat (map result_tree rs)"

inductive check_step :: "'d CheckResult list \<Rightarrow> 'd run \<Rightarrow> 'd run \<Rightarrow> bool" for rs where
  cancel: "\<not> cancelled s \<Longrightarrow> check_step rs s (s\<lparr>cancelled := True\<rparr>)"
| act: "r \<in> set (all_results rs) \<Longrightarrow> s' \<in> set (act r s) \<Longrightarrow> check_step rs s s'"

text \<open>
  The start of \<^verbatim>\<open>CheckExecutor.Run\<close>, and when it returns: at once when the context is cancelled, else
  when every top-level result is done.
\<close>

definition executor_Run :: "'d CheckExecutor \<Rightarrow> 'd \<Rightarrow> 'd run" where
  "executor_Run e d = spawn_all (Results e)
     \<lparr>cells = executor_store e, counters = (\<lambda>_. Idle), cancelled = False, checkData = d\<rparr>"

definition executor_returns :: "'d CheckExecutor \<Rightarrow> 'd run \<Rightarrow> bool" where
  "executor_returns e s \<longleftrightarrow> cancelled s \<or> (\<forall>r \<in> set (Results e). ended s r)"


section \<open>Forests without sharing\<close>

lemma self_in_tree [simp]: "r \<in> set (result_tree r)"
  by (cases r) simp

lemma sub_in_tree: "q \<in> set (SubResults r) \<Longrightarrow> q \<in> set (result_tree r)"
  by (cases r) (auto intro: self_in_tree)

lemma tree_trans: "r \<in> set (result_tree t) \<Longrightarrow> q \<in> set (result_tree r) \<Longrightarrow> q \<in> set (result_tree t)"
  by (induction t rule: result_tree.induct) auto

lemma sub_in_all:
  "r \<in> set (all_results rs) \<Longrightarrow> q \<in> set (SubResults r) \<Longrightarrow> q \<in> set (all_results rs)"
  by (auto dest: sub_in_tree intro: tree_trans)

lemma top_in_all: "r \<in> set rs \<Longrightarrow> r \<in> set (all_results rs)"
  by (auto intro: self_in_tree)

text \<open>Every result of a forest is a root or a sub-result, counted once.\<close>

lemma mset_links:
  "add_mset t (mset (concat (map SubResults (result_tree t)))) = mset (result_tree t)"
proof (induction t rule: result_tree.induct)
  case (1 a c subs)
  have "mset ts + mset (concat (map SubResults (all_results ts))) = mset (all_results ts)"
    if "set ts \<subseteq> set subs" for ts
    using that
  proof (induction ts)
    case (Cons t ts)
    then show ?case using 1 [of t] by (simp flip: 1) 
  qed simp
  from this [of subs] show ?case by (simp add: add.commute)
qed

lemma mset_all_links: "mset rs + mset (concat (map SubResults (all_results rs))) = mset (all_results rs)"
  by (induction rs) (simp_all flip: mset_links)

lemma distinct_concat_map_unique:
  "distinct (concat (map f xs)) \<Longrightarrow> x \<in> set xs \<Longrightarrow> y \<in> set xs \<Longrightarrow> z \<in> set (f x) \<Longrightarrow> z \<in> set (f y) \<Longrightarrow> x = y"
  by (induction xs) auto

text \<open>
  The results of a run are a forest whose nodes have addresses of their own: what the allocation of
  \<open>NewResults\<close> promises to the runner.
\<close>

locale result_forest =
  fixes rs :: "'d CheckResult list"
  assumes distinct_addrs: "distinct (map addr (all_results rs))"
begin

lemma same_addr:
  assumes "r \<in> set (all_results rs)" and "q \<in> set (all_results rs)" and "addr r = addr q"
  shows "r = q"
  using distinct_addrs assms by (auto simp: distinct_map inj_on_def)

lemma distinct_links: "distinct (rs @ concat (map SubResults (all_results rs)))"
  using distinct_addrs mset_all_links [of rs] by (metis distinct_map mset_append mset_eq_imp_distinct_iff)

lemma same_encloser:
  assumes "r \<in> set (all_results rs)" "r' \<in> set (all_results rs)"
    and "q \<in> set (SubResults r)" "q' \<in> set (SubResults r')" "addr q = addr q'"
  shows "r = r'"
proof -
  have "q = q'" using assms by (blast intro: same_addr sub_in_all)
  with assms distinct_links show ?thesis
    by (metis distinct_append distinct_concat_map_unique)
qed

lemma no_own_sub:
  assumes "r \<in> set (all_results rs)" "q \<in> set (SubResults r)"
  shows "addr q \<noteq> addr r"
proof
  assume "addr q = addr r"
  then have "q = r" using assms by (blast intro: same_addr sub_in_all)
  moreover have "size q < size r" using assms(2) by (cases r) (auto simp: less_Suc_eq_le intro: trans_le_add2 size_list_estimation')
  ultimately show False by simp
qed

end

lemma upt_split: "i \<le> j \<Longrightarrow> j \<le> k \<Longrightarrow> [i..<j] @ [j..<k] = [i..<k]"
  by (metis le_add_diff_inverse upt_add_eq_append)

lemma NewResults_addrs:
  fixes c :: "'d Check" and cs :: "'d Check list"
  shows "NewResult c n = (r, m) \<Longrightarrow> map addr (result_tree r) = [n..<m] \<and> n \<le> m"
    and "NewResults cs k = (rs, j) \<Longrightarrow> map addr (all_results rs) = [k..<j] \<and> k \<le> j"
proof (induction c n and cs k arbitrary: r m and rs j rule: NewResult_NewResults.induct)
  case (1 fn nm ds deps subs n)
  then show ?case by (auto split: prod.splits simp: map_concat)
next
  case (3 c cs n)
  then show ?case
    by (fastforce split: prod.splits simp: upt_split)
qed simp

interpretation made: result_forest "fst (NewResults cs n)"
  by unfold_locales (metis NewResults_addrs(2) distinct_upt prod.collapse)

section \<open>What one action changes\<close>

lemma spawn_all_simps [simp]:
  "cells (spawn_all qs s) = cells s"
  "counters (spawn_all qs s) a = (if a \<in> addr ` set qs then Spawned else counters s a)"
  "cancelled (spawn_all qs s) = cancelled s"
  by (induction qs arbitrary: s) (auto simp: goto_def)

lemma goto_simps [simp]:
  "cells (goto r p s) = cells s"
  "counters (goto r p s) = (counters s)(addr r := p)"
  "cancelled (goto r p s) = cancelled s"
  by (simp_all add: goto_def)

lemma set_cell_simps [simp]:
  "cells (set_cell r f s) = (cells s)(addr r := f (cells s (addr r)))"
  "counters (set_cell r f s) = counters s"
  "cancelled (set_cell r f s) = cancelled s"
  by (simp_all add: set_cell_def)

lemma run_CheckFn_counters [simp]:
  "counters (run_CheckFn r s) = counters s" "cancelled (run_CheckFn r s) = cancelled s"
  "a \<noteq> addr r \<Longrightarrow> cells (run_CheckFn r s) a = cells s a"
  by (simp_all add: run_CheckFn_def split: option.splits prod.splits)

lemma run_CheckFn_parents [simp]:
  "ParentResults (cells (run_CheckFn r s) a) = ParentResults (cells s a)"
  by (simp add: run_CheckFn_def split: option.splits prod.splits)

lemmas act_simps =
  act_def wait_cancelled_def dependency_ended_def subchecks_ended_def start_running_def

lemma act_frame:
  assumes "s' \<in> set (act r s)"
  shows "a \<noteq> addr r \<Longrightarrow> cells s' a = cells s a"
    and "ParentResults (cells s' a) = ParentResults (cells s a)"
    and "cancelled s' = cancelled s"
    and "a \<noteq> addr r \<Longrightarrow> counters s' a = counters s a \<or>
           (a \<in> addr ` set (SubResults r) \<and> at s r = WaitDependencies [] \<and> counters s' a = Spawned \<and>
            at s' r = WaitSubChecks (SubResults r) [])"
  using assms
  by (auto simp: act_simps Let_def at_def split: pc.splits list.splits if_splits)

section \<open>The verdicts\<close>

text \<open>
  What the status of a result means once its goroutine has ended and the context was not cancelled:
  it was skipped because one of its dependencies did not succeed; or all of them succeeded and it
  failed exactly when a sub-check failed, whether or not another sub-check was skipped; or it has no
  sub-checks and reports the outcome of its function.
\<close>

definition parents_ok :: "'d run \<Rightarrow> 'd CheckResult \<Rightarrow> bool" where
  "parents_ok s r \<longleftrightarrow> (\<forall>p \<in> set (ParentResults (cell s r)). ended s p \<and> result_Success s p)"

definition function_verdict :: "'d Check \<Rightarrow> 'd result_cell \<Rightarrow> bool" where
  "function_verdict c x \<longleftrightarrow> (case check_CheckFn c of
       None \<Rightarrow> result_Status x = StatusFailed
     | Some fn \<Rightarrow> \<exists>d. fst (run_state fn d) = (result_Status x = StatusSuccess, result_Message x, result_Error x) \<and>
         result_Status x \<in> {StatusSuccess, StatusFailed})"

definition verdict :: "'d run \<Rightarrow> 'd CheckResult \<Rightarrow> bool" where
  "verdict s r \<longleftrightarrow>
     (if \<not> parents_ok s r
      then result_Status (cell s r) = StatusSkipped \<and>
           (\<exists>p \<in> set (ParentResults (cell s r)). ended s p \<and> \<not> result_Success s p \<and>
              result_Message (cell s r) = ''Skipped due to failure of '' @ result_Name p)
      else if SubResults r \<noteq> []
      then (\<forall>q \<in> set (SubResults r). ended s q) \<and>
           result_Status (cell s r) =
             (if \<exists>q \<in> set (SubResults r). result_Failed s q then StatusFailed else StatusSuccess)
      else function_verdict (result_Check r) (cell s r))"

fun goroutine_ok :: "'d run \<Rightarrow> 'd CheckResult \<Rightarrow> 'd pc \<Rightarrow> bool" where
  "goroutine_ok s r Idle \<longleftrightarrow> result_Status (cell s r) = StatusPending"
| "goroutine_ok s r Spawned \<longleftrightarrow> result_Status (cell s r) = StatusPending"
| "goroutine_ok s r (WaitDependencies ps) \<longleftrightarrow> result_Status (cell s r) = StatusPending \<and>
     (\<exists>pre. ParentResults (cell s r) = pre @ ps \<and> (\<forall>p \<in> set pre. ended s p \<and> result_Success s p))"
| "goroutine_ok s r (WaitSubChecks qs errs) \<longleftrightarrow> result_Status (cell s r) = StatusRunning \<and> parents_ok s r \<and>
     SubResults r \<noteq> [] \<and> (\<exists>pre. SubResults r = pre @ qs \<and> (\<forall>q \<in> set pre. ended s q) \<and>
       errs = map result_Name (filter (result_Failed s) pre))"
| "goroutine_ok s r Calling \<longleftrightarrow> result_Status (cell s r) = StatusRunning \<and> parents_ok s r \<and> SubResults r = []"
| "goroutine_ok s r Returning \<longleftrightarrow>
     verdict s r \<or> cancelled s \<and> (result_Status (cell s r) = StatusPending \<or>
       result_Status (cell s r) = StatusRunning \<and> parents_ok s r)"
| "goroutine_ok s r Ended \<longleftrightarrow>
     verdict s r \<or> cancelled s \<and> (result_Status (cell s r) = StatusPending \<or>
       result_Status (cell s r) = StatusRunning \<and> parents_ok s r)"

lemma goroutine_started:
  assumes "goroutine_ok s r p" and "result_Status (cell s r) \<in> {StatusRunning, StatusSuccess, StatusFailed}"
  shows "parents_ok s r"
  using assms by (cases p) (auto simp: verdict_def split: if_splits)

text \<open>A result whose goroutine has ended does not change any more.\<close>

definition grows :: "'d run \<Rightarrow> 'd run \<Rightarrow> bool" where
  "grows s s' \<longleftrightarrow> (cancelled s \<longrightarrow> cancelled s') \<and>
     (\<forall>r. ended s r \<longrightarrow> ended s' r \<and> cell s' r = cell s r)"

lemma grows_success: "grows s s' \<Longrightarrow> ended s p \<Longrightarrow> result_Success s' p = result_Success s p"
  by (simp add: grows_def result_Success_def)

lemma grows_failed: "grows s s' \<Longrightarrow> ended s p \<Longrightarrow> result_Failed s' p = result_Failed s p"
  by (simp add: grows_def result_Failed_def)

lemma grows_ended: "grows s s' \<Longrightarrow> ended s p \<Longrightarrow> ended s' p"
  by (simp add: grows_def)

lemmas grows_simps = grows_success grows_failed grows_ended

lemma parents_ok_grows:
  assumes "grows s s'" and "ParentResults (cell s' r) = ParentResults (cell s r)" and "parents_ok s r"
  shows "parents_ok s' r"
  using assms unfolding parents_ok_def by (auto simp: grows_simps)

lemma verdict_grows:
  assumes g: "grows s s'" and c: "cell s' r = cell s r" and v: "verdict s r"
  shows "verdict s' r"
proof (cases "parents_ok s r")
  case True
  then have ok: "parents_ok s' r" using g c by (simp add: parents_ok_grows)
  show ?thesis
  proof (cases "SubResults r = []")
    case True
    with v \<open>parents_ok s r\<close> ok show ?thesis unfolding verdict_def c by simp
  next
    case False
    with v True have all: "\<forall>q \<in> set (SubResults r). ended s q" by (simp add: verdict_def)
    then have "(\<exists>q \<in> set (SubResults r). result_Failed s' q) = (\<exists>q \<in> set (SubResults r). result_Failed s q)"
      using g by (meson grows_failed)
    moreover have "\<forall>q \<in> set (SubResults r). ended s' q" using all g by (meson grows_ended)
    ultimately show ?thesis using v True ok False unfolding verdict_def c by simp
  qed
next
  case False
  then obtain p where p: "p \<in> set (ParentResults (cell s r))" "ended s p" "\<not> result_Success s p"
      "result_Message (cell s r) = ''Skipped due to failure of '' @ result_Name p"
      "result_Status (cell s r) = StatusSkipped"
    using v by (auto simp: verdict_def)
  moreover from p g have "ended s' p" "\<not> result_Success s' p" by (simp_all add: grows_simps)
  moreover from this p c have "\<not> parents_ok s' r" unfolding parents_ok_def c by blast
  ultimately show ?thesis unfolding verdict_def c by (simp, blast)
qed

lemma goroutine_ok_grows:
  assumes "goroutine_ok s r p" and "grows s s'" and "cell s' r = cell s r"
  shows "goroutine_ok s' r p"
proof (cases p)
  case (WaitDependencies ps)
  with assms obtain pre where "ParentResults (cell s r) = pre @ ps" "\<forall>p \<in> set pre. ended s p \<and> result_Success s p"
    by auto
  with assms WaitDependencies show ?thesis by (auto simp: grows_simps intro!: exI [of _ pre])
next
  case (WaitSubChecks qs errs)
  with assms obtain pre where pre: "SubResults r = pre @ qs" "\<forall>q \<in> set pre. ended s q"
    "errs = map result_Name (filter (result_Failed s) pre)" by auto
  then have "filter (result_Failed s') pre = filter (result_Failed s) pre"
    using assms(2) by (auto simp: grows_simps intro: filter_cong)
  with assms WaitSubChecks pre show ?thesis
    by (auto simp: grows_simps parents_ok_grows intro!: exI [of _ pre])
qed (use assms verdict_grows [of s s' r] parents_ok_grows [of s s' r] in \<open>auto simp: grows_def\<close>)

section \<open>The invariant of a run\<close>

fun past_dependencies :: "'d pc \<Rightarrow> bool" where
  "past_dependencies (WaitSubChecks qs errs) = True"
| "past_dependencies Calling = True"
| "past_dependencies Returning = True"
| "past_dependencies Ended = True"
| "past_dependencies _ = False"

fun waiting_subs :: "'d pc \<Rightarrow> bool" where
  "waiting_subs (WaitSubChecks qs errs) = True"
| "waiting_subs _ = False"

text \<open>The sub-checks of a result are started together, and only by it.\<close>

definition subs_ok :: "'d run \<Rightarrow> 'd CheckResult \<Rightarrow> bool" where
  "subs_ok s r \<longleftrightarrow>
     (\<forall>q \<in> set (SubResults r). at s q = Idle) \<or>
     (past_dependencies (at s r) \<and> (\<forall>q \<in> set (SubResults r). at s q \<noteq> Idle))"

definition run_inv :: "'d CheckResult list \<Rightarrow> 'd run \<Rightarrow> bool" where
  "run_inv rs s \<longleftrightarrow>
     (\<forall>r \<in> set (all_results rs). goroutine_ok s r (at s r) \<and> subs_ok s r \<and>
        (waiting_subs (at s r) \<longrightarrow> (\<forall>q \<in> set (SubResults r). at s q \<noteq> Idle))) \<and>
     (\<forall>r \<in> set rs. at s r \<noteq> Idle)"

lemma run_inv_goroutine: "run_inv rs s \<Longrightarrow> r \<in> set (all_results rs) \<Longrightarrow> goroutine_ok s r (at s r)"
  unfolding run_inv_def by blast

lemma run_inv_subs: "run_inv rs s \<Longrightarrow> r \<in> set (all_results rs) \<Longrightarrow> subs_ok s r"
  unfolding run_inv_def by blast

lemma act_not_ended: "s' \<in> set (act r s) \<Longrightarrow> at s r \<noteq> Ended \<and> at s r \<noteq> Idle"
  by (auto simp: act_def)

context result_forest
begin

lemma act_grows:
  assumes inv: "run_inv rs s" and r: "r \<in> set (all_results rs)" and s': "s' \<in> set (act r s)"
  shows "grows s s'"
  unfolding grows_def
proof (intro conjI allI impI)
  show "cancelled s \<Longrightarrow> cancelled s'" using act_frame(3) [OF s'] by simp
next
  fix x assume x: "ended s x"
  then have ne: "addr x \<noteq> addr r" using act_not_ended [OF s'] by (auto simp: ended_def at_def)
  then show "cell s' x = cell s x" using act_frame(1) [OF s'] by (simp add: cell_def)
  have "\<not> (addr x \<in> addr ` set (SubResults r) \<and> at s r = WaitDependencies [])"
    using run_inv_subs [OF inv r] x by (force simp: subs_ok_def ended_def at_def)
  with act_frame(4) [OF s' ne] x show "ended s' x" by (auto simp: ended_def at_def)
qed

end

lemma own_cell [simp]:
  "cell (goto r p s) r = cell s r" "at (goto r p s) r = p"
  "cell (set_cell r f s) r = f (cell s r)" "at (set_cell r f s) r = at s r"
  "cell (spawn_all qs s) r = cell s r"
  by (simp_all add: cell_def at_def)

lemma function_verdict_run: "function_verdict (result_Check r) (cell (run_CheckFn r s) r)"
proof (cases "check_CheckFn (result_Check r)")
  case (Some fn)
  obtain ok m e d where "run_state fn (checkData s) = ((ok, m, e), d)" by (metis prod_cases3 surj_pair)
  with Some show ?thesis
    by (auto simp: function_verdict_def run_CheckFn_def intro!: exI [of _ "checkData s"])
qed (simp add: function_verdict_def run_CheckFn_def)

context result_forest
begin

lemma act_own_dependencies:
  assumes inv: "run_inv rs s" and r: "r \<in> set (all_results rs)" and s': "s' \<in> set (act r s)"
    and wait: "at s r = WaitDependencies (p # ps)"
  shows "goroutine_ok s' r (at s' r)"
proof -
  note g = act_grows [OF inv r s']
  obtain pre where pre: "ParentResults (cell s r) = pre @ p # ps"
      "\<forall>p \<in> set pre. ended s p \<and> result_Success s p" and st: "result_Status (cell s r) = StatusPending"
    using run_inv_goroutine [OF inv r] wait by auto
  have par: "ParentResults (cell s' r) = (pre @ [p]) @ ps"
    using act_frame(2) [OF s'] pre(1) by (simp add: cell_def)
  have pre': "\<forall>p \<in> set pre. ended s' p \<and> result_Success s' p" using pre(2) g by (simp add: grows_simps)
  consider (cancel) "s' = goto r Returning s" "cancelled s" | (ended) "ended s p" "s' = dependency_ended r p ps s"
    using s' wait by (auto simp: act_def wait_cancelled_def split: if_splits)
  then show ?thesis
  proof cases
    case cancel
    then show ?thesis using st by simp
  next
    case ended
    then have p': "ended s' p" "result_Success s' p = result_Success s p" using g by (simp_all add: grows_simps)
    show ?thesis
    proof (cases "result_Success s p")
      case True
      then have "at s' r = WaitDependencies ps" "result_Status (cell s' r) = StatusPending"
        using ended st by (simp_all add: dependency_ended_def)
      moreover have "\<forall>p \<in> set (pre @ [p]). ended s' p \<and> result_Success s' p" using pre' p' True by simp
      ultimately show ?thesis using par by (metis goroutine_ok.simps(3))
    next
      case False
      then have "at s' r = Returning" "result_Status (cell s' r) = StatusSkipped"
        "result_Message (cell s' r) = ''Skipped due to failure of '' @ result_Name p"
        using ended by (simp_all add: dependency_ended_def)
      moreover from this have "verdict s' r" using p' par False unfolding verdict_def parents_ok_def by auto
      ultimately show ?thesis by simp
    qed
  qed
qed

lemma act_own_subchecks:
  assumes inv: "run_inv rs s" and r: "r \<in> set (all_results rs)" and s': "s' \<in> set (act r s)"
    and wait: "at s r = WaitSubChecks qs errs"
  shows "goroutine_ok s' r (at s' r)"
proof -
  note g = act_grows [OF inv r s']
  obtain pre where pre: "SubResults r = pre @ qs" "\<forall>q \<in> set pre. ended s q"
      "errs = map result_Name (filter (result_Failed s) pre)" and ok': "parents_ok s r" "SubResults r \<noteq> []"
      and st: "result_Status (cell s r) = StatusRunning"
    using run_inv_goroutine [OF inv r] wait by auto
  have e: "\<forall>q \<in> set pre. ended s' q \<and> result_Failed s' q = result_Failed s q"
    using pre(2) g by (simp add: grows_simps)
  have po: "parents_ok s' r"
    using parents_ok_grows [OF g _ ok'(1)] act_frame(2) [OF s'] by (simp add: cell_def)
  show ?thesis
  proof (cases qs)
    case Nil
    then have "s' = subchecks_ended r errs s" using s' wait by (simp add: act_def)
    then have "at s' r = Returning"
      "result_Status (cell s' r) = (if errs \<noteq> [] then StatusFailed else StatusSuccess)"
      by (simp_all add: subchecks_ended_def)
    moreover have "errs \<noteq> [] \<longleftrightarrow> (\<exists>q \<in> set pre. result_Failed s' q)"
      using pre(3) e by (auto simp: filter_empty_conv)
    ultimately show ?thesis using po ok'(2) pre(1) e Nil by (simp add: verdict_def)
  next
    case (Cons q qs')
    then consider (cancel) "s' = goto r Returning s" "cancelled s"
      | (ended) "ended s q" "s' = goto r (WaitSubChecks qs' (if result_Failed s q then errs @ [result_Name q] else errs)) s"
      using s' wait by (auto simp: act_def wait_cancelled_def split: if_splits)
    then show ?thesis
    proof cases
      case cancel
      then show ?thesis using st po by simp
    next
      case ended
      have "filter (result_Failed s') (pre @ [q]) = filter (result_Failed s) (pre @ [q])"
        using e ended(1) g by (auto simp: grows_simps intro: filter_cong)
      then have "goroutine_ok s' r (WaitSubChecks qs' (if result_Failed s q then errs @ [result_Name q] else errs))"
        using ended st po ok'(2) pre e g Cons by (auto simp: grows_simps intro!: exI [of _ "pre @ [q]"])
      then show ?thesis using ended(2) by simp
    qed
  qed
qed

lemma act_own:
  assumes inv: "run_inv rs s" and r: "r \<in> set (all_results rs)" and s': "s' \<in> set (act r s)"
  shows "goroutine_ok s' r (at s' r)"
proof -
  note g = act_grows [OF assms]
  note ok = run_inv_goroutine [OF inv r]
  have par: "ParentResults (cell s' r) = ParentResults (cell s r)"
    using act_frame(2) [OF s'] by (simp add: cell_def)
  show ?thesis
  proof (cases "at s r")
    case Spawned
    then show ?thesis using s' par by (auto simp: act_def)
  next
    case (WaitDependencies ps)
    show ?thesis
    proof (cases ps)
      case Nil
      then have "parents_ok s' r" using ok WaitDependencies parents_ok_grows [OF g par] by (simp add: parents_ok_def)
      then show ?thesis using s' WaitDependencies Nil
        by (auto simp: act_def start_running_def Let_def split: if_splits)
    qed (use act_own_dependencies [OF assms] WaitDependencies in simp)
  next
    case (WaitSubChecks qs errs)
    then show ?thesis by (rule act_own_subchecks [OF assms])
  next
    case Calling
    then have s'_eq: "s' = goto r Returning (run_CheckFn r s)" using s' by (simp add: act_def)
    moreover have "parents_ok s' r" using parents_ok_grows [OF g par] ok Calling by simp
    ultimately have "verdict s' r" using ok Calling function_verdict_run [of r s] by (simp add: verdict_def)
    then show ?thesis using s'_eq by simp
  next
    case Returning
    then have "s' = goto r Ended s" using s' by (simp add: act_def)
    then show ?thesis using ok Returning verdict_grows [OF g] parents_ok_grows [OF g par] by auto
  qed (use s' in \<open>simp_all add: act_def\<close>)
qed

end

lemma act_own_pc:
  assumes "s' \<in> set (act r s)"
  shows "at s' r \<noteq> Idle" and "past_dependencies (at s r) \<Longrightarrow> past_dependencies (at s' r)"
    and "waiting_subs (at s' r) \<Longrightarrow> at s r = WaitDependencies [] \<and> SubResults r \<noteq> [] \<or> waiting_subs (at s r)"
    and "at s r = WaitDependencies [] \<Longrightarrow> SubResults r \<noteq> [] \<Longrightarrow>
          past_dependencies (at s' r) \<and> s' = goto r (WaitSubChecks (SubResults r) [])
            (spawn_all (SubResults r) (set_cell r (\<lambda>c. c\<lparr>result_Status := StatusRunning\<rparr>) s))"
  using assms
  by (auto simp: act_simps Let_def split: pc.splits list.splits if_splits)

context result_forest
begin

lemma act_other:
  assumes inv: "run_inv rs s" and r: "r \<in> set (all_results rs)" and s': "s' \<in> set (act r s)"
    and x: "x \<in> set (all_results rs)" "x \<noteq> r"
  shows "cell s' x = cell s x"
    and "at s' x = at s x \<or>
         x \<in> set (SubResults r) \<and> at s r = WaitDependencies [] \<and> at s x = Idle \<and> at s' x = Spawned"
proof -
  have ne: "addr x \<noteq> addr r" using x r same_addr by blast
  then show "cell s' x = cell s x" using act_frame(1) [OF s'] by (simp add: cell_def)
  show "at s' x = at s x \<or>
         x \<in> set (SubResults r) \<and> at s r = WaitDependencies [] \<and> at s x = Idle \<and> at s' x = Spawned"
  proof (cases "at s' x = at s x")
    case False
    then obtain q where q: "q \<in> set (SubResults r)" "addr q = addr x" "at s r = WaitDependencies []" "at s' x = Spawned"
      using act_frame(4) [OF s' ne] by (auto simp: at_def)
    then have "x \<in> set (SubResults r)" using same_addr [of q x] sub_in_all [OF r] x by metis
    moreover from this have "at s x = Idle" using run_inv_subs [OF inv r] q(3) by (auto simp: subs_ok_def)
    ultimately show ?thesis using q by simp
  qed simp
qed

lemma act_subs_ok:
  assumes inv: "run_inv rs s" and r: "r \<in> set (all_results rs)" and s': "s' \<in> set (act r s)"
    and x: "x \<in> set (all_results rs)"
  shows "subs_ok s' x"
proof (cases "x = r \<and> at s r = WaitDependencies []")
  case True
  show ?thesis
  proof (cases "SubResults r = []")
    case False
    with True show ?thesis using act_own_pc(4) [OF s'] no_own_sub [OF r]
      by (auto simp: subs_ok_def at_def)
  qed (use True in \<open>simp add: subs_ok_def\<close>)
next
  case False
  have same: "(at s' q = Idle) = (at s q = Idle)" if q: "q \<in> set (SubResults x)" for q
  proof (cases "q = r")
    case True
    then show ?thesis using act_own_pc(1) [OF s'] act_not_ended [OF s'] by simp
  next
    case neq: False
    have "q \<notin> set (SubResults r) \<or> at s r \<noteq> WaitDependencies []" using False same_encloser [OF x r q] by blast
    with act_other(2) [OF inv r s' sub_in_all [OF x q] neq] show ?thesis by auto
  qed
  have "past_dependencies (at s' x)" if "past_dependencies (at s x)"
    using that act_own_pc(2) [OF s'] act_other(2) [OF inv r s' x] by (cases "x = r") auto
  with same run_inv_subs [OF inv x] show ?thesis by (auto simp: subs_ok_def)
qed

lemma act_inv:
  assumes inv: "run_inv rs s" and r: "r \<in> set (all_results rs)" and s': "s' \<in> set (act r s)"
  shows "run_inv rs s'"
proof -
  have not_idle: "at s' x \<noteq> Idle" if "x \<in> set (all_results rs)" "at s x \<noteq> Idle" for x
    using act_own_pc(1) [OF s'] act_other(2) [OF inv r s' that(1)] that(2) by (cases "x = r") auto
  have "goroutine_ok s' x (at s' x)" if x: "x \<in> set (all_results rs)" for x
  proof (cases "x = r")
    case False
    from act_other [OF inv r s' x False] run_inv_goroutine [OF inv x]
      goroutine_ok_grows [OF _ act_grows [OF inv r s'], of x] show ?thesis
      by auto
  qed (use act_own [OF inv r s'] in simp)
  moreover have "\<forall>q \<in> set (SubResults x). at s' q \<noteq> Idle"
    if x: "x \<in> set (all_results rs)" "waiting_subs (at s' x)" for x
  proof (cases "x = r \<and> at s r = WaitDependencies [] \<and> SubResults r \<noteq> []")
    case True
    then show ?thesis using act_own_pc(4) [OF s'] by (auto simp: at_def)
  next
    case False
    then have "waiting_subs (at s x)"
      using x act_own_pc(3) [OF s'] act_other(2) [OF inv r s' x(1)] by (cases "x = r") auto
    then have "\<forall>q \<in> set (SubResults x). at s q \<noteq> Idle" using inv x(1) unfolding run_inv_def by blast
    then show ?thesis using not_idle sub_in_all [OF x(1)] by blast
  qed
  moreover have "\<forall>x \<in> set rs. at s' x \<noteq> Idle"
    using inv not_idle top_in_all unfolding run_inv_def by blast
  ultimately show ?thesis using act_subs_ok [OF inv r s'] unfolding run_inv_def by blast
qed

lemma step_inv: "check_step rs s s' \<Longrightarrow> run_inv rs s \<Longrightarrow> run_inv rs s'"
proof (induction rule: check_step.induct)
  case (cancel s)
  have "grows s (s\<lparr>cancelled := True\<rparr>)" by (simp add: grows_def ended_def at_def cell_def)
  then show ?case using cancel goroutine_ok_grows [of s _ _ "s\<lparr>cancelled := True\<rparr>"]
    unfolding run_inv_def subs_ok_def by (simp add: at_def cell_def)
qed (rule act_inv)

lemma step_grows: "check_step rs s s' \<Longrightarrow> run_inv rs s \<Longrightarrow> grows s s'"
proof (induction rule: check_step.induct)
  case (act r s' s)
  then show ?case using act_grows by blast
qed (simp add: grows_def ended_def at_def cell_def)

lemma steps_inv: "(check_step rs)\<^sup>*\<^sup>* s s' \<Longrightarrow> run_inv rs s \<Longrightarrow> run_inv rs s'"
  by (induction rule: rtranclp_induct) (auto intro: step_inv)

end

context result_forest
begin

lemma steps_grow: "(check_step rs)\<^sup>*\<^sup>* s s' \<Longrightarrow> run_inv rs s \<Longrightarrow> grows s s'"
proof (induction rule: rtranclp_induct)
  case (step t u)
  then have "grows s t" "grows t u" using step_grows steps_inv by blast+
  then show ?case by (auto simp: grows_def)
qed (simp add: grows_def)

end

section \<open>Runs are finite\<close>

text \<open>The actions a goroutine has left at most.\<close>

fun actions_left :: "nat \<Rightarrow> nat \<Rightarrow> 'd pc \<Rightarrow> nat" where
  "actions_left np ns Idle = np + ns + 5"
| "actions_left np ns Spawned = np + ns + 4"
| "actions_left np ns (WaitDependencies ps) = length ps + ns + 3"
| "actions_left np ns (WaitSubChecks qs errs) = length qs + 2"
| "actions_left np ns Calling = 2"
| "actions_left np ns Returning = 1"
| "actions_left np ns Ended = 0"

definition result_left :: "'d run \<Rightarrow> 'd CheckResult \<Rightarrow> nat" where
  "result_left s r = actions_left (length (ParentResults (cell s r))) (length (SubResults r)) (at s r)"

definition steps_left :: "'d CheckResult list \<Rightarrow> 'd run \<Rightarrow> nat" where
  "steps_left rs s = sum_list (map (result_left s) (all_results rs)) + (if cancelled s then 0 else 1)"

lemma sum_list_decreases:
  fixes f g :: "'a \<Rightarrow> nat"
  assumes "\<And>x. x \<in> set xs \<Longrightarrow> f x \<le> g x" and "x \<in> set xs" and "f x < g x"
  shows "sum_list (map f xs) < sum_list (map g xs)"
  using assms
proof (induction xs)
  case (Cons y ys)
  have le: "sum_list (map f ys) \<le> sum_list (map g ys)" by (rule sum_list_mono) (use Cons.prems in simp)
  show ?case
  proof (cases "x = y")
    case True
    then show ?thesis using Cons.prems(3) le by simp
  next
    case False
    then show ?thesis using Cons by (simp add: add_le_less_mono)
  qed
qed simp

lemma act_own_left: "s' \<in> set (act r s) \<Longrightarrow> result_left s' r < result_left s r"
  by (auto simp: act_simps Let_def result_left_def at_def cell_def split: pc.splits list.splits if_splits)

context result_forest
begin

lemma step_left:
  assumes "check_step rs s s'" and inv: "run_inv rs s"
  shows "steps_left rs s' < steps_left rs s"
  using assms(1)
proof cases
  case cancel
  have "result_left (s\<lparr>cancelled := True\<rparr>) = result_left s"
    by (rule ext) (simp add: result_left_def at_def cell_def)
  with cancel show ?thesis by (simp add: steps_left_def)
next
  case (act r)
  have "result_left s' x \<le> result_left s x" if "x \<in> set (all_results rs)" for x
    using act_own_left [OF act(2)] act_other [OF inv act that] by (cases "x = r") (auto simp: result_left_def)
  then have "sum_list (map (result_left s') (all_results rs)) < sum_list (map (result_left s) (all_results rs))"
    by (rule sum_list_decreases) (use act act_own_left [OF act(2)] in auto)
  then show ?thesis using act_frame(3) [OF act(2)] by (simp add: steps_left_def)
qed

lemma steps_bounded: "(check_step rs ^^ n) s s' \<Longrightarrow> run_inv rs s \<Longrightarrow> n + steps_left rs s' \<le> steps_left rs s"
proof (induction n arbitrary: s')
  case (Suc n)
  then obtain t where t: "(check_step rs ^^ n) s t" "check_step rs t s'" by auto
  have "run_inv rs t" using t(1) Suc.prems(2) by (meson relpowp_imp_rtranclp steps_inv)
  with Suc.IH [OF t(1) Suc.prems(2)] step_left [OF t(2)] show ?case by simp
qed simp

end

section \<open>No goroutine waits for ever\<close>

text \<open>
  A result may depend on the top-level results, on its siblings and on the siblings of the phases it
  is in: they have been started when it runs. The results of a phase that is skipped are never
  started, and waiting for one of them from outside would not end.
\<close>

definition visible :: "'d CheckResult list \<Rightarrow> 'd CheckResult \<Rightarrow> 'd CheckResult \<Rightarrow> bool" where
  "visible rs p r \<longleftrightarrow> p \<in> set rs \<or>
     (\<exists>e \<in> set (all_results rs). p \<in> set (SubResults e) \<and> r \<in> set (all_results (SubResults e)))"

definition orderly :: "'d CheckResult list \<Rightarrow> (nat \<Rightarrow> nat) \<Rightarrow> 'd store \<Rightarrow> bool" where
  "orderly rs rank h \<longleftrightarrow> (\<forall>r \<in> set (all_results rs).
     (\<forall>p \<in> set (ParentResults (h (addr r))). visible rs p r \<and> rank (addr p) < rank (addr r)) \<and>
     (\<forall>q \<in> set (SubResults r). rank (addr q) < rank (addr r)))"

lemma visible_in_all: "visible rs p r \<Longrightarrow> p \<in> set (all_results rs)"
  unfolding visible_def using top_in_all sub_in_all by blast

lemma tree_started:
  assumes inv: "run_inv rs s"
  shows "r \<in> set (result_tree t) \<Longrightarrow> t \<in> set (all_results rs) \<Longrightarrow> at s r \<noteq> Idle \<Longrightarrow> at s t \<noteq> Idle"
proof (induction t rule: result_tree.induct)
  case (1 a c subs)
  show ?case
  proof (cases "r = CheckResult a c subs")
    case False
    with 1(2) obtain u where u: "u \<in> set subs" "r \<in> set (result_tree u)" by auto
    then have "at s u \<noteq> Idle" using 1 sub_in_all [OF 1(3)] by simp
    then have "past_dependencies (at s (CheckResult a c subs))"
      using run_inv_subs [OF inv 1(3)] u by (auto simp: subs_ok_def)
    then show ?thesis by auto
  qed (use 1 in simp)
qed

lemma visible_started:
  assumes inv: "run_inv rs s" and "visible rs p r" and "at s r \<noteq> Idle"
  shows "at s p \<noteq> Idle"
proof (cases "p \<in> set rs")
  case False
  with assms obtain e u where e: "e \<in> set (all_results rs)" "p \<in> set (SubResults e)"
    and u: "u \<in> set (SubResults e)" "r \<in> set (result_tree u)"
    by (auto simp: visible_def)
  then have "at s u \<noteq> Idle" using tree_started [OF inv u(2)] assms(3) sub_in_all [OF e(1)] by blast
  then show ?thesis using run_inv_subs [OF inv e(1)] e u by (auto simp: subs_ok_def)
qed (use inv in \<open>simp add: run_inv_def\<close>)

lemma waiting_only:
  assumes "act r s = []" and "at s r \<noteq> Idle" and "at s r \<noteq> Ended"
  shows "(\<exists>p ps. at s r = WaitDependencies (p # ps) \<and> \<not> ended s p) \<or>
         (\<exists>q qs errs. at s r = WaitSubChecks (q # qs) errs \<and> \<not> ended s q)"
  using assms by (auto simp: act_def split: pc.splits list.splits if_splits)

lemma stuck_ended:
  assumes inv: "run_inv rs s" and ord: "orderly rs rank (cells s)"
    and stuck: "\<And>r. r \<in> set (all_results rs) \<Longrightarrow> act r s = []"
  shows "r \<in> set (all_results rs) \<Longrightarrow> at s r \<noteq> Idle \<Longrightarrow> ended s r"
proof (induction "rank (addr r)" arbitrary: r rule: less_induct)
  case (less r)
  note ok = run_inv_goroutine [OF inv less(2)]
  show ?case
  proof (rule ccontr)
    assume "\<not> ended s r"
    then consider (deps) p ps where "at s r = WaitDependencies (p # ps)" "\<not> ended s p"
      | (subs) q qs errs where "at s r = WaitSubChecks (q # qs) errs" "\<not> ended s q"
      using waiting_only [OF stuck [OF less(2)] less(3)] by (auto simp: ended_def)
    then show False
    proof cases
      case deps
      then have "p \<in> set (ParentResults (cell s r))" using ok by auto
      then have v: "visible rs p r" "rank (addr p) < rank (addr r)"
        using ord less(2) unfolding orderly_def cell_def by blast+
      show False using less(1) [OF v(2) visible_in_all [OF v(1)] visible_started [OF inv v(1) less(3)]] deps(2) by simp
    next
      case subs
      then have q: "q \<in> set (SubResults r)" using ok by auto
      then have "rank (addr q) < rank (addr r)" using ord less(2) unfolding orderly_def by blast
      moreover have "at s q \<noteq> Idle" using inv less(2) q subs(1) unfolding run_inv_def by force
      ultimately show False using less(1) [OF _ sub_in_all [OF less(2) q]] subs(2) by simp
    qed
  qed
qed

section \<open>Prepared runs\<close>

lemma FillDependencies_status:
  fixes r :: "'d CheckResult" and rs :: "'d CheckResult list"
  shows "result_Status (FillDependencies m r h a) = result_Status (h a)"
    and "result_Status (FillAllDependencies n rs k a) = result_Status (k a)"
  by (induction m r h and n rs k rule: FillDependencies_FillAllDependencies.induct) (auto simp: fun_upd_def)

lemma Results_PrepareRun: "Results (PrepareRun e) = fst (NewResults (Checks e) (nextAddr e))"
  by (simp add: PrepareRun_def PrepareChecks_def Let_def split: prod.splits)

lemma prepared_pending:
  assumes "r \<in> set (all_results (Results (PrepareRun e)))"
  shows "result_Status (executor_store (PrepareRun e) (addr r)) = StatusPending"
proof -
  obtain rs m where n: "NewResults (Checks e) (nextAddr e) = (rs, m)" by (metis surj_pair)
  then have "addr r \<in> set (map addr (all_results rs))" using assms by (simp add: Results_PrepareRun)
  then have "nextAddr e \<le> addr r" "addr r < m" using NewResults_addrs(2) [OF n] by auto
  with n show ?thesis by (simp add: PrepareRun_def PrepareChecks_def Let_def FillDependencies_status new_cell_def)
qed

interpretation pr: result_forest "Results (PrepareRun e)"
  unfolding Results_PrepareRun by (rule made.result_forest_axioms)

lemma executor_Run_inv: "run_inv (Results (PrepareRun e)) (executor_Run (PrepareRun e) d)"
proof -
  let ?rs = "Results (PrepareRun e)" and ?s = "executor_Run (PrepareRun e) d"
  have at: "at ?s r = (if addr r \<in> addr ` set ?rs then Spawned else Idle)" for r
    by (simp add: executor_Run_def at_def)
  have "at ?s q = Idle" if "r \<in> set (all_results ?rs)" "q \<in> set (SubResults r)" for r q
  proof -
    have "q \<notin> set ?rs" using pr.distinct_links [of e] that by auto
    then have "addr q \<notin> addr ` set ?rs" using pr.same_addr sub_in_all [OF that] top_in_all by blast
    then show ?thesis by (simp add: at)
  qed
  moreover have "result_Status (cell ?s r) = StatusPending" if "r \<in> set (all_results ?rs)" for r
    using prepared_pending [OF that] by (simp add: executor_Run_def cell_def)
  then have "goroutine_ok ?s r (at ?s r)" if "r \<in> set (all_results ?rs)" for r
    using that by (simp add: at)
  moreover have "\<not> waiting_subs (at ?s r)" for r by (simp add: at)
  moreover have "at ?s r \<noteq> Idle" if "r \<in> set ?rs" for r using that by (simp add: at)
  ultimately show ?thesis unfolding run_inv_def subs_ok_def by blast
qed

lemma check_step_parents:
  "check_step rs s s' \<Longrightarrow> ParentResults (cells s' a) = ParentResults (cells s a)"
  by (induction rule: check_step.induct) (simp_all add: act_frame(2))

lemma check_steps_parents:
  "(check_step rs)\<^sup>*\<^sup>* s s' \<Longrightarrow> ParentResults (cells s' a) = ParentResults (cells s a)"
  by (induction rule: rtranclp_induct) (simp_all add: check_step_parents)

text \<open>The longest run: every goroutine takes all its actions, and the context is cancelled once.\<close>

definition check_budget :: "'d CheckExecutor \<Rightarrow> nat" where
  "check_budget e = Suc (\<Sum>r \<leftarrow> all_results (Results e).
     length (ParentResults (executor_store e (addr r))) + length (SubResults r) + 5)"

lemma steps_left_start: "steps_left (Results e) (executor_Run e d) \<le> check_budget e"
proof -
  have "result_left (executor_Run e d) r \<le>
      length (ParentResults (executor_store e (addr r))) + length (SubResults r) + 5" for r
    by (simp add: result_left_def at_def cell_def executor_Run_def)
  then show ?thesis by (simp add: steps_left_def check_budget_def executor_Run_def sum_list_mono)
qed

lemma orderly_run:
  assumes "orderly rs rank (cells s)" and "(check_step rs)\<^sup>*\<^sup>* s s'"
  shows "orderly rs rank (cells s')"
  using assms unfolding orderly_def by (simp add: check_steps_parents)

lemma reachable_inv:
  "(check_step (Results (PrepareRun e)))\<^sup>*\<^sup>* (executor_Run (PrepareRun e) d) s \<Longrightarrow> run_inv (Results (PrepareRun e)) s"
  by (rule pr.steps_inv [OF _ executor_Run_inv])

text \<open>
  When nothing more can happen, every started result is done, provided the dependencies have no cycle
  and are visible.
\<close>

lemma stuck_run_ended:
  assumes run: "(check_step (Results (PrepareRun e)))\<^sup>*\<^sup>* (executor_Run (PrepareRun e) d) s"
    and ord: "orderly (Results (PrepareRun e)) rank (executor_store (PrepareRun e))"
    and stuck: "\<forall>r \<in> set (all_results (Results (PrepareRun e))). act r s = []"
    and r: "r \<in> set (Results (PrepareRun e))"
  shows "ended s r"
proof -
  have "orderly (Results (PrepareRun e)) rank (cells s)"
    using orderly_run [OF _ run] ord by (simp add: executor_Run_def)
  then show ?thesis
    using stuck_ended [OF reachable_inv [OF run], of rank r] stuck top_in_all [OF r] reachable_inv [OF run] r
    unfolding run_inv_def by blast
qed

section \<open>Which results wait for which\<close>

text \<open>
  The waiting of a run on addresses alone: every result with the results it depends on and its
  sub-results. Only the names, the dependencies and the sub-checks of the checks matter for it
  (\<open>skeleton\<close>).
\<close>

type_synonym links = "(nat \<times> nat list \<times> nat list) list"

definition links :: "'d CheckResult list \<Rightarrow> 'd store \<Rightarrow> links" where
  "links rs h = map (\<lambda>r. (addr r, map addr (ParentResults (h (addr r))), map addr (SubResults r))) (all_results rs)"

definition links_orderly :: "nat list \<Rightarrow> links \<Rightarrow> (nat \<Rightarrow> nat) \<Rightarrow> bool" where
  "links_orderly tops ls rank \<longleftrightarrow> list_all (\<lambda>(a, ps, qs).
     list_all (\<lambda>p. rank p < rank a \<and>
       (p \<in> set tops \<or> list_ex (\<lambda>(b, ps', us). p \<in> set us \<and> a \<in> set us) ls)) ps \<and>
     list_all (\<lambda>q. rank q < rank a) qs) ls"

context result_forest
begin

lemma orderly_links:
  assumes parents: "\<And>r. r \<in> set (all_results rs) \<Longrightarrow> set (ParentResults (h (addr r))) \<subseteq> set (all_results rs)"
    and ok: "links_orderly (map addr rs) (links rs h) rank"
  shows "orderly rs rank h"
  unfolding orderly_def
proof (intro ballI conjI)
  fix r p assume r: "r \<in> set (all_results rs)" and p: "p \<in> set (ParentResults (h (addr r)))"
  have pin: "p \<in> set (all_results rs)" using parents [OF r] p by blast
  have ls: "(addr r, map addr (ParentResults (h (addr r))), map addr (SubResults r)) \<in> set (links rs h)"
    using r unfolding links_def by (auto simp del: set_concat)
  with ok p have *: "rank (addr p) < rank (addr r)" "addr p \<in> addr ` set rs \<or>
      (\<exists>b ps us. (b, ps, us) \<in> set (links rs h) \<and> addr p \<in> set us \<and> addr r \<in> set us)"
    by (fastforce simp: links_orderly_def list_all_iff list_ex_iff)+
  show "rank (addr p) < rank (addr r)" by (rule *)
  from *(2) show "visible rs p r"
  proof
    assume "addr p \<in> addr ` set rs"
    then have "p \<in> set rs" using same_addr [OF pin] top_in_all by blast
    then show ?thesis by (simp add: visible_def)
  next
    assume "\<exists>b ps us. (b, ps, us) \<in> set (links rs h) \<and> addr p \<in> set us \<and> addr r \<in> set us"
    then obtain e x y where e: "e \<in> set (all_results rs)" "x \<in> set (SubResults e)" "addr x = addr p"
        "y \<in> set (SubResults e)" "addr y = addr r"
      by (auto simp: links_def simp del: set_concat)
    then have "x = p" "y = r" using same_addr sub_in_all pin r by blast+
    with e show ?thesis unfolding visible_def using top_in_all by blast
  qed
next
  fix r q assume r: "r \<in> set (all_results rs)" and q: "q \<in> set (SubResults r)"
  have "(addr r, map addr (ParentResults (h (addr r))), map addr (SubResults r)) \<in> set (links rs h)"
    using r unfolding links_def by (auto simp del: set_concat)
  with ok q show "rank (addr q) < rank (addr r)" by (fastforce simp: links_orderly_def list_all_iff)
qed

end

lemma FillResultNameMap_ran: "ran (FillResultNameMap rs m) \<subseteq> set (all_results rs) \<union> ran m"
proof (induction rs m rule: FillResultNameMap.induct)
  case (2 a c subs rs m)
  have "ran (m(check_Name c \<mapsto> CheckResult a c subs)) \<subseteq> insert (CheckResult a c subs) (ran m)"
    by (auto simp: ran_def)
  with 2 show ?case unfolding FillResultNameMap.simps fun_upd_def by auto
qed simp

lemma FillDependencies_parents:
  fixes r :: "'d CheckResult" and rs :: "'d CheckResult list"
  shows "set (ParentResults (FillDependencies m r h a)) \<subseteq> set (ParentResults (h a)) \<union> ran m"
    and "set (ParentResults (FillAllDependencies n rs k a)) \<subseteq> set (ParentResults (k a)) \<union> ran n"
proof (induction m r h and n rs k rule: FillDependencies_FillAllDependencies.induct)
  case (1 m b c subs h)
  have "set (List.map_filter m (DependsOn c)) \<subseteq> ran m"
    by (auto simp: map_filter_def ran_def)
  with 1 show ?case unfolding FillDependencies.simps fun_upd_def by (cases "a = b") auto
qed auto

lemma prepared_parents:
  assumes "resultNameMap e = Map.empty" and "r \<in> set (all_results (Results (PrepareRun e)))"
  shows "set (ParentResults (executor_store (PrepareRun e) (addr r))) \<subseteq> set (all_results (Results (PrepareRun e)))"
proof -
  obtain rs m where n: "NewResults (Checks e) (nextAddr e) = (rs, m)" by (metis surj_pair)
  then have "addr r \<in> set (map addr (all_results rs))" using assms(2) by (simp add: Results_PrepareRun)
  then have in': "nextAddr e \<le> addr r \<and> addr r < m" using NewResults_addrs(2) [OF n] by auto
  let ?names = "FillResultNameMap rs Map.empty"
  let ?h = "\<lambda>a. if nextAddr e \<le> a \<and> a < m then new_cell else executor_store e a"
  have "set (ParentResults (FillAllDependencies ?names rs (FillAllDependencies ?names rs ?h) (addr r)))
      \<subseteq> set (ParentResults (?h (addr r))) \<union> ran ?names"
    using FillDependencies_parents(2) [of ?names rs _ "addr r"] by blast
  also have "\<dots> \<subseteq> set (all_results rs)"
    using in' FillResultNameMap_ran [of rs Map.empty] by (simp add: new_cell_def)
  finally show ?thesis
    using n assms(1) by (simp add: PrepareRun_def PrepareChecks_def Let_def)
qed

fun skeleton :: "'d Check \<Rightarrow> unit Check" where
  "skeleton (Check fn nm ds deps subs) = Check None nm [] deps (map skeleton subs)"

fun skeleton_result :: "'d CheckResult \<Rightarrow> unit CheckResult" where
  "skeleton_result (CheckResult a c subs) = CheckResult a (skeleton c) (map skeleton_result subs)"

lemma skeleton_simps [simp]:
  "check_Name (skeleton c) = check_Name c" "DependsOn (skeleton c) = DependsOn c"
  "addr (skeleton_result r) = addr r" "SubResults (skeleton_result r) = map skeleton_result (SubResults r)"
  by (cases c; simp)+ (cases r; simp)+

lemma skeleton_NewResults:
  fixes c :: "'d Check" and cs :: "'d Check list"
  shows "NewResult (skeleton c) n = map_prod skeleton_result id (NewResult c n)"
    and "NewResults (map skeleton cs) k = map_prod (map skeleton_result) id (NewResults cs k)"
  by (induction c n and cs k rule: NewResult_NewResults.induct) (auto simp: Let_def split: prod.splits)

lemma skeleton_FillResultNameMap:
  "FillResultNameMap (map skeleton_result rs) (map_option skeleton_result \<circ> m) =
     map_option skeleton_result \<circ> FillResultNameMap rs m"
  by (induction rs m rule: FillResultNameMap.induct)
     (simp_all add: fun_upd_def comp_def if_distrib [of "map_option skeleton_result"] cong: if_cong)

lemma skeleton_map_filter:
  "List.map_filter (map_option skeleton_result \<circ> m) ds = map skeleton_result (List.map_filter m ds)"
  by (induction ds) (auto simp: map_filter_simps split: option.splits)

definition skeleton_store :: "'d store \<Rightarrow> unit store \<Rightarrow> bool" where
  "skeleton_store h k \<longleftrightarrow> (\<forall>a. ParentResults (k a) = map skeleton_result (ParentResults (h a)))"

lemma skeleton_FillDependencies:
  fixes r :: "'d CheckResult" and rs :: "'d CheckResult list"
  shows "skeleton_store h k \<Longrightarrow> skeleton_store (FillDependencies m r h)
      (FillDependencies (map_option skeleton_result \<circ> m) (skeleton_result r) k)"
    and "skeleton_store h' k' \<Longrightarrow> skeleton_store (FillAllDependencies m' rs h')
      (FillAllDependencies (map_option skeleton_result \<circ> m') (map skeleton_result rs) k')"
  by (induction m r h and m' rs h' arbitrary: k and k' rule: FillDependencies_FillAllDependencies.induct)
     (simp_all add: skeleton_store_def skeleton_map_filter fun_upd_def)

lemma links_skeleton:
  assumes "skeleton_store h k"
  shows "links (map skeleton_result rs) k = links rs h"
proof -
  have tree: "result_tree (skeleton_result r) = map skeleton_result (result_tree r)" for r :: "'a CheckResult"
    by (induction r rule: result_tree.induct) (auto simp: map_concat intro!: arg_cong [of _ _ concat])
  then have "all_results (map skeleton_result rs) = map skeleton_result (all_results rs)"
    by (induction rs) auto
  then show ?thesis using assms by (auto simp: links_def skeleton_store_def)
qed

definition skeleton_executor :: "'d Check list \<Rightarrow> unit CheckExecutor" where
  "skeleton_executor cs = PrepareRun (NewCheckExecutor\<lparr>Checks := map skeleton cs\<rparr>)"

lemma prepared_links:
  fixes cs :: "'d Check list"
  defines "e \<equiv> PrepareRun (NewCheckExecutor\<lparr>Checks := cs\<rparr>)"
  shows "links (Results e) (executor_store e) =
         links (Results (skeleton_executor cs)) (executor_store (skeleton_executor cs))"
    and "map addr (Results e) = map addr (Results (skeleton_executor cs))"
proof -
  obtain rs m where n: "NewResults cs 0 = (rs, m)" by (metis surj_pair)
  let ?names = "FillResultNameMap rs Map.empty"
  let ?h = "\<lambda>a. if a < m then new_cell else new_cell"
  have names: "FillResultNameMap (map skeleton_result rs) Map.empty = map_option skeleton_result \<circ> ?names"
    using skeleton_FillResultNameMap [of rs Map.empty] by simp
  have "skeleton_store (FillAllDependencies ?names rs (FillAllDependencies ?names rs ?h))
      (FillAllDependencies (map_option skeleton_result \<circ> ?names) (map skeleton_result rs)
        (FillAllDependencies (map_option skeleton_result \<circ> ?names) (map skeleton_result rs) ?h))"
    by (intro skeleton_FillDependencies(2)) (simp add: skeleton_store_def new_cell_def)
  note links = links_skeleton [OF this, of rs]
  show "links (Results e) (executor_store e) =
         links (Results (skeleton_executor cs)) (executor_store (skeleton_executor cs))"
    using n links
    by (simp add: e_def skeleton_executor_def PrepareRun_def PrepareChecks_def NewCheckExecutor_def Let_def
        skeleton_NewResults names)
  show "map addr (Results e) = map addr (Results (skeleton_executor cs))"
    using n by (simp add: e_def skeleton_executor_def Results_PrepareRun NewCheckExecutor_def skeleton_NewResults)
qed

text \<open>The executor of a list of checks always returns when the skeleton of its checks is in order.\<close>

lemma skeleton_run_ended:
  fixes cs :: "'d Check list"
  defines "e \<equiv> PrepareRun (NewCheckExecutor\<lparr>Checks := cs\<rparr>)"
  assumes ok: "links_orderly (map addr (Results (skeleton_executor cs)))
      (links (Results (skeleton_executor cs)) (executor_store (skeleton_executor cs))) rank"
    and run: "(check_step (Results e))\<^sup>*\<^sup>* (executor_Run e d) s"
    and stuck: "\<forall>r \<in> set (all_results (Results e)). act r s = []"
  shows "\<forall>r \<in> set (Results e). ended s r"
proof -
  have "orderly (Results e) rank (executor_store e)"
    unfolding e_def
  proof (rule pr.orderly_links)
    show "links_orderly (map addr (Results (PrepareRun (NewCheckExecutor\<lparr>Checks := cs\<rparr>))))
      (links (Results (PrepareRun (NewCheckExecutor\<lparr>Checks := cs\<rparr>)))
        (executor_store (PrepareRun (NewCheckExecutor\<lparr>Checks := cs\<rparr>)))) rank"
      using ok by (simp add: prepared_links)
  qed (rule prepared_parents, simp_all add: NewCheckExecutor_def)
  then show ?thesis using stuck_run_ended [OF run [unfolded e_def]] stuck unfolding e_def by blast
qed

text \<open>Every run can be continued, without cancelling it, until nothing more can happen.\<close>

lemma reaches_stuck:
  assumes "run_inv (Results (PrepareRun e)) s"
  shows "\<exists>s'. (check_step (Results (PrepareRun e)))\<^sup>*\<^sup>* s s' \<and>
           (\<forall>r \<in> set (all_results (Results (PrepareRun e))). act r s' = [])"
  using assms
proof (induction "steps_left (Results (PrepareRun e)) s" arbitrary: s rule: less_induct)
  case less
  show ?case
  proof (cases "\<forall>r \<in> set (all_results (Results (PrepareRun e))). act r s = []")
    case False
    then obtain r t where r: "r \<in> set (all_results (Results (PrepareRun e)))" and t: "t \<in> set (act r s)"
      by (metis list.set_intros(1) neq_Nil_conv)
    have step: "check_step (Results (PrepareRun e)) s t" using r t by (rule check_step.act)
    obtain s' where "(check_step (Results (PrepareRun e)))\<^sup>*\<^sup>* t s'"
        "\<forall>r \<in> set (all_results (Results (PrepareRun e))). act r s' = []"
      using less(1) [OF pr.step_left [OF step less(2)] pr.step_inv [OF step less(2)]] by blast
    then show ?thesis using step by (meson converse_rtranclp_into_rtranclp)
  qed blast
qed

lemma check_budget_links:
  "check_budget e = Suc (\<Sum>(a, ps, qs) \<leftarrow> links (Results e) (executor_store e). length ps + length qs + 5)"
  by (simp add: check_budget_def links_def comp_def)

lemma run_within_budget:
  "(check_step (Results (PrepareRun e)) ^^ n) (executor_Run (PrepareRun e) d) s \<Longrightarrow> n \<le> check_budget (PrepareRun e)"
  using pr.steps_bounded [OF _ executor_Run_inv] steps_left_start [of "PrepareRun e" d]
  by (meson le_trans add_leD1)

section \<open>Properties\<close>

text \<open>
  A sample: a phase with two checks, the second of which needs the first, and a check that needs the
  phase.
\<close>

definition sample_checks :: "unit CheckExecutor" where
  "sample_checks =
     AddCheck (Check (Some (State_Monad.return (True, ''fine'', None))) ''last'' '''' [''phase''] [])
     (AddCheck (NewPhase ''phase'' ''''
        [Check (Some (State_Monad.return (False, ''broken'', None))) ''one'' '''' [] [],
         Check (Some (State_Monad.return (True, ''fine'', None))) ''two'' '''' [''one''] []])
      NewCheckExecutor)"

text \<open>The goroutines with the given addresses act in turn, each taking its first possible action.\<close>

fun schedule :: "'d CheckResult list \<Rightarrow> nat list \<Rightarrow> 'd run \<Rightarrow> 'd run" where
  "schedule rs [] s = s"
| "schedule rs (a # as) s = schedule rs as (case filter (\<lambda>r. addr r = a) (all_results rs) of
     [] \<Rightarrow> s | r # _ \<Rightarrow> (case act r s of [] \<Rightarrow> s | s' # _ \<Rightarrow> s'))"

lemma schedule_steps: "(check_step rs)\<^sup>*\<^sup>* s (schedule rs as s)"
proof (induction as arbitrary: s)
  case (Cons a as)
  let ?t = "schedule rs [a] s"
  have "(check_step rs)\<^sup>*\<^sup>* s ?t"
  proof (cases "filter (\<lambda>r. addr r = a) (all_results rs)")
    case (Cons r xs)
    then have "r \<in> set (all_results rs)" by (metis filter_is_subset list.set_intros(1) subsetD)
    then have "check_step rs s s'" if "act r s = s' # ss" for s' ss using that check_step.act by fastforce
    then show ?thesis using Cons by (auto split: list.splits)
  qed simp
  with Cons show ?case by (simp add: rtranclp_trans)
qed simp

text \<open>
  C26: every run of the status checks is finite. Whatever the interleaving of the goroutines and
  whether or not the context is cancelled, no run of a prepared executor has more than
  \<open>check_budget\<close> actions: five for each check, one for each dependency and one for each sub-check it
  waits for, and the cancellation.
\<close>

theorem checks_terminate:
  assumes "(check_step (Results (PrepareRun e)) ^^ n) (executor_Run (PrepareRun e) d) s"
  shows "n \<le> check_budget (PrepareRun e)"
  using assms by (rule run_within_budget)

definition sample_end :: "unit run" where
  "sample_end = schedule (Results (PrepareRun sample_checks))
     [2, 3, 2, 0, 1, 0, 0, 0, 1, 1, 2, 2, 2, 2, 3, 3]
     (executor_Run (PrepareRun sample_checks) ())"

theorem checks_terminate_witness:
  "\<exists>n. (check_step (Results (PrepareRun sample_checks)) ^^ n) (executor_Run (PrepareRun sample_checks) ()) sample_end \<and>
       n \<le> 27 \<and> executor_returns (PrepareRun sample_checks) sample_end"
proof -
  have "(check_step (Results (PrepareRun sample_checks)))\<^sup>*\<^sup>* (executor_Run (PrepareRun sample_checks) ()) sample_end"
    unfolding sample_end_def by (rule schedule_steps)
  then obtain n where n: "(check_step (Results (PrepareRun sample_checks)) ^^ n)
      (executor_Run (PrepareRun sample_checks) ()) sample_end"
    by (meson rtranclp_imp_relpowp)
  have "n \<le> check_budget (PrepareRun sample_checks)" by (rule checks_terminate [OF n])
  also have "\<dots> = 27" by code_simp
  finally have "n \<le> 27" .
  moreover have "executor_returns (PrepareRun sample_checks) sample_end" by code_simp
  ultimately show ?thesis using n by blast
qed

text \<open>
  C6: the verdict of a check. In every state of a run, a check that is running, has succeeded or has
  failed has seen all its dependencies succeed; and once its goroutine has ended without the context
  being cancelled, the check was skipped exactly when a dependency did not succeed, a phase failed
  exactly when one of its sub-checks failed (all of which have ended), and a check with a function
  reports what the function returned. A verdict is never changed afterwards.
\<close>

theorem checks_verdicts:
  assumes run: "(check_step (Results (PrepareRun e)))\<^sup>*\<^sup>* (executor_Run (PrepareRun e) d) s"
    and r: "r \<in> set (all_results (Results (PrepareRun e)))"
  shows "(result_Status (cell s r) \<in> {StatusRunning, StatusSuccess, StatusFailed} \<longrightarrow> parents_ok s r) \<and>
         (ended s r \<and> \<not> cancelled s \<longrightarrow> verdict s r) \<and>
         (ended s r \<longrightarrow> (\<forall>s'. (check_step (Results (PrepareRun e)))\<^sup>*\<^sup>* s s' \<longrightarrow> cell s' r = cell s r))"
proof (intro conjI impI allI)
  note inv = reachable_inv [OF run]
  show "verdict s r" if "ended s r \<and> \<not> cancelled s"
    using run_inv_goroutine [OF inv r] that by (simp add: ended_def)
  show "parents_ok s r" if "result_Status (cell s r) \<in> {StatusRunning, StatusSuccess, StatusFailed}"
    using goroutine_started [OF run_inv_goroutine [OF inv r] that] .
  show "cell s' r = cell s r" if "ended s r" "(check_step (Results (PrepareRun e)))\<^sup>*\<^sup>* s s'" for s'
    using pr.steps_grow [OF that(2) inv] that(1) by (simp add: grows_def)
qed

theorem checks_verdicts_witness:
  "verdict sample_end (Results (PrepareRun sample_checks) ! 0) \<and>
   result_Status (cell sample_end (Results (PrepareRun sample_checks) ! 0)) = StatusFailed \<and>
   result_Status (cell sample_end (Results (PrepareRun sample_checks) ! 1)) = StatusSkipped"
proof -
  have run: "(check_step (Results (PrepareRun sample_checks)))\<^sup>*\<^sup>* (executor_Run (PrepareRun sample_checks) ()) sample_end"
    unfolding sample_end_def by (rule schedule_steps)
  have r: "Results (PrepareRun sample_checks) ! 0 \<in> set (all_results (Results (PrepareRun sample_checks)))"
    by (rule top_in_all) (rule nth_mem, code_simp)
  have e: "ended sample_end (Results (PrepareRun sample_checks) ! 0) \<and> \<not> cancelled sample_end" by code_simp
  have "verdict sample_end (Results (PrepareRun sample_checks) ! 0)" using checks_verdicts [OF run r] e by blast
  moreover have "result_Status (cell sample_end (Results (PrepareRun sample_checks) ! 0)) = StatusFailed"
    by code_simp
  moreover have "result_Status (cell sample_end (Results (PrepareRun sample_checks) ! 1)) = StatusSkipped"
    by code_simp
  ultimately show ?thesis by blast
qed

text \<open>
  Two checks that depend on each other wait for ever: nothing can happen and the executor has not
  returned.
\<close>

definition cyclic_checks :: "unit CheckExecutor" where
  "cyclic_checks = PrepareRun (AddCheck (Check None ''b'' '''' [''a''] []) (AddCheck (Check None ''a'' '''' [''b''] []) NewCheckExecutor))"

lemma dependency_cycle_blocks:
  "let s = schedule (Results cyclic_checks) [0, 1] (executor_Run cyclic_checks ())
   in list_all (\<lambda>r. act r s = []) (all_results (Results cyclic_checks)) \<and> \<not> executor_returns cyclic_checks s"
  by code_simp

text \<open>A phase succeeds although its only sub-check was skipped, because the check it needs has failed.\<close>

definition skipping_checks :: "unit CheckExecutor" where
  "skipping_checks = PrepareRun
     (AddCheck (NewPhase ''phase'' '''' [Check (Some (State_Monad.return (True, '''', None))) ''sub'' '''' [''a''] []])
     (AddCheck (Check (Some (State_Monad.return (False, '''', None))) ''a'' '''' [] []) NewCheckExecutor))"

lemma skipped_subcheck_passes:
  "let s = schedule (Results skipping_checks) [0, 0, 0, 0, 2, 2, 1, 1, 1, 2, 2, 2] (executor_Run skipping_checks ())
   in executor_returns skipping_checks s \<and>
      map (\<lambda>r. result_Status (cell s r)) (all_results (Results skipping_checks)) =
        [StatusFailed, StatusSkipped, StatusSuccess]"
  by code_simp


end
