(* ===== verification/Host.thy ===== *)
theory Host
  imports Prelude
begin

text \<open>
  The machine iknite runs on, as its packages see it through the interfaces of \<^verbatim>\<open>pkg/host\<close>
  (\<^verbatim>\<open>FileSystem\<close>, \<^verbatim>\<open>Executor\<close>, \<^verbatim>\<open>NetworkHost\<close>, \<^verbatim>\<open>System\<close>), and the helpers of that
  package (\<^verbatim>\<open>filesystem_utils.go\<close>, \<^verbatim>\<open>TerminateProcess\<close>).

  The state is a record \<open>world\<close>: the file tree, the number of calls made so far and the trace of
  the calls that act on the machine (commands, signals, mounts). What the operating system answers
  is not the program's to decide, so it is a parameter: the other fields of the record are functions
  of the call's position in time, and every theorem holds for all of them. In particular
  \<open>fs_fault\<close> may refuse any file operation at any time with any error (a missing parent directory,
  a permission, a full disk), and \<open>cmd_effect\<close> lets an external command change the file tree in
  any way.
\<close>

section \<open>The file tree\<close>

datatype node = File string nat | Directory | Symlink string

type_synonym tree = "string \<rightharpoonup> node"

text \<open>Symbolic links are followed, at most 40 of them, as the Linux kernel does.\<close>

fun resolve :: "nat \<Rightarrow> tree \<Rightarrow> string \<Rightarrow> string option" where
  "resolve 0 fs p = None"
| "resolve (Suc n) fs p = (case fs p of Some (Symlink t) \<Rightarrow> resolve n fs t | _ \<Rightarrow> Some p)"

definition final_name :: "tree \<Rightarrow> string \<Rightarrow> string option" where
  "final_name fs p = resolve 40 fs p"

definition lookup_node :: "tree \<Rightarrow> string \<Rightarrow> node option" where
  "lookup_node fs p = (case final_name fs p of None \<Rightarrow> None | Some q \<Rightarrow> fs q)"

definition below :: "string \<Rightarrow> string \<Rightarrow> bool" where
  "below d p \<longleftrightarrow> HasPrefix p (d @ ''/'')"

definition remove_tree :: "string \<Rightarrow> tree \<Rightarrow> tree" where
  "remove_tree d fs = (\<lambda>p. if p = d \<or> below d p then None else fs p)"

text \<open>\<^verbatim>\<open>filepath.Join\<close> and \<^verbatim>\<open>filepath.Dir\<close> on the clean absolute paths the program uses.\<close>

definition path_join :: "string \<Rightarrow> string \<Rightarrow> string" where
  "path_join d n = (if d = [] then n else if n = [] then d else d @ ''/'' @ n)"

definition path_dir :: "string \<Rightarrow> string" where
  "path_dir p = rev (drop 1 (dropWhile (\<lambda>c. c \<noteq> CHR ''/'') (rev p)))"

definition path_base :: "string \<Rightarrow> string" where
  "path_base p = rev (takeWhile (\<lambda>c. c \<noteq> CHR ''/'') (rev p))"

fun ancestors :: "string \<Rightarrow> string \<Rightarrow> string list" where
  "ancestors acc [] = [rev acc]"
| "ancestors acc (c # s) =
     (if c = CHR ''/'' \<and> acc \<noteq> [] then rev acc # ancestors (c # acc) s else ancestors (c # acc) s)"

definition make_dirs :: "string \<Rightarrow> tree \<Rightarrow> tree" where
  "make_dirs p fs = fold (\<lambda>q m. if m q = None then m(q \<mapsto> Directory) else m) (ancestors [] p) fs"

lemma resolve_plain: "(\<And>t. fs p \<noteq> Some (Symlink t)) \<Longrightarrow> n > 0 \<Longrightarrow> resolve n fs p = Some p"
  by (cases n) (auto split: option.splits node.splits)

lemma final_name_plain: "(\<And>t. fs p \<noteq> Some (Symlink t)) \<Longrightarrow> final_name fs p = Some p"
  by (simp add: final_name_def resolve_plain)

lemma resolve_not_link: "resolve n fs p = Some q \<Longrightarrow> fs q \<noteq> Some (Symlink t)"
  by (induction n fs p rule: resolve.induct) (auto split: option.splits node.splits)

lemma lookup_node_not_link [simp]: "lookup_node fs p \<noteq> Some (Symlink t)"
  by (auto simp: lookup_node_def final_name_def dest: resolve_not_link split: option.splits)

lemma lookup_node_File [simp]: "fs p = Some (File c m) \<Longrightarrow> lookup_node fs p = Some (File c m)"
  by (simp add: lookup_node_def final_name_plain)

lemma lookup_node_Directory [simp]: "fs p = Some Directory \<Longrightarrow> lookup_node fs p = Some Directory"
  by (simp add: lookup_node_def final_name_plain)

lemma lookup_node_None [simp]: "fs p = None \<Longrightarrow> lookup_node fs p = None"
  by (simp add: lookup_node_def final_name_plain)

lemma lookup_node_Symlink:
  assumes "fs p = Some (Symlink t)" and "\<And>u. fs t \<noteq> Some (Symlink u)"
  shows "lookup_node fs p = fs t"
proof -
  have "resolve 40 fs p = resolve 39 fs t"
    using resolve.simps(2) [of 39 fs p] assms(1) by simp
  also have "\<dots> = Some t" using assms(2) by (simp add: resolve_plain)
  finally show ?thesis by (simp add: lookup_node_def final_name_def)
qed

section \<open>The world\<close>

datatype signal = SIGTERM | Signal0

text \<open>IPv4 addresses; Go's nil \<^verbatim>\<open>net.IP\<close> is \<open>None\<close> of \<open>ip option\<close>.\<close>

datatype ip = IPv4 nat nat nat nat

fun ip_String :: "ip \<Rightarrow> string" where
  "ip_String (IPv4 a b c d) =
     nat_digits a @ ''.'' @ nat_digits b @ ''.'' @ nat_digits c @ ''.'' @ nat_digits d"

text \<open>\<open>Cmd\<close> is an argument vector, \<open>Pipe\<close> a command line run by a script pipe on some input.\<close>

datatype command = Cmd string "string list" | Pipe string string

datatype event =
    Ran command
  | Started string "string list" "string list"
  | Signaled int signal
  | Waited int
  | Unmounted string

datatype fsop =
    FReadFile string | FWriteFile string | FStat string | FOpen string | FOpenFile string
  | FCreate string | FRemove string | FRemoveAll string | FMkdirAll string | FSymlink string string
  | FReadDir string | FExists string | FDirExists string | FRename string string
  | FEvalSymlinks string | FChmod string | FUnmount string

record world =
  files :: tree
  clock :: nat
  trace :: "event list"
  fs_fault :: "nat \<Rightarrow> fsop \<Rightarrow> error option"
  cmd_result :: "nat \<Rightarrow> command \<Rightarrow> string \<times> error option"
  cmd_effect :: "nat \<Rightarrow> command \<Rightarrow> tree \<Rightarrow> tree"
  pipe_result :: "nat \<Rightarrow> error option"
  find_result :: "nat \<Rightarrow> int \<Rightarrow> error option"
  signal_result :: "nat \<Rightarrow> int \<Rightarrow> signal \<Rightarrow> error option"
  wait_result :: "nat \<Rightarrow> int \<Rightarrow> error option"
  start_result :: "nat \<Rightarrow> string \<Rightarrow> string list \<Rightarrow> error + int"
  outbound_result :: "nat \<Rightarrow> error + ip"
  interfaces_result :: "nat \<Rightarrow> error + (error + ip list) list"
  resolver_result :: "nat \<Rightarrow> string \<Rightarrow> error + ip list"

type_synonym ('x, 'a) io = "('x world_scheme, error + 'a) state"

definition tick :: "'x world_scheme \<Rightarrow> 'x world_scheme" where
  "tick w = w\<lparr>clock := Suc (clock w)\<rparr>"

definition fs_call :: "fsop \<Rightarrow> (tree \<Rightarrow> (error + 'a) \<times> tree) \<Rightarrow> ('x, 'a) io" where
  "fs_call op f = State (\<lambda>w.
     case fs_fault w (clock w) op of
       Some e \<Rightarrow> (Inl e, tick w)
     | None \<Rightarrow> (case f (files w) of (r, fs') \<Rightarrow> (r, (tick w)\<lparr>files := fs'\<rparr>)))"

lemma run_fs_call:
  "run_state (fs_call op f) w =
     (case fs_fault w (clock w) op of
        Some e \<Rightarrow> (Inl e, tick w)
      | None \<Rightarrow> (fst (f (files w)), (tick w)\<lparr>files := snd (f (files w))\<rparr>))"
  by (simp add: fs_call_def split: option.splits prod.splits)

lemma tick_simps [simp]:
  "files (tick w) = files w" "clock (tick w) = Suc (clock w)" "trace (tick w) = trace w"
  "fs_fault (tick w) = fs_fault w" "cmd_result (tick w) = cmd_result w"
  "cmd_effect (tick w) = cmd_effect w" "pipe_result (tick w) = pipe_result w" "find_result (tick w) = find_result w"
  "signal_result (tick w) = signal_result w" "wait_result (tick w) = wait_result w"
  "start_result (tick w) = start_result w" "outbound_result (tick w) = outbound_result w"
  "interfaces_result (tick w) = interfaces_result w"
  "resolver_result (tick w) = resolver_result w" "world.more (tick w) = world.more w"
  by (simp_all add: tick_def)

lemma tick_same_files [simp]: "files w = fs \<Longrightarrow> (tick w)\<lparr>files := fs\<rparr> = tick w"
  by (auto simp: tick_def)

section \<open>The FileSystem interface\<close>

text \<open>
  One definition per method of \<^verbatim>\<open>host.FileSystem\<close>, as its documentation in \<^verbatim>\<open>filesystem.go\<close>
  and the operating system calls behind it describe it. An operation either is refused
  (\<open>fs_fault\<close>) and leaves the tree alone, or does its work.
\<close>

definition ReadFile :: "string \<Rightarrow> ('x, string) io" where
  "ReadFile p = fs_call (FReadFile p) (\<lambda>fs. case lookup_node fs p of
       Some (File c m) \<Rightarrow> (Inr c, fs)
     | Some Directory \<Rightarrow> (Inl (ErrOther ''is a directory''), fs)
     | _ \<Rightarrow> (Inl ErrNotExist, fs))"

definition WriteFile :: "string \<Rightarrow> string \<Rightarrow> nat \<Rightarrow> ('x, unit) io" where
  "WriteFile p data perm = fs_call (FWriteFile p) (\<lambda>fs. case final_name fs p of
       None \<Rightarrow> (Inl (ErrOther ''too many levels of symbolic links''), fs)
     | Some q \<Rightarrow> (case fs q of
           Some Directory \<Rightarrow> (Inl (ErrOther ''is a directory''), fs)
         | Some (File c m) \<Rightarrow> (Inr (), fs(q \<mapsto> File data m))
         | _ \<Rightarrow> (Inr (), fs(q \<mapsto> File data perm))))"

text \<open>\<open>Stat\<close> returns the node itself, of which the program reads the kind and the mode.\<close>

definition Stat :: "string \<Rightarrow> ('x, node) io" where
  "Stat p = fs_call (FStat p) (\<lambda>fs. case lookup_node fs p of
       Some n \<Rightarrow> (Inr n, fs) | None \<Rightarrow> (Inl ErrNotExist, fs))"

fun node_IsDir :: "node \<Rightarrow> bool" where
  "node_IsDir Directory = True"
| "node_IsDir n = False"

definition Exists :: "string \<Rightarrow> ('x, bool) io" where
  "Exists p = fs_call (FExists p) (\<lambda>fs. (Inr (lookup_node fs p \<noteq> None), fs))"

definition DirExists :: "string \<Rightarrow> ('x, bool) io" where
  "DirExists p = fs_call (FDirExists p) (\<lambda>fs. (Inr (lookup_node fs p = Some Directory), fs))"

text \<open>\<^verbatim>\<open>OpenFile\<close> with \<^verbatim>\<open>O_WRONLY|O_CREATE|O_APPEND\<close>: creates the file if it does not exist.\<close>

definition OpenAppend :: "string \<Rightarrow> nat \<Rightarrow> ('x, unit) io" where
  "OpenAppend p perm = fs_call (FOpenFile p) (\<lambda>fs. case final_name fs p of
       None \<Rightarrow> (Inl (ErrOther ''too many levels of symbolic links''), fs)
     | Some q \<Rightarrow> (case fs q of
           Some Directory \<Rightarrow> (Inl (ErrOther ''is a directory''), fs)
         | Some (File c m) \<Rightarrow> (Inr (), fs)
         | _ \<Rightarrow> (Inr (), fs(q \<mapsto> File [] perm))))"

definition Remove :: "string \<Rightarrow> ('x, unit) io" where
  "Remove p = fs_call (FRemove p) (\<lambda>fs. case fs p of
       None \<Rightarrow> (Inl ErrNotExist, fs) | Some n \<Rightarrow> (Inr (), fs(p := None)))"

definition RemoveAll :: "string \<Rightarrow> ('x, unit) io" where
  "RemoveAll p = fs_call (FRemoveAll p) (\<lambda>fs. (Inr (), remove_tree p fs))"

definition MkdirAll :: "string \<Rightarrow> nat \<Rightarrow> ('x, unit) io" where
  "MkdirAll p perm = fs_call (FMkdirAll p) (\<lambda>fs. case lookup_node fs p of
       Some Directory \<Rightarrow> (Inr (), fs)
     | Some (File c m) \<Rightarrow> (Inl (ErrOther ''not a directory''), fs)
     | _ \<Rightarrow> (Inr (), make_dirs p fs))"

definition SymlinkFile :: "string \<Rightarrow> string \<Rightarrow> ('x, unit) io" where
  "SymlinkFile oldName newName = fs_call (FSymlink oldName newName) (\<lambda>fs. case fs newName of
       Some n \<Rightarrow> (Inl (ErrOther ''file exists''), fs)
     | None \<Rightarrow> (Inr (), fs(newName \<mapsto> Symlink oldName)))"

definition Rename :: "string \<Rightarrow> string \<Rightarrow> ('x, unit) io" where
  "Rename oldPath newPath = fs_call (FRename oldPath newPath) (\<lambda>fs. case fs oldPath of
       None \<Rightarrow> (Inl ErrNotExist, fs)
     | Some n \<Rightarrow> (Inr (), (fs(oldPath := None))(newPath \<mapsto> n)))"

definition Chmod :: "string \<Rightarrow> nat \<Rightarrow> ('x, unit) io" where
  "Chmod p mode = fs_call (FChmod p) (\<lambda>fs. case final_name fs p of
       None \<Rightarrow> (Inl (ErrOther ''too many levels of symbolic links''), fs)
     | Some q \<Rightarrow> (case fs q of
           None \<Rightarrow> (Inl ErrNotExist, fs)
         | Some (File c m) \<Rightarrow> (Inr (), fs(q \<mapsto> File c mode))
         | _ \<Rightarrow> (Inr (), fs)))"

definition EvalSymlinks :: "string \<Rightarrow> ('x, string) io" where
  "EvalSymlinks p = fs_call (FEvalSymlinks p) (\<lambda>fs. case final_name fs p of
       None \<Rightarrow> (Inl (ErrOther ''too many links''), fs)
     | Some q \<Rightarrow> (case fs q of None \<Rightarrow> (Inl ErrNotExist, fs) | Some n \<Rightarrow> (Inr q, fs)))"

lemmas fs_op_defs =
  ReadFile_def WriteFile_def Stat_def Exists_def DirExists_def OpenAppend_def Remove_def
  RemoveAll_def MkdirAll_def SymlinkFile_def Rename_def Chmod_def EvalSymlinks_def

text \<open>
  \<^verbatim>\<open>Pipe(path)\<close> reads a file as a sequence of lines: separated by newlines, without a last empty
  line, and without a carriage return at the end of a line.
\<close>

definition strip_cr :: "string \<Rightarrow> string" where
  "strip_cr l = (if l \<noteq> [] \<and> last l = CHR 0x0D then butlast l else l)"

definition lines_of :: "string \<Rightarrow> string list" where
  "lines_of s = map strip_cr (let ls = Split (CHR 0x0A) s in if last ls = [] then butlast ls else ls)"

definition match_lines :: "string \<Rightarrow> string list \<Rightarrow> string list" where
  "match_lines s ls = filter (\<lambda>l. Contains l s) ls"

definition reject_lines :: "string \<Rightarrow> string list \<Rightarrow> string list" where
  "reject_lines s ls = filter (\<lambda>l. \<not> Contains l s) ls"

text \<open>\<^verbatim>\<open>Column(n)\<close>: the n-th white-space separated field of the lines that have one.\<close>

definition column_lines :: "nat \<Rightarrow> string list \<Rightarrow> string list" where
  "column_lines n ls = map (\<lambda>l. Fields l ! (n - 1)) (filter (\<lambda>l. n \<le> length (Fields l)) ls)"

definition PipeFile :: "string \<Rightarrow> ('x, string list) io" where
  "PipeFile p = fs_call (FOpen p) (\<lambda>fs. case lookup_node fs p of
       Some (File c m) \<Rightarrow> (Inr (lines_of c), fs)
     | Some Directory \<Rightarrow> (Inl (ErrOther ''is a directory''), fs)
     | _ \<Rightarrow> (Inl (Wrap (''while opening '' @ p) ErrNotExist), fs))"

section \<open>The Executor and System interfaces\<close>

text \<open>A command runs, leaves its mark on the tree and in the trace, and answers.\<close>

definition run_command :: "command \<Rightarrow> ('x world_scheme, string \<times> error option) state" where
  "run_command c = State (\<lambda>w.
     (cmd_result w (clock w) c,
      (tick w)\<lparr>files := cmd_effect w (clock w) c (files w), trace := trace w @ [Ran c]\<rparr>))"

text \<open>\<^verbatim>\<open>Run\<close> of \<^verbatim>\<open>executor.go\<close>; its first argument only chooses which outputs are collected.\<close>

definition host_Run :: "string \<Rightarrow> string list \<Rightarrow> ('x world_scheme, string \<times> error option) state" where
  "host_Run cmd arguments = State_Monad.bind (run_command (Cmd cmd arguments)) (\<lambda>(output, err).
     case err of
       Some e \<Rightarrow> State_Monad.return (output, Some (Wrap (''failed to run command '' @ cmd) e))
     | None \<Rightarrow> State_Monad.return (output, None))"

text \<open>\<^verbatim>\<open>ExecPipe(stdin, cmd)\<close> on the text in the pipe.\<close>

definition ExecPipe :: "string \<Rightarrow> string \<Rightarrow> ('x, string) io" where
  "ExecPipe stdin cmd = State_Monad.bind (run_command (Pipe cmd stdin)) (\<lambda>(output, err).
     case err of Some e \<Rightarrow> throw e | None \<Rightarrow> ret output)"

text \<open>
  \<^verbatim>\<open>ExecForEach\<close>: one command per line, made from the line, one after the other. Which error
  status the pipe has at the end is the library's to say (\<open>pipe_result\<close>).
\<close>

definition run_line :: "(string \<Rightarrow> string) \<Rightarrow> string \<Rightarrow> ('x world_scheme, unit) state" where
  "run_line mk l = State_Monad.bind (run_command (Pipe (mk l) [])) (\<lambda>_. skip)"

definition ExecForEach :: "(string \<Rightarrow> string) \<Rightarrow> string list \<Rightarrow> ('x, unit) io" where
  "ExecForEach mk ls = State_Monad.bind (forS (run_line mk) ls) (\<lambda>_. State (\<lambda>w.
     (case pipe_result w (clock w) of Some e \<Rightarrow> Inl e | None \<Rightarrow> Inr (), tick w)))"

text \<open>A process is known by its identifier.\<close>

definition FindProcess :: "int \<Rightarrow> ('x, int) io" where
  "FindProcess pid = State (\<lambda>w. (case find_result w (clock w) pid of
       Some e \<Rightarrow> Inl (Wrap (''failed to find process with pid '' @ Itoa pid) e)
     | None \<Rightarrow> Inr pid, tick w))"

definition process_Signal :: "int \<Rightarrow> signal \<Rightarrow> ('x, unit) io" where
  "process_Signal pid sig = State (\<lambda>w.
     (case signal_result w (clock w) pid sig of Some e \<Rightarrow> Inl e | None \<Rightarrow> Inr (),
      (tick w)\<lparr>trace := trace w @ [Signaled pid sig]\<rparr>))"

definition process_Wait :: "int \<Rightarrow> ('x, unit) io" where
  "process_Wait pid = State (\<lambda>w.
     (case wait_result w (clock w) pid of Some e \<Rightarrow> Inl e | None \<Rightarrow> Inr (),
      (tick w)\<lparr>trace := trace w @ [Waited pid]\<rparr>))"

definition StartCommand :: "string \<Rightarrow> string list \<Rightarrow> string list \<Rightarrow> ('x, int) io" where
  "StartCommand cmd args env = State (\<lambda>w.
     (case start_result w (clock w) cmd args of
        Inl e \<Rightarrow> Inl (Wrap (''failed to start command '' @ cmd) e)
      | Inr pid \<Rightarrow> Inr pid,
      (tick w)\<lparr>trace := trace w @ [Started cmd args env]\<rparr>))"

definition Unmount :: "string \<Rightarrow> ('x, unit) io" where
  "Unmount p = State (\<lambda>w. case fs_fault w (clock w) (FUnmount p) of
       Some e \<Rightarrow> (Inl e, tick w)
     | None \<Rightarrow> (Inr (), (tick w)\<lparr>trace := trace w @ [Unmounted p]\<rparr>))"

text \<open>\<^verbatim>\<open>TerminateProcess\<close> of \<^verbatim>\<open>executor.go\<close>; the flag \<^verbatim>\<open>*alive\<close> is the second result.\<close>

definition TerminateProcess ::
  "int option \<Rightarrow> bool \<Rightarrow> ('x world_scheme, (error + unit) \<times> bool) state"
where
  "TerminateProcess p alive = (case p of
       None \<Rightarrow> State_Monad.return (Inl (Errorf ''process cannot be nil''), alive)
     | Some pid \<Rightarrow> State_Monad.bind (process_Signal pid SIGTERM) (\<lambda>r. case r of
           Inl e \<Rightarrow> State_Monad.return (Inl (Wrap ''failed to terminate process'' e), False)
         | Inr _ \<Rightarrow> State_Monad.bind (process_Wait pid) (\<lambda>r. case r of
               Inl e \<Rightarrow> State_Monad.return
                          (Inl (Wrap ''failed to wait for process termination'' e), False)
             | Inr _ \<Rightarrow> State_Monad.return (Inr (), False))))"

section \<open>The NetworkHost interface\<close>

definition GetOutboundIP :: "('x, ip) io" where
  "GetOutboundIP = State (\<lambda>w. (outbound_result w (clock w), tick w))"

text \<open>
  \<^verbatim>\<open>CheckIpExists\<close>: interfaces whose addresses cannot be read are passed over. A nil address is
  \<open>None\<close> and equals no address of an interface.
\<close>

fun find_ip :: "ip option \<Rightarrow> (error + ip list) list \<Rightarrow> bool" where
  "find_ip a [] = False"
| "find_ip a (Inl e # is) = find_ip a is"
| "find_ip a (Inr addrs # is) = (list_ex (\<lambda>x. Some x = a) addrs \<or> find_ip a is)"

definition CheckIpExists :: "ip option \<Rightarrow> ('x, bool) io" where
  "CheckIpExists a = State (\<lambda>w. (case interfaces_result w (clock w) of
       Inl e \<Rightarrow> Inl (Wrap ''failed to get network interfaces'' e)
     | Inr ifaces \<Rightarrow> Inr (find_ip a ifaces), tick w))"

text \<open>\<^verbatim>\<open>IsHostMapped\<close> has no error result: a failed lookup is an empty list of addresses.\<close>

definition IsHostMapped :: "ip option \<Rightarrow> string \<Rightarrow> ('x world_scheme, bool \<times> ip list) state" where
  "IsHostMapped a domainName = State (\<lambda>w. (case resolver_result w (clock w) domainName of
       Inl e \<Rightarrow> (False, [])
     | Inr ips \<Rightarrow> (list_ex (\<lambda>x. Some x = a) ips, ips), tick w))"

section \<open>filesystem_utils.go\<close>

definition IsOnWSL :: "('x world_scheme, bool) state" where
  "IsOnWSL = State_Monad.bind (DirExists ''/run/WSL'') (\<lambda>r. case r of
       Inl e \<Rightarrow> State_Monad.return False | Inr wsl \<Rightarrow> State_Monad.return wsl)"

definition IsOnIncus :: "('x world_scheme, bool) state" where
  "IsOnIncus = State_Monad.bind (DirExists ''/dev/.lxc/proc'') (\<lambda>r. case r of
       Inl e \<Rightarrow> State_Monad.return False | Inr incus \<Rightarrow> State_Monad.return incus)"

definition ExecuteOnExistence :: "string \<Rightarrow> bool \<Rightarrow> ('x, unit) io \<Rightarrow> ('x, unit) io" where
  "ExecuteOnExistence file existence fn =
     onErr (Exists file) (Wrap (''error while checking if '' @ file @ '' exists'')) (\<lambda>exists.
       if exists = existence then fn else ret ())"

definition ExecuteIfNotExist :: "string \<Rightarrow> ('x, unit) io \<Rightarrow> ('x, unit) io" where
  "ExecuteIfNotExist file fn = ExecuteOnExistence file False fn"

definition ExecuteIfExist :: "string \<Rightarrow> ('x, unit) io \<Rightarrow> ('x, unit) io" where
  "ExecuteIfExist file fn = ExecuteOnExistence file True fn"

definition MoveFileIfExists :: "string \<Rightarrow> string \<Rightarrow> ('x, unit) io" where
  "MoveFileIfExists src dst =
     onErr (Exists src) (Wrap (''error while checking existence of '' @ src)) (\<lambda>exists.
       if \<not> exists then ret ()
       else onErr (Rename src dst) (Wrap (''failed to move file from '' @ src @ '' to '' @ dst)) (\<lambda>_. ret ()))"

text \<open>
  \<^verbatim>\<open>ReadDir\<close>: the names of the entries directly below the directory. The order in which the
  file system lists them is a parameter of the code that reads a directory, \<open>dir_order\<close>.
\<close>

definition entry_names :: "tree \<Rightarrow> string \<Rightarrow> string set" where
  "entry_names fs d = {n. n \<noteq> [] \<and> CHR ''/'' \<notin> set n \<and> fs (path_join d n) \<noteq> None}"

definition ReadDir :: "(tree \<Rightarrow> string \<Rightarrow> string list) \<Rightarrow> string \<Rightarrow> ('x, string list) io" where
  "ReadDir dir_order d = fs_call (FReadDir d) (\<lambda>fs. case lookup_node fs d of
       Some Directory \<Rightarrow> (Inr (dir_order fs d), fs)
     | Some (File c m) \<Rightarrow> (Inl (ErrOther ''not a directory''), fs)
     | _ \<Rightarrow> (Inl ErrNotExist, fs))"

definition CleanDir :: "(tree \<Rightarrow> string \<Rightarrow> string list) \<Rightarrow> string \<Rightarrow> ('x, unit) io" where
  "CleanDir dir_order dir =
     onErr (DirExists dir) (Wrap (''error while checking existence of directory '' @ dir)) (\<lambda>exists.
       if \<not> exists then ret ()
       else onErr (ReadDir dir_order dir) (Wrap (''error while reading directory '' @ dir)) (\<lambda>names.
         forE (\<lambda>name. onErr (RemoveAll (path_join dir name))
                 (Wrap (''error while removing file '' @ path_join dir name)) (\<lambda>_. ret ())) names))"

text \<open>
  \<^verbatim>\<open>ReadEnvFiles\<close>: later files win over earlier ones, missing files are skipped. The parser of
  \<^verbatim>\<open>godotenv\<close> is the parameter \<open>unmarshal\<close>.
\<close>

fun ReadEnvFiles_loop ::
  "(string \<Rightarrow> error + (string \<rightharpoonup> string)) \<Rightarrow> (string \<rightharpoonup> string) \<Rightarrow> string list \<Rightarrow> ('x, string \<rightharpoonup> string) io"
where
  "ReadEnvFiles_loop unmarshal envData [] = ret envData"
| "ReadEnvFiles_loop unmarshal envData (path # paths) =
     State_Monad.bind (ReadFile path) (\<lambda>r. case r of
       Inl err \<Rightarrow>
         if errors_Is err ErrNotExist then ReadEnvFiles_loop unmarshal envData paths
         else throw (Wrap (''failed to read environment file '' @ path) err)
     | Inr data \<Rightarrow> (case unmarshal data of
           Inl err \<Rightarrow> throw (Wrap (''failed to unmarshal environment file '' @ path) err)
         | Inr fileEnvData \<Rightarrow> ReadEnvFiles_loop unmarshal (envData ++ fileEnvData) paths))"

definition ReadEnvFiles ::
  "(string \<Rightarrow> error + (string \<rightharpoonup> string)) \<Rightarrow> string list \<Rightarrow> ('x, string \<rightharpoonup> string) io"
where
  "ReadEnvFiles unmarshal paths = ReadEnvFiles_loop unmarshal Map.empty paths"

end
