(* ===== verification/Host_Laws.thy ===== *)
theory Host_Laws
  imports Host
begin

text \<open>
  What the packages of iknite rely on when they use the host: the contract of the file system
  (a locale, interpreted on the operations of theory Host) and the frame properties of every host
  operation (interpretations of the locale \<open>frame\<close> of theory Prelude).
\<close>

section \<open>What a reader sees\<close>

definition file_content :: "'x world_scheme \<Rightarrow> string \<Rightarrow> string option" where
  "file_content w p = (case lookup_node (files w) p of Some (File c m) \<Rightarrow> Some c | _ \<Rightarrow> None)"

definition path_exists :: "'x world_scheme \<Rightarrow> string \<Rightarrow> bool" where
  "path_exists w p \<longleftrightarrow> lookup_node (files w) p \<noteq> None"

lemma file_content_exists: "file_content w p = Some c \<Longrightarrow> path_exists w p"
  by (auto simp: file_content_def path_exists_def split: option.splits)

lemma path_exists_entry: "path_exists w p \<Longrightarrow> files w p \<noteq> None"
  by (metis lookup_node_None path_exists_def)

lemma file_content_tick [simp]: "file_content (tick w) p = file_content w p"
  by (simp add: file_content_def)

lemma path_exists_tick [simp]: "path_exists (tick w) p = path_exists w p"
  by (simp add: path_exists_def)

lemma file_content_files [simp]: "file_content (w\<lparr>files := fs\<rparr>) p =
    (case lookup_node fs p of Some (File c m) \<Rightarrow> Some c | _ \<Rightarrow> None)"
  by (simp add: file_content_def)

lemma path_exists_files [simp]: "path_exists (w\<lparr>files := fs\<rparr>) p \<longleftrightarrow> lookup_node fs p \<noteq> None"
  by (simp add: path_exists_def)

lemma resolve_update_final:
  "resolve n fs p = Some q \<Longrightarrow> resolve n (fs(q \<mapsto> File d m)) p = Some q"
proof (induction n arbitrary: p)
  case (Suc n)
  show ?case
  proof (cases "p = q")
    case False
    with Suc show ?thesis by (auto split: option.splits node.splits)
  qed simp
qed simp

lemma lookup_after_write:
  "final_name fs p = Some q \<Longrightarrow> lookup_node (fs(q \<mapsto> File d m)) p = Some (File d m)"
  by (simp add: final_name_def lookup_node_def resolve_update_final)

lemma ReadFile_ok:
  "run_state (ReadFile p) w = (Inr c, w') \<Longrightarrow> file_content w p = Some c \<and> w' = tick w"
  by (auto simp: ReadFile_def run_fs_call file_content_def split: option.splits node.splits)

lemma run_ReadFile:
  "run_state (ReadFile p) w =
     ((case fs_fault w (clock w) (FReadFile p) of
         Some e \<Rightarrow> Inl e
       | None \<Rightarrow> (case lookup_node (files w) p of
             Some (File c m) \<Rightarrow> Inr c
           | Some Directory \<Rightarrow> Inl (ErrOther ''is a directory'')
           | _ \<Rightarrow> Inl ErrNotExist)), tick w)"
  by (auto simp: ReadFile_def run_fs_call split: option.splits node.splits)

lemma run_Exists:
  "run_state (Exists p) w =
     ((case fs_fault w (clock w) (FExists p) of Some e \<Rightarrow> Inl e | None \<Rightarrow> Inr (path_exists w p)), tick w)"
  by (simp add: Exists_def run_fs_call path_exists_def split: option.splits)

lemma run_DirExists:
  "run_state (DirExists p) w =
     ((case fs_fault w (clock w) (FDirExists p) of
         Some e \<Rightarrow> Inl e | None \<Rightarrow> Inr (lookup_node (files w) p = Some Directory)), tick w)"
  by (simp add: DirExists_def run_fs_call split: option.splits)

lemma run_Stat:
  "run_state (Stat p) w =
     ((case fs_fault w (clock w) (FStat p) of
         Some e \<Rightarrow> Inl e
       | None \<Rightarrow> (case lookup_node (files w) p of Some n \<Rightarrow> Inr n | None \<Rightarrow> Inl ErrNotExist)), tick w)"
  by (auto simp: Stat_def run_fs_call split: option.splits)

lemma run_PipeFile:
  "run_state (PipeFile p) w =
     ((case fs_fault w (clock w) (FOpen p) of
         Some e \<Rightarrow> Inl e
       | None \<Rightarrow> (case lookup_node (files w) p of
             Some (File c m) \<Rightarrow> Inr (lines_of c)
           | Some Directory \<Rightarrow> Inl (ErrOther ''is a directory'')
           | _ \<Rightarrow> Inl (Wrap (''while opening '' @ p) ErrNotExist))), tick w)"
  by (auto simp: PipeFile_def run_fs_call split: option.splits node.splits)

lemma run_EvalSymlinks:
  "run_state (EvalSymlinks p) w =
     ((case fs_fault w (clock w) (FEvalSymlinks p) of
         Some e \<Rightarrow> Inl e
       | None \<Rightarrow> (case final_name (files w) p of
             None \<Rightarrow> Inl (ErrOther ''too many links'')
           | Some q \<Rightarrow> (case files w q of None \<Rightarrow> Inl ErrNotExist | Some n \<Rightarrow> Inr q))), tick w)"
  by (auto simp: EvalSymlinks_def run_fs_call split: option.splits)

lemma run_ExecuteIfNotExist:
  "run_state (ExecuteIfNotExist p fn) w =
     (case fs_fault w (clock w) (FExists p) of
        Some e \<Rightarrow> (Inl (Wrap (''error while checking if '' @ p @ '' exists'') e), tick w)
      | None \<Rightarrow> if path_exists w p then (Inr (), tick w) else run_state fn (tick w))"
  by (simp add: ExecuteIfNotExist_def ExecuteOnExistence_def run_onErr run_Exists split: option.splits)

lemma run_ExecuteIfExist:
  "run_state (ExecuteIfExist p fn) w =
     (case fs_fault w (clock w) (FExists p) of
        Some e \<Rightarrow> (Inl (Wrap (''error while checking if '' @ p @ '' exists'') e), tick w)
      | None \<Rightarrow> if path_exists w p then run_state fn (tick w) else (Inr (), tick w))"
  by (simp add: ExecuteIfExist_def ExecuteOnExistence_def run_onErr run_Exists split: option.splits)

lemmas run_read_ops =
  run_ReadFile run_Exists run_DirExists run_Stat run_PipeFile run_EvalSymlinks

lemma WriteFile_ok:
  assumes "run_state (WriteFile p d m) w = (Inr (), w')"
  shows "file_content w' p = Some d"
  using assms
  by (auto simp: WriteFile_def run_fs_call lookup_after_write split: option.splits node.splits)

lemma WriteFile_err:
  "run_state (WriteFile p d m) w = (Inl e, w') \<Longrightarrow> w' = tick w"
  by (auto simp: WriteFile_def run_fs_call split: option.splits node.splits)

lemma WriteFile_plain:
  assumes "\<And>t. files w p \<noteq> Some (Symlink t)"
    and "run_state (WriteFile p d m) w = (Inr (), w')" and "q \<noteq> p"
  shows "files w' q = files w q"
  using assms
  by (auto simp: WriteFile_def run_fs_call final_name_plain split: option.splits node.splits)

section \<open>The contract of the file system\<close>

locale file_contract =
  fixes readf :: "string \<Rightarrow> ('s, error + string) state"
    and writef :: "string \<Rightarrow> string \<Rightarrow> nat \<Rightarrow> ('s, error + unit) state"
    and existsf :: "string \<Rightarrow> ('s, error + bool) state"
    and content :: "'s \<Rightarrow> string \<Rightarrow> string option"
    and present :: "'s \<Rightarrow> string \<Rightarrow> bool"
  assumes read_content: "run_state (readf p) s = (Inr c, s') \<Longrightarrow> content s p = Some c"
    and read_frame: "run_state (readf p) s = (r, s') \<Longrightarrow> content s' = content s"
    and write_content: "run_state (writef p c m) s = (Inr (), s') \<Longrightarrow> content s' p = Some c"
    and exists_present: "run_state (existsf p) s = (Inr b, s') \<Longrightarrow> b = present s p"
    and exists_frame: "run_state (existsf p) s = (x, s') \<Longrightarrow> present s' = present s \<and> content s' = content s"
    and content_present: "content s p = Some c \<Longrightarrow> present s p"
begin

lemma read_after_write:
  assumes "run_state (writef p c m) s = (Inr (), t)" and "run_state (readf p) t = (Inr d, u)"
  shows "d = c"
  using write_content [OF assms(1)] read_content [OF assms(2)] by simp

lemma copy_content:
  assumes "run_state (onErr (readf src) h (\<lambda>d. onErr (k d) h' (\<lambda>_. onErr (writef dst d m) h'' (\<lambda>_. ret ())))) s = (Inr (), s')"
  obtains d where "content s src = Some d" and "content s' dst = Some d"
  using assms read_content write_content
  by (elim onErr_Inr_elim) (auto simp: run_onErr split: prod.splits sum.splits)

lemma ensure_present:
  assumes "run_state (onErr (existsf p) h (\<lambda>b. if b = False then onErr (writef p c m) h' (\<lambda>_. ret ()) else ret ())) s
             = (Inr (), s')"
  shows "present s' p"
proof -
  from assms obtain b t where b: "run_state (existsf p) s = (Inr b, t)"
    and k: "run_state (if b = False then onErr (writef p c m) h' (\<lambda>_. ret ()) else ret ()) t = (Inr (), s')"
    by (rule onErr_Inr_elim)
  show ?thesis
  proof (cases b)
    case True
    with k b show ?thesis using exists_present [OF b] exists_frame [OF b] by simp
  next
    case False
    with k obtain v where "run_state (writef p c m) t = (Inr (), v)" and "v = s'"
      by (auto elim!: onErr_Inr_elim)
    then show ?thesis using write_content content_present by blast
  qed
qed

lemma ensure_keeps_content:
  assumes "run_state (onErr (existsf p) h (\<lambda>b. if b = False then act else ret ())) s = (r, s')"
    and "present s p"
  shows "content s' = content s"
proof -
  obtain x t where x: "run_state (existsf p) s = (x, t)" by (cases "run_state (existsf p) s")
  show ?thesis
  proof (cases x)
    case (Inl e)
    with assms x show ?thesis using exists_frame [OF x] by (simp add: run_onErr)
  next
    case (Inr b)
    with x assms(2) have "b = True" using exists_present by blast
    with assms x Inr show ?thesis using exists_frame [OF x] by (simp add: run_onErr)
  qed
qed

end

interpretation host_files: file_contract ReadFile WriteFile Exists file_content path_exists
proof (unfold_locales, goal_cases)
  case (1 p s c s') then show ?case using ReadFile_ok by blast
next
  case (2 p s r s') then show ?case by (auto simp: run_ReadFile file_content_def)
next
  case (3 p c m s s') then show ?case by (rule WriteFile_ok)
next
  case (4 p s b s') then show ?case by (auto simp: run_Exists split: option.splits)
next
  case (5 p s r s') then show ?case
    by (auto simp: run_Exists file_content_def path_exists_def fun_eq_iff)
next
  case (6 s p c) then show ?case by (rule file_content_exists)
qed

lemma ensure_file_present:
  "run_state (ExecuteIfNotExist p (onErr (WriteFile p d m) h (\<lambda>_. ret ()))) w = (Inr (), w') \<Longrightarrow> path_exists w' p"
  unfolding ExecuteIfNotExist_def ExecuteOnExistence_def by (rule host_files.ensure_present)

lemma ensure_file_present_plain:
  "run_state (ExecuteIfNotExist p (WriteFile p d m)) w = (Inr (), w') \<Longrightarrow> path_exists w' p"
  by (auto simp: run_ExecuteIfNotExist split: option.splits if_splits dest!: WriteFile_ok file_content_exists)

section \<open>Frames\<close>

text \<open>
  \<open>same_files\<close>: the file tree is as before. \<open>acts_only E\<close>: whatever was done to the machine is in
  \<open>E\<close>. \<open>same_oracle\<close>: the answers the machine will give have not changed, which is so for every
  piece of code, since the program cannot write them.
\<close>

definition same_files :: "'x world_scheme \<Rightarrow> 'x world_scheme \<Rightarrow> bool" where
  "same_files w w' \<longleftrightarrow> files w' = files w"

definition acts_only :: "event set \<Rightarrow> 'x world_scheme \<Rightarrow> 'x world_scheme \<Rightarrow> bool" where
  "acts_only E w w' \<longleftrightarrow> (\<exists>es. trace w' = trace w @ es \<and> set es \<subseteq> E)"

definition same_oracle :: "'x world_scheme \<Rightarrow> 'x world_scheme \<Rightarrow> bool" where
  "same_oracle w w' \<longleftrightarrow> w'\<lparr>files := files w, clock := clock w, trace := trace w\<rparr> = w"

interpretation sf: frame "same_files :: 'x world_scheme \<Rightarrow> 'x world_scheme \<Rightarrow> bool"
  by unfold_locales (auto simp: same_files_def)

interpretation ao: frame "acts_only E :: 'x world_scheme \<Rightarrow> 'x world_scheme \<Rightarrow> bool" for E
proof (unfold_locales, goal_cases)
  case (1 s) show ?case by (auto simp: acts_only_def)
next
  case (2 s t u) then show ?case
    by (force simp: acts_only_def)
qed

interpretation so: frame "same_oracle :: 'x world_scheme \<Rightarrow> 'x world_scheme \<Rightarrow> bool"
proof (unfold_locales, goal_cases)
  case (1 s) show ?case by (simp add: same_oracle_def)
next
  case (2 s t u)
  have "u\<lparr>files := files s, clock := clock s, trace := trace s\<rparr> =
        (u\<lparr>files := files t, clock := clock t, trace := trace t\<rparr>)
          \<lparr>files := files s, clock := clock s, trace := trace s\<rparr>"
    by simp
  with 2 show ?case by (simp add: same_oracle_def)
qed

lemma same_oracle_simps:
  assumes "same_oracle w w'"
  shows "fs_fault w' = fs_fault w" and "cmd_result w' = cmd_result w" and "cmd_effect w' = cmd_effect w"
    and "world.more w' = world.more w" and "signal_result w' = signal_result w"
    and "find_result w' = find_result w" and "wait_result w' = wait_result w"
    and "start_result w' = start_result w" and "outbound_result w' = outbound_result w"
    and "interfaces_result w' = interfaces_result w" and "resolver_result w' = resolver_result w"
    and "pipe_result w' = pipe_result w"
  using arg_cong [OF assms [unfolded same_oracle_def], of fs_fault]
    arg_cong [OF assms [unfolded same_oracle_def], of cmd_result]
    arg_cong [OF assms [unfolded same_oracle_def], of cmd_effect]
    arg_cong [OF assms [unfolded same_oracle_def], of world.more]
    arg_cong [OF assms [unfolded same_oracle_def], of signal_result]
    arg_cong [OF assms [unfolded same_oracle_def], of find_result]
    arg_cong [OF assms [unfolded same_oracle_def], of wait_result]
    arg_cong [OF assms [unfolded same_oracle_def], of start_result]
    arg_cong [OF assms [unfolded same_oracle_def], of outbound_result]
    arg_cong [OF assms [unfolded same_oracle_def], of interfaces_result]
    arg_cong [OF assms [unfolded same_oracle_def], of resolver_result]
    arg_cong [OF assms [unfolded same_oracle_def], of pipe_result]
  by simp_all

lemma fs_call_same_files [frame_intros]:
  "(\<And>fs. snd (f fs) = fs) \<Longrightarrow> state_io_rel same_files (fs_call op f)"
  by (auto simp: run_fs_call same_files_def split: option.splits)

lemma fs_call_acts [frame_intros]: "state_io_rel (acts_only E) (fs_call op f)"
  by (auto simp: run_fs_call acts_only_def split: option.splits)

lemma fs_call_oracle [frame_intros]: "state_io_rel same_oracle (fs_call op f)"
  by (auto simp: run_fs_call same_oracle_def tick_def split: option.splits)

lemma read_ops_same_files [frame_intros]:
  "state_io_rel same_files (ReadFile p)" "state_io_rel same_files (Exists p)"
  "state_io_rel same_files (DirExists p)" "state_io_rel same_files (Stat p)"
  "state_io_rel same_files (PipeFile p)" "state_io_rel same_files (EvalSymlinks p)"
  by (auto simp: run_read_ops same_files_def)

lemma ReadDir_same_files [frame_intros]: "state_io_rel same_files (ReadDir ord p)"
  unfolding ReadDir_def by (rule fs_call_same_files) (auto split: option.splits node.splits)

lemma fs_ops_acts [frame_intros]:
  "state_io_rel (acts_only E) (ReadFile p)" "state_io_rel (acts_only E) (Exists p)"
  "state_io_rel (acts_only E) (DirExists p)" "state_io_rel (acts_only E) (Stat p)"
  "state_io_rel (acts_only E) (PipeFile p)" "state_io_rel (acts_only E) (EvalSymlinks p)"
  "state_io_rel (acts_only E) (ReadDir ord p)" "state_io_rel (acts_only E) (WriteFile p d m)"
  "state_io_rel (acts_only E) (OpenAppend p m)" "state_io_rel (acts_only E) (Remove p)"
  "state_io_rel (acts_only E) (RemoveAll p)" "state_io_rel (acts_only E) (MkdirAll p m)"
  "state_io_rel (acts_only E) (SymlinkFile p q)" "state_io_rel (acts_only E) (Rename p q)"
  "state_io_rel (acts_only E) (Chmod p m)"
  unfolding fs_op_defs PipeFile_def ReadDir_def by (rule fs_call_acts)+

lemma fs_ops_oracle [frame_intros]:
  "state_io_rel same_oracle (ReadFile p)" "state_io_rel same_oracle (Exists p)"
  "state_io_rel same_oracle (DirExists p)" "state_io_rel same_oracle (Stat p)"
  "state_io_rel same_oracle (PipeFile p)" "state_io_rel same_oracle (EvalSymlinks p)"
  "state_io_rel same_oracle (ReadDir ord p)" "state_io_rel same_oracle (WriteFile p d m)"
  "state_io_rel same_oracle (OpenAppend p m)" "state_io_rel same_oracle (Remove p)"
  "state_io_rel same_oracle (RemoveAll p)" "state_io_rel same_oracle (MkdirAll p m)"
  "state_io_rel same_oracle (SymlinkFile p q)" "state_io_rel same_oracle (Rename p q)"
  "state_io_rel same_oracle (Chmod p m)"
  unfolding fs_op_defs PipeFile_def ReadDir_def by (rule fs_call_oracle)+

lemma run_command_acts [frame_intros]: "Ran c \<in> E \<Longrightarrow> state_io_rel (acts_only E) (run_command c)"
  by (auto simp: run_command_def acts_only_def)

lemma run_command_oracle [frame_intros]: "state_io_rel same_oracle (run_command c)"
  by (auto simp: run_command_def same_oracle_def tick_def)

lemma host_Run_acts [frame_intros]: "Ran (Cmd c as) \<in> E \<Longrightarrow> state_io_rel (acts_only E) (host_Run c as)"
  unfolding host_Run_def by (intro ao.frame_bind run_command_acts) (auto intro: ao.frame_rules split: option.splits)

lemma host_Run_oracle [frame_intros]: "state_io_rel same_oracle (host_Run c as)"
  unfolding host_Run_def by (intro so.frame_bind run_command_oracle) (auto intro: so.frame_rules split: option.splits)

lemma ExecPipe_acts [frame_intros]: "Ran (Pipe c i) \<in> E \<Longrightarrow> state_io_rel (acts_only E) (ExecPipe i c)"
  unfolding ExecPipe_def by (intro ao.frame_bind run_command_acts) (auto intro: ao.frame_rules split: option.splits)

lemma ExecPipe_oracle [frame_intros]: "state_io_rel same_oracle (ExecPipe i c)"
  unfolding ExecPipe_def by (intro so.frame_bind run_command_oracle) (auto intro: so.frame_rules split: option.splits)

lemma ExecForEach_acts [frame_intros]:
  assumes "\<And>l. l \<in> set ls \<Longrightarrow> Ran (Pipe (mk l) []) \<in> E"
  shows "state_io_rel (acts_only E) (ExecForEach mk ls)"
  unfolding ExecForEach_def run_line_def using assms
  by (intro ao.frame_bind ao.frame_forS run_command_acts) (auto simp: acts_only_def ao.frame_rules)

lemma ExecForEach_oracle [frame_intros]: "state_io_rel same_oracle (ExecForEach mk ls)"
  unfolding ExecForEach_def run_line_def
  by (intro so.frame_bind so.frame_forS run_command_oracle)
    (auto simp: same_oracle_def tick_def so.frame_rules)

lemma process_acts [frame_intros]:
  "Signaled pid sig \<in> E \<Longrightarrow> state_io_rel (acts_only E) (process_Signal pid sig)"
  "Waited pid \<in> E \<Longrightarrow> state_io_rel (acts_only E) (process_Wait pid)"
  "state_io_rel (acts_only E) (FindProcess pid)"
  "Started c as env \<in> E \<Longrightarrow> state_io_rel (acts_only E) (StartCommand c as env)"
  "Unmounted p \<in> E \<Longrightarrow> state_io_rel (acts_only E) (Unmount p)"
  by (auto simp: process_Signal_def process_Wait_def FindProcess_def StartCommand_def Unmount_def
      acts_only_def split: option.splits)

lemma process_oracle [frame_intros]:
  "state_io_rel same_oracle (process_Signal pid sig)" "state_io_rel same_oracle (process_Wait pid)"
  "state_io_rel same_oracle (FindProcess pid)" "state_io_rel same_oracle (StartCommand c as env)"
  "state_io_rel same_oracle (Unmount p)"
  by (auto simp: process_Signal_def process_Wait_def FindProcess_def StartCommand_def Unmount_def
      same_oracle_def tick_def split: option.splits)

lemma process_same_files [frame_intros]:
  "state_io_rel same_files (process_Signal pid sig)" "state_io_rel same_files (process_Wait pid)"
  "state_io_rel same_files (FindProcess pid)" "state_io_rel same_files (StartCommand c as env)"
  "state_io_rel same_files (Unmount p)"
  by (auto simp: process_Signal_def process_Wait_def FindProcess_def StartCommand_def Unmount_def
      same_files_def split: option.splits)

lemma net_same_files [frame_intros]:
  "state_io_rel same_files GetOutboundIP" "state_io_rel same_files (CheckIpExists a)"
  "state_io_rel same_files (IsHostMapped a d)"
  by (auto simp: GetOutboundIP_def CheckIpExists_def IsHostMapped_def same_files_def)

lemma net_acts [frame_intros]:
  "state_io_rel (acts_only E) GetOutboundIP" "state_io_rel (acts_only E) (CheckIpExists a)"
  "state_io_rel (acts_only E) (IsHostMapped a d)"
  by (auto simp: GetOutboundIP_def CheckIpExists_def IsHostMapped_def acts_only_def)

lemma ExecuteIfNotExist_acts [frame_intros]:
  "state_io_rel (acts_only E) fn \<Longrightarrow> state_io_rel (acts_only E) (ExecuteIfNotExist p fn)"
  unfolding ExecuteIfNotExist_def ExecuteOnExistence_def
  by (intro ao.frame_rules frame_intros)

lemma ExecuteIfExist_acts [frame_intros]:
  "state_io_rel (acts_only E) fn \<Longrightarrow> state_io_rel (acts_only E) (ExecuteIfExist p fn)"
  unfolding ExecuteIfExist_def ExecuteOnExistence_def
  by (intro ao.frame_rules frame_intros)

section \<open>Operations that only create\<close>

text \<open>
  \<open>keeps_existing\<close>: whatever could be looked up before, through links or not, is still there with
  the same content. An \<open>ensure\<close> operation (create when missing) has this property whatever links
  the tree contains.
\<close>

definition keeps_existing :: "'x world_scheme \<Rightarrow> 'x world_scheme \<Rightarrow> bool" where
  "keeps_existing w w' \<longleftrightarrow>
     (\<forall>p n. lookup_node (files w) p = Some n \<longrightarrow> lookup_node (files w') p = Some n)"

interpretation ke: frame "keeps_existing :: 'x world_scheme \<Rightarrow> 'x world_scheme \<Rightarrow> bool"
  by unfold_locales (auto simp: keeps_existing_def)

lemma same_files_keeps: "state_io_rel same_files m \<Longrightarrow> state_io_rel keeps_existing m"
  by (rule state_io_relI) (auto simp: keeps_existing_def same_files_def dest!: state_io_relD)

lemma resolve_update_missing:
  "resolve n fs p = Some r \<Longrightarrow> fs r \<noteq> None \<Longrightarrow> fs q = None \<Longrightarrow> resolve n (fs(q \<mapsto> x)) p = Some r"
proof (induction n arbitrary: p)
  case (Suc n)
  have "p \<noteq> q" using Suc.prems by auto
  with Suc show ?case by (auto split: option.splits node.splits)
qed simp

lemma lookup_update_missing:
  assumes "lookup_node fs p = Some n" and "fs q = None"
  shows "lookup_node (fs(q \<mapsto> x)) p = Some n"
proof -
  from assms(1) obtain r where r: "resolve 40 fs p = Some r" "fs r = Some n"
    by (auto simp: lookup_node_def final_name_def split: option.splits)
  then have "resolve 40 (fs(q \<mapsto> x)) p = Some r" using resolve_update_missing assms(2) by blast
  with r assms(2) show ?thesis by (auto simp: lookup_node_def final_name_def)
qed

lemma SymlinkFile_keeps [frame_intros]: "state_io_rel keeps_existing (SymlinkFile a b)"
  by (auto simp: SymlinkFile_def run_fs_call keeps_existing_def lookup_update_missing split: option.splits)

lemma WriteFile_missing:
  assumes "\<not> path_exists w p" and "run_state (WriteFile p d m) w = (r, w')"
  shows "keeps_existing w w'"
  using assms
  by (auto simp: WriteFile_def run_fs_call keeps_existing_def path_exists_def lookup_update_missing
      lookup_node_def [of "files w" p] split: option.splits node.splits)

lemma ExecuteIfNotExist_keeps:
  assumes "\<And>v r v'. files v = files w \<Longrightarrow> \<not> path_exists v p \<Longrightarrow> run_state fn v = (r, v') \<Longrightarrow> keeps_existing v v'"
    and "run_state (ExecuteIfNotExist p fn) w = (r, w')"
  shows "keeps_existing w w'"
  using assms(2) assms(1) [of "tick w"]
  by (auto simp: run_ExecuteIfNotExist keeps_existing_def split: option.splits if_splits)

lemma ensure_file_keeps [frame_intros]:
  "state_io_rel keeps_existing (ExecuteIfNotExist p (onErr (WriteFile p d m) h (\<lambda>_. ret ())))"
  "state_io_rel keeps_existing (ExecuteIfNotExist p (WriteFile p d m))"
  by (rule state_io_relI, erule ExecuteIfNotExist_keeps [rotated],
      auto simp: run_onErr dest!: WriteFile_missing split: prod.splits sum.splits)+

lemma ensure_link_keeps [frame_intros]:
  "state_io_rel keeps_existing (ExecuteIfNotExist p (SymlinkFile a b))"
  unfolding ExecuteIfNotExist_def ExecuteOnExistence_def
  by (intro ke.frame_rules frame_intros same_files_keeps)

lemma keeps_existing_content:
  "keeps_existing w w' \<Longrightarrow> file_content w p = Some c \<Longrightarrow> file_content w' p = Some c"
  by (auto simp: keeps_existing_def file_content_def split: option.splits node.splits)

lemma keeps_existing_present: "keeps_existing w w' \<Longrightarrow> path_exists w p \<Longrightarrow> path_exists w' p"
  by (auto simp: keeps_existing_def path_exists_def)

section \<open>A machine where nothing is refused\<close>

text \<open>Used by the witnesses: a host without faults, on which every command succeeds.\<close>

definition calm_world :: "tree \<Rightarrow> world" where
  "calm_world fs = \<lparr>files = fs, clock = 0, trace = [], fs_fault = (\<lambda>_ _. None),
     cmd_result = (\<lambda>_ _. ([], None)), cmd_effect = (\<lambda>_ _ t. t), pipe_result = (\<lambda>_. None),
     find_result = (\<lambda>_ _. None), signal_result = (\<lambda>_ _ _. None), wait_result = (\<lambda>_ _. None),
     start_result = (\<lambda>_ _ _. Inr 42), outbound_result = (\<lambda>_. Inr (IPv4 10 0 0 1)),
     interfaces_result = (\<lambda>_. Inr []), resolver_result = (\<lambda>_ _. Inr [])\<rparr>"

lemma calm_world_simps [simp]:
  "files (calm_world fs) = fs" "clock (calm_world fs) = 0" "trace (calm_world fs) = []"
  "fs_fault (calm_world fs) = (\<lambda>_ _. None)" "cmd_result (calm_world fs) = (\<lambda>_ _. ([], None))"
  "cmd_effect (calm_world fs) = (\<lambda>_ _ t. t)" "pipe_result (calm_world fs) = (\<lambda>_. None)"
  "find_result (calm_world fs) = (\<lambda>_ _. None)" "signal_result (calm_world fs) = (\<lambda>_ _ _. None)"
  "wait_result (calm_world fs) = (\<lambda>_ _. None)" "start_result (calm_world fs) = (\<lambda>_ _ _. Inr 42)"
  "outbound_result (calm_world fs) = (\<lambda>_. Inr (IPv4 10 0 0 1))"
  "interfaces_result (calm_world fs) = (\<lambda>_. Inr [])" "resolver_result (calm_world fs) = (\<lambda>_ _. Inr [])"
  by (simp_all add: calm_world_def)

end
