(* ===== verification/Cluster.thy ===== *)
theory Cluster
  imports Host_Laws
begin

text \<open>
  The cluster object iknite keeps on disk and serves: \<^verbatim>\<open>pkg/apis/iknite/constant.go\<close> (the
  cluster state and its text form), \<^verbatim>\<open>pkg/apis/iknite/v1alpha1/types.go\<close> (specification,
  status, update, persistence) and \<^verbatim>\<open>defaults.go\<close>. The JSON encoder and decoder of the Go
  library for the whole object are the parameters \<open>marshal\<close> and \<open>unmarshal\<close>.
\<close>

section \<open>Cluster states\<close>

text \<open>A \<^verbatim>\<open>ClusterState\<close> is an \<^verbatim>\<open>int16\<close> on which no arithmetic is done.\<close>

type_synonym ClusterState = int

definition Undefined :: ClusterState where "Undefined = 0"
definition Stopped :: ClusterState where "Stopped = 1"
definition Started :: ClusterState where "Started = 2"
definition Initializing :: ClusterState where "Initializing = 3"
definition Stabilizing :: ClusterState where "Stabilizing = 4"
definition Running :: ClusterState where "Running = 5"
definition Stopping :: ClusterState where "Stopping = 6"
definition Cleaning :: ClusterState where "Cleaning = 7"
definition Failed :: ClusterState where "Failed = 8"

lemmas state_defs [simp] =
  Undefined_def Stopped_def Started_def Initializing_def Stabilizing_def Running_def Stopping_def
  Cleaning_def Failed_def

definition named_states :: "ClusterState list" where
  "named_states = [Undefined, Stopped, Started, Initializing, Stabilizing, Running, Stopping, Cleaning, Failed]"

definition state_String :: "ClusterState \<Rightarrow> string" where
  "state_String s =
     (if s = Undefined then ''Undefined''
      else if s = Stopped then ''Stopped''
      else if s = Started then ''Started''
      else if s = Initializing then ''Initializing''
      else if s = Stabilizing then ''Stabilizing''
      else if s = Running then ''Running''
      else if s = Stopping then ''Stopping''
      else if s = Cleaning then ''Cleaning''
      else if s = Failed then ''Failed''
      else ''Unknown'')"

text \<open>\<^verbatim>\<open>Set\<close> leaves the receiver \<open>s\<close> as it is when the text names no state.\<close>

definition state_Set :: "string \<Rightarrow> ClusterState \<Rightarrow> ClusterState" where
  "state_Set value s =
     (if value = ''Undefined'' then Undefined
      else if value = ''Stopped'' then Stopped
      else if value = ''Started'' then Started
      else if value = ''Initializing'' then Initializing
      else if value = ''Stabilizing'' then Stabilizing
      else if value = ''Running'' then Running
      else if value = ''Stopping'' then Stopping
      else if value = ''Cleaning'' then Cleaning
      else if value = ''Failed'' then Failed
      else s)"

definition state_MarshalJSON :: "ClusterState \<Rightarrow> string" where
  "state_MarshalJSON s = [CHR 0x22] @ state_String s @ [CHR 0x22]"

text \<open>
  \<^verbatim>\<open>value[1 : len(value)-1]\<close> panics when the text has fewer than two bytes: \<open>None\<close>.
\<close>

definition state_UnmarshalJSON :: "string \<Rightarrow> ClusterState \<Rightarrow> ClusterState option" where
  "state_UnmarshalJSON data s =
     (if length data < 2 then None else Some (state_Set (take (length data - 2) (drop 1 data)) s))"

definition state_Stable :: "ClusterState \<Rightarrow> bool" where
  "state_Stable s \<longleftrightarrow> s = Running \<or> s = Stopped \<or> s = Failed \<or> s = Undefined"

lemma named_states_cases:
  "s \<in> set named_states \<longleftrightarrow> s \<in> {0, 1, 2, 3, 4, 5, 6, 7, 8}"
  by (simp add: named_states_def)

lemma state_Set_String: "s \<in> set named_states \<Longrightarrow> state_Set (state_String s) t = s"
  unfolding named_states_cases by (elim insertE) (simp_all add: state_Set_def state_String_def)

lemma state_Set_named: "t \<in> set named_states \<Longrightarrow> state_Set v t \<in> set named_states"
  unfolding named_states_cases by (simp add: state_Set_def)

section \<open>The cluster object\<close>

record IkniteClusterSpec =
  KubernetesVersion :: string
  DomainName :: string
  NetworkInterface :: string
  ClusterName :: string
  Kustomization :: string
  APIBackendDatabaseDirectory :: string
  Ip :: "ip option"
  StatusServerPort :: int
  StatusUpdateIntervalSeconds :: int
  StatusUpdateLongIntervalSeconds :: int
  CreateIp :: bool
  EnableMDNS :: bool
  UseEtcd :: bool

definition ip_opt_String :: "ip option \<Rightarrow> string" where
  "ip_opt_String a = (case a of None \<Rightarrow> ''<nil>'' | Some i \<Rightarrow> ip_String i)"

definition GetApiEndPoint :: "IkniteClusterSpec \<Rightarrow> string" where
  "GetApiEndPoint c = (if DomainName c \<noteq> '''' then DomainName c else ip_opt_String (Ip c))"

record WorkloadState =
  Namespace :: string
  WName :: string
  Message :: string
  Ok :: bool

record ClusterWorkloadsState =
  Ready :: "WorkloadState list"
  Unready :: "WorkloadState list"
  Count :: nat
  ReadyCount :: nat
  UnreadyCount :: nat

text \<open>Time stamps are numbers; the zero time is 0.\<close>

record IkniteClusterStatus =
  LastUpdateTimeStamp :: nat
  CurrentPhase :: string
  WorkloadsState :: ClusterWorkloadsState
  ClState :: ClusterState

record IkniteCluster =
  Kind :: string
  APIVersion :: string
  Spec :: IkniteClusterSpec
  Status :: IkniteClusterStatus

text \<open>The zero values of Go.\<close>

definition zero_spec :: IkniteClusterSpec where
  "zero_spec = \<lparr>KubernetesVersion = [], DomainName = [], NetworkInterface = [], ClusterName = [],
     Kustomization = [], APIBackendDatabaseDirectory = [], Ip = None, StatusServerPort = 0,
     StatusUpdateIntervalSeconds = 0, StatusUpdateLongIntervalSeconds = 0, CreateIp = False,
     EnableMDNS = False, UseEtcd = False\<rparr>"

definition zero_status :: IkniteClusterStatus where
  "zero_status = \<lparr>LastUpdateTimeStamp = 0, CurrentPhase = [],
     WorkloadsState = \<lparr>Ready = [], Unready = [], Count = 0, ReadyCount = 0, UnreadyCount = 0\<rparr>,
     ClState = Undefined\<rparr>"

definition cluster_Update ::
  "nat \<Rightarrow> ClusterState \<Rightarrow> string \<Rightarrow> WorkloadState list \<Rightarrow> WorkloadState list \<Rightarrow> IkniteCluster \<Rightarrow> IkniteCluster"
where
  "cluster_Update now state phase ready unready c = c\<lparr>Status :=
     \<lparr>LastUpdateTimeStamp = now, CurrentPhase = phase,
      WorkloadsState = \<lparr>Ready = ready, Unready = unready, Count = length ready + length unready,
        ReadyCount = length ready, UnreadyCount = length unready\<rparr>,
      ClState = state\<rparr>\<rparr>"

section \<open>Persistence\<close>

definition StatusDirectory :: string where "StatusDirectory = ''/run/iknite''"
definition StatusFile :: string where "StatusFile = ''/run/iknite/status.json''"

definition cluster_Persist ::
  "(IkniteCluster \<Rightarrow> error + string) \<Rightarrow> IkniteCluster \<Rightarrow> ('x world_scheme, unit) state"
where
  "cluster_Persist marshal c = (case marshal c of
       Inl e \<Rightarrow> skip
     | Inr json \<Rightarrow> State_Monad.bind (MkdirAll StatusDirectory mode755) (\<lambda>r. case r of
           Inl e \<Rightarrow> skip
         | Inr _ \<Rightarrow> ignoreErr (WriteFile StatusFile json mode644)))"

definition LoadIkniteCluster :: "(string \<Rightarrow> error + IkniteCluster) \<Rightarrow> ('x, IkniteCluster) io" where
  "LoadIkniteCluster unmarshal = State_Monad.bind (ReadFile StatusFile) (\<lambda>r. case r of
       Inl e \<Rightarrow> throw e
     | Inr json \<Rightarrow> (case unmarshal json of
           Inl e \<Rightarrow> throw (Wrap ''failed to unmarshal iknite cluster'' e)
         | Inr c \<Rightarrow> ret c))"

section \<open>Defaults\<close>

definition WslIPAddress :: ip where "WslIPAddress = IPv4 192 168 99 2"
definition WSLHostName :: string where "WSLHostName = ''cluster.iknite''"
definition KubernetesVersionDefault :: string where "KubernetesVersionDefault = ''1.35.0''"
definition DefaultNetworkInterface :: string where "DefaultNetworkInterface = ''eth0''"
definition DefaultClusterName :: string where "DefaultClusterName = ''iknite''"
definition DefaultKustomization :: string where "DefaultKustomization = ''/etc/iknite.d''"
definition KineDirectory :: string where "KineDirectory = ''/var/lib/kine''"
definition IkniteServerPort :: int where "IkniteServerPort = 11443"

lemmas default_constants =
  WslIPAddress_def WSLHostName_def KubernetesVersionDefault_def DefaultNetworkInterface_def
  DefaultClusterName_def DefaultKustomization_def KineDirectory_def IkniteServerPort_def

text \<open>
  \<open>with_defaults wsl\<close> is the body of the function after it has asked whether it runs on WSL: each
  field is filled when it has its zero value, except \<open>EnableMDNS\<close>, which is always overwritten. A
  missing address also turns \<open>CreateIp\<close> on, and the domain name is looked at after that.
\<close>

definition or_default :: "'a \<Rightarrow> 'a \<Rightarrow> 'a \<Rightarrow> 'a" where
  "or_default zero d x = (if x = zero then d else x)"

definition with_defaults :: "bool \<Rightarrow> IkniteClusterSpec \<Rightarrow> IkniteClusterSpec" where
  "with_defaults wsl obj =
     (let createIp = (if Ip obj = None then True else CreateIp obj)
      in \<lparr>KubernetesVersion = or_default '''' KubernetesVersionDefault (KubernetesVersion obj),
          DomainName = (if DomainName obj = '''' \<and> createIp then WSLHostName else DomainName obj),
          NetworkInterface = or_default '''' DefaultNetworkInterface (NetworkInterface obj),
          ClusterName = or_default '''' DefaultClusterName (ClusterName obj),
          Kustomization = or_default '''' DefaultKustomization (Kustomization obj),
          APIBackendDatabaseDirectory = or_default '''' KineDirectory (APIBackendDatabaseDirectory obj),
          Ip = or_default None (Some WslIPAddress) (Ip obj),
          StatusServerPort = or_default 0 IkniteServerPort (StatusServerPort obj),
          StatusUpdateIntervalSeconds = or_default 0 5 (StatusUpdateIntervalSeconds obj),
          StatusUpdateLongIntervalSeconds = or_default 0 60 (StatusUpdateLongIntervalSeconds obj),
          CreateIp = createIp,
          EnableMDNS = wsl,
          UseEtcd = UseEtcd obj\<rparr>)"

lemma or_default_idem [simp]: "or_default z d (or_default z d x) = or_default z d x"
  by (simp add: or_default_def)

lemma or_default_nonzero: "d \<noteq> z \<Longrightarrow> or_default z d x \<noteq> z"
  by (simp add: or_default_def)

definition SetDefaults_IkniteClusterSpec ::
  "IkniteClusterSpec \<Rightarrow> ('x world_scheme, IkniteClusterSpec) state"
where
  "SetDefaults_IkniteClusterSpec obj =
     State_Monad.bind IsOnWSL (\<lambda>wsl. State_Monad.return (with_defaults wsl obj))"

definition SetDefaults_IkniteClusterStatus :: "nat \<Rightarrow> IkniteClusterStatus \<Rightarrow> IkniteClusterStatus" where
  "SetDefaults_IkniteClusterStatus now obj =
     (let obj = (if ClState obj = Undefined then obj\<lparr>ClState := Stopped\<rparr> else obj);
          obj = (if CurrentPhase obj = '''' then obj\<lparr>CurrentPhase := ''undefined''\<rparr> else obj)
      in if LastUpdateTimeStamp obj = 0 then obj\<lparr>LastUpdateTimeStamp := now\<rparr> else obj)"

definition SetDefaults_IkniteCluster ::
  "nat \<Rightarrow> IkniteCluster \<Rightarrow> ('x world_scheme, IkniteCluster) state"
where
  "SetDefaults_IkniteCluster now obj =
     State_Monad.bind (SetDefaults_IkniteClusterSpec (Spec obj)) (\<lambda>spec.
       State_Monad.return (obj\<lparr>Spec := spec, Status := SetDefaults_IkniteClusterStatus now (Status obj)\<rparr>))"

definition NewDefaultIkniteCluster :: "nat \<Rightarrow> ('x world_scheme, IkniteCluster) state" where
  "NewDefaultIkniteCluster now = SetDefaults_IkniteCluster now
     \<lparr>Kind = ''IkniteCluster'', APIVersion = ''iknite.kaweezle.com/v1alpha1'', Spec = zero_spec,
      Status = zero_status\<rparr>"

text \<open>
  A pointer that may be nil is an \<open>option\<close>: after an error that is not \<open>ErrNotExist\<close> the function
  returns the nil cluster of the failed load together with a nil error.
\<close>

definition LoadIkniteClusterOrDefault ::
  "(string \<Rightarrow> error + IkniteCluster) \<Rightarrow> nat \<Rightarrow> ('x, IkniteCluster option) io"
where
  "LoadIkniteClusterOrDefault unmarshal now =
     State_Monad.bind (LoadIkniteCluster unmarshal) (\<lambda>r. case r of
       Inl err \<Rightarrow>
         if errors_Is err ErrNotExist
         then State_Monad.bind (NewDefaultIkniteCluster now) (\<lambda>c. ret (Some c))
         else ret None
     | Inr c \<Rightarrow> ret (Some c))"

section \<open>Well-formed status\<close>

definition workloads_wf :: "ClusterWorkloadsState \<Rightarrow> bool" where
  "workloads_wf s \<longleftrightarrow> ReadyCount s = length (Ready s) \<and> UnreadyCount s = length (Unready s) \<and>
     Count s = ReadyCount s + UnreadyCount s"

definition cluster_wf :: "IkniteCluster \<Rightarrow> bool" where
  "cluster_wf c \<longleftrightarrow> workloads_wf (WorkloadsState (Status c)) \<and> ClState (Status c) \<in> set named_states"

lemma cluster_Update_wf:
  "state \<in> set named_states \<Longrightarrow> cluster_wf (cluster_Update now state phase ready unready c)"
  by (simp add: cluster_wf_def workloads_wf_def cluster_Update_def)

lemma SetDefaults_status_wf:
  "ClState s \<in> set named_states \<Longrightarrow> ClState (SetDefaults_IkniteClusterStatus now s) \<in> set named_states"
  by (auto simp: SetDefaults_IkniteClusterStatus_def Let_def named_states_def)

lemma SetDefaults_status_workloads [simp]:
  "WorkloadsState (SetDefaults_IkniteClusterStatus now s) = WorkloadsState s"
  by (simp add: SetDefaults_IkniteClusterStatus_def Let_def)

lemma default_cluster_wf:
  "run_state (NewDefaultIkniteCluster now) w = (c, w') \<Longrightarrow> cluster_wf c \<and> ClState (Status c) = Stopped"
  by (auto simp: NewDefaultIkniteCluster_def SetDefaults_IkniteCluster_def zero_status_def
      SetDefaults_IkniteClusterStatus_def cluster_wf_def workloads_wf_def named_states_def
      split: prod.splits)

lemma with_defaults_idem: "with_defaults wsl (with_defaults wsl s) = with_defaults wsl s"
  by (simp add: with_defaults_def Let_def or_default_nonzero WSLHostName_def)

lemma run_IsOnWSL:
  "run_state IsOnWSL w =
     ((case fs_fault w (clock w) (FDirExists ''/run/WSL'') of
         Some e \<Rightarrow> False | None \<Rightarrow> lookup_node (files w) ''/run/WSL'' = Some Directory), tick w)"
  by (simp add: IsOnWSL_def run_DirExists split: option.splits)

lemma run_SetDefaults_spec:
  "run_state (SetDefaults_IkniteClusterSpec s) w = (with_defaults (fst (run_state IsOnWSL w)) s, tick w)"
  by (simp add: SetDefaults_IkniteClusterSpec_def run_IsOnWSL)

lemma cluster_Persist_oracle [frame_intros]: "state_io_rel same_oracle (cluster_Persist m c)"
  unfolding cluster_Persist_def by (intro so.frame_rules frame_intros)

lemma cluster_Persist_acts [frame_intros]: "state_io_rel (acts_only E) (cluster_Persist m c)"
  unfolding cluster_Persist_def by (intro ao.frame_rules frame_intros)

lemma LoadIkniteCluster_frames [frame_intros]:
  "state_io_rel same_files (LoadIkniteCluster u)" "state_io_rel (acts_only E) (LoadIkniteCluster u)"
  "state_io_rel same_oracle (LoadIkniteCluster u)"
  unfolding LoadIkniteCluster_def
  by (intro sf.frame_rules ao.frame_rules so.frame_rules frame_intros)+

lemma make_dirs_other: "q \<notin> set (ancestors [] p) \<Longrightarrow> make_dirs p fs q = fs q"
proof -
  have "fold (\<lambda>q m. if m q = None then m(q \<mapsto> Directory) else m) xs fs q = fs q"
    if "q \<notin> set xs" for xs
    using that by (induction xs arbitrary: fs) auto
  then show "q \<notin> set (ancestors [] p) \<Longrightarrow> make_dirs p fs q = fs q"
    by (simp add: make_dirs_def)
qed

lemma MkdirAll_StatusFile:
  assumes "run_state (MkdirAll StatusDirectory m) w = (r, w')"
  shows "files w' StatusFile = files w StatusFile"
proof -
  have "StatusFile \<notin> set (ancestors [] StatusDirectory)"
    by (simp add: StatusFile_def StatusDirectory_def)
  then have "make_dirs StatusDirectory (files w) StatusFile = files w StatusFile"
    by (rule make_dirs_other)
  with assms show ?thesis
    by (auto simp: MkdirAll_def run_fs_call split: option.splits node.splits)
qed

lemma WriteFile_calm:
  assumes "fs_fault w = (\<lambda>_ _. None)"
    and "files w p = None \<or> (\<exists>c m. files w p = Some (File c m))"
  obtains w' where "run_state (WriteFile p d m) w = (Inr (), w')"
    and "fs_fault w' = (\<lambda>_ _. None)" and "\<exists>k. files w' p = Some (File d k)"
  using assms
  by (auto simp: WriteFile_def run_fs_call final_name_plain split: option.splits node.splits)

section \<open>Properties\<close>

text \<open>
  C37: The JSON text of a named cluster state is read back as that state, whatever the receiver held
  before; a text that names no state leaves the receiver as it is, and a text of fewer than two
  bytes (a JSON number such as 5) makes the decoder panic.
\<close>

theorem state_json_roundtrip:
  "(s \<in> set named_states \<longrightarrow> state_UnmarshalJSON (state_MarshalJSON s) t = Some s) \<and>
   (s \<notin> set named_states \<longrightarrow> state_UnmarshalJSON (state_MarshalJSON s) t = Some t) \<and>
   (state_UnmarshalJSON data t = None \<longleftrightarrow> length data < 2)"
proof (intro conjI impI)
  have strip: "state_UnmarshalJSON (state_MarshalJSON s) t = Some (state_Set (state_String s) t)"
    by (simp add: state_UnmarshalJSON_def state_MarshalJSON_def)
  show "state_UnmarshalJSON (state_MarshalJSON s) t = Some s" if "s \<in> set named_states"
    using that by (simp only: strip state_Set_String)
  show "state_UnmarshalJSON (state_MarshalJSON s) t = Some t" if "s \<notin> set named_states"
  proof -
    from that have "state_String s = ''Unknown''"
      by (simp add: state_String_def named_states_def)
    then show ?thesis by (simp add: strip state_Set_def)
  qed
  show "state_UnmarshalJSON data t = None \<longleftrightarrow> length data < 2"
    by (simp add: state_UnmarshalJSON_def)
qed

theorem state_json_roundtrip_witness:
  "state_UnmarshalJSON (state_MarshalJSON Running) Stopped = Some Running \<and>
   state_UnmarshalJSON (state_MarshalJSON 42) Stopped = Some Stopped \<and>
   state_UnmarshalJSON ''5'' Stopped = None"
  using state_json_roundtrip [of Running Stopped "''5''"] state_json_roundtrip [of 42 Stopped "''5''"]
  by (simp add: named_states_def)



lemma persist_writes:
  assumes "marshal c = Inr json" and "fs_fault w = (\<lambda>_ _. None)"
    and "files w StatusFile = None \<or> (\<exists>d m. files w StatusFile = Some (File d m))"
    and "lookup_node (files w) StatusDirectory \<in> {None, Some Directory}"
  obtains w' k where "run_state (cluster_Persist marshal c) w = ((), w')"
    and "fs_fault w' = (\<lambda>_ _. None)" and "files w' StatusFile = Some (File json k)"
proof -
  obtain r w1 where mk: "run_state (MkdirAll StatusDirectory mode755) w = (r, w1)"
    by (cases "run_state (MkdirAll StatusDirectory mode755) w")
  have r: "r = Inr ()" and ff: "fs_fault w1 = (\<lambda>_ _. None)"
    using mk assms(2,4) by (auto simp: MkdirAll_def run_fs_call split: option.splits node.splits)
  have "files w1 StatusFile = None \<or> (\<exists>d m. files w1 StatusFile = Some (File d m))"
    using MkdirAll_StatusFile [OF mk] assms(3) by simp
  then obtain w2 k where w2: "run_state (WriteFile StatusFile json mode644) w1 = (Inr (), w2)"
    "fs_fault w2 = (\<lambda>_ _. None)" "files w2 StatusFile = Some (File json k)"
    using WriteFile_calm [OF ff] by metis
  then have "run_state (cluster_Persist marshal c) w = ((), w2)"
    using assms(1) mk r by (simp add: cluster_Persist_def run_ignoreErr)
  with w2 that show thesis by blast
qed



text \<open>
  Defaulting a specification twice is defaulting it once (on the same machine), no value the
  user has set is changed except the mDNS switch, and after it every field the program reads is
  set; the domain name may stay empty only when the user gave an address and no order to create it.
\<close>

lemma defaults_idempotent_keep_user_values:
  "with_defaults wsl (with_defaults wsl s) = with_defaults wsl s \<and>
   (KubernetesVersion s \<noteq> '''' \<longrightarrow> KubernetesVersion (with_defaults wsl s) = KubernetesVersion s) \<and>
   (Ip s \<noteq> None \<longrightarrow> Ip (with_defaults wsl s) = Ip s \<and> CreateIp (with_defaults wsl s) = CreateIp s) \<and>
   (DomainName s \<noteq> '''' \<longrightarrow> DomainName (with_defaults wsl s) = DomainName s) \<and>
   (ClusterName s \<noteq> '''' \<longrightarrow> ClusterName (with_defaults wsl s) = ClusterName s) \<and>
   Ip (with_defaults wsl s) \<noteq> None \<and>
   (DomainName (with_defaults wsl s) = '''' \<longleftrightarrow> DomainName s = '''' \<and> Ip s \<noteq> None \<and> \<not> CreateIp s) \<and>
   GetApiEndPoint (with_defaults wsl s) \<noteq> '''' \<and> EnableMDNS (with_defaults wsl s) = wsl"
proof -
  have "ip_String a \<noteq> ''''" for a by (cases a) simp
  then have "ip_opt_String a \<noteq> ''''" for a by (cases a) (simp_all add: ip_opt_String_def)
  then show ?thesis
    by (simp add: with_defaults_idem)
      (auto simp: with_defaults_def Let_def or_default_def default_constants GetApiEndPoint_def)
qed

lemma defaults_idempotent_keep_user_values_witness:
  "DomainName (with_defaults True zero_spec) = WSLHostName \<and>
   KubernetesVersion (with_defaults True (zero_spec\<lparr>KubernetesVersion := ''1.34.2''\<rparr>)) = ''1.34.2''"
  using defaults_idempotent_keep_user_values [of True "zero_spec\<lparr>KubernetesVersion := ''1.34.2''\<rparr>"]
  by (simp add: with_defaults_def zero_spec_def Let_def)

text \<open>
  C35: Loading the cluster with a fallback never reports an error: a readable and well-formed status
  file is loaded, a missing one gives the default cluster, and in every other case (the file cannot
  be read or decoded) the caller gets a nil cluster together with a nil error.
\<close>

theorem load_or_default_outcomes:
  assumes "run_state (LoadIkniteClusterOrDefault unmarshal now) w = (r, w')"
    and "run_state (LoadIkniteCluster unmarshal) w = (l, w1)"
  shows "(case l of
            Inr c \<Rightarrow> r = Inr (Some c)
          | Inl e \<Rightarrow>
              if errors_Is e ErrNotExist
              then \<exists>d. r = Inr (Some d) \<and> cluster_wf d \<and> ClState (Status d) = Stopped
              else r = Inr None) \<and> files w' = files w"
proof
  show "case l of Inr c \<Rightarrow> r = Inr (Some c)
          | Inl e \<Rightarrow> if errors_Is e ErrNotExist
              then \<exists>d. r = Inr (Some d) \<and> cluster_wf d \<and> ClState (Status d) = Stopped
              else r = Inr None"
    using assms
    by (fastforce simp: LoadIkniteClusterOrDefault_def split: prod.splits sum.splits if_splits
        dest: default_cluster_wf)
  have "state_io_rel same_files (LoadIkniteClusterOrDefault unmarshal now)"
    unfolding LoadIkniteClusterOrDefault_def NewDefaultIkniteCluster_def SetDefaults_IkniteCluster_def
      SetDefaults_IkniteClusterSpec_def IsOnWSL_def
    by (intro sf.frame_rules frame_intros)
  with assms(1) show "files w' = files w" by (auto simp: same_files_def dest: state_io_relD)
qed

theorem load_or_default_outcomes_witness:
  "fst (run_state (LoadIkniteClusterOrDefault (\<lambda>_. Inl (ErrOther ''unexpected end of JSON input'')) 0)
     (calm_world [StatusFile \<mapsto> File ''{'' mode644])) = Inr None"
  using load_or_default_outcomes [OF surjective_pairing surjective_pairing,
      of "\<lambda>_. Inl (ErrOther ''unexpected end of JSON input'')" 0 "calm_world [StatusFile \<mapsto> File ''{'' mode644]"]
  by (simp add: LoadIkniteCluster_def run_ReadFile)

end
