(* ===== verification/Alpine.thy ===== *)
theory Alpine
  imports Cluster
begin

text \<open>
  Package \<^verbatim>\<open>pkg/alpine\<close>: the OpenRC services of the machine (\<^verbatim>\<open>service.go\<close>), its kernel
  module and machine identifier (\<^verbatim>\<open>modules.go\<close>), its addresses and its hosts file
  (\<^verbatim>\<open>ip.go\<close>). The library that edits the hosts file (\<^verbatim>\<open>txeh\<close>) is a record of functions,
  and the identifier \<^verbatim>\<open>uuid.New()\<close> returns is an argument.
\<close>

section \<open>OpenRC services\<close>

definition openRCSourceDirectory :: string where "openRCSourceDirectory = ''/lib/rc/init.d''"
definition openRCDirectory :: string where "openRCDirectory = ''/run/openrc''"
definition servicesDir :: string where "servicesDir = ''/etc/init.d''"
definition runLevelDir :: string where "runLevelDir = ''/etc/runlevels/default''"
definition startedServicesDir :: string where "startedServicesDir = path_join openRCDirectory ''started''"
definition SoftLevelPath :: string where "SoftLevelPath = ''/run/openrc/softlevel''"

definition EnsureOpenRC :: "string \<Rightarrow> ('x, unit) io" where
  "EnsureOpenRC level = State_Monad.bind (host_Run ''/sbin/openrc'' [''default'']) (\<lambda>(out, err).
     case err of None \<Rightarrow> ret () | Some e \<Rightarrow> throw (Wrap ''error while starting openrc'' e))"

definition StartOpenRC :: "('x, unit) io" where
  "StartOpenRC = onErr (ExecuteIfNotExist SoftLevelPath (EnsureOpenRC ''default''))
     (Wrap ''failed to start OpenRC'') (\<lambda>_. ret ())"

definition IsServiceStarted :: "string \<Rightarrow> ('x, bool) io" where
  "IsServiceStarted serviceName =
     onErr (Exists (path_join startedServicesDir serviceName))
       (Wrap (''failed to check if service '' @ serviceName @ '' is started'')) (\<lambda>exists. ret exists)"

definition ExecuteIfServiceNotStarted :: "string \<Rightarrow> ('x, unit) io \<Rightarrow> ('x, unit) io" where
  "ExecuteIfServiceNotStarted serviceName fn =
     onErr (IsServiceStarted serviceName)
       (Wrap (''error while checking if service '' @ serviceName @ '' exists'')) (\<lambda>exists.
       if \<not> exists then fn else ret ())"

definition ExecuteIfServiceStarted :: "string \<Rightarrow> ('x, unit) io \<Rightarrow> ('x, unit) io" where
  "ExecuteIfServiceStarted serviceName fn =
     onErr (IsServiceStarted serviceName)
       (Wrap (''error while checking if service '' @ serviceName @ '' exists'')) (\<lambda>exists.
       if exists then fn else ret ())"

definition EnableService :: "string \<Rightarrow> ('x, unit) io" where
  "EnableService serviceName =
     (let serviceFilename = path_join servicesDir serviceName;
          destinationFilename = path_join runLevelDir serviceName
      in onErr (ExecuteIfNotExist destinationFilename (SymlinkFile serviceFilename destinationFilename))
           (Wrap (''failed to enable service '' @ serviceName)) (\<lambda>_. ret ()))"

definition DisableService :: "string \<Rightarrow> ('x, unit) io" where
  "DisableService serviceName =
     (let destinationFilename = path_join runLevelDir serviceName
      in onErr (ExecuteIfExist destinationFilename (Remove destinationFilename))
           (Wrap (''failed to disable service '' @ serviceName)) (\<lambda>_. ret ()))"

definition rc_service :: "string \<Rightarrow> string \<Rightarrow> string \<Rightarrow> ('x, unit) io" where
  "rc_service what serviceName action =
     State_Monad.bind (host_Run ''/sbin/rc-service'' [serviceName, action]) (\<lambda>(out, err).
       case err of
         None \<Rightarrow> ret ()
       | Some e \<Rightarrow> throw (Wrap (''error while '' @ what @ '' service '' @ serviceName) e))"

definition StartService :: "string \<Rightarrow> ('x, unit) io" where
  "StartService serviceName =
     ExecuteIfServiceNotStarted serviceName (rc_service ''starting'' serviceName ''start'')"

definition StopService :: "string \<Rightarrow> ('x, unit) io" where
  "StopService serviceName =
     ExecuteIfServiceStarted serviceName (rc_service ''stopping'' serviceName ''stop'')"

definition PretendServiceStarted :: "string \<Rightarrow> ('x, unit) io" where
  "PretendServiceStarted serviceName =
     (let networkSource = path_join servicesDir serviceName;
          networkDestination = path_join startedServicesDir serviceName
      in onErr (ExecuteIfNotExist networkDestination (SymlinkFile networkSource networkDestination))
           (Wrap (''failed to pretend service '' @ serviceName @ '' is started'')) (\<lambda>_. ret ()))"

definition EnsureOpenRCDirectory :: "('x, unit) io" where
  "EnsureOpenRCDirectory =
     onErr (ExecuteIfNotExist openRCDirectory (SymlinkFile openRCSourceDirectory openRCDirectory))
       (Wrap ''failed to ensure OpenRC directory'') (\<lambda>_. ret ())"

definition ServicePidFilePath :: "string \<Rightarrow> string" where
  "ServicePidFilePath serviceName = ''/run/'' @ serviceName @ ''.pid''"

definition SupervisePidFilePath :: "string \<Rightarrow> string" where
  "SupervisePidFilePath serviceName = ''/var/run/supervise-'' @ serviceName @ ''.pid''"

text \<open>
  \<open>read_pid_file\<close> is the beginning of \<^verbatim>\<open>CheckPidFile\<close>: the path it ends up with and the
  result of the last read. The result of \<open>CheckPidFile\<close> is the pid with its process (the same
  number), or \<open>None\<close> for \<^verbatim>\<open>0, nil, nil\<close>.
\<close>

definition read_pid_file :: "string \<Rightarrow> ('x world_scheme, string \<times> (error + string)) state" where
  "read_pid_file service = State_Monad.bind (ReadFile (ServicePidFilePath service)) (\<lambda>r. case r of
       Inl err \<Rightarrow>
         if errors_Is err ErrNotExist
         then State_Monad.bind (ReadFile (SupervisePidFilePath service)) (\<lambda>r2.
                State_Monad.return (SupervisePidFilePath service, r2))
         else State_Monad.return (ServicePidFilePath service, r)
     | Inr pidBytes \<Rightarrow> State_Monad.return (ServicePidFilePath service, r))"

definition process_alive :: "int \<Rightarrow> ('x world_scheme, bool) state" where
  "process_alive pid = State_Monad.bind (FindProcess pid) (\<lambda>r. case r of
       Inl e \<Rightarrow> State_Monad.return False
     | Inr p \<Rightarrow> State_Monad.bind (process_Signal p Signal0) (\<lambda>s. State_Monad.return (case s of Inl e \<Rightarrow> False | Inr _ \<Rightarrow> True)))"

definition CheckPidFile :: "string \<Rightarrow> ('x, int option) io" where
  "CheckPidFile service = State_Monad.bind (read_pid_file service) (\<lambda>(pidFilePath, r). case r of
       Inl err \<Rightarrow>
         if \<not> errors_Is err ErrNotExist then throw (Wrap ''failed to read pid file'' err) else ret None
     | Inr pidBytes \<Rightarrow> (case Atoi (TrimSpace pidBytes) of
           None \<Rightarrow> throw (Wrap ''failed to convert pid file to integer'' (ErrOther ''invalid syntax''))
         | Some pid \<Rightarrow> State_Monad.bind (process_alive pid) (\<lambda>alive.
             if alive then ret (Some pid)
             else onErr (Remove pidFilePath) (Wrap ''failed to remove pid file'') (\<lambda>_. ret None))))"

definition RemovePidFile :: "string \<Rightarrow> ('x world_scheme, unit) state" where
  "RemovePidFile service = ignoreErr (Remove (ServicePidFilePath service))"

section \<open>Kernel module and machine identifier\<close>

definition netfilter_module :: string where "netfilter_module = ''br_netfilter''"
definition brNetfilterDir :: string where "brNetfilterDir = ''/proc/sys/net/bridge''"
definition machineIDFile :: string where "machineIDFile = ''/etc/machine-id''"
definition modProbeCmd :: string where "modProbeCmd = ''/sbin/modprobe''"

definition EnsureNetFilter :: "('x, unit) io" where
  "EnsureNetFilter =
     onErr (ExecuteIfNotExist brNetfilterDir
        (State_Monad.bind (host_Run modProbeCmd [netfilter_module]) (\<lambda>(out, err). case err of
            None \<Rightarrow> ret ()
          | Some e \<Rightarrow> throw (Wrap (''error while enabling netfilter: '' @ out) e))))
       (Wrap ''failed to ensure netfilter'') (\<lambda>_. ret ())"

definition EnsureMachineID :: "string \<Rightarrow> ('x, unit) io" where
  "EnsureMachineID newId =
     onErr (ExecuteIfNotExist machineIDFile
        (onErr (WriteFile machineIDFile newId mode644)
           (Wrap (''error while creating machine id: '' @ machineIDFile)) (\<lambda>_. ret ())))
       (Wrap ''failed to ensure machine ID'') (\<lambda>_. ret ())"

section \<open>Addresses and the hosts file\<close>

text \<open>\<^verbatim>\<open>net.IP.DefaultMask\<close>: the size of the mask of the address class.\<close>

fun default_mask_size :: "ip option \<Rightarrow> nat" where
  "default_mask_size None = 0"
| "default_mask_size (Some (IPv4 a b c d)) = (if a < 128 then 8 else if a < 192 then 16 else 24)"

definition AddIpAddress :: "string \<Rightarrow> ip option \<Rightarrow> ('x, unit) io" where
  "AddIpAddress iface address =
     (let ipWithMask = ip_opt_String address @ ''/'' @ nat_digits (default_mask_size address);
          parameters = [''addr'', ''add'', ipWithMask, ''broadcast'', ''+'', ''dev'', iface]
      in State_Monad.bind (host_Run ''/sbin/ip'' parameters) (\<lambda>(out, err). case err of
           Some e \<Rightarrow> throw (Wrap out e)
         | None \<Rightarrow> ret ()))"

record 'h txeh =
  NewHosts :: "tree \<Rightarrow> error + 'h"
  RemoveAddresses :: "string list \<Rightarrow> 'h \<Rightarrow> 'h"
  AddHost :: "string \<Rightarrow> string \<Rightarrow> 'h \<Rightarrow> 'h"
  RemoveHost :: "string \<Rightarrow> 'h \<Rightarrow> 'h"
  SaveHosts :: "'h \<Rightarrow> tree \<Rightarrow> error + tree"
  HostAddressLookup :: "'h \<Rightarrow> string \<Rightarrow> string option"

definition removeIpAddresses :: "'h txeh \<Rightarrow> ip list \<Rightarrow> 'h \<Rightarrow> 'h" where
  "removeIpAddresses tx toRemove hosts =
     (if length toRemove > 0 then RemoveAddresses tx (map ip_String toRemove) hosts else hosts)"

definition IpMappingForHost :: "'h txeh \<Rightarrow> (string \<Rightarrow> ip option) \<Rightarrow> 'h \<Rightarrow> string \<Rightarrow> error + ip option" where
  "IpMappingForHost tx parseIP hosts domainName = (case HostAddressLookup tx hosts domainName of
       None \<Rightarrow> Inl (Errorf (''no IP address found for '' @ domainName))
     | Some address \<Rightarrow> Inr (parseIP address))"

definition AddIpMapping :: "'h txeh \<Rightarrow> ip option \<Rightarrow> string \<Rightarrow> ip list \<Rightarrow> ('x, unit) io" where
  "AddIpMapping tx address domainName toRemove =
     State_Monad.bind (gets files) (\<lambda>fs. case NewHosts tx fs of
       Inl e \<Rightarrow> throw (Wrap ''failed to create hosts file handler'' e)
     | Inr hosts \<Rightarrow>
         (let hosts = removeIpAddresses tx toRemove hosts;
              hosts = AddHost tx (ip_opt_String address) domainName hosts
          in (case SaveHosts tx hosts fs of
                Inl e \<Rightarrow> throw (Wrap ''failed to save hosts file'' e)
              | Inr fs' \<Rightarrow> State_Monad.bind (modify (\<lambda>w. w\<lparr>files := fs'\<rparr>)) (\<lambda>_. ret ()))))"

section \<open>Evaluation of the service operations\<close>

lemma run_IsServiceStarted:
  "run_state (IsServiceStarted s) w =
     ((case fs_fault w (clock w) (FExists (path_join startedServicesDir s)) of
         Some e \<Rightarrow> Inl (Wrap (''failed to check if service '' @ s @ '' is started'') e)
       | None \<Rightarrow> Inr (path_exists w (path_join startedServicesDir s))), tick w)"
  by (simp add: IsServiceStarted_def run_onErr run_Exists split: option.splits)

lemma run_host_Run:
  "run_state (host_Run c as) w =
     ((case cmd_result w (clock w) (Cmd c as) of (out, None) \<Rightarrow> (out, None)
        | (out, Some e) \<Rightarrow> (out, Some (Wrap (''failed to run command '' @ c) e))),
      (tick w)\<lparr>files := cmd_effect w (clock w) (Cmd c as) (files w), trace := trace w @ [Ran (Cmd c as)]\<rparr>)"
  by (simp add: host_Run_def run_command_def split: prod.splits option.splits)

definition rc_command :: "string \<Rightarrow> string \<Rightarrow> command" where
  "rc_command s action = Cmd ''/sbin/rc-service'' [s, action]"

lemma run_rc_service:
  "run_state (rc_service what s action) w =
     ((case snd (cmd_result w (clock w) (rc_command s action)) of
         None \<Rightarrow> Inr ()
       | Some e \<Rightarrow> Inl (Wrap (''error while '' @ what @ '' service '' @ s) (Wrap ''failed to run command /sbin/rc-service'' e))),
      (tick w)\<lparr>files := cmd_effect w (clock w) (rc_command s action) (files w),
        trace := trace w @ [Ran (rc_command s action)]\<rparr>)"
  by (simp add: rc_service_def rc_command_def run_host_Run split: prod.splits option.splits)

lemma service_paths_differ:
  "path_join servicesDir s \<noteq> path_join runLevelDir t"
  by (simp add: path_join_def servicesDir_def runLevelDir_def)

lemma EnableService_keeps [frame_intros]: "state_io_rel keeps_existing (EnableService s)"
  unfolding EnableService_def Let_def by (intro ke.frame_rules frame_intros)

lemma EnsureMachineID_keeps [frame_intros]: "state_io_rel keeps_existing (EnsureMachineID i)"
  unfolding EnsureMachineID_def by (intro ke.frame_rules frame_intros)

lemma EnableService_link:
  assumes "run_state (EnableService s) w = (Inr (), w')"
  shows "files w' (path_join runLevelDir s) \<noteq> None"
  using assms path_exists_entry [of w "path_join runLevelDir s"]
  by (auto simp: EnableService_def Let_def run_onErr run_ExecuteIfNotExist SymlinkFile_def run_fs_call
      split: option.splits if_splits sum.splits prod.splits)

lemma alpine_oracle [frame_intros]:
  "state_io_rel same_oracle EnsureNetFilter" "state_io_rel same_oracle (EnsureMachineID i)"
  "state_io_rel same_oracle (EnableService s)" "state_io_rel same_oracle (AddIpAddress d a)"
  "state_io_rel same_oracle (CheckPidFile s)" "state_io_rel same_oracle (StopService s)"
  unfolding EnsureNetFilter_def EnsureMachineID_def EnableService_def AddIpAddress_def Let_def
    ExecuteIfNotExist_def ExecuteOnExistence_def CheckPidFile_def read_pid_file_def process_alive_def
    StopService_def ExecuteIfServiceStarted_def IsServiceStarted_def rc_service_def
  by (intro so.frame_rules frame_intros)+

lemma AddIpMapping_oracle [frame_intros]: "state_io_rel same_oracle (AddIpMapping tx a d rm)"
  by (auto simp: AddIpMapping_def same_oracle_def Let_def split: sum.splits)

section \<open>Properties\<close>

text \<open>
  Enabling an OpenRC service that has a script and is not enabled links it in the default
  run level and changes nothing else; enabling it again changes nothing; disabling it then gives
  back the tree of before.
\<close>

lemma enable_disable_service:
  assumes "fs_fault w = (\<lambda>_ _. None)"
    and "files w (path_join servicesDir s) = Some (File script m)"
    and "files w (path_join runLevelDir s) = None"
  shows "\<exists>w1 w2 w3. run_state (EnableService s) w = (Inr (), w1) \<and>
           files w1 = (files w)(path_join runLevelDir s \<mapsto> Symlink (path_join servicesDir s)) \<and>
           run_state (EnableService s) w1 = (Inr (), w2) \<and> files w2 = files w1 \<and>
           run_state (DisableService s) w2 = (Inr (), w3) \<and> files w3 = files w"
proof -
  let ?fs = "(files w)(path_join runLevelDir s \<mapsto> Symlink (path_join servicesDir s))"
  have "lookup_node ?fs (path_join runLevelDir s) = ?fs (path_join servicesDir s)"
    using assms(2) service_paths_differ by (intro lookup_node_Symlink) auto
  then have link: "lookup_node ?fs (path_join runLevelDir s) = Some (File script m)"
    using assms(2) service_paths_differ by simp
  define w1 where "w1 = (tick (tick w))\<lparr>files := ?fs\<rparr>"
  have "run_state (EnableService s) w = (Inr (), w1)"
    using assms
    by (simp add: EnableService_def Let_def run_onErr run_ExecuteIfNotExist path_exists_def
        SymlinkFile_def run_fs_call w1_def)
  moreover have "run_state (EnableService s) w1 = (Inr (), tick w1)"
    using assms(1) link
    by (simp add: EnableService_def Let_def run_onErr run_ExecuteIfNotExist path_exists_def w1_def)
  moreover have "\<exists>w3. run_state (DisableService s) (tick w1) = (Inr (), w3) \<and> files w3 = files w"
    using assms link
    by (auto simp: DisableService_def Let_def run_onErr run_ExecuteIfExist path_exists_def
        Remove_def run_fs_call w1_def fun_upd_idem)
  ultimately show ?thesis by (auto simp: w1_def)
qed

lemma enable_disable_service_witness:
  "\<exists>w1 w2 w3. run_state (EnableService ''iknite'') (calm_world [''/etc/init.d/iknite'' \<mapsto> File ''#!'' mode755]) = (Inr (), w1) \<and>
     files w1 = [''/etc/init.d/iknite'' \<mapsto> File ''#!'' mode755,
                 ''/etc/runlevels/default/iknite'' \<mapsto> Symlink ''/etc/init.d/iknite''] \<and>
     run_state (EnableService ''iknite'') w1 = (Inr (), w2) \<and> files w2 = files w1 \<and>
     run_state (DisableService ''iknite'') w2 = (Inr (), w3) \<and>
     files w3 = [''/etc/init.d/iknite'' \<mapsto> File ''#!'' mode755]"
  using enable_disable_service [of "calm_world [''/etc/init.d/iknite'' \<mapsto> File ''#!'' mode755]" "''iknite''"]
  by (simp add: path_join_def servicesDir_def runLevelDir_def)

text \<open>
  \<open>StartService\<close> and \<open>StopService\<close> are idempotent wrappers: the init system is called exactly
  once when the service is not yet in the wanted state and never otherwise, and success is reported
  exactly when the check could be made and the call, if made, succeeded.
\<close>

lemma start_stop_service_calls:
  assumes "run_state (StartService s) w = (r, w')"
    and "run_state (StopService s) w = (r2, w2)"
    and "link = path_join startedServicesDir s"
  shows "trace w' = trace w @ (if fs_fault w (clock w) (FExists link) = None \<and> \<not> path_exists w link
           then [Ran (rc_command s ''start'')] else []) \<and>
         (r = Inr () \<longleftrightarrow> fs_fault w (clock w) (FExists link) = None \<and>
            (path_exists w link \<or> snd (cmd_result w (Suc (clock w)) (rc_command s ''start'')) = None)) \<and>
         trace w2 = trace w @ (if fs_fault w (clock w) (FExists link) = None \<and> path_exists w link
           then [Ran (rc_command s ''stop'')] else []) \<and>
         (r2 = Inr () \<longleftrightarrow> fs_fault w (clock w) (FExists link) = None \<and>
            (\<not> path_exists w link \<or> snd (cmd_result w (Suc (clock w)) (rc_command s ''stop'')) = None))"
  using assms
  by (auto simp: StartService_def StopService_def ExecuteIfServiceNotStarted_def
      ExecuteIfServiceStarted_def run_onErr run_IsServiceStarted run_rc_service split: option.splits if_splits)

lemma start_stop_service_calls_witness:
  "trace (snd (run_state (StartService ''containerd'') (calm_world Map.empty))) =
     [Ran (rc_command ''containerd'' ''start'')]"
  using start_stop_service_calls [OF surjective_pairing surjective_pairing refl,
      of "''containerd''" "calm_world Map.empty"]
  by (simp add: path_exists_def)

text \<open>
  The pid file that counts: the service's own one, or the supervisor's when the first is missing.
\<close>

definition pid_file_in :: "tree \<Rightarrow> string \<Rightarrow> string" where
  "pid_file_in fs s = (if lookup_node fs (ServicePidFilePath s) = None then SupervisePidFilePath s
     else ServicePidFilePath s)"

definition process_answers :: "'x world_scheme \<Rightarrow> nat \<Rightarrow> int \<Rightarrow> bool" where
  "process_answers w t pid \<longleftrightarrow> find_result w t pid = None \<and> signal_result w (Suc t) pid Signal0 = None"

lemma run_process_alive:
  "run_state (process_alive pid) w = (process_answers w (clock w) pid,
     (if find_result w (clock w) pid = None
      then (tick (tick w))\<lparr>trace := trace w @ [Signaled pid Signal0]\<rparr> else tick w))"
  by (simp add: process_alive_def FindProcess_def process_Signal_def process_answers_def tick_def
      split: option.splits)

lemma CheckPidFile_files:
  assumes "run_state (CheckPidFile s) w = (r, w')"
  shows "files w' = files w \<or> (\<exists>p \<in> {ServicePidFilePath s, SupervisePidFilePath s}. files w' = (files w)(p := None))"
proof -
  obtain p x w1 where 1: "run_state (read_pid_file s) w = ((p, x), w1)" by (metis prod.exhaust)
  then have p: "p \<in> {ServicePidFilePath s, SupervisePidFilePath s}" and f1: "files w1 = files w"
    by (auto simp: read_pid_file_def run_ReadFile split: option.splits node.splits if_splits)
  have alive: "files w2 = files w" if "run_state (process_alive i) w1 = (b, w2)" for i b w2
    using that f1 by (auto simp: run_process_alive split: if_splits)
  have rem: "files w3 \<in> {files w, (files w)(p := None)}"
    if "files w2 = files w" "run_state (Remove p) w2 = (y, w3)" for w2 w3 y
    using that by (auto simp: Remove_def run_fs_call split: option.splits)
  show ?thesis
  proof (cases x)
    case (Inl e)
    with assms 1 f1 show ?thesis by (simp add: CheckPidFile_def split: if_splits)
  next
    case (Inr c)
    show ?thesis
    proof (cases "Atoi (TrimSpace c)")
      case None
      with assms 1 f1 Inr show ?thesis by (simp add: CheckPidFile_def)
    next
      case (Some i)
      obtain b w2 where 2: "run_state (process_alive i) w1 = (b, w2)" by (metis prod.exhaust)
      obtain y w3 where 3: "run_state (Remove p) w2 = (y, w3)" by (metis prod.exhaust)
      have "w' = w2 \<or> w' = w3" using assms 1 Inr Some 2 3
        by (auto simp: CheckPidFile_def run_onErr split: if_splits sum.splits)
      with alive [OF 2] rem [OF alive [OF 2] 3] p show ?thesis by auto
    qed
  qed
qed

lemma process_answers_tick [simp]: "process_answers (tick w) t pid = process_answers w t pid"
  by (simp add: process_answers_def)

lemma run_Remove_present:
  assumes "fs_fault w = (\<lambda>_ _. None)" and "files w p \<noteq> None"
  shows "run_state (Remove p) w = (Inr (), (tick w)\<lparr>files := (files w)(p := None)\<rparr>)"
  using assms by (auto simp: Remove_def run_fs_call)

lemma run_read_pid_file:
  assumes "fs_fault w = (\<lambda>_ _. None)"
  shows "run_state (read_pid_file s) w =
    ((pid_file_in (files w) s, fst (run_state (ReadFile (pid_file_in (files w) s)) w)),
     (if pid_file_in (files w) s = SupervisePidFilePath s then tick (tick w) else tick w))"
  using assms
  by (auto simp: read_pid_file_def run_ReadFile pid_file_in_def ServicePidFilePath_def
      SupervisePidFilePath_def split: option.splits node.splits)

text \<open>
  What \<open>CheckPidFile\<close> answers when no file operation is refused, in every case: no pid file, no
  running service; a directory in its place or a text that is not a decimal number, an error;
  otherwise the pid if its process answers signal 0, and if it does not, no running service, and
  the stale pid file, and only that file, is removed. No other signal is ever sent.
\<close>

lemma CheckPidFile_outcomes:
  assumes "fs_fault w = (\<lambda>_ _. None)" and "run_state (CheckPidFile s) w = (r, w')"
    and "p = pid_file_in (files w) s"
    and "t = (if p = SupervisePidFilePath s then clock w + 2 else clock w + 1)"
  shows "(case lookup_node (files w) p of
            None \<Rightarrow> r = Inr None \<and> files w' = files w
          | Some (File c m) \<Rightarrow> (case Atoi (TrimSpace c) of
                None \<Rightarrow> (\<exists>e. r = Inl e) \<and> files w' = files w
              | Some pid \<Rightarrow>
                  if process_answers w t pid then r = Inr (Some pid) \<and> files w' = files w
                  else r = Inr None \<and> files w' = (files w)(p := None))
          | Some n \<Rightarrow> (\<exists>e. r = Inl e) \<and> files w' = files w) \<and>
         acts_only {Signaled pid Signal0 | pid. True} w w'"
proof
  have entry: "files w p \<noteq> None" if "lookup_node (files w) p = Some n" for n
    using that path_exists_entry by (auto simp: path_exists_def)
  note pf = run_read_pid_file [OF assms(1), of s, folded assms(3)]
  note run = assms(2) [unfolded CheckPidFile_def]
  show "case lookup_node (files w) p of
            None \<Rightarrow> r = Inr None \<and> files w' = files w
          | Some (File c m) \<Rightarrow> (case Atoi (TrimSpace c) of
                None \<Rightarrow> (\<exists>e. r = Inl e) \<and> files w' = files w
              | Some pid \<Rightarrow>
                  if process_answers w t pid then r = Inr (Some pid) \<and> files w' = files w
                  else r = Inr None \<and> files w' = (files w)(p := None))
          | Some n \<Rightarrow> (\<exists>e. r = Inl e) \<and> files w' = files w"
  proof (cases "lookup_node (files w) p")
    case None
    with run assms(1) show ?thesis by (auto simp: pf run_ReadFile)
  next
    case (Some n)
    show ?thesis
    proof (cases n)
      case (File c m)
      with Some run assms(1,4) entry [OF Some] show ?thesis
        by (auto simp: pf run_ReadFile run_process_alive run_onErr run_Remove_present split: option.splits if_splits)
    qed (use Some run assms(1) in \<open>auto simp: pf run_ReadFile\<close>)
  qed
  have "state_io_rel (acts_only {Signaled pid Signal0 | pid. True}) (CheckPidFile s)"
    unfolding CheckPidFile_def read_pid_file_def process_alive_def
    by (intro ao.frame_rules frame_intros) auto
  from state_io_relD [OF this assms(2)] show "acts_only {Signaled pid Signal0 | pid. True} w w'" .
qed

lemma CheckPidFile_outcomes_witness:
  "fst (run_state (CheckPidFile ''kubelet'')
     (calm_world [''/run/kubelet.pid'' \<mapsto> File (Itoa 421 @ NL) mode644])) = Inr (Some 421)"
proof -
  have "pid_file_in [''/run/kubelet.pid'' \<mapsto> File (Itoa 421 @ NL) mode644] ''kubelet'' = ''/run/kubelet.pid''"
    by (simp add: pid_file_in_def ServicePidFilePath_def)
  moreover have "Atoi (TrimSpace (Itoa 421 @ NL)) = Some 421"
    by (simp add: Atoi_Itoa in_int64_def)
  ultimately show ?thesis
    using CheckPidFile_outcomes [OF _ surjective_pairing refl refl,
        of "calm_world [''/run/kubelet.pid'' \<mapsto> File (Itoa 421 @ NL) mode644]" "''kubelet''"]
    by (simp add: process_answers_def)
qed

text \<open>
  The machine identifier is made once: after a successful call the file is there, with the new
  identifier if it was missing and with its old content, untouched like every other existing file,
  if it was not.
\<close>

lemma EnsureMachineID_creates_once:
  assumes "run_state (EnsureMachineID newId) w = (r, w')"
  shows "keeps_existing w w' \<and>
         (r = Inr () \<longrightarrow> path_exists w' machineIDFile \<and>
            (\<not> path_exists w machineIDFile \<longrightarrow> file_content w' machineIDFile = Some newId)) \<and>
         (path_exists w machineIDFile \<longrightarrow> files w' = files w)"
proof (intro conjI impI)
  show "keeps_existing w w'" using EnsureMachineID_keeps assms by (rule state_io_relD)
  then show "path_exists w' machineIDFile" if "r = Inr ()"
    using assms that by (auto simp: EnsureMachineID_def elim!: onErr_Inr_elim dest: ensure_file_present)
  show "file_content w' machineIDFile = Some newId" if "r = Inr ()" "\<not> path_exists w machineIDFile"
    using assms that
    by (auto simp: EnsureMachineID_def run_onErr run_ExecuteIfNotExist dest!: WriteFile_ok
        split: option.splits prod.splits sum.splits)
  show "files w' = files w" if "path_exists w machineIDFile"
    using assms that
    by (auto simp: EnsureMachineID_def run_onErr run_ExecuteIfNotExist split: option.splits)
qed

lemma EnsureMachineID_creates_once_witness:
  "file_content (snd (run_state (EnsureMachineID ''1234'') (calm_world Map.empty))) machineIDFile = Some ''1234''"
  using EnsureMachineID_creates_once [OF surjective_pairing, of "calm_world Map.empty" "''1234''"]
  by (simp add: EnsureMachineID_def run_onErr run_ExecuteIfNotExist path_exists_def WriteFile_def
      run_fs_call final_name_plain)

end
