(* ===== verification/Runtime_Env.thy ===== *)
theory Runtime_Env
  imports Alpine
begin

text \<open>
  \<^verbatim>\<open>pkg/k8s/runtime_environment.go\<close>: the preparation of the machine before Kubernetes starts.
  It edits \<^verbatim>\<open>/etc/rc.conf\<close> line by line, enables the cgroup controllers, checks the address of
  the cluster and its name, and finally makes OpenRC start iknite and never the kubelet.
\<close>

section \<open>Configuration lines\<close>

definition RcConfFile :: string where "RcConfFile = ''/etc/rc.conf''"
definition NetworkInterfacesConfFile :: string where "NetworkInterfacesConfFile = ''/etc/network/interfaces''"
definition CrictlYaml :: string where "CrictlYaml = ''/etc/crictl.yaml''"
definition ContainerServiceSock :: string where "ContainerServiceSock = ''/run/containerd/containerd.sock''"
definition IkniteService :: string where "IkniteService = ''iknite''"
definition KubeletName :: string where "KubeletName = ''kubelet''"

definition RcConfPreventServiceRunning :: "string \<Rightarrow> string" where
  "RcConfPreventServiceRunning s = ''rc_'' @ s @ ''_need='' @ [CHR 0x22] @ ''non-existing-service'' @ [CHR 0x22]"

definition RcConfIkniteNeedsNetworking :: string where
  "RcConfIkniteNeedsNetworking = ''rc_iknite_need='' @ [CHR 0x22] @ ''networking'' @ [CHR 0x22]"

definition HasConfigFileConfigurationLine :: "string \<Rightarrow> string \<Rightarrow> ('x, bool) io" where
  "HasConfigFileConfigurationLine confFilePath line =
     onErr (PipeFile confFilePath) (Wrap ''failed to count lines in config file'') (\<lambda>ls.
       ret (length (match_lines line ls) > 0))"

definition EnsureConfigFileHasConfigurationLine :: "string \<Rightarrow> string \<Rightarrow> ('x, unit) io" where
  "EnsureConfigFileHasConfigurationLine confFilePath line =
     onErr (PipeFile confFilePath) (Wrap (''while checking '' @ confFilePath @ '' for '' @ line)) (\<lambda>ls.
       if length (match_lines line ls) > 0 then ret ()
       else onErr (PipeFile confFilePath) (Wrap (''while reading '' @ confFilePath)) (\<lambda>lines.
         (let content = Join_strings NL (lines @ [line]) @ NL
          in onErr (WriteFile confFilePath content mode644) (Wrap (''while writing '' @ confFilePath))
               (\<lambda>_. ret ()))))"

definition IsServiceRunnable :: "string \<Rightarrow> string \<Rightarrow> ('x, bool) io" where
  "IsServiceRunnable confFilePath serviceName =
     onErr (HasConfigFileConfigurationLine confFilePath (RcConfPreventServiceRunning serviceName)) id
       (\<lambda>result. ret (\<not> result))"

definition PreventServiceFromStarting :: "string \<Rightarrow> string \<Rightarrow> ('x, unit) io" where
  "PreventServiceFromStarting confFilePath serviceName =
     EnsureConfigFileHasConfigurationLine confFilePath (RcConfPreventServiceRunning serviceName)"

definition MakeIkniteServiceNeedNetworking :: "string \<Rightarrow> ('x, unit) io" where
  "MakeIkniteServiceNeedNetworking confFilePath =
     EnsureConfigFileHasConfigurationLine confFilePath RcConfIkniteNeedsNetworking"

text \<open>The indentation of the literal is removed by the library function \<open>dedent\<close>.\<close>

definition interfaces_text :: string where
  "interfaces_text =
     NL @ ''                # cSpell: words iface'' @
     NL @ ''                auto lo'' @
     NL @ ''                iface lo inet loopback'' @
     NL @
     NL @ ''                auto eth0'' @
     NL @ ''                iface eth0'' @
     NL @ ''                  use dhcp'' @
     NL @ ''            ''"

definition EnsureNetworkInterfacesConfiguration :: "(string \<Rightarrow> string) \<Rightarrow> ('x, unit) io" where
  "EnsureNetworkInterfacesConfiguration dedent =
     onErr (ExecuteIfNotExist NetworkInterfacesConfFile
              (WriteFile NetworkInterfacesConfFile (dedent interfaces_text) mode644))
       (Wrap ''while ensuring network interfaces configuration'') (\<lambda>_. ret ())"

section \<open>Addresses\<close>

definition ensureIpConfiguration :: "IkniteClusterSpec \<Rightarrow> ('x, unit) io" where
  "ensureIpConfiguration ikniteConfig = State_Monad.bind GetOutboundIP (\<lambda>r. case r of
       Inl e \<Rightarrow> onErr (MakeIkniteServiceNeedNetworking RcConfFile)
                  (Wrap ''while making iknite service need networking'') (\<lambda>_. ret ())
     | Inr _ \<Rightarrow> onErr (CheckIpExists (Ip ikniteConfig)) (Wrap ''while getting local ip addresses'') (\<lambda>ipExists.
         if \<not> ipExists then
           (if CreateIp ikniteConfig
            then onErr (AddIpAddress (NetworkInterface ikniteConfig) (Ip ikniteConfig))
                   (Wrap (''while adding ip address '' @ ip_opt_String (Ip ikniteConfig) @ '' to interface '' @
                      NetworkInterface ikniteConfig)) (\<lambda>_. ret ())
            else throw (Errorf (''ip address '' @ ip_opt_String (Ip ikniteConfig) @ '' is not available locally'')))
         else ret ()))"

section \<open>Control groups\<close>

definition cgroup_subtree_control :: string where
  "cgroup_subtree_control = ''/sys/fs/cgroup/cgroup.subtree_control''"
definition cgroup_controllers :: string where "cgroup_controllers = ''/sys/fs/cgroup/cgroup.controllers''"
definition cgroup_procs :: string where "cgroup_procs = ''/sys/fs/cgroup/cgroup.procs''"
definition iknite_init_group :: string where "iknite_init_group = ''/sys/fs/cgroup/iknite_init''"
definition iknite_init_procs :: string where "iknite_init_procs = ''/sys/fs/cgroup/iknite_init/cgroup.procs''"

definition enable_controllers :: "string \<Rightarrow> string" where
  "enable_controllers controllersContent =
     concat (map (\<lambda>c. ''+'' @ c @ '' '') (Fields controllersContent))"

definition EnableCGroupSubtreeControl :: "('x, unit) io" where
  "EnableCGroupSubtreeControl =
     onErr (ReadFile cgroup_subtree_control) (Wrap ''while reading cgroup.subtree_control'') (\<lambda>content.
       if Contains content ''cpuset'' then ret ()
       else onErr (MkdirAll iknite_init_group mode755) (Wrap ''while creating cgroup directory'') (\<lambda>_.
         onErr (PipeFile cgroup_procs) (Wrap ''while reading cgroup.procs'') (\<lambda>processNumbers.
           State_Monad.bind
             (forS (\<lambda>n. ignoreErr (WriteFile iknite_init_procs n mode644)) processNumbers) (\<lambda>_.
             onErr (ReadFile cgroup_controllers) (Wrap ''while reading cgroup.controllers'') (\<lambda>controllersContent.
               onErr (WriteFile cgroup_subtree_control (enable_controllers controllersContent @ NL) mode644)
                 (Wrap ''while enabling cgroup subtree control'') (\<lambda>_. ret ()))))))"

section \<open>The whole preparation\<close>

definition PrepareKubernetesEnvironment ::
  "'h txeh \<Rightarrow> string \<Rightarrow> IkniteClusterSpec \<Rightarrow> ('x, unit) io"
where
  "PrepareKubernetesEnvironment tx newId ikniteConfig =
     State_Monad.bind (ignoreErr (WriteFile ''/proc/sys/net/ipv4/ip_forward'' (''1'' @ NL) mode644)) (\<lambda>_.
     onErr EnsureNetFilter (Wrap ''while ensuring netfilter'') (\<lambda>_.
     State_Monad.bind (ignoreErr (WriteFile ''/proc/sys/net/bridge/bridge-nf-call-iptables'' (''1'' @ NL) mode644)) (\<lambda>_.
     State_Monad.bind (ignoreErr (WriteFile ''/proc/sys/net/ipv4/conf/default/rp_filter'' (''2'' @ NL) mode644)) (\<lambda>_.
     onErr EnableCGroupSubtreeControl (Wrap ''while enabling cgroup subtree control'') (\<lambda>_.
     onErr (EnsureMachineID newId) (Wrap ''while ensuring machine ID'') (\<lambda>_.
     onErr (ensureIpConfiguration ikniteConfig) (Wrap ''while ensuring IP configuration'') (\<lambda>_.
     onErr (if DomainName ikniteConfig \<noteq> ''''
            then State_Monad.bind (IsHostMapped (Ip ikniteConfig) (DomainName ikniteConfig)) (\<lambda>(contains, ips).
                   if \<not> contains
                   then onErr (AddIpMapping tx (Ip ikniteConfig) (DomainName ikniteConfig) ips)
                          (Wrap (''while adding domain name '' @ DomainName ikniteConfig @
                             '' to hosts file with ip '' @ ip_opt_String (Ip ikniteConfig))) (\<lambda>_. ret ())
                   else ret ())
            else ret ()) id (\<lambda>_.
     onErr (PreventServiceFromStarting RcConfFile KubeletName)
       (Wrap ''while preventing kubelet service from starting'') (\<lambda>_.
     onErr (EnableService IkniteService) (Wrap ''while enabling iknite service'') (\<lambda>_.
     onErr (ExecuteIfNotExist CrictlYaml
              (WriteFile CrictlYaml (''runtime-endpoint: unix://'' @ ContainerServiceSock @ NL) mode644))
       (Wrap (''while ensuring '' @ CrictlYaml @ '' existence'')) (\<lambda>_. ret ())))))))))))"

section \<open>Lines of a file\<close>

lemma Split_Join_NL:
  "ls \<noteq> [] \<Longrightarrow> (\<And>l. l \<in> set ls \<Longrightarrow> d \<notin> set l) \<Longrightarrow> Split d (Join_strings [d] ls @ [d]) = ls @ [[]]"
  by (induction "[d]" ls rule: Join_strings.induct) (auto simp: Split_append)

lemma strip_cr_subset: "set (strip_cr l) \<subseteq> set l"
  by (auto simp: strip_cr_def dest: in_set_butlastD)

lemma lines_of_no_NL: "l \<in> set (lines_of s) \<Longrightarrow> CHR 0x0A \<notin> set l"
  using strip_cr_subset
  by (fastforce simp: lines_of_def Let_def dest: Split_no_sep in_set_butlastD split: if_splits)

lemma lines_of_Join:
  assumes "ls \<noteq> []" and "\<And>l. l \<in> set ls \<Longrightarrow> CHR 0x0A \<notin> set l"
  shows "lines_of (Join_strings NL ls @ NL) = map strip_cr ls"
  using Split_Join_NL [OF assms] by (simp add: lines_of_def NL_def)

definition plain_line :: "string \<Rightarrow> bool" where
  "plain_line l \<longleftrightarrow> CHR 0x0A \<notin> set l \<and> strip_cr l = l"

definition has_line :: "string \<Rightarrow> string \<Rightarrow> bool" where
  "has_line line c \<longleftrightarrow> match_lines line (lines_of c) \<noteq> []"

lemma has_line_appended:
  assumes "plain_line line"
  shows "lines_of (Join_strings NL (lines_of c @ [line]) @ NL) = map strip_cr (lines_of c) @ [line]"
    and "has_line line (Join_strings NL (lines_of c @ [line]) @ NL)"
proof -
  show *: "lines_of (Join_strings NL (lines_of c @ [line]) @ NL) = map strip_cr (lines_of c) @ [line]"
    using assms by (subst lines_of_Join) (auto simp: plain_line_def dest: lines_of_no_NL)
  show "has_line line (Join_strings NL (lines_of c @ [line]) @ NL)"
    by (simp add: has_line_def * match_lines_def)
qed

lemma PipeFile_ok:
  "run_state (PipeFile p) w = (Inr ls, w') \<Longrightarrow>
     \<exists>c. file_content w p = Some c \<and> ls = lines_of c \<and> w' = tick w"
  by (auto simp: run_PipeFile file_content_def split: option.splits node.splits)

lemma EnsureConfigFile_ok:
  assumes "run_state (EnsureConfigFileHasConfigurationLine p line) w = (Inr (), w')" and "plain_line line"
  obtains c c' where "file_content w p = Some c" and "file_content w' p = Some c'" and "has_line line c'"
    and "if has_line line c then files w' = files w else lines_of c' = map strip_cr (lines_of c) @ [line]"
proof -
  from assms(1) [unfolded EnsureConfigFileHasConfigurationLine_def] obtain ls w1
    where 1: "run_state (PipeFile p) w = (Inr ls, w1)"
      and k: "run_state (if length (match_lines line ls) > 0 then ret ()
                 else onErr (PipeFile p) (Wrap (''while reading '' @ p)) (\<lambda>lines.
                   (let content = Join_strings NL (lines @ [line]) @ NL
                    in onErr (WriteFile p content mode644) (Wrap (''while writing '' @ p)) (\<lambda>_. ret ())))) w1
              = (Inr (), w')"
    by (rule onErr_Inr_elim)
  from PipeFile_ok [OF 1] obtain c where c: "file_content w p = Some c" "ls = lines_of c" "w1 = tick w"
    by blast
  show ?thesis
  proof (cases "has_line line c")
    case True
    with k c have "w' = tick w" by (simp add: has_line_def)
    with True c that show ?thesis by simp
  next
    case False
    with k c obtain ls2 w2 where 2: "run_state (PipeFile p) (tick w) = (Inr ls2, w2)"
      and k2: "run_state (let content = Join_strings NL (ls2 @ [line]) @ NL
               in onErr (WriteFile p content mode644) (Wrap (''while writing '' @ p)) (\<lambda>_. ret ())) w2 = (Inr (), w')"
      by (auto simp: has_line_def elim: onErr_Inr_elim)
    from PipeFile_ok [OF 2] c have "ls2 = lines_of c" by simp
    with k2 have "file_content w' p = Some (Join_strings NL (lines_of c @ [line]) @ NL)"
      by (auto simp: Let_def elim!: onErr_Inr_elim dest: WriteFile_ok)
    with False c that has_line_appended [OF assms(2)] show ?thesis by simp
  qed
qed

lemma run_HasConfigFile:
  assumes "fs_fault w = (\<lambda>_ _. None)" and "file_content w p = Some c"
  shows "run_state (HasConfigFileConfigurationLine p line) w = (Inr (has_line line c), tick w)"
  using assms
  by (auto simp: HasConfigFileConfigurationLine_def run_onErr run_PipeFile file_content_def has_line_def
      split: option.splits node.splits)

lemma run_IsServiceRunnable:
  assumes "fs_fault w = (\<lambda>_ _. None)" and "file_content w p = Some c"
  shows "run_state (IsServiceRunnable p s) w = (Inr (\<not> has_line (RcConfPreventServiceRunning s) c), tick w)"
  by (simp add: IsServiceRunnable_def run_onErr run_HasConfigFile [OF assms])

lemma plain_rc_lines: "plain_line (RcConfPreventServiceRunning KubeletName)" "plain_line RcConfIkniteNeedsNetworking"
  by (simp_all add: plain_line_def strip_cr_def RcConfPreventServiceRunning_def KubeletName_def
      RcConfIkniteNeedsNetworking_def)

lemma EnsureConfigFile_oracle [frame_intros]:
  "state_io_rel same_oracle (EnsureConfigFileHasConfigurationLine p l)"
  unfolding EnsureConfigFileHasConfigurationLine_def Let_def by (intro so.frame_rules frame_intros)

lemma net_oracle [frame_intros]:
  "state_io_rel same_oracle GetOutboundIP" "state_io_rel same_oracle (CheckIpExists a)"
  "state_io_rel same_oracle (IsHostMapped a d)"
  by (auto simp: GetOutboundIP_def CheckIpExists_def IsHostMapped_def same_oracle_def tick_def)

lemma PrepareKubernetesEnvironment_oracle [frame_intros]:
  "state_io_rel same_oracle (PrepareKubernetesEnvironment tx i s)"
  unfolding PrepareKubernetesEnvironment_def EnableCGroupSubtreeControl_def ensureIpConfiguration_def
    MakeIkniteServiceNeedNetworking_def PreventServiceFromStarting_def ExecuteIfNotExist_def
    ExecuteOnExistence_def
  by (intro so.frame_rules frame_intros)

section \<open>Properties\<close>

text \<open>
  Ensuring a configuration line: after success the file has the line, the lines it had before
  are kept in order and the new one is the last; a file that already had the line is not written;
  and doing it again does not write. A missing file is an error, not an empty one.
\<close>

lemma ensure_config_line:
  assumes "fs_fault w = (\<lambda>_ _. None)" and "plain_line line"
    and "run_state (EnsureConfigFileHasConfigurationLine p line) w = (r, w')"
  shows "(r = Inr () \<longrightarrow> (\<exists>c c'. file_content w p = Some c \<and> file_content w' p = Some c' \<and>
            fst (run_state (HasConfigFileConfigurationLine p line) w') = Inr True \<and>
            (if has_line line c then files w' = files w
             else lines_of c' = map strip_cr (lines_of c) @ [line]) \<and>
            run_state (EnsureConfigFileHasConfigurationLine p line) w' = (Inr (), tick w'))) \<and>
         (r \<noteq> Inr () \<longrightarrow> files w' = files w) \<and>
         (r = Inr () \<longleftrightarrow> (\<exists>c. file_content w p = Some c))"
proof (intro conjI impI)
  have ff: "fs_fault w' = (\<lambda>_ _. None)"
    using state_io_relD [OF EnsureConfigFile_oracle assms(3)] same_oracle_simps(1) assms(1) by metis
  show "\<exists>c c'. file_content w p = Some c \<and> file_content w' p = Some c' \<and>
            fst (run_state (HasConfigFileConfigurationLine p line) w') = Inr True \<and>
            (if has_line line c then files w' = files w
             else lines_of c' = map strip_cr (lines_of c) @ [line]) \<and>
            run_state (EnsureConfigFileHasConfigurationLine p line) w' = (Inr (), tick w')"
    if "r = Inr ()"
  proof -
    from assms(3) that obtain c c' where c: "file_content w p = Some c" "file_content w' p = Some c'"
      "has_line line c'" "if has_line line c then files w' = files w
         else lines_of c' = map strip_cr (lines_of c) @ [line]"
      using EnsureConfigFile_ok [OF _ assms(2)] by metis
    moreover have "run_state (EnsureConfigFileHasConfigurationLine p line) w' = (Inr (), tick w')"
      using c(2,3) ff
      by (auto simp: EnsureConfigFileHasConfigurationLine_def run_onErr run_PipeFile file_content_def
          has_line_def split: option.splits node.splits)
    ultimately show ?thesis by (auto simp: run_HasConfigFile [OF ff])
  qed
  show "files w' = files w" if "r \<noteq> Inr ()"
    using assms that WriteFile_err
    by (fastforce simp: EnsureConfigFileHasConfigurationLine_def run_onErr run_PipeFile Let_def
        split: option.splits node.splits prod.splits sum.splits if_splits)
  show "r = Inr () \<longleftrightarrow> (\<exists>c. file_content w p = Some c)"
  proof
    show "r = Inr ()" if "\<exists>c. file_content w p = Some c"
      using that assms(1,3)
      by (auto simp: EnsureConfigFileHasConfigurationLine_def run_onErr run_PipeFile Let_def file_content_def
          WriteFile_def run_fs_call lookup_node_def split: option.splits node.splits if_splits)
    show "\<exists>c. file_content w p = Some c" if "r = Inr ()"
      using that assms(3) by (auto elim: EnsureConfigFile_ok [OF _ assms(2)])
  qed
qed

lemma ensure_config_line_witness:
  "fst (run_state (EnsureConfigFileHasConfigurationLine RcConfFile RcConfIkniteNeedsNetworking)
     (calm_world [RcConfFile \<mapsto> File (''unicode=YES'' @ NL) mode644])) = Inr ()"
  using ensure_config_line [OF _ plain_rc_lines(2) surjective_pairing,
      of "calm_world [RcConfFile \<mapsto> File (''unicode=YES'' @ NL) mode644]" RcConfFile]
  by (simp add: file_content_def)


text \<open>A machine on which the preparation succeeds.\<close>

definition ready_machine :: world where
  "ready_machine = (calm_world [''/proc/sys/net/bridge'' \<mapsto> Directory,
     cgroup_subtree_control \<mapsto> File ''cpuset cpu'' mode644, RcConfFile \<mapsto> File [] mode644])
       \<lparr>interfaces_result := (\<lambda>_. Inr [Inr [IPv4 192 168 99 2]]), resolver_result := (\<lambda>_ _. Inr [IPv4 192 168 99 2])\<rparr>"

lemma ready_machine_calm: "fs_fault ready_machine = (\<lambda>_ _. None)"
  by (simp add: ready_machine_def)

definition no_txeh :: "unit txeh" where
  "no_txeh = \<lparr>NewHosts = (\<lambda>_. Inr ()), RemoveAddresses = (\<lambda>_ h. h), AddHost = (\<lambda>_ _ h. h), RemoveHost = (\<lambda>_ h. h),
     SaveHosts = (\<lambda>_ fs. Inr fs), HostAddressLookup = (\<lambda>_ _. None)\<rparr>"

lemma ready_machine_prepared:
  "fst (run_state (PrepareKubernetesEnvironment no_txeh ''1234'' (with_defaults True zero_spec)) ready_machine) = Inr ()"
  by code_simp


end
