(* ===== verification/Cleaner.thy ===== *)
theory Cleaner
  imports Runtime_Env
begin

text \<open>
  Cleaning the machine: the \<^verbatim>\<open>Cleaner\<close> of \<^verbatim>\<open>pkg/k8s/clean.go\<close>, the reset phases of
  \<^verbatim>\<open>pkg/k8s/phases/reset\<close> and \<^verbatim>\<open>iknite clean\<close> (\<^verbatim>\<open>pkg/cmd/clean.go\<close>).

  A script pipe that has failed does nothing more and carries its error to the end, which is how
  \<open>ExecPipe\<close> and the stages after it are composed here. The \<^verbatim>\<open>jq\<close> filter, the hosts file
  library, the decoder of static pod manifests, the JSON decoder of the status and the order in
  which a directory is listed are the fields of \<open>tools\<close>; the constants of kubeadm are those of
  \<open>kubeadm_paths\<close>.
\<close>

section \<open>Libraries the cleaner uses\<close>

text \<open>A decoded manifest: a pod with its volumes (name and host path, if it is a host path volume).\<close>

datatype kobject = Pod "(string \<times> string option) list" | OtherObject

record 'h tools =
  jq :: "string \<Rightarrow> error + string list"
  hosts_lib :: "'h txeh"
  parseIP :: "string \<Rightarrow> ip option"
  UniversalUnmarshal :: "string \<Rightarrow> error + kobject"
  unmarshal_cluster :: "string \<Rightarrow> error + IkniteCluster"
  dir_order :: "tree \<Rightarrow> string \<Rightarrow> string list"

record kubeadm_paths =
  KubernetesDir :: string
  ManifestsSubDirName :: string
  KubeletRunDirectory :: string
  DefaultCertificatesDir :: string
  TempDir :: string
  ConfigFileNames :: "string list"

definition KubernetesRootConfig :: string where "KubernetesRootConfig = ''/root/.kube/config''"
definition ContainerServiceName :: string where "ContainerServiceName = ''containerd''"
definition EtcdBackendName :: string where "EtcdBackendName = ''etcd''"

record Cleaner =
  ikniteConfig :: IkniteClusterSpec
  isDryRun :: bool

definition unlines :: "string list \<Rightarrow> string" where
  "unlines ls = concat (map (\<lambda>l. l @ NL) ls)"

section \<open>The steps of the cleaner\<close>

definition ResetIPAddress :: "'h tools \<Rightarrow> Cleaner \<Rightarrow> ('x, unit) io" where
  "ResetIPAddress t c =
     (if \<not> CreateIp (ikniteConfig c) then ret ()
      else State_Monad.bind (gets files) (\<lambda>fs. case NewHosts (hosts_lib t) fs of
        Inl e \<Rightarrow> throw (Wrap ''failed to create hosts file handler'' e)
      | Inr hosts \<Rightarrow> (case IpMappingForHost (hosts_lib t) (parseIP t) hosts (DomainName (ikniteConfig c)) of
          Inl e \<Rightarrow> ret ()
        | Inr address \<Rightarrow>
            (let ipWithMask = ip_opt_String address @ ''/'' @ nat_digits (default_mask_size address);
                 prefix = (if isDryRun c then ''echo '' else '''')
             in onErr (ExecPipe [] ''ip -br -4 a sh'') (Wrap ''failed to delete IP address'') (\<lambda>out.
                onErr (ExecForEach (\<lambda>dev. prefix @ ''ip addr del '' @ ipWithMask @ '' dev '' @ dev)
                         (column_lines 1 (match_lines ipWithMask (lines_of out))))
                  (Wrap ''failed to delete IP address'') (\<lambda>_.
                if \<not> isDryRun c then
                  State_Monad.bind (gets files) (\<lambda>fs.
                    case SaveHosts (hosts_lib t) (RemoveHost (hosts_lib t) (DomainName (ikniteConfig c)) hosts) fs of
                      Inl e \<Rightarrow> throw (Wrap ''failed to save hosts file'' e)
                    | Inr fs' \<Rightarrow> State_Monad.bind (modify (\<lambda>w. w\<lparr>files := fs'\<rparr>)) (\<lambda>_. ret ()))
                else ret ()))))))"

definition kube_rules_removed :: "string list \<Rightarrow> string list" where
  "kube_rules_removed ls = reject_lines ''FLANNEL'' (reject_lines ''CNI-'' (reject_lines ''KUBE-'' ls))"

definition reset_tables :: "string \<Rightarrow> string \<Rightarrow> ('x, unit) io" where
  "reset_tables saveCmd restoreCmd =
     onErr (ExecPipe [] saveCmd) id (\<lambda>out.
       onErr (ExecPipe (unlines (kube_rules_removed (lines_of out))) restoreCmd) id (\<lambda>_. ret ()))"

definition ResetIPTables :: "Cleaner \<Rightarrow> ('x, unit) io" where
  "ResetIPTables c =
     onErr (if \<not> isDryRun c then reset_tables ''iptables-save'' ''iptables-restore'' else ret ())
       (Wrap ''failed to clean up iptables rules'') (\<lambda>_.
     onErr (if \<not> isDryRun c then reset_tables ''ip6tables-save'' ''ip6tables-restore'' else ret ())
       (Wrap ''failed to clean up ip6tables rules'') (\<lambda>_. ret ()))"

definition kubeletDataRemoveCommand :: string where
  "kubeletDataRemoveCommand = ''sh -c '' @ [CHR 0x27] @
     ''rm -rf /var/lib/kubelet/{cpu_manager_state,memory_manager_state} /var/lib/kubelet/pods/*'' @ [CHR 0x27]"

definition RemoveKubeletFiles :: "Cleaner \<Rightarrow> ('x, unit) io" where
  "RemoveKubeletFiles c =
     (if isDryRun c then ret ()
      else State_Monad.bind (run_command (Pipe kubeletDataRemoveCommand [])) (\<lambda>(out, err). case err of
             Some e \<Rightarrow> throw (Wrap (''failed to remove kubelet files: '' @ out) e)
           | None \<Rightarrow> ret ()))"

definition stop_containers_command :: string where
  "stop_containers_command = ''/bin/sh -c '' @ [CHR 0x27] @ ''crictl rmp -f $(crictl pods -q)'' @ [CHR 0x27]"

definition StopAllContainers :: "Cleaner \<Rightarrow> ('x, unit) io" where
  "StopAllContainers c =
     (if isDryRun c then ret ()
      else onErr (ExecPipe [] stop_containers_command) (Wrap ''failed to stop all containers'') (\<lambda>_. ret ()))"

definition pathsToUnmount :: "string list" where
  "pathsToUnmount = [''/var/lib/kubelet/pods'', ''/var/lib/kubelet/plugins'', ''/var/lib/kubelet'']"

definition pathsToUnmountAndRemove :: "string list" where
  "pathsToUnmountAndRemove = [''/run/containerd'', ''/run/netns'', ''/run/ipcns'', ''/run/utsns'']"

text \<open>
  \<^verbatim>\<open>processMounts\<close>: the errors of \<^verbatim>\<open>Unmount\<close> and \<^verbatim>\<open>RemoveAll\<close> are kept in a variable
  that is overwritten by the error of the pipe, so they are dropped.
\<close>

definition process_mount :: "bool \<Rightarrow> bool \<Rightarrow> string \<Rightarrow> ('x world_scheme, unit) state" where
  "process_mount remove dryRun s =
     (if \<not> dryRun then State_Monad.bind (Unmount s) (\<lambda>r. case r of
         Inl e \<Rightarrow> skip
       | Inr _ \<Rightarrow> if remove then ignoreErr (RemoveAll s) else skip)
      else skip)"

definition processMounts :: "string \<Rightarrow> bool \<Rightarrow> bool \<Rightarrow> ('x, unit) io" where
  "processMounts path remove dryRun = State_Monad.bind (EvalSymlinks path) (\<lambda>r. case r of
       Inl e \<Rightarrow> if errors_Is e ErrNotExist then ret ()
                else throw (Wrap (''failed to evaluate symlinks for path '' @ path) e)
     | Inr path \<Rightarrow> onErr (PipeFile ''/proc/self/mounts'') (Wrap (''failed to process mounts for path '' @ path)) (\<lambda>ls.
         State_Monad.bind (forS (process_mount remove dryRun) (match_lines path (column_lines 2 ls))) (\<lambda>_.
           ret ())))"

text \<open>A step whose error ends the run only when \<open>failOnError\<close> is set.\<close>

definition run_step :: "bool \<Rightarrow> ('x, unit) io \<Rightarrow> ('x, unit) io" where
  "run_step failOnError m = State_Monad.bind m (\<lambda>r. case r of
       Inl e \<Rightarrow> if failOnError then throw e else ret ()
     | Inr _ \<Rightarrow> ret ())"

definition UnmountPaths :: "Cleaner \<Rightarrow> bool \<Rightarrow> ('x, unit) io" where
  "UnmountPaths c failOnError =
     onErr (forE (\<lambda>path. run_step failOnError (processMounts path False (isDryRun c))) pathsToUnmount) id (\<lambda>_.
     forE (\<lambda>path. run_step failOnError (processMounts path True (isDryRun c))) pathsToUnmountAndRemove)"

definition DeleteCniNamespaces :: "Cleaner \<Rightarrow> ('x, unit) io" where
  "DeleteCniNamespaces c =
     (let command = (\<lambda>ns. (if isDryRun c then ''echo '' else '''') @ ''ip netns delete '' @ ns)
      in onErr (ExecPipe [] ''ip netns show'') (Wrap ''failed to delete CNI namespaces'') (\<lambda>out.
         onErr (ExecForEach command (column_lines 1 (lines_of out)))
           (Wrap ''failed to delete CNI namespaces'') (\<lambda>_. ret ())))"

text \<open>\<^verbatim>\<open>s[1 : len(s)-1]\<close> takes the quotes off a JSON string.\<close>

definition DeleteNetworkInterfaces :: "'h tools \<Rightarrow> Cleaner \<Rightarrow> ('x, unit) io" where
  "DeleteNetworkInterfaces t c =
     (let prefix = (if isDryRun c then ''echo '' else '''')
      in onErr (ExecPipe [] ''ip -j link show'') (Wrap ''failed to delete network interfaces'') (\<lambda>out.
         case jq t out of
           Inl e \<Rightarrow> throw (Wrap ''failed to delete network interfaces'' e)
         | Inr ls \<Rightarrow>
             onErr (ExecForEach (\<lambda>s. prefix @ ''ip link delete '' @ butlast (tl s)) ls)
               (Wrap ''failed to delete network interfaces'') (\<lambda>_. ret ())))"

definition CleanAll :: "'h tools \<Rightarrow> Cleaner \<Rightarrow> bool \<Rightarrow> bool \<Rightarrow> bool \<Rightarrow> ('x, unit) io" where
  "CleanAll t c resetIpAddress resetIpTables failOnError =
     forE (run_step failOnError)
       ([StopAllContainers c, UnmountPaths c failOnError, RemoveKubeletFiles c, DeleteCniNamespaces c,
         DeleteNetworkInterfaces t c] @
        (if resetIpTables then [ResetIPTables c] else []) @
        (if resetIpAddress then [ResetIPAddress t c] else []))"

definition ReadStaticPodFromDisk :: "'h tools \<Rightarrow> string \<Rightarrow> ('x, (string \<times> string option) list) io" where
  "ReadStaticPodFromDisk t manifestPath =
     onErr (ReadFile manifestPath) (Wrap (''failed to read manifest for '' @ manifestPath)) (\<lambda>buf.
       case UniversalUnmarshal t buf of
         Inl e \<Rightarrow> throw (Wrap (''failed to unmarshal manifest for '' @ manifestPath) e)
       | Inr (Pod vs) \<Rightarrow> ret vs
       | Inr OtherObject \<Rightarrow> throw (Errorf (''failed to parse Pod object defined in '' @ manifestPath)))"

text \<open>The database directory: the host path of the data volume if the manifest has one.\<close>

definition data_directory :: "string \<Rightarrow> string \<Rightarrow> (string \<times> string option) list \<Rightarrow> error + string" where
  "data_directory apiBackendName dir vs = (case find (\<lambda>v. fst v = apiBackendName @ ''-data'') vs of
       None \<Rightarrow> Inr dir
     | Some (_, Some hostPath) \<Rightarrow> Inr hostPath
     | Some (_, None) \<Rightarrow> Inl (Panic ''nil pointer dereference''))"

definition DeleteAPIBackendData ::
  "'h tools \<Rightarrow> kubeadm_paths \<Rightarrow> Cleaner \<Rightarrow> string \<Rightarrow> string \<Rightarrow> ('x, unit) io"
where
  "DeleteAPIBackendData t k c apiBackendName apiBackendDatabaseDirectory =
     (let apiBackendManifestPath =
            path_join (path_join (KubernetesDir k) (ManifestsSubDirName k)) (apiBackendName @ ''.yaml'')
      in onErr (State_Monad.bind (ReadStaticPodFromDisk t apiBackendManifestPath) (\<lambda>r. case r of
             Inl e \<Rightarrow> if \<not> errors_Is e ErrNotExist
                      then throw (Wrap ''failed to read API backend pod from disk'' e)
                      else ret apiBackendDatabaseDirectory
           | Inr vs \<Rightarrow> State_Monad.return (data_directory apiBackendName apiBackendDatabaseDirectory vs))) id
         (\<lambda>dir. if isDryRun c then ret ()
                else onErr (CleanDir (dir_order t) dir) (Wrap ''failed to delete API backend data'') (\<lambda>_. ret ())))"

section \<open>The reset phases\<close>

definition OpenDir :: "string \<Rightarrow> ('x, unit) io" where
  "OpenDir p = fs_call (FOpen p) (\<lambda>fs. (case lookup_node fs p of None \<Rightarrow> Inl ErrNotExist | Some n \<Rightarrow> Inr (), fs))"

definition reset_CleanDir :: "'h tools \<Rightarrow> string \<Rightarrow> ('x, unit) io" where
  "reset_CleanDir t filePath = State_Monad.bind (Stat filePath) (\<lambda>r.
     if (case r of Inl e \<Rightarrow> errors_Is e ErrNotExist | Inr _ \<Rightarrow> False) then ret ()
     else onErr (OpenDir filePath) (Wrap ''failed to open directory for cleanup'') (\<lambda>_.
       onErr (ReadDir (dir_order t) filePath) (Wrap ''failed to read directory names'') (\<lambda>names.
         forE (\<lambda>name. onErr (RemoveAll (path_join filePath name)) (Wrap (''failed to remove '' @ name))
                 (\<lambda>_. ret ())) names)))"

definition resetConfigDir ::
  "'h tools \<Rightarrow> kubeadm_paths \<Rightarrow> string \<Rightarrow> string list \<Rightarrow> bool \<Rightarrow> ('x world_scheme, unit) state"
where
  "resetConfigDir t k configPathDir dirsToClean dryRun =
     State_Monad.bind
       (if \<not> dryRun then forS (\<lambda>dir. ignoreErr (reset_CleanDir t dir)) dirsToClean else skip) (\<lambda>_.
       (let filesToClean = map (path_join configPathDir) (ConfigFileNames k)
        in if \<not> dryRun then forS (\<lambda>path. ignoreErr (RemoveAll path)) filesToClean else skip))"

definition CleanConfig :: "'h tools \<Rightarrow> kubeadm_paths \<Rightarrow> bool \<Rightarrow> ('x world_scheme, unit) state" where
  "CleanConfig t k dryRun =
     resetConfigDir t k (KubernetesDir k)
       [path_join (KubernetesDir k) (ManifestsSubDirName k), KubeletRunDirectory k, DefaultCertificatesDir k] dryRun"

text \<open>
  The data of the reset workflow. \<open>removeUsers\<close> is kubeadm's removal of the users of a rootless
  control plane, \<open>rootless\<close> whether that feature is on.
\<close>

record IkniteResetData =
  reset_DryRun :: bool
  CertificatesDir :: string
  CleanupTmpDir :: bool
  rootless :: bool
  reset_Spec :: IkniteClusterSpec

definition runCleanupConfig ::
  "'h tools \<Rightarrow> kubeadm_paths \<Rightarrow> ('x, unit) io \<Rightarrow> IkniteResetData \<Rightarrow> ('x, unit) io"
where
  "runCleanupConfig t k removeUsers r =
     State_Monad.bind
       (if \<not> reset_DryRun r
        then State_Monad.bind (EvalSymlinks (KubeletRunDirectory k)) (\<lambda>e. State_Monad.return
               (case e of Inl _ \<Rightarrow> [] | Inr kubeletRunDirectory \<Rightarrow> [kubeletRunDirectory]))
        else State_Monad.return []) (\<lambda>kubeletDirs.
     (let dirsToClean = [path_join (KubernetesDir k) (ManifestsSubDirName k)] @ kubeletDirs @ [CertificatesDir r] @
            (if CleanupTmpDir r then [path_join (KubernetesDir k) (TempDir k)] else [])
      in State_Monad.bind (resetConfigDir t k (KubernetesDir k) dirsToClean (reset_DryRun r)) (\<lambda>_.
         State_Monad.bind (if rootless r \<and> \<not> reset_DryRun r then ignoreErr removeUsers else skip) (\<lambda>_. ret ()))))"

definition runCleanupNode :: "'h tools \<Rightarrow> IkniteResetData \<Rightarrow> ('x, unit) io" where
  "runCleanupNode t r =
     onErr (CleanAll t \<lparr>ikniteConfig = reset_Spec r, isDryRun = reset_DryRun r\<rparr> True True True)
       (Wrap ''failed to cleanup node'') (\<lambda>_. ret ())"

definition runCleanupService :: "(error + (string \<Rightarrow> ('x, unit) io)) \<Rightarrow> IkniteResetData \<Rightarrow> ('x, unit) io" where
  "runCleanupService initSystem r = (case initSystem of
       Inl e \<Rightarrow> ret ()
     | Inr serviceStop \<Rightarrow>
         if \<not> reset_DryRun r then State_Monad.bind (ignoreErr (serviceStop ''iknite'')) (\<lambda>_. ret ()) else ret ())"

section \<open>iknite clean\<close>

record cleanOptions =
  dryRun :: bool
  cleanAll :: bool
  stopContainers :: bool
  stopContainerd :: bool
  unmountPaths :: bool
  cleanCni :: bool
  cleanIptables :: bool
  cleanAPIBackend :: bool
  cleanClusterConfig :: bool
  cleanIpAddress :: bool

definition newCleanOptions :: cleanOptions where
  "newCleanOptions = \<lparr>dryRun = False, cleanAll = False, stopContainers = True, stopContainerd = False,
     unmountPaths = True, cleanCni = True, cleanIptables = True, cleanAPIBackend = False,
     cleanClusterConfig = False, cleanIpAddress = False\<rparr>"

definition hasActualWorkToDo :: "cleanOptions \<Rightarrow> bool" where
  "hasActualWorkToDo o' \<longleftrightarrow> stopContainers o' \<or> stopContainerd o' \<or> unmountPaths o' \<or> cleanCni o' \<or>
     cleanIptables o' \<or> cleanAPIBackend o' \<or> cleanIpAddress o' \<or> cleanClusterConfig o' \<or> cleanAll o'"

definition validate :: "cleanOptions \<Rightarrow> cleanOptions" where
  "validate o' = (if cleanAll o' then o'\<lparr>stopContainers := True, stopContainerd := True, unmountPaths := True,
     cleanCni := True, cleanIptables := True, cleanAPIBackend := True, cleanIpAddress := True,
     cleanClusterConfig := True\<rparr> else o')"

text \<open>The last step of \<^verbatim>\<open>performClean\<close>: a kubelet that is still running is stopped.\<close>

definition stop_kubelet :: "bool \<Rightarrow> ('x, unit) io" where
  "stop_kubelet dry = State_Monad.bind (CheckPidFile ''kubelet'') (\<lambda>r. case r of
       Inl e \<Rightarrow> ret ()
     | Inr None \<Rightarrow> ret ()
     | Inr (Some pid) \<Rightarrow>
         if \<not> dry then State_Monad.bind (process_Signal pid SIGTERM) (\<lambda>s. case s of
             Inl e \<Rightarrow> ret ()
           | Inr _ \<Rightarrow> onErr (process_Wait pid) (Wrap ''failed to wait for kubelet process to stop'') (\<lambda>_. ret ()))
         else ret ())"

text \<open>The steps after the cluster has been found stopped, in order, each with its own reporting.\<close>

definition clean_steps ::
  "'h tools \<Rightarrow> kubeadm_paths \<Rightarrow> Cleaner \<Rightarrow> cleanOptions \<Rightarrow> ('x, unit) io list"
where
  "clean_steps t k c o' =
     (let dry = isDryRun c in
      (if stopContainers o' then [run_step False (StopAllContainers c)] else []) @
      (if stopContainerd o' \<and> \<not> dry
       then [onErr (StopService ContainerServiceName) (Wrap ''failed to stop container service'') (\<lambda>_. ret ())] else []) @
      (if unmountPaths o'
       then [onErr (UnmountPaths c True) (Wrap ''failed to unmount paths'') (\<lambda>_. ret ()),
             onErr (RemoveKubeletFiles c) (Wrap ''failed to remove kubelet runtime files'') (\<lambda>_. ret ())] else []) @
      (if cleanCni o'
       then [onErr (DeleteCniNamespaces c) (Wrap ''failed to delete CNI namespaces'') (\<lambda>_. ret ()),
             onErr (DeleteNetworkInterfaces t c) (Wrap ''failed to delete network interfaces'') (\<lambda>_. ret ())] else []) @
      (if cleanIptables o'
       then [onErr (ResetIPTables c) (Wrap ''failed to reset iptables'') (\<lambda>_. ret ())] else []) @
      (if cleanIpAddress o' then [run_step False (ResetIPAddress t c)] else []) @
      (if cleanAPIBackend o'
       then [onErr (DeleteAPIBackendData t k c (if UseEtcd (ikniteConfig c) then EtcdBackendName else ''kine'')
                      (APIBackendDatabaseDirectory (ikniteConfig c)))
               (Wrap ''failed to delete API backend data'') (\<lambda>_. ret ())] else []) @
      (if cleanClusterConfig o'
       then [State_Monad.bind (CleanConfig t k dry) (\<lambda>_.
               if \<not> dry then onErr (RemoveAll KubernetesRootConfig) (Wrap ''failed to remove kubernetes root config'') (\<lambda>_. ret ())
               else ret ())] else []))"

definition performClean ::
  "'h tools \<Rightarrow> kubeadm_paths \<Rightarrow> IkniteClusterSpec \<Rightarrow> cleanOptions \<Rightarrow> ('x, unit) io"
where
  "performClean t k spec o' =
     (if \<not> hasActualWorkToDo o' then ret ()
      else State_Monad.bind (LoadIkniteCluster (unmarshal_cluster t)) (\<lambda>r.
        (let (state, spec) = (case r of Inl e \<Rightarrow> (Undefined, spec) | Inr cl \<Rightarrow> (ClState (Status cl), Spec cl));
             c = \<lparr>ikniteConfig = spec, isDryRun = dryRun o'\<rparr>
         in if \<not> state_Stable state
            then throw (Errorf (''cluster is not in a stable state: '' @ state_String state))
            else onErr (if state = Running \<and> \<not> dryRun o'
                        then onErr (StopService IkniteService) (Wrap ''failed to stop iknite service'') (\<lambda>_. ret ())
                        else ret ()) id (\<lambda>_.
                 onErr (forE id (clean_steps t k c o')) id (\<lambda>_.
                   stop_kubelet (dryRun o'))))))"

section \<open>Dry runs\<close>

text \<open>The commands a dry run may execute: three that only list, and \<^verbatim>\<open>echo\<close>.\<close>

definition dry_command :: "command \<Rightarrow> bool" where
  "dry_command c \<longleftrightarrow> (case c of
       Pipe cmd input \<Rightarrow> cmd \<in> {''ip -br -4 a sh'', ''ip netns show'', ''ip -j link show''} \<or> HasPrefix cmd ''echo ''
     | Cmd _ _ \<Rightarrow> False)"

definition dry_events :: "event set" where
  "dry_events = {Ran c | c. dry_command c} \<union> {Signaled pid Signal0 | pid. True}"

definition dry_commands_harmless :: "'x world_scheme \<Rightarrow> bool" where
  "dry_commands_harmless w \<longleftrightarrow> (\<forall>t c fs. dry_command c \<longrightarrow> cmd_effect w t c fs = fs)"

definition dry_rel :: "'x world_scheme \<Rightarrow> 'x world_scheme \<Rightarrow> bool" where
  "dry_rel w w' \<longleftrightarrow> same_oracle w w' \<and> acts_only dry_events w w' \<and> (dry_commands_harmless w \<longrightarrow> files w' = files w)"

interpretation dr: frame "dry_rel :: 'x world_scheme \<Rightarrow> 'x world_scheme \<Rightarrow> bool"
proof (unfold_locales, goal_cases)
  case (1 s) then show ?case by (simp add: dry_rel_def so.R_refl ao.R_refl)
next
  case (2 s t u)
  then have "dry_commands_harmless s \<Longrightarrow> dry_commands_harmless t"
    by (auto simp: dry_commands_harmless_def dry_rel_def same_oracle_simps)
  with 2 show ?case by (auto simp: dry_rel_def intro: so.R_trans ao.R_trans)
qed

lemma dry_relI:
  "state_io_rel same_oracle m \<Longrightarrow> state_io_rel same_files m \<Longrightarrow> state_io_rel (acts_only dry_events) m \<Longrightarrow>
   state_io_rel dry_rel m"
  by (rule state_io_relI) (auto simp: dry_rel_def same_files_def dest: state_io_relD)

lemma run_command_dry [frame_intros]: "dry_command c \<Longrightarrow> state_io_rel dry_rel (run_command c)"
  by (rule state_io_relI)
    (auto simp: dry_rel_def run_command_def dry_commands_harmless_def acts_only_def dry_events_def
      same_oracle_def tick_def)

lemma ExecPipe_dry [frame_intros]: "dry_command (Pipe c i) \<Longrightarrow> state_io_rel dry_rel (ExecPipe i c)"
  unfolding ExecPipe_def
  by (intro dr.frame_bind run_command_dry) (auto intro: dr.frame_rules split: option.splits)

lemma ExecForEach_dry [frame_intros]:
  assumes "\<And>l. dry_command (Pipe (mk l) [])"
  shows "state_io_rel dry_rel (ExecForEach mk ls)"
proof -
  have "state_io_rel dry_rel (State (\<lambda>w :: 'a world_scheme.
     (case pipe_result w (clock w) of Some e \<Rightarrow> Inl e | None \<Rightarrow> Inr (), tick w)))"
    by (auto simp: dry_rel_def same_oracle_def tick_def acts_only_def)
  then show ?thesis unfolding ExecForEach_def run_line_def
    by (intro dr.frame_bind dr.frame_forS run_command_dry dr.frame_return assms)
qed

lemma gets_dry [frame_intros]: "state_io_rel dry_rel (gets f)"
  by (auto simp: dry_rel_def same_oracle_def acts_only_def)

lemma read_ops_dry [frame_intros]:
  "state_io_rel dry_rel (ReadFile p)" "state_io_rel dry_rel (EvalSymlinks p)" "state_io_rel dry_rel (PipeFile p)"
  "state_io_rel dry_rel (ReadDir ord p)" "state_io_rel dry_rel (Stat p)"
  by (intro dry_relI frame_intros)+

lemma dry_command_simps [simp]:
  "dry_command (Pipe ''ip -br -4 a sh'' i)" "dry_command (Pipe ''ip netns show'' i)"
  "dry_command (Pipe ''ip -j link show'' i)"
  "dry_command (Pipe (CHR ''e'' # CHR ''c'' # CHR ''h'' # CHR ''o'' # CHR '' '' # s) i)"
  by (simp_all add: dry_command_def HasPrefix_def)

lemma step_frames:
  "state_io_rel R m \<Longrightarrow> frame R \<Longrightarrow> state_io_rel R (run_step f m)"
  unfolding run_step_def by (intro frame.frame_rules) auto

lemma cleaner_dry:
  assumes "isDryRun c"
  shows "state_io_rel dry_rel (StopAllContainers c)" "state_io_rel dry_rel (UnmountPaths c f)"
    "state_io_rel dry_rel (RemoveKubeletFiles c)" "state_io_rel dry_rel (DeleteCniNamespaces c)"
    "state_io_rel dry_rel (DeleteNetworkInterfaces t c)" "state_io_rel dry_rel (ResetIPTables c)"
    "state_io_rel dry_rel (ResetIPAddress t c)" "state_io_rel dry_rel (DeleteAPIBackendData t k c n d)"
    "state_io_rel dry_rel (CleanConfig t k (isDryRun c))"
  unfolding StopAllContainers_def UnmountPaths_def RemoveKubeletFiles_def DeleteCniNamespaces_def
    DeleteNetworkInterfaces_def ResetIPTables_def ResetIPAddress_def DeleteAPIBackendData_def
    processMounts_def process_mount_def Let_def ReadStaticPodFromDisk_def CleanConfig_def resetConfigDir_def
    run_step_def
  by (intro dr.frame_rules frame_intros; simp add: assms dr.frame_rules split: kobject.split)+

lemma clean_steps_dry:
  assumes "isDryRun c" and "m \<in> set (clean_steps t k c o')"
  shows "state_io_rel dry_rel m"
  using assms(2) cleaner_dry [OF assms(1)] assms(1)
  by (auto simp: clean_steps_def Let_def run_step_def split: if_splits intro!: dr.frame_rules)

lemma performClean_dry_prefix:
  fixes w :: "'x world_scheme"
  assumes "dryRun o'" and run: "run_state (performClean t k spec o') w = (r, w')"
  shows "\<exists>w1. dry_rel w w1 \<and> (w' = w1 \<or> run_state (stop_kubelet True) w1 = (r, w'))"
proof -
  define body :: "('x, unit) io" where "body = State_Monad.bind (LoadIkniteCluster (unmarshal_cluster t)) (\<lambda>r.
        (let (state, spec) = (case r of Inl e \<Rightarrow> (Undefined, spec) | Inr cl \<Rightarrow> (ClState (Status cl), Spec cl));
             c = \<lparr>ikniteConfig = spec, isDryRun = True\<rparr>
         in if \<not> state_Stable state
            then throw (Errorf (''cluster is not in a stable state: '' @ state_String state))
            else onErr (forE id (clean_steps t k c o')) id (\<lambda>_. ret ())))"
  have body: "state_io_rel dry_rel body"
    unfolding body_def Let_def
    by (intro dr.frame_rules dry_relI frame_intros clean_steps_dry) (auto intro: clean_steps_dry)
  show ?thesis
  proof (cases "hasActualWorkToDo o'")
    case False
    with run show ?thesis by (auto simp: performClean_def dr.R_refl intro: exI [of _ w])
  next
    case True
    obtain r1 w1 where b: "run_state body w = (r1, w1)" by (cases "run_state body w")
    with True run assms(1) have "w' = w1 \<or> run_state (stop_kubelet True) w1 = (r, w')"
      by (auto simp: performClean_def body_def run_onErr Let_def
          split: prod.splits sum.splits if_splits)
    with state_io_relD [OF body b] show ?thesis by blast
  qed
qed

lemma stop_kubelet_dry:
  assumes "run_state (stop_kubelet True) w = (r, w')"
  shows "acts_only dry_events w w'"
    and "files w' = files w \<or> (\<exists>p \<in> {''/run/kubelet.pid'', ''/var/run/supervise-kubelet.pid''}. files w' = (files w)(p := None))"
proof -
  have "state_io_rel (acts_only dry_events) (stop_kubelet True)"
    unfolding stop_kubelet_def CheckPidFile_def read_pid_file_def process_alive_def
    by (intro ao.frame_rules frame_intros) (auto simp: dry_events_def)
  from state_io_relD [OF this assms] show "acts_only dry_events w w'" .
  obtain r1 where "run_state (CheckPidFile ''kubelet'') w = (r1, w')"
    using assms by (auto simp: stop_kubelet_def split: prod.splits sum.splits option.splits)
  then show "files w' = files w \<or> (\<exists>p \<in> {''/run/kubelet.pid'', ''/var/run/supervise-kubelet.pid''}. files w' = (files w)(p := None))"
    using CheckPidFile_files [of "''kubelet''" w r1 w'] by (simp add: ServicePidFilePath_def SupervisePidFilePath_def)
qed

section \<open>Properties\<close>

text \<open>
  C19: A dry run of \<^verbatim>\<open>iknite clean\<close>, with any options, executes only listing commands and
  \<^verbatim>\<open>echo\<close>, sends no signal that could stop a process, unmounts nothing and, as long as those
  commands do not write files, leaves the file tree as it is, with one exception: a stale pid file
  of the kubelet may be removed.
\<close>

theorem clean_dry_run:
  assumes "run_state (performClean t k spec o') w = (r, w')" and "dryRun o'"
    and "dry_commands_harmless w"
  shows "acts_only dry_events w w' \<and>
         (files w' = files w \<or>
          (\<exists>p \<in> {''/run/kubelet.pid'', ''/var/run/supervise-kubelet.pid''}. files w' = (files w)(p := None)))"
proof -
  from performClean_dry_prefix [OF assms(2,1)] obtain w1 where w1: "dry_rel w w1"
    and or: "w' = w1 \<or> run_state (stop_kubelet True) w1 = (r, w')" by blast
  from w1 assms(3) have a: "acts_only dry_events w w1" and f: "files w1 = files w"
    by (auto simp: dry_rel_def)
  from or show ?thesis
  proof
    assume "run_state (stop_kubelet True) w1 = (r, w')"
    from stop_kubelet_dry [OF this] f ao.R_trans [OF a] show ?thesis by simp
  qed (use a f in auto)
qed

text \<open>
  C27: \<^verbatim>\<open>iknite clean\<close> never touches a cluster that is between two states: when the status file
  holds an unstable state, the command fails having only read that file.
\<close>

theorem clean_refuses_unstable:
  assumes "run_state (performClean t k spec o') w = (r, w')" and "hasActualWorkToDo o'"
    and "fs_fault w = (\<lambda>_ _. None)" and "file_content w StatusFile = Some json"
    and "unmarshal_cluster t json = Inr cl" and "\<not> state_Stable (ClState (Status cl))"
  shows "(\<exists>m. r = Inl (Errorf m)) \<and> w' = tick w"
proof -
  have "run_state (LoadIkniteCluster (unmarshal_cluster t)) w = (Inr cl, tick w)"
    using assms(3-5)
    by (auto simp: LoadIkniteCluster_def run_ReadFile file_content_def split: option.splits node.splits)
  with assms(1,2,6) show ?thesis by (auto simp: performClean_def)
qed

text \<open>
  An instance of the parameters, used by the witnesses: the documented constants of kubeadm and
  libraries that find nothing.
\<close>

definition kubeadm_doc_paths :: kubeadm_paths where
  "kubeadm_doc_paths = \<lparr>KubernetesDir = ''/etc/kubernetes'', ManifestsSubDirName = ''manifests'',
     KubeletRunDirectory = ''/var/lib/kubelet'', DefaultCertificatesDir = ''/etc/kubernetes/pki'', TempDir = ''tmp'',
     ConfigFileNames = [''admin.conf'', ''super-admin.conf'', ''kubelet.conf'', ''bootstrap-kubelet.conf'',
       ''controller-manager.conf'', ''scheduler.conf'']\<rparr>"

definition sample_cluster :: "ClusterState \<Rightarrow> IkniteCluster" where
  "sample_cluster st = \<lparr>Kind = ''IkniteCluster'', APIVersion = [], Spec = with_defaults True zero_spec,
     Status = zero_status\<lparr>ClState := st\<rparr>\<rparr>"

definition sample_tools :: "ClusterState \<Rightarrow> unit tools" where
  "sample_tools st = \<lparr>jq = (\<lambda>_. Inr []), hosts_lib = no_txeh, parseIP = (\<lambda>_. None),
     UniversalUnmarshal = (\<lambda>_. Inr (Pod [])), unmarshal_cluster = (\<lambda>_. Inr (sample_cluster st)),
     dir_order = (\<lambda>_ _. [])\<rparr>"

theorem clean_dry_run_witness:
  "acts_only dry_events (calm_world Map.empty)
     (snd (run_state (performClean (sample_tools Running) kubeadm_doc_paths (with_defaults True zero_spec)
        (validate (newCleanOptions\<lparr>dryRun := True, cleanAll := True\<rparr>))) (calm_world Map.empty)))"
  using clean_dry_run [OF surjective_pairing, of "validate (newCleanOptions\<lparr>dryRun := True, cleanAll := True\<rparr>)"
      "calm_world Map.empty" "sample_tools Running" kubeadm_doc_paths "with_defaults True zero_spec"]
  by (simp add: dry_commands_harmless_def validate_def newCleanOptions_def)

theorem clean_refuses_unstable_witness:
  "\<exists>m. fst (run_state (performClean (sample_tools Stabilizing) kubeadm_doc_paths zero_spec newCleanOptions)
     (calm_world [StatusFile \<mapsto> File ''{}'' mode644])) = Inl (Errorf m)"
  using clean_refuses_unstable [OF surjective_pairing, of newCleanOptions "calm_world [StatusFile \<mapsto> File ''{}'' mode644]"
      "''{}''" "sample_tools Stabilizing" "sample_cluster Stabilizing" kubeadm_doc_paths zero_spec]
  by (simp add: newCleanOptions_def hasActualWorkToDo_def sample_tools_def sample_cluster_def
      state_Stable_def file_content_def)

section \<open>Emptying a directory\<close>

lemma run_RemoveAll_calm:
  "fs_fault w = (\<lambda>_ _. None) \<Longrightarrow> run_state (RemoveAll p) w = (Inr (), (tick w)\<lparr>files := remove_tree p (files w)\<rparr>)"
  by (simp add: RemoveAll_def run_fs_call)

lemma remove_entries:
  assumes "fs_fault w = (\<lambda>_ _. None)"
  shows "\<exists>w'. run_state (forE (\<lambda>n. onErr (RemoveAll (path_join dir n)) (h n) (\<lambda>_. ret ())) names) w = (Inr (), w') \<and>
           files w' = (\<lambda>p. if \<exists>n \<in> set names. p = path_join dir n \<or> below (path_join dir n) p then None else files w p)"
  using assms
proof (induction names arbitrary: w)
  case (Cons n names)
  let ?w = "(tick w)\<lparr>files := remove_tree (path_join dir n) (files w)\<rparr>"
  from Cons.IH [of ?w] Cons.prems obtain w' where
    "run_state (forE (\<lambda>n. onErr (RemoveAll (path_join dir n)) (h n) (\<lambda>_. ret ())) names) ?w = (Inr (), w')"
    "files w' = (\<lambda>p. if \<exists>n \<in> set names. p = path_join dir n \<or> below (path_join dir n) p then None else files ?w p)"
    by auto
  with Cons.prems show ?case by (auto simp: run_onErr run_RemoveAll_calm remove_tree_def fun_eq_iff)
qed simp

lemma below_entry: "dir \<noteq> [] \<Longrightarrow> n \<noteq> [] \<Longrightarrow> p = path_join dir n \<or> below (path_join dir n) p \<Longrightarrow> below dir p"
  by (auto simp: path_join_def below_def HasPrefix_iff)

definition tree_complete_at :: "tree \<Rightarrow> string \<Rightarrow> bool" where
  "tree_complete_at fs dir \<longleftrightarrow> (\<forall>p. below dir p \<and> fs p \<noteq> None \<longrightarrow>
     (\<exists>n \<in> entry_names fs dir. p = path_join dir n \<or> below (path_join dir n) p))"

lemma remove_all_entries:
  assumes "dir \<noteq> []" and "set names = entry_names fs dir" and "tree_complete_at fs dir"
  shows "(\<lambda>p. if \<exists>n \<in> set names. p = path_join dir n \<or> below (path_join dir n) p then None else fs p) =
         (\<lambda>p. if below dir p then None else fs p)"
proof (rule ext)
  fix p
  have "below dir p" if "n \<in> entry_names fs dir" "p = path_join dir n \<or> below (path_join dir n) p" for n
    using that below_entry [OF assms(1)] by (auto simp: entry_names_def)
  then show "(if \<exists>n \<in> set names. p = path_join dir n \<or> below (path_join dir n) p then None else fs p) =
         (if below dir p then None else fs p)"
    using assms(2,3) by (auto simp: tree_complete_at_def)
qed

lemma empty_dir:
  assumes "fs_fault v = (\<lambda>_ _. None)" and "dir \<noteq> []" and "set names = entry_names (files v) dir"
    and "tree_complete_at (files v) dir"
  obtains v' where
    "run_state (forE (\<lambda>n. onErr (RemoveAll (path_join dir n)) (h n) (\<lambda>_. ret ())) names) v = (Inr (), v')"
    and "files v' = (\<lambda>p. if below dir p then None else files v p)"
  using remove_entries [OF assms(1), of dir h names] remove_all_entries [OF assms(2-4)] by metis

text \<open>
  C38: Both functions that empty a directory (\<^verbatim>\<open>host.CleanDir\<close> and \<^verbatim>\<open>reset.CleanDir\<close>)
  do the same: everything strictly below it is gone, the directory itself and everything else is
  as before. A directory that does not exist is not an error.
\<close>

theorem clean_dir_exact:
  assumes "fs_fault w = (\<lambda>_ _. None)" and "dir \<noteq> []"
    and "files w dir \<in> {None, Some Directory}"
    and "set (dir_order t (files w) dir) = entry_names (files w) dir" and "tree_complete_at (files w) dir"
  shows "\<exists>w1 w2. run_state (CleanDir (dir_order t) dir) w = (Inr (), w1) \<and>
           run_state (reset_CleanDir t dir) w = (Inr (), w2) \<and>
           files w1 = (if files w dir = None then files w else (\<lambda>p. if below dir p then None else files w p)) \<and>
           files w2 = files w1"
proof (cases "files w dir = None")
  case True
  with assms(1) show ?thesis
    by (simp add: CleanDir_def reset_CleanDir_def run_onErr run_DirExists run_Stat)
next
  case False
  with assms(3) have d: "files w dir = Some Directory" by auto
  obtain w1 where
    "run_state (forE (\<lambda>n. onErr (RemoveAll (path_join dir n)) (Wrap (''error while removing file '' @ path_join dir n)) (\<lambda>_. ret ()))
        (dir_order t (files w) dir)) (tick (tick w)) = (Inr (), w1)"
    "files w1 = (\<lambda>p. if below dir p then None else files (tick (tick w)) p)"
    by (rule empty_dir [of "tick (tick w)"]) (use assms in simp_all)
  moreover obtain w2 where
    "run_state (forE (\<lambda>n. onErr (RemoveAll (path_join dir n)) (Wrap (''failed to remove '' @ n)) (\<lambda>_. ret ()))
        (dir_order t (files w) dir)) (tick (tick (tick w))) = (Inr (), w2)"
    "files w2 = (\<lambda>p. if below dir p then None else files (tick (tick (tick w))) p)"
    by (rule empty_dir [of "tick (tick (tick w))"]) (use assms in simp_all)
  ultimately show ?thesis using assms(1) d
    by (simp add: CleanDir_def reset_CleanDir_def run_onErr run_DirExists run_Stat OpenDir_def ReadDir_def run_fs_call
        cong: if_cong)
qed

theorem clean_dir_exact_witness:
  "\<exists>w1 w2. run_state (CleanDir (\<lambda>_ _. [''a'']) ''/d'') (calm_world [''/d'' \<mapsto> Directory, ''/d/a'' \<mapsto> File [] mode644]) = (Inr (), w1) \<and>
     run_state (reset_CleanDir ((sample_tools Running)\<lparr>dir_order := (\<lambda>_ _. [''a''])\<rparr>) ''/d'')
       (calm_world [''/d'' \<mapsto> Directory, ''/d/a'' \<mapsto> File [] mode644]) = (Inr (), w2) \<and>
     files w1 = (\<lambda>p. if below ''/d'' p then None else [''/d'' \<mapsto> Directory, ''/d/a'' \<mapsto> File [] mode644] p) \<and>
     files w2 = files w1"
proof -
  have *: "entry_names [''/d'' \<mapsto> Directory, ''/d/a'' \<mapsto> File [] mode644] ''/d'' = {''a''}"
    by (auto simp: entry_names_def path_join_def split: if_splits)
  have "tree_complete_at [''/d'' \<mapsto> Directory, ''/d/a'' \<mapsto> File [] mode644] ''/d''"
    by (auto simp: tree_complete_at_def * path_join_def below_def HasPrefix_def)
  then show ?thesis
    using clean_dir_exact [of "calm_world [''/d'' \<mapsto> Directory, ''/d/a'' \<mapsto> File [] mode644]" "''/d''"
        "(sample_tools Running)\<lparr>dir_order := (\<lambda>_ _. [''a''])\<rparr>"] *
    by (simp cong: if_cong)
qed

text \<open>
  Resetting the packet filter gives back to \<^verbatim>\<open>iptables-restore\<close> (and its IPv6 twin) exactly
  the lines \<^verbatim>\<open>iptables-save\<close> printed, in order, less those that mention a Kubernetes, CNI or
  Flannel chain; the restore is not run when the save failed, and nothing at all in a dry run.
\<close>

lemma reset_ip_tables_input:
  assumes "run_state (ResetIPTables c) w = (r, w')"
    and "cmd_result w (clock w) (Pipe ''iptables-save'' []) = (out, err)"
  shows "(isDryRun c \<longrightarrow> r = Inr () \<and> w' = w) \<and>
         (\<not> isDryRun c \<longrightarrow> err \<noteq> None \<longrightarrow> r \<noteq> Inr () \<and> trace w' = trace w @ [Ran (Pipe ''iptables-save'' [])]) \<and>
         (\<not> isDryRun c \<longrightarrow> err = None \<longrightarrow>
            (\<exists>rest. trace w' = trace w @ [Ran (Pipe ''iptables-save'' []),
               Ran (Pipe ''iptables-restore'' (unlines (filter (\<lambda>l. \<not> Contains l ''KUBE-'' \<and> \<not> Contains l ''CNI-'' \<and>
                  \<not> Contains l ''FLANNEL'') (lines_of out))))] @ rest \<and>
               (r = Inr () \<longrightarrow> (\<exists>out6. rest = [Ran (Pipe ''ip6tables-save'' []),
                  Ran (Pipe ''ip6tables-restore'' (unlines (kube_rules_removed (lines_of out6))))]))))"
proof -
  have kr: "kube_rules_removed ls = filter (\<lambda>l. \<not> Contains l ''KUBE-'' \<and> \<not> Contains l ''CNI-'' \<and> \<not> Contains l ''FLANNEL'') ls" for ls
    by (auto simp: kube_rules_removed_def reject_lines_def intro: filter_cong)
  show ?thesis
    unfolding kr [symmetric] using assms
    by (auto simp: ResetIPTables_def reset_tables_def run_onErr ExecPipe_def run_command_def
        split: prod.splits option.splits sum.splits if_splits)
qed

lemma reset_ip_tables_input_witness:
  "\<exists>rest. trace (snd (run_state (ResetIPTables \<lparr>ikniteConfig = zero_spec, isDryRun = False\<rparr>)
     ((calm_world Map.empty)\<lparr>cmd_result := (\<lambda>_ _. (''*filter'' @ NL @ ''-A KUBE-FIREWALL'' @ NL, None))\<rparr>))) =
     [Ran (Pipe ''iptables-save'' []), Ran (Pipe ''iptables-restore'' (''*filter'' @ NL))] @ rest"
proof -
  have "unlines (filter (\<lambda>l. \<not> Contains l ''KUBE-'' \<and> \<not> Contains l ''CNI-'' \<and> \<not> Contains l ''FLANNEL'')
          (lines_of (''*filter'' @ NL @ ''-A KUBE-FIREWALL'' @ NL))) = ''*filter'' @ NL"
    by code_simp
  then show ?thesis
    using reset_ip_tables_input [OF surjective_pairing, of
        "(calm_world Map.empty)\<lparr>cmd_result := (\<lambda>_ _. (''*filter'' @ NL @ ''-A KUBE-FIREWALL'' @ NL, None))\<rparr>"
        "''*filter'' @ NL @ ''-A KUBE-FIREWALL'' @ NL" None "\<lparr>ikniteConfig = zero_spec, isDryRun = False\<rparr>"]
    by auto
qed

section \<open>Errors of the steps\<close>

lemma run_step_False: "\<exists>w'. run_state (run_step False m) w = (Inr (), w')"
  by (auto simp: run_step_def split: prod.splits sum.splits)

lemma forE_steps_False: "\<exists>w'. run_state (forE (run_step False) ms) w = (Inr (), w')"
proof (induction ms arbitrary: w)
  case (Cons m ms)
  from run_step_False [of m w] obtain w1 where "run_state (run_step False m) w = (Inr (), w1)" by blast
  with Cons.IH [of w1] show ?case by (simp add: run_onErr)
qed simp

lemma steps_split: "[a, b, c, d, e] @ xs = [a, b, c, d] @ e # xs"
  by simp

lemma process_mount_dry: "forS (process_mount remove True) xs = skip"
  by (induction xs) (simp_all add: process_mount_def)

lemma forE_steps_True:
  "run_state (forE (run_step True) (ms @ m # ns)) w =
     (case run_state (forE (run_step True) ms) w of
        (Inl e, w1) \<Rightarrow> (Inl e, w1)
      | (Inr _, w1) \<Rightarrow> (case run_state m w1 of
            (Inl e, w2) \<Rightarrow> (Inl e, w2)
          | (Inr _, w2) \<Rightarrow> run_state (forE (run_step True) ns) w2))"
  by (auto simp: run_forE_append run_onErr run_step_def split: prod.splits sum.splits)

text \<open>
  The two ways to run all the steps. As a best effort (when the daemon stops) every step is
  tried and the whole always succeeds. When it has to succeed (before a start, in a reset) the
  first step that fails ends it with that step's error: here for the network interfaces, which are
  only looked at when stopping the containers, the mounts, the kubelet files and the CNI name
  spaces all went well.
\<close>

lemma clean_all_error_modes:
  "(\<exists>w'. run_state (CleanAll t c resetIp resetTables False) w = (Inr (), w')) \<and>
   run_state (CleanAll t c resetIp resetTables True) w =
     (case run_state (forE (run_step True) [StopAllContainers c, UnmountPaths c True, RemoveKubeletFiles c,
         DeleteCniNamespaces c]) w of
        (Inl e, w1) \<Rightarrow> (Inl e, w1)
      | (Inr _, w1) \<Rightarrow> (case run_state (DeleteNetworkInterfaces t c) w1 of
            (Inl e, w2) \<Rightarrow> (Inl e, w2)
          | (Inr _, w2) \<Rightarrow> run_state (forE (run_step True)
              ((if resetTables then [ResetIPTables c] else []) @ (if resetIp then [ResetIPAddress t c] else []))) w2))"
proof
  show "\<exists>w'. run_state (CleanAll t c resetIp resetTables False) w = (Inr (), w')"
    unfolding CleanAll_def by (rule forE_steps_False)
  show "run_state (CleanAll t c resetIp resetTables True) w =
     (case run_state (forE (run_step True) [StopAllContainers c, UnmountPaths c True, RemoveKubeletFiles c,
         DeleteCniNamespaces c]) w of
        (Inl e, w1) \<Rightarrow> (Inl e, w1)
      | (Inr _, w1) \<Rightarrow> (case run_state (DeleteNetworkInterfaces t c) w1 of
            (Inl e, w2) \<Rightarrow> (Inl e, w2)
          | (Inr _, w2) \<Rightarrow> run_state (forE (run_step True)
              ((if resetTables then [ResetIPTables c] else []) @ (if resetIp then [ResetIPAddress t c] else []))) w2))"
    unfolding CleanAll_def steps_split by (simp only: forE_steps_True)
qed

text \<open>
  Unmounting reads the mount table once and then tries every mount whose target contains the
  resolved path, and no other; that an unmount or a removal fails is never reported, so
  \<open>UnmountPaths\<close> succeeds with mounts left even when it is told to fail on errors.
\<close>

lemma unmount_errors_dropped:
  assumes "run_state (EvalSymlinks path) w = (Inr q, w1)"
    and "run_state (PipeFile ''/proc/self/mounts'') w1 = (Inr ls, w2)"
    and "run_state (processMounts path remove dry) w = (r, w')"
  shows "r = Inr () \<and> acts_only {Unmounted s | s. s \<in> set (column_lines 2 ls) \<and> Contains s q} w w' \<and>
         (dry \<longrightarrow> trace w' = trace w \<and> files w' = files w)"
proof -
  let ?E = "{Unmounted s | s. s \<in> set (column_lines 2 ls) \<and> Contains s q}"
  have run: "run_state (forS (process_mount remove dry) (match_lines q (column_lines 2 ls))) w2 = ((), w')" and r: "r = Inr ()"
    using assms by (auto simp: processMounts_def run_onErr split: prod.splits)
  have "state_io_rel (acts_only ?E) (forS (process_mount remove dry) (match_lines q (column_lines 2 ls)))"
    unfolding process_mount_def
    by (intro ao.frame_rules frame_intros) (auto simp: match_lines_def)
  from state_io_relD [OF this run] have a: "acts_only ?E w2 w'" .
  have same: "trace w2 = trace w" "files w2 = files w"
    using assms(1,2) by (auto simp: run_EvalSymlinks run_PipeFile)
  from run same have "dry \<longrightarrow> trace w' = trace w \<and> files w' = files w"
    by (auto simp: process_mount_dry)
  with a r same show ?thesis by (simp add: acts_only_def)
qed

lemma unmount_errors_dropped_witness:
  "fst (run_state (processMounts ''/run/netns'' True False)
     ((calm_world [''/run/netns'' \<mapsto> Directory, ''/proc/self/mounts'' \<mapsto> File (''tmpfs /run/netns tmpfs'' @ NL) mode644])
        \<lparr>fs_fault := (\<lambda>_ op. case op of FUnmount _ \<Rightarrow> Some (ErrOther ''device busy'') | _ \<Rightarrow> None)\<rparr>)) = Inr ()"
  using unmount_errors_dropped [OF _ _ surjective_pairing, of "''/run/netns''"
      "(calm_world [''/run/netns'' \<mapsto> Directory, ''/proc/self/mounts'' \<mapsto> File (''tmpfs /run/netns tmpfs'' @ NL) mode644])
        \<lparr>fs_fault := (\<lambda>_ op. case op of FUnmount _ \<Rightarrow> Some (ErrOther ''device busy'') | _ \<Rightarrow> None)\<rparr>"]
  by (simp add: run_EvalSymlinks run_PipeFile final_name_plain)

end
