(* ===== verification/Kubelet.thy ===== *)
theory Kubelet
  imports Cleaner
begin

text \<open>
  The kubelet: starting it, supervising it and probing it (\<^verbatim>\<open>pkg/k8s/kubelet.go\<close>,
  \<^verbatim>\<open>CheckClusterRunning\<close> of \<^verbatim>\<open>pkg/k8s/config.go\<close>, \<^verbatim>\<open>WaitForKubelet\<close> of
  \<^verbatim>\<open>pkg/k8s/phases/init/daemonize.go\<close>).

  The \<^verbatim>\<open>select\<close> loops are step relations: each step takes one event that is ready, and which one
  is not determined. The channels carry one value each, sent by a goroutine that has been started,
  so the state records which goroutines are still to report.
\<close>

section \<open>Starting the kubelet\<close>

definition KubeletEnvFile :: string where "KubeletEnvFile = ''/etc/conf.d/kubelet''"
definition KubeAdmFlagsFile :: string where "KubeAdmFlagsFile = ''/var/lib/kubelet/kubeadm-flags.env''"
definition KubeletLogDir :: string where "KubeletLogDir = ''/var/log/kubelet''"
definition KubeletLogFile :: string where "KubeletLogFile = ''/var/log/kubelet/kubelet.log''"
definition kubeletArgsEnv :: string where "kubeletArgsEnv = ''command_args''"
definition kubeletKubeadmArgsEnv :: string where "kubeletKubeadmArgsEnv = ''KUBELET_KUBEADM_ARGS''"

text \<open>
  The parser of environment files, the order in which Go walks a map, and the environment of the
  process.
\<close>

record kubelet_env =
  parse_env :: "string \<Rightarrow> error + (string \<rightharpoonup> string)"
  map_entries :: "(string \<rightharpoonup> string) \<Rightarrow> (string \<times> string) list"
  environ :: "string list"

definition kubelet_args :: "(string \<rightharpoonup> string) \<Rightarrow> string list" where
  "kubelet_args envData =
     (case envData kubeletArgsEnv of Some v \<Rightarrow> Fields v | None \<Rightarrow> []) @
     (case envData kubeletKubeadmArgsEnv of Some v \<Rightarrow> Fields v | None \<Rightarrow> [])"

definition start_kubelet_process :: "kubelet_env \<Rightarrow> ('x, int) io" where
  "start_kubelet_process k =
     onErr (ReadEnvFiles (parse_env k) [KubeletEnvFile, KubeAdmFlagsFile])
       (Wrap (''failed to read environment file '' @ KubeletEnvFile)) (\<lambda>envData.
     onErr (MkdirAll KubeletLogDir mode755) (Wrap (''failed to create kubelet log directory '' @ KubeletLogDir)) (\<lambda>_.
     onErr (OpenAppend KubeletLogFile mode644) (Wrap (''failed to open kubelet log file '' @ KubeletLogFile)) (\<lambda>_.
     onErr (StartCommand ''/usr/bin/kubelet'' (kubelet_args envData)
              (environ k @ map (\<lambda>(key, v). key @ ''='' @ v) (map_entries k envData)))
       (Wrap ''failed to start subprocess'') (\<lambda>pid. ret pid))))"

text \<open>That the pid file cannot be written is only logged.\<close>

definition launch_kubelet :: "kubelet_env \<Rightarrow> ('x, int) io" where
  "launch_kubelet k = onErr (start_kubelet_process k) id (\<lambda>pid.
     State_Monad.bind (ignoreErr (WriteFile (ServicePidFilePath KubeletName) (Itoa pid) mode644)) (\<lambda>_. ret pid))"

definition StartKubelet :: "kubelet_env \<Rightarrow> ('x, int) io" where
  "StartKubelet k =
     onErr (CheckPidFile KubeletName) (Wrap ''failed to check kubelet pid file'') (\<lambda>running. case running of
       Some kubeletPid \<Rightarrow> if kubeletPid > 0 then ret kubeletPid else launch_kubelet k
     | None \<Rightarrow> launch_kubelet k)"

section \<open>Probes\<close>

text \<open>
  One attempt of \<^verbatim>\<open>CheckServerRunning\<close>: the request cannot be made, the server does not
  answer, or it answers with a status and a body that may fail to be read.
\<close>

datatype http_outcome = RequestError error | DoError error | Response int "error + string"

definition server_probe :: "string \<Rightarrow> http_outcome \<Rightarrow> error option" where
  "server_probe expectedResponse h = (case h of
       RequestError e \<Rightarrow> Some (Wrap ''failed to create HTTP request'' e)
     | DoError e \<Rightarrow> Some (Wrap ''failed to make HTTP request'' e)
     | Response status body \<Rightarrow>
         if status \<noteq> 200 then Some (Errorf (''unexpected status code: '' @ Itoa status))
         else (case body of
                 Inl e \<Rightarrow> Some e
               | Inr contentStr \<Rightarrow>
                   if contentStr \<noteq> expectedResponse then Some (Errorf (''unexpected response body: '' @ contentStr))
                   else None))"

text \<open>
  The loop: \<open>probe i\<close> is the outcome of the i-th attempt, \<open>wait i\<close> the outcome of the wait before
  it (\<open>Some\<close> when the context is cancelled meanwhile). The loop variable \<^verbatim>\<open>retries\<close> counts
  down; \<open>err\<close> is what the variable of that name holds.
\<close>

fun probe_loop ::
  "(nat \<Rightarrow> error option) \<Rightarrow> (nat \<Rightarrow> error option) \<Rightarrow> nat \<Rightarrow> nat \<Rightarrow> int \<Rightarrow> int \<Rightarrow> error option \<Rightarrow> error option"
where
  "probe_loop wait probe i 0 okTries okResponses err = err"
| "probe_loop wait probe i (Suc retries) okTries okResponses err =
     (case (if i = 0 then None else wait i) of
        Some e \<Rightarrow> Some e
      | None \<Rightarrow> (case probe i of
            Some e \<Rightarrow> probe_loop wait probe (Suc i) retries okTries okResponses (Some e)
          | None \<Rightarrow>
              if okTries + 1 = okResponses then None
              else probe_loop wait probe (Suc i) retries (okTries + 1) okResponses None))"

definition CheckServerRunning :: "(nat \<Rightarrow> http_outcome) \<Rightarrow> string \<Rightarrow> int \<Rightarrow> int \<Rightarrow> error option" where
  "CheckServerRunning http expectedResponse retries okResponses =
     probe_loop (\<lambda>_. None) (\<lambda>i. server_probe expectedResponse (http i)) 0 (nat retries) 0 okResponses None"

definition CheckKubeletRunning :: "(nat \<Rightarrow> http_outcome) \<Rightarrow> int \<Rightarrow> int \<Rightarrow> error option" where
  "CheckKubeletRunning http retries okResponses = CheckServerRunning http ''ok'' retries okResponses"

definition readyz_probe :: "error + string \<Rightarrow> error option" where
  "readyz_probe r = (case r of
       Inl e \<Rightarrow> Some e
     | Inr contentStr \<Rightarrow>
         if TrimSpace contentStr \<noteq> ''ok'' then Some (Errorf (''cluster health API returned: '' @ contentStr)) else None)"

definition CheckClusterRunning ::
  "(nat \<Rightarrow> error option) \<Rightarrow> (nat \<Rightarrow> error + string) \<Rightarrow> int \<Rightarrow> int \<Rightarrow> error option"
where
  "CheckClusterRunning ctxDone readyz retries okResponses =
     probe_loop (\<lambda>i. map_option (Wrap ''context canceled'') (ctxDone i)) (\<lambda>i. readyz_probe (readyz i))
       0 (nat retries) 0 okResponses None"

section \<open>The supervision loop\<close>

datatype loop_event =
    CtxDone
  | CmdDone
  | KubeletHealthz "error option"
  | ApiServerHealthz "error option"
  | ConfigErr "error option"

record kubelet_loop =
  alive :: bool
  loop_err :: "error option"
  kubelet_pending :: bool
  api_pending :: bool
  config_pending :: bool

definition err_of :: "error + unit \<Rightarrow> error option" where
  "err_of r = (case r of Inl e \<Rightarrow> Some e | Inr _ \<Rightarrow> None)"

text \<open>A channel is ready when its goroutine has been started and has not reported yet.\<close>

fun ready_event :: "loop_event \<Rightarrow> kubelet_loop \<Rightarrow> bool" where
  "ready_event CtxDone l = True"
| "ready_event CmdDone l = True"
| "ready_event (KubeletHealthz _) l = kubelet_pending l"
| "ready_event (ApiServerHealthz _) l = api_pending l"
| "ready_event (ConfigErr _) l = config_pending l"

definition terminate :: "int \<Rightarrow> kubelet_loop \<Rightarrow> ('x world_scheme, kubelet_loop) state" where
  "terminate pid l = State_Monad.bind (TerminateProcess (Some pid) (alive l)) (\<lambda>(r, al).
     State_Monad.return (l\<lparr>alive := al, loop_err := err_of r\<rparr>))"

fun handle_event :: "int \<Rightarrow> loop_event \<Rightarrow> kubelet_loop \<Rightarrow> ('x world_scheme, kubelet_loop) state" where
  "handle_event pid CtxDone l = terminate pid l"
| "handle_event pid CmdDone l = State_Monad.return (l\<lparr>alive := False\<rparr>)"
| "handle_event pid (KubeletHealthz (Some e)) l = terminate pid (l\<lparr>kubelet_pending := False\<rparr>)"
| "handle_event pid (KubeletHealthz None) l =
     State_Monad.return (l\<lparr>kubelet_pending := False, api_pending := True\<rparr>)"
| "handle_event pid (ApiServerHealthz (Some e)) l = terminate pid (l\<lparr>api_pending := False\<rparr>)"
| "handle_event pid (ApiServerHealthz None) l =
     State_Monad.return (l\<lparr>api_pending := False, config_pending := True\<rparr>)"
| "handle_event pid (ConfigErr (Some e)) l =
     State_Monad.bind (TerminateProcess (Some pid) (alive l)) (\<lambda>(r, al). State_Monad.return
       (l\<lparr>config_pending := False, alive := al,
          loop_err := (case r of Inl t \<Rightarrow> Some (Join [e, t]) | Inr _ \<Rightarrow> Some e)\<rparr>))"
| "handle_event pid (ConfigErr None) l = State_Monad.return (l\<lparr>config_pending := False\<rparr>)"

definition init_loop :: kubelet_loop where
  "init_loop = \<lparr>alive = True, loop_err = None, kubelet_pending = True, api_pending = False, config_pending = False\<rparr>"

text \<open>One iteration, and runs of the loop with the events taken.\<close>

inductive loop_step ::
  "int \<Rightarrow> kubelet_loop \<times> 'x world_scheme \<Rightarrow> loop_event \<Rightarrow> kubelet_loop \<times> 'x world_scheme \<Rightarrow> bool"
  for pid where
  take_event: "alive l \<Longrightarrow> ready_event ev l \<Longrightarrow> run_state (handle_event pid ev l) w = (l', w') \<Longrightarrow>
         loop_step pid (l, w) ev (l', w')"

inductive loop_run ::
  "int \<Rightarrow> kubelet_loop \<times> 'x world_scheme \<Rightarrow> loop_event list \<Rightarrow> kubelet_loop \<times> 'x world_scheme \<Rightarrow> bool"
  for pid where
  run_start: "loop_run pid s [] s"
| run_snoc: "loop_run pid s evs t \<Longrightarrow> loop_step pid t ev u \<Longrightarrow> loop_run pid s (evs @ [ev]) u"

inductive_cases loop_stepE: "loop_step pid (l, w) ev (l', w')"
inductive_simps loop_step_simps: "loop_step pid (l, w) ev (l', w')"

text \<open>The same loop replaying a given order of events; \<open>None\<close> when an event is not ready.\<close>

fun replay :: "int \<Rightarrow> loop_event list \<Rightarrow> kubelet_loop \<Rightarrow> ('x world_scheme, kubelet_loop option) state" where
  "replay pid [] l = State_Monad.return (Some l)"
| "replay pid (ev # evs) l =
     (if \<not> alive l \<or> \<not> ready_event ev l then State_Monad.return None
      else State_Monad.bind (handle_event pid ev l) (\<lambda>l'. replay pid evs l'))"

text \<open>
  \<^verbatim>\<open>StartAndConfigureKubelet\<close> on an order of events: the result is \<open>None\<close> as long as the loop
  has not ended.
\<close>

definition StartAndConfigureKubelet ::
  "kubelet_env \<Rightarrow> loop_event list \<Rightarrow> ('x world_scheme, (error + unit) option) state"
where
  "StartAndConfigureKubelet k evs = State_Monad.bind (StartKubelet k) (\<lambda>r. case r of
       Inl e \<Rightarrow> State_Monad.return (Some (Inl (Wrap ''failed to start kubelet'' e)))
     | Inr pid \<Rightarrow> State_Monad.bind (replay pid evs init_loop) (\<lambda>l. case l of
           None \<Rightarrow> State_Monad.return None
         | Some l \<Rightarrow>
             if alive l then State_Monad.return None
             else State_Monad.bind (RemovePidFile KubeletName) (\<lambda>_. State_Monad.return (Some
                    (case loop_err l of
                       Some e \<Rightarrow> Inl (Wrap ''error while waiting for kubelet to stop'' e)
                     | None \<Rightarrow> Inr ())))))"

text \<open>
  \<^verbatim>\<open>WaitForKubelet\<close>: one of two events ends the loop, the context or the end of the process
  (with the error its \<^verbatim>\<open>Wait\<close> returned).
\<close>

datatype wait_event = WaitCtxDone | WaitCmdDone "error option"

definition WaitForKubelet :: "int \<Rightarrow> wait_event \<Rightarrow> ('x, unit) io" where
  "WaitForKubelet pid ev =
     State_Monad.bind (case ev of
         WaitCtxDone \<Rightarrow> State_Monad.bind (TerminateProcess (Some pid) True) (\<lambda>(r, al). State_Monad.return (err_of r))
       | WaitCmdDone e \<Rightarrow> State_Monad.return e) (\<lambda>err. case err of
       Some e \<Rightarrow> throw (Wrap ''failed to wait for kubelet'' e)
     | None \<Rightarrow> ret ())"

section \<open>Runs of the supervision loop\<close>

definition happy :: "loop_event list" where
  "happy = [KubeletHealthz None, ApiServerHealthz None, ConfigErr None]"

text \<open>The state after the first \<open>n\<close> good reports.\<close>

fun happy_loop :: "nat \<Rightarrow> kubelet_loop" where
  "happy_loop 0 = init_loop"
| "happy_loop (Suc 0) = init_loop\<lparr>kubelet_pending := False, api_pending := True\<rparr>"
| "happy_loop (Suc (Suc 0)) = init_loop\<lparr>kubelet_pending := False, config_pending := True\<rparr>"
| "happy_loop n = init_loop\<lparr>kubelet_pending := False\<rparr>"

lemma happy_loop_alive [simp]: "alive (happy_loop n)" "loop_err (happy_loop n) = None"
  by (cases n rule: happy_loop.cases; simp add: init_loop_def)+

lemma run_TerminateProcess:
  "run_state (TerminateProcess (Some pid) al) w =
     (case signal_result w (clock w) pid SIGTERM of
        Some e \<Rightarrow> ((Inl (Wrap ''failed to terminate process'' e), False),
                   (tick w)\<lparr>trace := trace w @ [Signaled pid SIGTERM]\<rparr>)
      | None \<Rightarrow> ((case wait_result w (Suc (clock w)) pid of
            Some e \<Rightarrow> Inl (Wrap ''failed to wait for process termination'' e) | None \<Rightarrow> Inr (), False),
          (tick (tick w))\<lparr>trace := trace w @ [Signaled pid SIGTERM, Waited pid]\<rparr>))"
  by (auto simp: TerminateProcess_def process_Signal_def process_Wait_def tick_def split: option.splits)

lemma run_terminate:
  "run_state (terminate pid l) w =
     (l\<lparr>alive := False, loop_err := err_of (fst (fst (run_state (TerminateProcess (Some pid) True) w)))\<rparr>,
      snd (run_state (TerminateProcess (Some pid) True) w))"
  by (auto simp: terminate_def run_TerminateProcess split: option.splits)

definition terminates :: "loop_event \<Rightarrow> bool" where
  "terminates ev \<longleftrightarrow> ev \<in> {CtxDone} \<union> range (\<lambda>e. KubeletHealthz (Some e)) \<union>
     range (\<lambda>e. ApiServerHealthz (Some e)) \<union> range (\<lambda>e. ConfigErr (Some e))"

lemma run_handle_event:
  assumes "run_state (handle_event pid ev l) w = (l', w')"
  shows "alive l' \<longleftrightarrow> alive l \<and> ev \<in> set happy"
    and "\<not> terminates ev \<Longrightarrow> w' = w \<and> loop_err l' = loop_err l"
    and "terminates ev \<Longrightarrow> w' = snd (run_state (TerminateProcess (Some pid) True) w)"
    and "terminates ev \<Longrightarrow> loop_err l' = (case ev of
          ConfigErr (Some e) \<Rightarrow> (case fst (fst (run_state (TerminateProcess (Some pid) True) w)) of
             Inl t \<Rightarrow> Some (Join [e, t]) | Inr _ \<Rightarrow> Some e)
        | _ \<Rightarrow> err_of (fst (fst (run_state (TerminateProcess (Some pid) True) w))))"
  using assms
  by (cases "(pid, ev, l)" rule: handle_event.cases;
      auto simp: run_terminate run_TerminateProcess happy_def terminates_def split: option.splits)+

lemma happy_loop_step:
  assumes "n \<le> 3" and "ready_event ev (happy_loop n)" and "run_state (handle_event pid ev (happy_loop n)) w = (l', w')"
    and "alive l'"
  shows "n < 3 \<and> ev = happy ! n \<and> l' = happy_loop (Suc n) \<and> w' = w"
proof -
  from assms(1) consider "n = 0" | "n = 1" | "n = 2" | "n = 3" by linarith
  then show ?thesis
    using assms(2-4)
    by cases (cases "(pid, ev, l')" rule: handle_event.cases;
        auto simp: happy_def init_loop_def run_terminate run_TerminateProcess numeral_2_eq_2 numeral_3_eq_3
          split: option.splits)+
qed

lemma loop_run_alive:
  assumes "loop_run pid s evs t" and "s = (init_loop, w0)" and "alive (fst t)"
  shows "length evs \<le> 3 \<and> evs = take (length evs) happy \<and> t = (happy_loop (length evs), w0)"
  using assms
proof (induction rule: loop_run.induct)
  case (run_start s)
  then show ?case by simp
next
  case (run_snoc s evs t ev u)
  obtain l w l' w' where t: "t = (l, w)" and u: "u = (l', w')" by (metis prod.exhaust)
  from run_snoc.hyps(2) t u have al: "alive l" and rd: "ready_event ev l"
    and run: "run_state (handle_event pid ev l) w = (l', w')"
    by (auto elim: loop_stepE)
  from run_snoc.IH [OF run_snoc.prems(1)] al t have IH: "length evs \<le> 3" "evs = take (length evs) happy"
    "l = happy_loop (length evs)" "w = w0" by auto
  have s: "length evs < 3" "ev = happy ! length evs" "l' = happy_loop (Suc (length evs))" "w' = w"
    using happy_loop_step [OF IH(1) rd [unfolded IH(3)] run [unfolded IH(3)]] run_snoc.prems(2) u by simp_all
  have "evs @ [ev] = take (Suc (length evs)) happy"
    using s(1,2) IH(2) by (subst take_Suc_conv_app_nth) (auto simp: happy_def)
  moreover have "length happy = 3" by (simp add: happy_def)
  ultimately show ?case using s IH(4) u by simp
qed

lemma loop_run_last:
  assumes "loop_run pid s evs t" and "s = (init_loop, w0)" and "\<not> alive (fst t)"
  obtains n ev where "n \<le> 3" and "evs = take n happy @ [ev]" and "ready_event ev (happy_loop n)"
    and "run_state (handle_event pid ev (happy_loop n)) w0 = t"
  using assms
proof (cases rule: loop_run.cases)
  case run_start
  with assms show ?thesis by (simp add: init_loop_def)
next
  case (run_snoc evs' u ev)
  obtain l w l' w' where u: "u = (l, w)" and t: "t = (l', w')" by (metis prod.exhaust)
  from run_snoc(3) u t have al: "alive l" and rd: "ready_event ev l"
    and run: "run_state (handle_event pid ev l) w = (l', w')"
    by (auto elim: loop_stepE)
  from loop_run_alive [OF run_snoc(2) assms(2)] al u
  have "length evs' \<le> 3" "evs' = take (length evs') happy" "l = happy_loop (length evs')" "w = w0" by auto
  with rd run run_snoc(1) t that [of "length evs'" ev] show ?thesis by simp
qed

lemma replay_snoc:
  "run_state (replay pid (evs @ [ev]) l) w =
     (case run_state (replay pid evs l) w of
        (None, w1) \<Rightarrow> (None, w1)
      | (Some l1, w1) \<Rightarrow>
          if \<not> alive l1 \<or> \<not> ready_event ev l1 then (None, w1)
          else (case run_state (handle_event pid ev l1) w1 of (l2, w2) \<Rightarrow> (Some l2, w2)))"
  by (induction evs arbitrary: l w) (auto split: prod.splits option.splits)

lemma replay_iff_loop_run:
  "run_state (replay pid evs l) w = (Some l', w') \<longleftrightarrow> loop_run pid (l, w) evs (l', w')"
proof (induction evs arbitrary: l' w' rule: rev_induct)
  case Nil
  show ?case by (auto intro: loop_run.run_start elim: loop_run.cases)
next
  case (snoc ev evs)
  show ?case
  proof
    assume "run_state (replay pid (evs @ [ev]) l) w = (Some l', w')"
    then obtain l1 w1 where "run_state (replay pid evs l) w = (Some l1, w1)" "alive l1" "ready_event ev l1"
      "run_state (handle_event pid ev l1) w1 = (l', w')"
      unfolding replay_snoc by (auto split: prod.splits option.splits if_splits)
    with snoc.IH show "loop_run pid (l, w) (evs @ [ev]) (l', w')"
      by (blast intro: loop_run.run_snoc loop_step.intros)
  next
    assume "loop_run pid (l, w) (evs @ [ev]) (l', w')"
    then obtain l1 w1 where "loop_run pid (l, w) evs (l1, w1)" "loop_step pid (l1, w1) ev (l', w')"
      by (cases rule: loop_run.cases) auto
    with snoc.IH [of l1 w1] show "run_state (replay pid (evs @ [ev]) l) w = (Some l', w')"
      by (simp add: replay_snoc loop_step_simps)
  qed
qed

section \<open>Verdicts of the probes\<close>

definition oks :: "(nat \<Rightarrow> error option) \<Rightarrow> nat \<Rightarrow> nat" where
  "oks probe n = length (filter (\<lambda>i. probe i = None) [0..<n])"

lemma oks_Suc: "oks probe (Suc n) = oks probe n + (if probe n = None then 1 else 0)"
  by (simp add: oks_def)

lemma oks_0 [simp]: "oks probe 0 = 0"
  by (simp add: oks_def)

lemma probe_loop_reached:
  assumes "int (oks probe n) = okResponses" and "i < n" and "n \<le> i + retries"
    and "\<And>j. j \<le> i \<Longrightarrow> int (oks probe j) < okResponses"
  shows "probe_loop (\<lambda>_. None) probe i retries (int (oks probe i)) okResponses err = None"
  using assms
proof (induction retries arbitrary: i err)
  case (Suc retries)
  show ?case
  proof (cases "int (oks probe (Suc i)) = okResponses")
    case True
    with Suc.prems(4) [of i] have "probe i = None" by (auto simp: oks_Suc split: if_splits)
    with True show ?thesis by (simp add: oks_Suc)
  next
    case False
    with Suc.prems(4) [of i] have lt: "int (oks probe (Suc i)) < okResponses"
      by (auto simp: oks_Suc split: if_splits)
    have "Suc i < n" using False Suc.prems(1,2) by (metis Suc_lessI)
    moreover have "\<And>j. j \<le> Suc i \<Longrightarrow> int (oks probe j) < okResponses"
      using lt Suc.prems(4) by (metis le_SucE)
    ultimately have "probe_loop (\<lambda>_. None) probe (Suc i) retries (int (oks probe (Suc i))) okResponses e = None" for e
      using Suc.IH [of "Suc i" e] Suc.prems(1,3) by simp
    with lt show ?thesis by (auto simp: oks_Suc algebra_simps split: option.splits)
  qed
qed simp

lemma probe_loop_not_reached:
  assumes "\<And>n. i < n \<Longrightarrow> n \<le> i + retries \<Longrightarrow> int (oks probe n) \<noteq> okResponses"
  shows "probe_loop (\<lambda>_. None) probe i retries (int (oks probe i)) okResponses err =
           (if retries = 0 then err else probe (i + retries - 1))"
  using assms
proof (induction retries arbitrary: i err)
  case (Suc retries)
  have ne: "int (oks probe (Suc i)) \<noteq> okResponses" using Suc.prems [of "Suc i"] by simp
  have IH: "probe_loop (\<lambda>_. None) probe (Suc i) retries (int (oks probe (Suc i))) okResponses e =
      (if retries = 0 then e else probe (Suc i + retries - 1))" for e
    using Suc.prems by (intro Suc.IH) simp
  have "probe_loop (\<lambda>_. None) probe i (Suc retries) (int (oks probe i)) okResponses err =
      probe_loop (\<lambda>_. None) probe (Suc i) retries (int (oks probe (Suc i))) okResponses (probe i)"
    using ne by (auto simp: oks_Suc algebra_simps split: option.splits)
  with IH show ?case by simp
qed simp

section \<open>Properties\<close>

text \<open>
  C28: The supervision of the kubelet takes at most four events, in a fixed order: the API server
  is looked at only after the kubelet was found healthy, the cluster is configured only after the
  API server was found healthy, and while all reports are good nothing is done to the process. The
  event that ends the loop is the only one that is not a good report.
\<close>

theorem kubelet_loop_ordered:
  assumes "loop_run pid (init_loop, w0) evs (l, w)"
  shows "length evs \<le> 4 \<and>
         (alive l \<longrightarrow> evs = take (length evs) [KubeletHealthz None, ApiServerHealthz None, ConfigErr None] \<and> w = w0) \<and>
         (\<not> alive l \<longrightarrow> (\<exists>n ev. evs = take n [KubeletHealthz None, ApiServerHealthz None, ConfigErr None] @ [ev] \<and>
            ev \<notin> {KubeletHealthz None, ApiServerHealthz None, ConfigErr None} \<and>
            (ev = CtxDone \<or> ev = CmdDone \<or> n < 3 \<and> (\<exists>e. ev = [KubeletHealthz (Some e), ApiServerHealthz (Some e), ConfigErr (Some e)] ! n))))"
proof (cases "alive l")
  case True
  with loop_run_alive [OF assms refl] show ?thesis by (auto simp: happy_def)
next
  case False
  with loop_run_last [OF assms refl] obtain n ev where n: "n \<le> 3" "evs = take n happy @ [ev]"
    "ready_event ev (happy_loop n)" "run_state (handle_event pid ev (happy_loop n)) w0 = (l, w)" by auto
  from run_handle_event(1) [OF n(4)] False have nh: "ev \<notin> set happy" by simp
  from n(1) consider "n = 0" | "n = 1" | "n = 2" | "n = 3" by linarith
  then have "ev = CtxDone \<or> ev = CmdDone \<or> n < 3 \<and> (\<exists>e. ev = [KubeletHealthz (Some e), ApiServerHealthz (Some e), ConfigErr (Some e)] ! n)"
    using n(3) nh
    by cases (cases "(ev, l)" rule: ready_event.cases;
        auto simp: happy_def init_loop_def numeral_2_eq_2 numeral_3_eq_3 not_None_eq)+
  with n(1,2) nh False show ?thesis by (auto simp: happy_def)
qed

theorem kubelet_loop_ordered_witness:
  "\<exists>n ev. [KubeletHealthz None, CmdDone] = take n [KubeletHealthz None, ApiServerHealthz None, ConfigErr None] @ [ev] \<and>
     ev \<notin> {KubeletHealthz None, ApiServerHealthz None, ConfigErr None}"
proof -
  have "loop_run 42 (init_loop, calm_world Map.empty) [KubeletHealthz None, CmdDone]
          ((happy_loop 1)\<lparr>alive := False\<rparr>, calm_world Map.empty)"
    unfolding replay_iff_loop_run [symmetric] by (simp add: init_loop_def)
  from kubelet_loop_ordered [OF this] show ?thesis by auto
qed

text \<open>
  C18: How the supervision ends. If the kubelet stopped by itself no signal is sent and the result
  is a success. Otherwise the kubelet gets SIGTERM exactly once, and the result is an error exactly
  when the configuration failed or the process could not be signalled or waited for; so a kubelet or
  API server that was found unhealthy and could be terminated is reported as a success. In every
  case the pid file is gone at the end.
\<close>

theorem supervision_outcome:
  assumes "run_state (StartAndConfigureKubelet k evs) w = (Some r, w')"
    and "run_state (StartKubelet k) w = (Inr pid, w1)"
    and "fs_fault w1 = (\<lambda>_ _. None)"
  shows "evs \<noteq> [] \<and> files w' (ServicePidFilePath KubeletName) = None \<and>
    (last evs = CmdDone \<longrightarrow> r = Inr () \<and> trace w' = trace w1) \<and>
    (last evs \<noteq> CmdDone \<longrightarrow>
       trace w' = trace w1 @ Signaled pid SIGTERM # (if signal_result w1 (clock w1) pid SIGTERM = None then [Waited pid] else []) \<and>
       (r = Inr () \<longleftrightarrow> \<not> (\<exists>e. last evs = ConfigErr (Some e)) \<and>
          signal_result w1 (clock w1) pid SIGTERM = None \<and> wait_result w1 (Suc (clock w1)) pid = None))"
proof -
  from assms(1,2) obtain l w2 where rep: "run_state (replay pid evs init_loop) w1 = (Some l, w2)" and dead: "\<not> alive l"
    and w': "w' = snd (run_state (RemovePidFile KubeletName) w2)"
    and r: "r = (case loop_err l of Some e \<Rightarrow> Inl (Wrap ''error while waiting for kubelet to stop'' e) | None \<Rightarrow> Inr ())"
    by (auto simp: StartAndConfigureKubelet_def split: prod.splits option.splits if_splits)
  from rep have run: "loop_run pid (init_loop, w1) evs (l, w2)" by (simp add: replay_iff_loop_run)
  from dead obtain n ev where n: "evs = take n happy @ [ev]"
    "run_state (handle_event pid ev (happy_loop n)) w1 = (l, w2)" "ready_event ev (happy_loop n)"
    using loop_run_last [OF run refl] by (metis fst_conv)
  note h = run_handle_event [OF n(2)]
  have ev: "terminates ev \<or> ev = CmdDone"
    using h(1) dead by (cases "(ev, l)" rule: ready_event.cases) (auto simp: terminates_def happy_def)
  have f2: "fs_fault w2 = (\<lambda>_ _. None)"
    using ev h(2,3) assms(3) by (auto simp: run_TerminateProcess terminates_def split: option.splits)
  then have gone: "files w' (ServicePidFilePath KubeletName) = None" and tr: "trace w' = trace w2"
    by (auto simp: w' RemovePidFile_def run_ignoreErr Remove_def run_fs_call split: option.splits)
  have "terminates ev \<longleftrightarrow> ev \<noteq> CmdDone" using ev by (auto simp: terminates_def)
  with h(2-4) gone tr show ?thesis
    by (auto simp: n(1) r run_TerminateProcess err_of_def
        split: option.splits loop_event.splits if_splits)
qed

lemma ReadEnvFiles_frame:
  assumes "frame R" and "\<And>p. state_io_rel R (ReadFile p)"
  shows "state_io_rel R (ReadEnvFiles u ps)"
proof -
  have "state_io_rel R (ReadEnvFiles_loop u d ps)" for d
  proof (induction ps arbitrary: d)
    case Nil
    show ?case using frame.frame_return [OF assms(1)] by simp
  next
    case (Cons p ps)
    show ?case unfolding ReadEnvFiles_loop.simps
      by (intro frame.frame_bind [OF assms(1)] frame.frame_case_sum [OF assms(1)] frame.frame_if [OF assms(1)]
          frame.frame_return [OF assms(1)] assms(2) Cons)
  qed
  then show ?thesis by (simp add: ReadEnvFiles_def)
qed

lemma ReadEnvFiles_frames [frame_intros]:
  "state_io_rel same_oracle (ReadEnvFiles u ps)" "state_io_rel same_files (ReadEnvFiles u ps)"
  "state_io_rel (acts_only E) (ReadEnvFiles u ps)"
  by (intro ReadEnvFiles_frame so.frame_axioms sf.frame_axioms ao.frame_axioms frame_intros)+

lemma StartKubelet_oracle [frame_intros]: "state_io_rel same_oracle (StartKubelet k)"
  unfolding StartKubelet_def launch_kubelet_def start_kubelet_process_def by (intro so.frame_rules frame_intros)

definition sample_kubelet :: kubelet_env where
  "sample_kubelet = \<lparr>parse_env = (\<lambda>_. Inr Map.empty), map_entries = (\<lambda>_. []), environ = []\<rparr>"

lemma sample_runs:
  "fst (run_state (StartAndConfigureKubelet sample_kubelet [KubeletHealthz (Some Canceled)]) (calm_world Map.empty)) = Some (Inr ())"
  "fst (run_state (StartKubelet sample_kubelet) (calm_world Map.empty)) = Inr 42"
  by code_simp+

lemma sample_started_calm: "fs_fault (snd (run_state (StartKubelet sample_kubelet) (calm_world Map.empty))) = (\<lambda>_ _. None)"
  by (simp add: same_oracle_simps(1) [OF state_io_relD [OF StartKubelet_oracle surjective_pairing]])

theorem supervision_outcome_witness:
  "files (snd (run_state (StartAndConfigureKubelet sample_kubelet [KubeletHealthz (Some Canceled)]) (calm_world Map.empty)))
     ''/run/kubelet.pid'' = None"
proof -
  have "run_state (StartAndConfigureKubelet sample_kubelet [KubeletHealthz (Some Canceled)]) (calm_world Map.empty) =
      (Some (Inr ()), snd (run_state (StartAndConfigureKubelet sample_kubelet [KubeletHealthz (Some Canceled)]) (calm_world Map.empty)))"
    and "run_state (StartKubelet sample_kubelet) (calm_world Map.empty) =
      (Inr 42, snd (run_state (StartKubelet sample_kubelet) (calm_world Map.empty)))"
    by (simp_all add: prod_eq_iff sample_runs)
  from supervision_outcome [OF this sample_started_calm] show ?thesis
    by (simp add: ServicePidFilePath_def KubeletName_def)
qed

text \<open>
  The verdict of the health probe, in every case. If the wanted number of good responses is
  reached within the allowed attempts, the check succeeds. If it is not, the verdict is that of the
  last attempt alone, so the check can succeed with a single good response; and with no attempt
  allowed it succeeds without asking.
\<close>

lemma probe_verdict:
  assumes "probe = (\<lambda>i. server_probe expected (http i))" and "0 < okResponses"
  shows "CheckServerRunning http expected retries okResponses =
           (if \<exists>n \<le> nat retries. int (oks probe n) = okResponses then None
            else if retries \<le> 0 then None else probe (nat retries - 1))"
proof (cases "\<exists>n \<le> nat retries. int (oks probe n) = okResponses")
  case True
  then obtain n where n: "n \<le> nat retries" "int (oks probe n) = okResponses" by blast
  with assms(2) have "0 < n" by (cases n) auto
  then have "probe_loop (\<lambda>_. None) probe 0 (nat retries) (int (oks probe 0)) okResponses None = None"
    using n assms(2) by (intro probe_loop_reached [of probe n]) auto
  with True assms(1) show ?thesis by (auto simp: CheckServerRunning_def)
next
  case False
  then have "probe_loop (\<lambda>_. None) probe 0 (nat retries) (int (oks probe 0)) okResponses None =
      (if nat retries = 0 then None else probe (0 + nat retries - 1))"
    by (intro probe_loop_not_reached) auto
  with False assms(1) show ?thesis by (auto simp: CheckServerRunning_def)
qed

text \<open>One good answer, the tenth, is enough although three are asked for.\<close>

lemma probe_verdict_witness:
  "CheckKubeletRunning (\<lambda>i. if i < 9 then DoError (ErrOther ''connection refused'') else Response 200 (Inr ''ok'')) 10 3 = None"
proof -
  let ?http = "\<lambda>i. if i < (9::nat) then DoError (ErrOther ''connection refused'') else Response 200 (Inr ''ok'')"
  have "server_probe ''ok'' (?http 9) = None" by (simp add: server_probe_def)
  then show ?thesis
    using probe_verdict [OF refl, of 3 ?http "''ok''" 10] by (simp add: CheckKubeletRunning_def)
qed


lemma kubelet_running_sample:
  "fst (run_state (CheckPidFile KubeletName) (calm_world [''/run/kubelet.pid'' \<mapsto> File ''421'' mode644])) = Inr (Some 421)"
  by code_simp


section \<open>The pid file of the kubelet\<close>

text \<open>\<open>keeps_plain p\<close>: a path that holds a plain file or nothing goes on to do so.\<close>

definition plain_at :: "string \<Rightarrow> 'x world_scheme \<Rightarrow> bool" where
  "plain_at p w \<longleftrightarrow> files w p = None \<or> (\<exists>c m. files w p = Some (File c m))"

definition keeps_plain :: "string \<Rightarrow> 'x world_scheme \<Rightarrow> 'x world_scheme \<Rightarrow> bool" where
  "keeps_plain p w w' \<longleftrightarrow> (plain_at p w \<longrightarrow> plain_at p w')"

interpretation kp: frame "keeps_plain p :: 'x world_scheme \<Rightarrow> 'x world_scheme \<Rightarrow> bool" for p
  by unfold_locales (auto simp: keeps_plain_def)

lemma same_files_plain: "state_io_rel same_files m \<Longrightarrow> state_io_rel (keeps_plain p) m"
  by (rule state_io_relI) (auto simp: keeps_plain_def plain_at_def same_files_def dest!: state_io_relD)

lemma OpenAppend_plain [frame_intros]: "state_io_rel (keeps_plain p) (OpenAppend q m)"
  by (auto simp: OpenAppend_def run_fs_call keeps_plain_def plain_at_def split: option.splits node.splits)

lemma MkdirAll_plain [frame_intros]:
  "p \<notin> set (ancestors [] q) \<Longrightarrow> state_io_rel (keeps_plain p) (MkdirAll q m)"
  by (auto simp: MkdirAll_def run_fs_call keeps_plain_def plain_at_def make_dirs_other
      split: option.splits node.splits)

lemma launch_kubelet_pid_file:
  assumes "run_state (launch_kubelet k) w = (Inr pid, w')" and "fs_fault w = (\<lambda>_ _. None)"
    and "plain_at (ServicePidFilePath KubeletName) w"
  shows "\<exists>m. files w' (ServicePidFilePath KubeletName) = Some (File (Itoa pid) m)" and "fs_fault w' = (\<lambda>_ _. None)"
proof -
  have "ServicePidFilePath KubeletName \<notin> set (ancestors [] KubeletLogDir)"
    by (simp add: ServicePidFilePath_def KubeletName_def KubeletLogDir_def)
  then have kp: "state_io_rel (keeps_plain (ServicePidFilePath KubeletName)) (start_kubelet_process k)"
    unfolding start_kubelet_process_def by (intro kp.frame_rules frame_intros same_files_plain)
  have so: "state_io_rel same_oracle (start_kubelet_process k)"
    unfolding start_kubelet_process_def by (intro so.frame_rules frame_intros)
  from assms(1) obtain w1 where p: "run_state (start_kubelet_process k) w = (Inr pid, w1)"
    and wr: "w' = snd (run_state (WriteFile (ServicePidFilePath KubeletName) (Itoa pid) mode644) w1)"
    unfolding launch_kubelet_def by (auto elim!: onErr_Inr_elim simp: run_ignoreErr)
  have "fs_fault w1 = (\<lambda>_ _. None)"
    using same_oracle_simps(1) [OF state_io_relD [OF so p]] assms(2) by simp
  moreover have "plain_at (ServicePidFilePath KubeletName) w1"
    using state_io_relD [OF kp p] assms(3) by (simp add: keeps_plain_def)
  ultimately obtain w2 where "run_state (WriteFile (ServicePidFilePath KubeletName) (Itoa pid) mode644) w1 = (Inr (), w2)"
    "fs_fault w2 = (\<lambda>_ _. None)" "\<exists>m. files w2 (ServicePidFilePath KubeletName) = Some (File (Itoa pid) m)"
    unfolding plain_at_def by (rule WriteFile_calm)
  with wr show "\<exists>m. files w' (ServicePidFilePath KubeletName) = Some (File (Itoa pid) m)" and "fs_fault w' = (\<lambda>_ _. None)"
    by simp_all
qed

text \<open>
  The pid that starting the kubelet writes is the pid a later check reads: as long as the
  process answers, \<open>CheckPidFile\<close> finds it, and so the next start returns it instead of starting
  another one.
\<close>

lemma kubelet_pid_roundtrip:
  assumes "run_state (launch_kubelet k) w = (Inr pid, w')" and "fs_fault w = (\<lambda>_ _. None)"
    and "plain_at (ServicePidFilePath KubeletName) w" and "in_int64 pid"
    and "process_answers w' (Suc (clock w')) pid"
  shows "fst (run_state (CheckPidFile KubeletName) w') = Inr (Some pid) \<and>
         (pid > 0 \<longrightarrow> fst (run_state (StartKubelet k) w') = Inr pid)"
proof -
  from launch_kubelet_pid_file [OF assms(1-3)] obtain m
    where f: "files w' (ServicePidFilePath KubeletName) = Some (File (Itoa pid) m)" and ff: "fs_fault w' = (\<lambda>_ _. None)"
    by blast
  then have "pid_file_in (files w') KubeletName = ServicePidFilePath KubeletName" by (simp add: pid_file_in_def)
  moreover have "ServicePidFilePath KubeletName \<noteq> SupervisePidFilePath KubeletName"
    by (simp add: ServicePidFilePath_def SupervisePidFilePath_def)
  ultimately have check: "fst (run_state (CheckPidFile KubeletName) w') = Inr (Some pid)"
    using run_read_pid_file [OF ff, of KubeletName] f ff assms(4,5)
    by (simp add: CheckPidFile_def run_ReadFile Atoi_Itoa run_process_alive)
  then show ?thesis by (auto simp: StartKubelet_def run_onErr split: prod.splits)
qed

lemma launch_sample: "fst (run_state (launch_kubelet sample_kubelet) (calm_world Map.empty)) = Inr 42"
  by code_simp

lemma kubelet_pid_roundtrip_witness:
  "fst (run_state (StartKubelet sample_kubelet)
     (snd (run_state (launch_kubelet sample_kubelet) (calm_world Map.empty)))) = Inr 42"
proof -
  let ?w' = "snd (run_state (launch_kubelet sample_kubelet) (calm_world Map.empty))"
  have run: "run_state (launch_kubelet sample_kubelet) (calm_world Map.empty) = (Inr 42, ?w')"
    by (simp add: prod_eq_iff launch_sample)
  have "state_io_rel same_oracle (launch_kubelet sample_kubelet)"
    unfolding launch_kubelet_def start_kubelet_process_def by (intro so.frame_rules frame_intros)
  from same_oracle_simps [OF state_io_relD [OF this run]] have "process_answers ?w' (Suc (clock ?w')) 42"
    by (simp add: process_answers_def)
  from kubelet_pid_roundtrip [OF run _ _ _ this] show ?thesis
    by (simp add: plain_at_def in_int64_def)
qed

end
