(* ===== verification/Utils.thy ===== *)
theory Utils
  imports Host_Laws
begin

text \<open>
  Package \<^verbatim>\<open>pkg/utils\<close>: the bus on which cluster updates are published (\<^verbatim>\<open>bus.go\<close>), the
  shutdown hooks (\<^verbatim>\<open>hooks.go\<close>) and the polling of a condition (\<^verbatim>\<open>wait.go\<close>).
\<close>

section \<open>The bus\<close>

text \<open>
  A channel is known by the identifier of its subscription. A full channel makes the
  \<^verbatim>\<open>select\<close> of \<^verbatim>\<open>Publish\<close> take its default branch; sending on a closed channel panics,
  which is \<open>None\<close>. (Unbuffered channels, which the program does not use, count as full.) \<open>subs\<close>
  lists the keys of the map in the order the next publication walks it.
\<close>

record 'a chan =
  cap :: nat
  queue :: "'a list"
  closed :: bool

record 'a bus =
  nextID :: nat
  subs :: "nat list"
  chans :: "nat \<rightharpoonup> 'a chan"

definition empty_bus :: "'a bus" where
  "empty_bus = \<lparr>nextID = 0, subs = [], chans = Map.empty\<rparr>"

definition Subscribe :: "nat \<Rightarrow> 'a bus \<Rightarrow> nat \<times> 'a bus" where
  "Subscribe buf b = (let i = Suc (nextID b) in
     (i, b\<lparr>nextID := i, subs := i # subs b, chans := (chans b)(i \<mapsto> \<lparr>cap = buf, queue = [], closed = False\<rparr>)\<rparr>))"

definition unsubscribe :: "nat \<Rightarrow> 'a bus \<Rightarrow> 'a bus" where
  "unsubscribe i b =
     (if i \<in> set (subs b)
      then b\<lparr>subs := removeAll i (subs b), chans := (chans b)(i := map_option (closed_update (\<lambda>_. True)) (chans b i))\<rparr>
      else b)"

definition send :: "'a \<Rightarrow> 'a chan \<Rightarrow> 'a chan option" where
  "send evt ch = (if closed ch then None
     else Some (if length (queue ch) < cap ch then ch\<lparr>queue := queue ch @ [evt]\<rparr> else ch))"

definition send_to :: "'a \<Rightarrow> nat \<Rightarrow> 'a bus \<Rightarrow> 'a bus option" where
  "send_to evt i b = (case chans b i of
       None \<Rightarrow> Some b
     | Some ch \<Rightarrow> (case send evt ch of
           None \<Rightarrow> None | Some ch' \<Rightarrow> Some (b\<lparr>chans := (chans b)(i \<mapsto> ch')\<rparr>)))"

fun send_all :: "'a \<Rightarrow> nat list \<Rightarrow> 'a bus \<Rightarrow> 'a bus option" where
  "send_all evt [] b = Some b"
| "send_all evt (i # is) b = (case send_to evt i b of None \<Rightarrow> None | Some b' \<Rightarrow> send_all evt is b')"

text \<open>\<^verbatim>\<open>Publish\<close> without interference: the snapshot of the subscribers, then the sends.\<close>

definition Publish :: "'a \<Rightarrow> 'a bus \<Rightarrow> 'a bus option" where
  "Publish evt b = send_all evt (subs b) b"

definition receive :: "nat \<Rightarrow> 'a bus \<Rightarrow> 'a option \<times> 'a bus" where
  "receive i b = (case chans b i of
       None \<Rightarrow> (None, b)
     | Some ch \<Rightarrow> (case queue ch of
           [] \<Rightarrow> (None, b)
         | x # xs \<Rightarrow> (Some x, b\<lparr>chans := (chans b)(i \<mapsto> ch\<lparr>queue := xs\<rparr>)\<rparr>)))"

text \<open>
  With other goroutines: \<^verbatim>\<open>Publish\<close> holds the lock only while it copies the subscribers, so
  between its snapshot and its sends others may subscribe, unsubscribe and receive. A state is the
  bus and what the publisher still has to send, or the panic.
\<close>

datatype 'a bus_state = Live "'a bus" "('a \<times> nat list) option" | Panicked

inductive bus_step :: "'a bus_state \<Rightarrow> 'a bus_state \<Rightarrow> bool" where
  snapshot: "bus_step (Live b None) (Live b (Some (evt, subs b)))"
| deliver: "send_to evt i b = Some b' \<Longrightarrow> bus_step (Live b (Some (evt, i # is))) (Live b' (Some (evt, is)))"
| crash: "send_to evt i b = None \<Longrightarrow> bus_step (Live b (Some (evt, i # is))) Panicked"
| published: "bus_step (Live b (Some (evt, []))) (Live b None)"
| subscribe: "Subscribe buf b = (i, b') \<Longrightarrow> bus_step (Live b p) (Live b' p)"
| unsub: "bus_step (Live b p) (Live (unsubscribe i b) p)"
| recv: "receive i b = (x, b') \<Longrightarrow> bus_step (Live b p) (Live b' p)"

definition chan_ok :: "'a bus \<Rightarrow> nat \<Rightarrow> 'a chan \<Rightarrow> bool" where
  "chan_ok b i ch \<longleftrightarrow> length (queue ch) \<le> cap ch \<and> (closed ch \<longleftrightarrow> i \<notin> set (subs b)) \<and> i \<le> nextID b"

definition bus_wf :: "'a bus \<Rightarrow> bool" where
  "bus_wf b \<longleftrightarrow> (\<forall>i. i \<in> set (subs b) \<longrightarrow> chans b i \<noteq> None) \<and> (\<forall>i ch. chans b i = Some ch \<longrightarrow> chan_ok b i ch)"

lemma bus_wfD:
  "bus_wf b \<Longrightarrow> chans b i = Some ch \<Longrightarrow> chan_ok b i ch"
  "bus_wf b \<Longrightarrow> i \<in> set (subs b) \<Longrightarrow> \<exists>ch. chans b i = Some ch \<and> \<not> closed ch"
  unfolding bus_wf_def chan_ok_def by blast+

lemma bus_wf_update:
  assumes "bus_wf b" and "chan_ok b i ch"
  shows "bus_wf (b\<lparr>chans := (chans b)(i \<mapsto> ch)\<rparr>)"
  using assms unfolding bus_wf_def chan_ok_def by auto

lemma bus_wf_empty: "bus_wf empty_bus"
  by (simp add: bus_wf_def empty_bus_def)

lemma bus_wf_Subscribe:
  assumes "bus_wf b" and "Subscribe buf b = (i, b')"
  shows "bus_wf b'"
proof -
  have "i \<notin> set (subs b)" if "i = Suc (nextID b)" for i
    using that assms(1) unfolding bus_wf_def chan_ok_def by fastforce
  with assms show ?thesis
    unfolding bus_wf_def chan_ok_def Subscribe_def Let_def by (auto simp: le_Suc_eq split: if_splits)
qed

lemma bus_wf_unsubscribe: "bus_wf b \<Longrightarrow> bus_wf (unsubscribe i b)"
  unfolding bus_wf_def chan_ok_def unsubscribe_def by auto

lemma send_to_cases:
  assumes "send_to evt i b = Some b'"
  shows "subs b' = subs b \<and> nextID b' = nextID b \<and>
    (case chans b i of None \<Rightarrow> b' = b
     | Some ch \<Rightarrow> \<not> closed ch \<and> chans b' = (chans b)(i \<mapsto>
         (if length (queue ch) < cap ch then ch\<lparr>queue := queue ch @ [evt]\<rparr> else ch)))"
  using assms by (auto simp: send_to_def send_def split: option.splits if_splits)

lemma bus_wf_send_to:
  assumes "bus_wf b" and "send_to evt i b = Some b'"
  shows "bus_wf b'"
proof (cases "chans b i")
  case None
  with assms show ?thesis by (simp add: send_to_def)
next
  case (Some ch)
  with assms obtain ch' where "send evt ch = Some ch'" "b' = b\<lparr>chans := (chans b)(i \<mapsto> ch')\<rparr>"
    by (auto simp: send_to_def split: option.splits)
  moreover from this(1) bus_wfD(1) [OF assms(1) Some] have "chan_ok b i ch'"
    by (auto simp: chan_ok_def send_def split: if_splits)
  ultimately show ?thesis using bus_wf_update [OF assms(1)] by blast
qed

lemma bus_wf_receive:
  assumes "bus_wf b" and "receive i b = (x, b')"
  shows "bus_wf b'"
  using assms bus_wfD(1) [OF assms(1), of i]
  by (auto simp: receive_def chan_ok_def intro!: bus_wf_update split: option.splits list.splits)

lemma send_all_wf:
  assumes "bus_wf b" and "set is \<subseteq> set (subs b)"
  obtains b' where "send_all evt is b = Some b'" and "bus_wf b'" and "subs b' = subs b"
  using assms
proof (induction "is" arbitrary: b thesis)
  case (Cons i "is")
  from bus_wfD(2) [OF Cons.prems(2)] Cons.prems(3) obtain ch where ch: "chans b i = Some ch" "\<not> closed ch" by auto
  then obtain b1 where b1: "send_to evt i b = Some b1" by (simp add: send_to_def send_def)
  with send_to_cases [OF b1] Cons.prems(3) have "subs b1 = subs b" "set is \<subseteq> set (subs b1)" by auto
  with Cons.IH [of b1] bus_wf_send_to [OF Cons.prems(2) b1] b1 Cons.prems(1) show ?case by (metis option.simps(5) send_all.simps(2))
qed simp

inductive_cases bus_stepE: "bus_step (Live b p) s"

definition bus_inv :: "'a bus_state \<Rightarrow> bool" where
  "bus_inv s \<longleftrightarrow> (case s of Live b p \<Rightarrow> bus_wf b | Panicked \<Rightarrow> True)"

lemma bus_step_inv: "bus_step s t \<Longrightarrow> bus_inv s \<Longrightarrow> bus_inv t"
  by (induction rule: bus_step.induct)
    (auto simp: bus_inv_def intro: bus_wf_send_to bus_wf_Subscribe bus_wf_unsubscribe bus_wf_receive)

lemma bus_reachable_inv: "bus_step\<^sup>*\<^sup>* s t \<Longrightarrow> bus_inv s \<Longrightarrow> bus_inv t"
  by (induction rule: rtranclp_induct) (auto dest: bus_step_inv)

section \<open>Shutdown hooks\<close>

text \<open>
  The hooks run in goroutines of their own, one each. \<open>order\<close> is the order in which they happen to
  finish, a permutation of the registered hooks, which is also the order of the collected errors.
  Running the hooks does not unregister them.
\<close>

record 's hook =
  hook_name :: string
  hook_fn :: "('s, error + unit) state"

definition Register :: "string \<Rightarrow> ('s, error + unit) state \<Rightarrow> 's hook list \<Rightarrow> 's hook list" where
  "Register name fn hooks = hooks @ [\<lparr>hook_name = name, hook_fn = fn\<rparr>]"

fun run_hooks :: "'s hook list \<Rightarrow> error list \<Rightarrow> ('s, error list) state" where
  "run_hooks [] errs = State_Monad.return errs"
| "run_hooks (h # hs) errs = State_Monad.bind (hook_fn h) (\<lambda>r. case r of
     Inl e \<Rightarrow> run_hooks hs (errs @ [Wrap (''hook '' @ hook_name h) e])
   | Inr _ \<Rightarrow> run_hooks hs errs)"

definition hooks_Run :: "'s hook list \<Rightarrow> ('s, error + unit) state" where
  "hooks_Run order = State_Monad.bind (run_hooks order []) (\<lambda>errs. case errors_Join errs of
     None \<Rightarrow> ret () | Some e \<Rightarrow> throw e)"

section \<open>Polling a condition\<close>

record WaitOptions =
  Timeout :: int
  CheckTimeout :: int
  Interval :: int
  Retries :: int
  OkResponses :: int
  Wait :: bool
  Watch :: bool
  Immediate :: bool

text \<open>Durations are numbers of nanoseconds.\<close>

definition NewWaitOptions :: WaitOptions where
  "NewWaitOptions = \<lparr>Timeout = 0, CheckTimeout = 10000000000, Interval = 2000000000, Retries = 3,
     OkResponses = 1, Wait = True, Watch = False, Immediate = True\<rparr>"

definition Validate :: "WaitOptions \<Rightarrow> error + WaitOptions" where
  "Validate o' =
     (if Watch o' \<and> Wait o' then Inl (Errorf ''watch and wait options cannot be used together'')
      else (let o' = (if Watch o' then o'\<lparr>Timeout := 0, Wait := False\<rparr> else o')
            in Inr (if Wait o' then o'\<lparr>Timeout := 0\<rparr> else o')))"

definition HasLoop :: "WaitOptions \<Rightarrow> bool" where
  "HasLoop o' \<longleftrightarrow> Watch o' \<or> Wait o' \<or> Timeout o' > 0"

text \<open>
  The closures of \<open>Poll\<close> share variables: the retries left and the last error, and the number of
  successes in a row. A condition answers with a flag and an error; its own state is \<open>'s\<close>.
\<close>

type_synonym 's condition = "('s, bool \<times> error option) state"

record 's poll_state =
  retries_left :: int
  lastErr :: "error option"
  successes :: int
  cond_state :: 's

definition call :: "'s condition \<Rightarrow> 's poll_state condition" where
  "call c = State (\<lambda>p. case run_state c (cond_state p) of (r, s') \<Rightarrow> (r, p\<lparr>cond_state := s'\<rparr>))"

definition retry_condition :: "WaitOptions \<Rightarrow> 's condition \<Rightarrow> 's poll_state condition" where
  "retry_condition o' c =
     (if Retries o' > 0 then
        State_Monad.bind (gets retries_left) (\<lambda>retries.
          if retries \<le> 0
          then State_Monad.bind (gets lastErr) (\<lambda>e. State_Monad.return (False,
                 Some (case e of Some e \<Rightarrow> Wrap ''condition not met after retries'' e
                       | None \<Rightarrow> Errorf ''condition not met after retries'')))
          else State_Monad.bind (call c) (\<lambda>(done, err). case err of
                 Some e \<Rightarrow> State_Monad.bind (modify (\<lambda>p. p\<lparr>retries_left := retries - 1, lastErr := Some e\<rparr>)) (\<lambda>_.
                   State_Monad.return (done, None))
               | None \<Rightarrow> State_Monad.return (done, None)))
      else call c)"

definition watch_condition :: "WaitOptions \<Rightarrow> 's poll_state condition \<Rightarrow> 's poll_state condition" where
  "watch_condition o' c = (if Watch o' then
       State_Monad.bind c (\<lambda>(_, err). State_Monad.return (False, err))
     else c)"

definition ok_condition :: "WaitOptions \<Rightarrow> 's poll_state condition \<Rightarrow> 's poll_state condition" where
  "ok_condition o' c = (if \<not> Watch o' \<and> OkResponses o' > 1 then
       State_Monad.bind c (\<lambda>(ok, err). case err of
         Some e \<Rightarrow> State_Monad.bind (modify (\<lambda>p. p\<lparr>successes := 0\<rparr>)) (\<lambda>_. State_Monad.return (False, Some e))
       | None \<Rightarrow>
           if ok then
             State_Monad.bind (modify (\<lambda>p. p\<lparr>successes := successes p + 1\<rparr>)) (\<lambda>_.
             State_Monad.bind (gets successes) (\<lambda>n. State_Monad.return (n \<ge> OkResponses o', None)))
           else State_Monad.bind (modify (\<lambda>p. p\<lparr>successes := 0\<rparr>)) (\<lambda>_. State_Monad.return (False, None)))
     else c)"

definition actual_condition :: "WaitOptions \<Rightarrow> 's condition \<Rightarrow> 's poll_state condition" where
  "actual_condition o' c = ok_condition o' (watch_condition o' (retry_condition o' c))"

definition init_poll :: "WaitOptions \<Rightarrow> 's \<Rightarrow> 's poll_state" where
  "init_poll o' s = \<lparr>retries_left = Retries o', lastErr = None, successes = 0, cond_state = s\<rparr>"

text \<open>
  The library's \<^verbatim>\<open>wait.PollUntilContextCancel\<close> is a parameter. It is given the timeout of the
  context (\<open>None\<close> for the caller's own context), the interval, whether to begin at once, and the
  condition.
\<close>

type_synonym 's poller = "int option \<Rightarrow> int \<Rightarrow> bool \<Rightarrow> 's condition \<Rightarrow> ('s, error option) state"

definition Poll :: "'s poll_state poller \<Rightarrow> WaitOptions \<Rightarrow> 's condition \<Rightarrow> ('s, error option) state" where
  "Poll pollUntil o' c = (case Validate o' of
       Inl e \<Rightarrow> State_Monad.return (Some e)
     | Inr o' \<Rightarrow>
         if \<not> HasLoop o' then State_Monad.bind c (\<lambda>(_, err). State_Monad.return err)
         else State (\<lambda>s.
           case run_state (pollUntil (if \<not> Watch o' \<and> Timeout o' > 0 then Some (Timeout o') else None)
                  (Interval o') (Immediate o') (actual_condition o' c)) (init_poll o' s) of
             (None, p) \<Rightarrow> (None, cond_state p)
           | (Some e, p) \<Rightarrow> (Some (Wrap ''condition not met within the specified options'' e), cond_state p)))"

section \<open>What polling guarantees\<close>

text \<open>
  The documented behaviour of \<^verbatim>\<open>PollUntilContextCancel\<close>: it evaluates the condition again and
  again until it holds (no error), until it fails (its error), or until the context ends (the
  context's error).
\<close>

inductive polled :: "'s condition \<Rightarrow> 's \<Rightarrow> error option \<Rightarrow> 's \<Rightarrow> bool" for c where
  ctx_done: "polled c s (Some e) s"
| met: "run_state c s = ((True, None), t) \<Longrightarrow> polled c s None t"
| failed: "run_state c s = ((b, Some e), t) \<Longrightarrow> polled c s (Some e) t"
| again: "run_state c s = ((False, None), t) \<Longrightarrow> polled c t r u \<Longrightarrow> polled c s r u"

definition poller_contract :: "'s poller \<Rightarrow> bool" where
  "poller_contract P \<longleftrightarrow> (\<forall>timeout interval imm c s r t.
     run_state (P timeout interval imm c) s = (r, t) \<longrightarrow> polled c s r t)"

text \<open>\<open>calls c s raw t\<close>: calling the condition repeatedly from \<open>s\<close> gives the answers \<open>raw\<close> and ends in \<open>t\<close>.\<close>

inductive calls :: "'s condition \<Rightarrow> 's \<Rightarrow> (bool \<times> error option) list \<Rightarrow> 's \<Rightarrow> bool" for c s where
  no_call: "calls c s [] s"
| one_more: "calls c s raw t \<Longrightarrow> run_state c t = (x, u) \<Longrightarrow> calls c s (raw @ [x]) u"

definition errs :: "(bool \<times> error option) list \<Rightarrow> nat" where
  "errs raw = length (filter (\<lambda>x. snd x \<noteq> None) raw)"

definition streak :: "(bool \<times> error option) list \<Rightarrow> nat" where
  "streak raw = length (takeWhile fst (rev raw))"

lemma errs_snoc: "errs (raw @ [x]) = errs raw + (if snd x = None then 0 else 1)"
  by (simp add: errs_def)

lemma streak_snoc: "streak (raw @ [x]) = (if fst x then Suc (streak raw) else 0)"
  by (simp add: streak_def)

definition poll_inv ::
  "WaitOptions \<Rightarrow> 's condition \<Rightarrow> 's \<Rightarrow> (bool \<times> error option) list \<Rightarrow> 's poll_state \<Rightarrow> bool"
where
  "poll_inv o' c s raw p \<longleftrightarrow> calls c s raw (cond_state p) \<and>
     (if Retries o' > 0 then retries_left p = Retries o' - int (errs raw) \<and> int (errs raw) \<le> Retries o' else errs raw = 0) \<and>
     (OkResponses o' > 1 \<longrightarrow> successes p = int (streak raw))"

lemma poll_inv_init: "poll_inv o' c s [] (init_poll o' s)"
  by (simp add: poll_inv_def init_poll_def errs_def streak_def calls.no_call)

lemma run_call: "run_state (call c) p = (fst (run_state c (cond_state p)), p\<lparr>cond_state := snd (run_state c (cond_state p))\<rparr>)"
  by (simp add: call_def split: prod.splits)

lemma run_retry_condition:
  assumes "run_state (retry_condition o' c) p = ((ok, None), p')"
  obtains x u where "run_state c (cond_state p) = (x, u)" and "ok = fst x" and "cond_state p' = u"
    and "successes p' = successes p"
    and "if Retries o' > 0 then retries_left p > 0 \<and>
           retries_left p' = retries_left p - (if snd x = None then 0 else 1) else snd x = None"
proof -
  obtain b e u where x: "run_state c (cond_state p) = ((b, e), u)" by (metis prod.exhaust)
  with assms that [of "(b, e)" u] show ?thesis
    by (auto simp: retry_condition_def run_call split: if_splits option.splits)
qed

lemma poll_inv_step:
  assumes inv: "poll_inv o' c s raw p" and "\<not> Watch o'"
    and run: "run_state (actual_condition o' c) p = ((ok, None), p')"
  obtains x where "poll_inv o' c s (raw @ [x]) p'"
    and "ok \<Longrightarrow> int (streak (raw @ [x])) \<ge> max 1 (OkResponses o')"
proof -
  obtain ok1 e1 p1 where r1: "run_state (retry_condition o' c) p = ((ok1, e1), p1)" by (metis prod.exhaust)
  from run assms(2) r1 have e1: "e1 = None" and p': "if OkResponses o' > 1
        then p' = p1\<lparr>successes := (if ok1 then successes p1 + 1 else 0)\<rparr> \<and> ok = (ok1 \<and> successes p1 + 1 \<ge> OkResponses o')
        else p' = p1 \<and> ok = ok1"
    by (auto simp: actual_condition_def ok_condition_def watch_condition_def split: if_splits option.splits)
  from run_retry_condition [OF r1 [unfolded e1]] obtain x u where x: "run_state c (cond_state p) = (x, u)"
    "ok1 = fst x" "cond_state p1 = u" "successes p1 = successes p"
    "if Retries o' > 0 then retries_left p > 0 \<and> retries_left p1 = retries_left p - (if snd x = None then 0 else 1)
     else snd x = None" by blast
  have "calls c s (raw @ [x]) u" using inv x(1) by (auto simp: poll_inv_def intro: calls.one_more)
  with inv x p' have "poll_inv o' c s (raw @ [x]) p'"
    by (auto simp: poll_inv_def errs_snoc streak_snoc split: if_splits)
  moreover have "int (streak (raw @ [x])) \<ge> max 1 (OkResponses o')" if ok
    using that inv x p' by (auto simp: poll_inv_def streak_snoc split: if_splits)
  ultimately show ?thesis using that by blast
qed

lemma polled_success:
  assumes "polled (actual_condition o' c) p r q" and "r = None" and "\<not> Watch o'" and "poll_inv o' c s raw p"
  obtains raw' where "poll_inv o' c s raw' q" and "int (streak raw') \<ge> max 1 (OkResponses o')"
  using assms
proof (induction arbitrary: raw thesis rule: polled.induct)
  case (met p t)
  from poll_inv_step [OF met.prems(4,3) met.hyps] met.prems(1) show ?case by blast
next
  case (again p t r u)
  from poll_inv_step [OF again.prems(4,3) again.hyps(1)] obtain x where "poll_inv o' c s (raw @ [x]) t" by blast
  with again.IH again.prems show ?case by blast
qed simp_all

lemma polled_watch:
  assumes "polled (actual_condition o' c) p r q" and "Watch o'"
  shows "r \<noteq> None"
  using assms
proof (induction rule: polled.induct)
  case (met p t)
  then show ?case
    by (auto simp: actual_condition_def ok_condition_def watch_condition_def split: prod.splits)
qed auto

lemma Poll_outcome:
  assumes "run_state (Poll pollUntil o' c) s = (r, t)" and "poller_contract pollUntil"
  shows "(Watch o' \<and> Wait o' \<longrightarrow> r \<noteq> None \<and> t = s) \<and>
         (Watch o' \<longrightarrow> r \<noteq> None) \<and>
         (HasLoop o' \<and> r = None \<longrightarrow>
            (\<exists>raw. calls c s raw t \<and> int (streak raw) \<ge> max 1 (OkResponses o') \<and>
               int (errs raw) \<le> max 0 (Retries o')))"
proof (cases "Watch o' \<and> Wait o'")
  case True
  with assms show ?thesis by (auto simp: Poll_def Validate_def)
next
  case False
  define v where "v = (let o'' = (if Watch o' then o'\<lparr>Timeout := 0, Wait := False\<rparr> else o')
     in if Wait o'' then o''\<lparr>Timeout := 0\<rparr> else o'')"
  have val: "Validate o' = Inr v" using False by (simp add: Validate_def v_def)
  have v: "Watch v = Watch o'" "OkResponses v = OkResponses o'" "Retries v = Retries o'" "HasLoop v \<longleftrightarrow> HasLoop o'"
    using False by (auto simp: v_def Let_def HasLoop_def)
  show ?thesis
  proof (cases "HasLoop o'")
    case noloop: False
    then show ?thesis using False by (auto simp: HasLoop_def)
  next
    case True
    obtain r1 q where run: "run_state (pollUntil (if \<not> Watch v \<and> Timeout v > 0 then Some (Timeout v) else None)
        (Interval v) (Immediate v) (actual_condition v c)) (init_poll v s) = (r1, q)" by (metis prod.exhaust)
    with assms(2) have pq: "polled (actual_condition v c) (init_poll v s) r1 q"
      by (simp add: poller_contract_def)
    from run assms(1) True v(4) val have t: "t = cond_state q" and rr: "r = None \<longleftrightarrow> r1 = None"
      by (auto simp: Poll_def split: option.splits)
    have w: "Watch o' \<Longrightarrow> r \<noteq> None" using polled_watch [OF pq] v(1) rr by simp
    have "\<exists>raw. calls c s raw t \<and> int (streak raw) \<ge> max 1 (OkResponses o') \<and> int (errs raw) \<le> max 0 (Retries o')"
      if "r = None"
    proof -
      from that rr w v(1) have "r1 = None" "\<not> Watch v" by auto
      from polled_success [OF pq this poll_inv_init] obtain raw where
        "poll_inv v c s raw q" "int (streak raw) \<ge> max 1 (OkResponses v)" by blast
      with t v show ?thesis by (auto simp: poll_inv_def split: if_splits)
    qed
    with w False show ?thesis by blast
  qed
qed

section \<open>Properties\<close>

text \<open>
  C31: When polling with a loop succeeds, the condition was just met, the wanted number of times in
  a row (at least once), and in all it failed at most as often as there are retries (never, without
  retries); a watch never ends in success; waiting and watching together are refused before the
  condition is looked at.
\<close>

theorem poll_success_sound:
  assumes "run_state (Poll pollUntil o' c) s = (r, t)" and "poller_contract pollUntil"
  shows "(Watch o' \<and> Wait o' \<longrightarrow> r \<noteq> None \<and> t = s) \<and>
         (Watch o' \<longrightarrow> r \<noteq> None) \<and>
         (HasLoop o' \<and> r = None \<longrightarrow>
            (\<exists>raw. calls c s raw t \<and> int (streak raw) \<ge> max 1 (OkResponses o') \<and>
               int (errs raw) \<le> max 0 (Retries o')))"
  using assms by (rule Poll_outcome)

text \<open>A poller that gives up after one evaluation, as one whose context ends then.\<close>

definition impatient_poller :: "'s poller" where
  "impatient_poller timeout interval imm c = State_Monad.bind c (\<lambda>(ok, err). State_Monad.return
     (case err of Some e \<Rightarrow> Some e | None \<Rightarrow> if ok then None else Some DeadlineExceeded))"

lemma impatient_poller_contract: "poller_contract impatient_poller"
  unfolding poller_contract_def impatient_poller_def
  by (auto split: prod.splits option.splits if_splits intro: polled.intros)

theorem poll_success_sound_witness:
  "\<exists>raw. calls (State_Monad.return (True, None)) (0::nat) raw 0 \<and> int (streak raw) \<ge> 1 \<and> int (errs raw) \<le> 3"
  using poll_success_sound [OF _ impatient_poller_contract, of NewWaitOptions "State_Monad.return (True, None)" "0::nat" None 0]
  by (simp add: Poll_def NewWaitOptions_def Validate_def HasLoop_def impatient_poller_def actual_condition_def
      ok_condition_def watch_condition_def retry_condition_def run_call init_poll_def)

definition delivered :: "'a \<Rightarrow> nat list \<Rightarrow> 'a bus \<Rightarrow> 'a bus \<Rightarrow> bool" where
  "delivered evt is b b' \<longleftrightarrow> bus_wf b' \<and> subs b' = subs b \<and>
    (\<forall>i \<in> set is. \<exists>ch. chans b i = Some ch \<and>
       chans b' i = Some (if length (queue ch) < cap ch then ch\<lparr>queue := queue ch @ [evt]\<rparr> else ch)) \<and>
    (\<forall>i. i \<notin> set is \<longrightarrow> chans b' i = chans b i)"

lemma send_all_delivers:
  assumes "bus_wf b" and "distinct is" and "set is \<subseteq> set (subs b)"
  shows "\<exists>b'. send_all evt is b = Some b' \<and> delivered evt is b b'"
  unfolding delivered_def using assms
proof (induction "is" arbitrary: b)
  case (Cons i "is")
  from bus_wfD(2) [OF Cons.prems(1)] Cons.prems(3) obtain ch where ch: "chans b i = Some ch" "\<not> closed ch" by auto
  define ch' where "ch' = (if length (queue ch) < cap ch then ch\<lparr>queue := queue ch @ [evt]\<rparr> else ch)"
  have b1: "send_to evt i b = Some (b\<lparr>chans := (chans b)(i \<mapsto> ch')\<rparr>)"
    using ch by (simp add: send_to_def send_def ch'_def)
  from Cons.IH [OF bus_wf_send_to [OF Cons.prems(1) b1]] Cons.prems
  obtain b' where b': "send_all evt is (b\<lparr>chans := (chans b)(i \<mapsto> ch')\<rparr>) = Some b'" "bus_wf b'" "subs b' = subs b"
    "\<forall>j \<in> set is. \<exists>ch. chans b j = Some ch \<and>
       chans b' j = Some (if length (queue ch) < cap ch then ch\<lparr>queue := queue ch @ [evt]\<rparr> else ch)"
    "\<forall>j. j \<notin> set is \<longrightarrow> chans b' j = ((chans b)(i \<mapsto> ch')) j"
    by (force split: if_splits)
  with ch Cons.prems(2) b1 show ?case by (intro exI [of _ b']) (auto simp: ch'_def split: if_splits)
qed simp

lemma Publish_delivers:
  assumes "bus_wf b" and "distinct (subs b)"
  obtains b' where "Publish evt b = Some b'" and "delivered evt (subs b) b b'"
  using send_all_delivers [OF assms subset_refl] by (auto simp: Publish_def)

text \<open>
  On a well-formed bus a publication that is not interrupted reaches every subscriber and never
  panics: each subscriber whose channel has room has the event at the end of its queue; a subscriber
  whose channel is full keeps what it has and never sees the event, so a subscriber of capacity one
  that has not read the previous update is left with the older one.
\<close>

lemma publish_delivers_or_drops:
  assumes "bus_wf b" and "distinct (subs b)"
  shows "\<exists>b'. Publish evt b = Some b' \<and> bus_wf b' \<and> subs b' = subs b \<and>
    (\<forall>i \<in> set (subs b). \<exists>ch. chans b i = Some ch \<and>
       chans b' i = Some (if length (queue ch) < cap ch then ch\<lparr>queue := queue ch @ [evt]\<rparr> else ch)) \<and>
    (\<forall>i. i \<notin> set (subs b) \<longrightarrow> chans b' i = chans b i)"
  using Publish_delivers [OF assms, of evt] unfolding delivered_def by metis

definition full_bus :: "nat bus" where
  "full_bus = the (Publish 1 (snd (Subscribe 1 empty_bus)))"

lemma publish_delivers_or_drops_witness:
  "\<exists>b'. Publish 2 full_bus = Some b' \<and> fst (receive 1 b') = Some 1 \<and> fst (receive 1 (snd (receive 1 b'))) = None"
proof -
  have fb: "full_bus = \<lparr>nextID = 1, subs = [1], chans = [1 \<mapsto> \<lparr>cap = 1, queue = [1], closed = False\<rparr>]\<rparr>"
    by (simp add: full_bus_def Publish_def Subscribe_def empty_bus_def send_to_def send_def)
  have "bus_wf full_bus" "distinct (subs full_bus)" unfolding fb by (auto simp: bus_wf_def chan_ok_def split: if_splits)
  from publish_delivers_or_drops [OF this, of 2] show ?thesis
    by (auto simp: fb receive_def)
qed

text \<open>
  C32: A publication crashes the program when a subscriber unsubscribes between the snapshot of the
  subscribers and the send to it: from any well-formed bus with a subscriber the panic can be
  reached. That is the only way: a send panics only for a subscriber that has left meanwhile, and
  every state that is reached without a panic is well formed.
\<close>

theorem publish_panic_race:
  assumes "bus_wf b"
  shows "(subs b \<noteq> [] \<longrightarrow> bus_step\<^sup>*\<^sup>* (Live b None) Panicked) \<and>
         (bus_step\<^sup>*\<^sup>* (Live b None) (Live b' p) \<longrightarrow> bus_wf b' \<and>
            (bus_step (Live b' p) Panicked \<longrightarrow> (\<exists>evt i is. p = Some (evt, i # is) \<and> i \<notin> set (subs b'))))"
proof (intro conjI impI)
  assume "subs b \<noteq> []"
  then obtain i "is" where i: "subs b = i # is" by (cases "subs b") auto
  from bus_wfD(2) [OF assms, of i] i obtain ch where ch: "chans b i = Some ch" by auto
  have "bus_step (Live b None) (Live b (Some (undefined, i # is)))"
    using bus_step.snapshot [of b undefined] i by simp
  moreover have "bus_step (Live b (Some (undefined, i # is))) (Live (unsubscribe i b) (Some (undefined, i # is)))"
    by (rule bus_step.unsub)
  moreover have "send_to undefined i (unsubscribe i b) = None"
    using ch i by (simp add: send_to_def send_def unsubscribe_def)
  then have "bus_step (Live (unsubscribe i b) (Some (undefined, i # is))) Panicked" by (rule bus_step.crash)
  ultimately show "bus_step\<^sup>*\<^sup>* (Live b None) Panicked"
    by (meson converse_rtranclp_into_rtranclp rtranclp.rtrancl_refl)
next
  assume reach: "bus_step\<^sup>*\<^sup>* (Live b None) (Live b' p)"
  with bus_reachable_inv assms show wf: "bus_wf b'" by (fastforce simp: bus_inv_def)
  assume "bus_step (Live b' p) Panicked"
  then obtain evt i "is" where p: "p = Some (evt, i # is)" and "send_to evt i b' = None"
    by (auto elim: bus_stepE)
  then have "i \<notin> set (subs b')"
    using bus_wfD(2) [OF wf, of i] by (auto simp: send_to_def send_def split: option.splits if_splits)
  with p show "\<exists>evt i is. p = Some (evt, i # is) \<and> i \<notin> set (subs b')" by blast
qed

theorem publish_panic_race_witness:
  "bus_step\<^sup>*\<^sup>* (Live (snd (Subscribe 1 empty_bus) :: nat bus) None) Panicked"
  using publish_panic_race [OF bus_wf_Subscribe [OF bus_wf_empty surjective_pairing], where 'a = nat, of 1]
  by (simp add: Subscribe_def empty_bus_def)

text \<open>What the hooks answer when they run one after the other in the given order.\<close>

fun hook_results :: "'s hook list \<Rightarrow> 's \<Rightarrow> (error + unit) list" where
  "hook_results [] s = []"
| "hook_results (h # hs) s = fst (run_state (hook_fn h) s) # hook_results hs (snd (run_state (hook_fn h) s))"

lemma run_hooks_all:
  "snd (run_state (run_hooks hs es) s) = fold (\<lambda>h s. snd (run_state (hook_fn h) s)) hs s"
  by (induction hs arbitrary: es s) (auto split: prod.splits sum.splits)

lemma run_hooks_errors:
  "fst (run_state (run_hooks hs es) s) = [] \<longleftrightarrow> es = [] \<and> list_all (\<lambda>r. r = Inr ()) (hook_results hs s)"
  by (induction hs arbitrary: es s) (auto split: prod.splits sum.splits)

text \<open>
  Shutting down runs every hook, in whatever order they finish, even when some fail; the result
  is an error exactly when at least one hook failed.
\<close>

lemma hooks_run_all:
  "snd (run_state (hooks_Run order) s) = fold (\<lambda>h s. snd (run_state (hook_fn h) s)) order s \<and>
   (fst (run_state (hooks_Run order) s) = Inr () \<longleftrightarrow> list_all (\<lambda>r. r = Inr ()) (hook_results order s))"
  using run_hooks_all [of order "[]" s] run_hooks_errors [of order "[]" s]
  by (auto simp: hooks_Run_def errors_Join_def split: prod.splits option.splits)

end
