(* ===== verification/Kube_Config.thy ===== *)
theory Kube_Config
  imports Cluster
begin

text \<open>
  \<^verbatim>\<open>pkg/k8s/config.go\<close> (the kubeconfig files and the one-time configuration of the cluster)
  and the phase that copies the configuration for root
  (\<^verbatim>\<open>pkg/k8s/phases/init/copyconfig.go\<close>). The encoding of kubeconfig files
  (\<^verbatim>\<open>clientcmd.Load\<close> and \<^verbatim>\<open>clientcmd.Write\<close>) and the API server are parameters.
\<close>

section \<open>Kubeconfig files\<close>

text \<open>The maps of a kubeconfig are lists of entries, in the order Go walks them.\<close>

record AuthInfo =
  credentials :: string
  AuthInfo_LocationOfOrigin :: string

record KCluster =
  Server :: string
  CertificateAuthorityData :: string
  KCluster_LocationOfOrigin :: string

record KContext =
  ctx_Cluster :: string
  ctx_AuthInfo :: string
  ctx_Namespace :: string
  KContext_LocationOfOrigin :: string

record KConfig =
  AuthInfos :: "(string \<times> AuthInfo) list"
  Clusters :: "(string \<times> KCluster) list"
  Contexts :: "(string \<times> KContext) list"
  CurrentContext :: string

record clientcmd =
  cc_Load :: "string \<Rightarrow> error + KConfig"
  cc_Write :: "KConfig \<Rightarrow> error + string"

definition set_origin :: "string \<Rightarrow> KConfig \<Rightarrow> KConfig" where
  "set_origin filename config = config
     \<lparr>AuthInfos := map (\<lambda>(k, v). (k, v\<lparr>AuthInfo_LocationOfOrigin := filename\<rparr>)) (AuthInfos config),
      Clusters := map (\<lambda>(k, v). (k, v\<lparr>KCluster_LocationOfOrigin := filename\<rparr>)) (Clusters config),
      Contexts := map (\<lambda>(k, v). (k, v\<lparr>KContext_LocationOfOrigin := filename\<rparr>)) (Contexts config)\<rparr>"

definition LoadFromFile :: "clientcmd \<Rightarrow> string \<Rightarrow> ('x, KConfig) io" where
  "LoadFromFile cc filename =
     onErr (ReadFile filename) (Wrap ''failed to read kubeconfig file'') (\<lambda>content.
       case cc_Load cc content of
         Inl e \<Rightarrow> throw (Wrap (''failed to ingest kubeconfig file '' @ filename @ '' content'') e)
       | Inr config \<Rightarrow> ret (set_origin filename config))"

text \<open>
  \<^verbatim>\<open>RenameConfig\<close>: every entry is stored under the new name, so the last one walked stays.
\<close>

definition rename_entries :: "string \<Rightarrow> (string \<times> 'a) list \<Rightarrow> (string \<times> 'a) list" where
  "rename_entries newName es = (if es = [] then [] else [(newName, snd (last es))])"

definition RenameConfig :: "string \<Rightarrow> KConfig \<Rightarrow> KConfig" where
  "RenameConfig newName c = c
     \<lparr>AuthInfos := rename_entries newName (AuthInfos c),
      Clusters := rename_entries newName (Clusters c),
      Contexts := rename_entries newName
        (map (\<lambda>(k, v). (k, v\<lparr>ctx_Cluster := newName, ctx_AuthInfo := newName\<rparr>)) (Contexts c)),
      CurrentContext := newName\<rparr>"

definition IsConfigServerAddress :: "error + string \<Rightarrow> string \<Rightarrow> bool" where
  "IsConfigServerAddress restHost address = (case restHost of
       Inl e \<Rightarrow> False | Inr h \<Rightarrow> h = ''https://'' @ address @ '':6443'')"

definition WriteToFile :: "clientcmd \<Rightarrow> KConfig \<Rightarrow> string \<Rightarrow> ('x, unit) io" where
  "WriteToFile cc config filename = (case cc_Write cc config of
       Inl e \<Rightarrow> throw (Wrap ''failed to serialize kubeconfig'' e)
     | Inr content \<Rightarrow>
         onErr (MkdirAll (path_dir filename) mode700) (Wrap ''failed to create directory for kubeconfig file'') (\<lambda>_.
         onErr (WriteFile filename content mode644) (Wrap ''failed to write kubeconfig file'') (\<lambda>_. ret ())))"

section \<open>The copy-config phase\<close>

definition KubernetesRootConfig_path :: string where "KubernetesRootConfig_path = ''/root/.kube/config''"
definition IkniteConfPath :: string where "IkniteConfPath = ''/etc/kubernetes/iknite.conf''"
definition IkniteLocalConfPath :: string where "IkniteLocalConfPath = ''/root/.kube/iknite.conf''"

definition copyAdminConf :: "clientcmd \<Rightarrow> string \<Rightarrow> string \<Rightarrow> ('x, unit) io" where
  "copyAdminConf cc adminConfPath clusterName =
     onErr (LoadFromFile cc adminConfPath) (Wrap ''failed to load admin kubeconfig'') (\<lambda>k8sConfig.
     onErr (WriteToFile cc (RenameConfig clusterName k8sConfig) KubernetesRootConfig_path)
       (Wrap (''failed to write kubeconfig to '' @ KubernetesRootConfig_path)) (\<lambda>_. ret ()))"

definition copyFile :: "string \<Rightarrow> string \<Rightarrow> ('x, unit) io" where
  "copyFile src dst =
     onErr (ReadFile src) (Wrap (''failed to read '' @ src)) (\<lambda>data.
     onErr (MkdirAll (path_dir dst) mode700) (Wrap (''failed to create directory for '' @ dst)) (\<lambda>_.
     onErr (WriteFile dst data mode600) (Wrap (''failed to write '' @ dst)) (\<lambda>_. ret ())))"

definition runCopyConfig :: "clientcmd \<Rightarrow> string \<Rightarrow> ('x, unit) io \<Rightarrow> IkniteClusterSpec \<Rightarrow> ('x, unit) io" where
  "runCopyConfig cc adminConfPath ensureServerConfiguration spec =
     onErr (copyAdminConf cc adminConfPath (ClusterName spec))
       (Wrap (''failed to copy admin.conf to '' @ KubernetesRootConfig_path)) (\<lambda>_.
     onErr ensureServerConfiguration (Wrap ''failed to ensure iknite server configuration'') (\<lambda>_.
     onErr (copyFile IkniteConfPath IkniteLocalConfPath)
       (Wrap (''failed to copy iknite.conf to '' @ IkniteLocalConfPath)) (\<lambda>_. ret ())))"

section \<open>The one-time configuration\<close>

text \<open>
  A config map; \<open>None\<close> is a nil map of data, which can be read but not written. The API server is
  a record of its answers to the three calls on config maps, each with the new server state;
  \<open>apply\<close> applies the resources of a kustomization.
\<close>

record ConfigMap =
  cm_UID :: string
  cm_Data :: "(string \<rightharpoonup> string) option"

record ('k, 'r) kube_api =
  cm_Get :: "'k \<Rightarrow> error + ConfigMap"
  cm_Update :: "ConfigMap \<Rightarrow> ('k, error + ConfigMap) state"
  cm_Create :: "ConfigMap \<Rightarrow> ('k, error + ConfigMap) state"
  apply_resources :: "'r \<Rightarrow> ('k, error + string list) state"

record KustomizeOptions =
  ko_Kustomization :: string
  ForceConfig :: bool
  ForceEmbedded :: bool

definition NewKustomizeOptions :: KustomizeOptions where
  "NewKustomizeOptions = \<lparr>ko_Kustomization = DefaultKustomization, ForceConfig = False, ForceEmbedded = False\<rparr>"

definition GetIkniteConfigMap :: "('k, 'r) kube_api \<Rightarrow> ('k, error + ConfigMap) state" where
  "GetIkniteConfigMap api = State_Monad.bind (gets (cm_Get api)) (\<lambda>r. case r of
       Inl e \<Rightarrow> if errors_Is e ErrNotFound
                then ret \<lparr>cm_UID = '''', cm_Data = Some [''configured'' \<mapsto> ''false'']\<rparr>
                else throw e
     | Inr cm \<Rightarrow> ret cm)"

definition WriteIkniteConfigMap :: "('k, 'r) kube_api \<Rightarrow> ConfigMap \<Rightarrow> ('k, error + ConfigMap) state" where
  "WriteIkniteConfigMap api cm =
     onErr (if cm_UID cm \<noteq> '''' then cm_Update api cm else cm_Create api cm)
       (Wrap ''failed to write iknite config map'') (\<lambda>res. ret res)"

definition is_configured :: "ConfigMap \<Rightarrow> bool" where
  "is_configured cm \<longleftrightarrow> (case cm_Data cm of None \<Rightarrow> False | Some d \<Rightarrow> d ''configured'' = Some ''true'')"

definition set_configured :: "ConfigMap \<Rightarrow> error + ConfigMap" where
  "set_configured cm = (case cm_Data cm of
       None \<Rightarrow> Inl (Panic ''assignment to entry in nil map'')
     | Some d \<Rightarrow> Inr (cm\<lparr>cm_Data := Some (d(''configured'' \<mapsto> ''true''))\<rparr>))"

text \<open>
  \<open>resources\<close> is what the kustomization gives, \<open>clientSet\<close> the error of making the client, if any.
\<close>

definition Kustomize ::
  "('k, 'r) kube_api \<Rightarrow> error option \<Rightarrow> (string \<Rightarrow> bool \<Rightarrow> error + 'r) \<Rightarrow> KustomizeOptions \<Rightarrow> ('k, error + unit) state"
where
  "Kustomize api clientSet resources opts =
     (if ko_Kustomization opts = '''' \<and> \<not> ForceEmbedded opts then ret ()
      else (case clientSet of
        Some e \<Rightarrow> throw e
      | None \<Rightarrow> onErr (GetIkniteConfigMap api) id (\<lambda>cm.
          if is_configured cm \<and> \<not> ForceConfig opts then ret ()
          else (case resources (ko_Kustomization opts) (ForceEmbedded opts) of
            Inl e \<Rightarrow> throw (Wrap ''while getting kustomization resources'' e)
          | Inr rs \<Rightarrow>
              onErr (apply_resources api rs) (Wrap ''while applying kustomization resources server side'') (\<lambda>ids.
              case set_configured cm of
                Inl e \<Rightarrow> throw e
              | Inr cm' \<Rightarrow>
                  onErr (WriteIkniteConfigMap api cm') (Wrap ''while writing configuration'') (\<lambda>_. ret ()))))))"

section \<open>Properties\<close>

text \<open>A kubeconfig whose current context leads to a cluster and to a user it contains.\<close>

definition consistent_config :: "KConfig \<Rightarrow> bool" where
  "consistent_config c \<longleftrightarrow> (case map_of (Contexts c) (CurrentContext c) of
       None \<Rightarrow> False
     | Some x \<Rightarrow> map_of (Clusters c) (ctx_Cluster x) \<noteq> None \<and> map_of (AuthInfos c) (ctx_AuthInfo x) \<noteq> None)"

text \<open>
  Renaming a kubeconfig that has users, clusters and contexts gives a consistent one in which
  everything has the new name; with one entry of each kind, as in the file kubeadm writes, the
  server and the credentials are those of before, and renaming again is renaming once.
\<close>

lemma rename_config_consistent:
  assumes "AuthInfos c \<noteq> []" and "Clusters c \<noteq> []" and "Contexts c \<noteq> []"
  shows "consistent_config (RenameConfig n c) \<and> CurrentContext (RenameConfig n c) = n \<and>
         map fst (AuthInfos (RenameConfig n c)) = [n] \<and> map fst (Clusters (RenameConfig n c)) = [n] \<and>
         (\<forall>k v. Clusters c = [(k, v)] \<longrightarrow> Clusters (RenameConfig n c) = [(n, v)]) \<and>
         (\<forall>k v. AuthInfos c = [(k, v)] \<longrightarrow> AuthInfos (RenameConfig n c) = [(n, v)]) \<and>
         RenameConfig m (RenameConfig n c) = RenameConfig m c"
  using assms
  by (auto simp: RenameConfig_def rename_entries_def consistent_config_def last_map split: prod.splits)

definition kubeadm_config :: KConfig where
  "kubeadm_config = \<lparr>AuthInfos = [(''kubernetes-admin'', \<lparr>credentials = ''key'', AuthInfo_LocationOfOrigin = []\<rparr>)],
     Clusters = [(''kubernetes'', \<lparr>Server = ''https://192.168.99.2:6443'', CertificateAuthorityData = [], KCluster_LocationOfOrigin = []\<rparr>)],
     Contexts = [(''kubernetes-admin@kubernetes'', \<lparr>ctx_Cluster = ''kubernetes'', ctx_AuthInfo = ''kubernetes-admin'',
       ctx_Namespace = [], KContext_LocationOfOrigin = []\<rparr>)],
     CurrentContext = ''kubernetes-admin@kubernetes''\<rparr>"

lemma rename_config_consistent_witness:
  "consistent_config (RenameConfig ''iknite'' kubeadm_config)"
  using rename_config_consistent [of kubeadm_config "''iknite''"] by (simp add: kubeadm_config_def)

text \<open>
  After a successful copy-config phase the configuration of root is the encoding of the admin
  configuration renamed to the cluster's name.
\<close>

lemma admin_conf_copied:
  assumes "run_state (copyAdminConf cc adminConfPath clusterName) w = (Inr (), w')"
  shows "\<exists>content config out. file_content w adminConfPath = Some content \<and> cc_Load cc content = Inr config \<and>
           cc_Write cc (RenameConfig clusterName (set_origin adminConfPath config)) = Inr out \<and>
           file_content w' KubernetesRootConfig_path = Some out"
proof -
  from assms obtain config w1 where 1: "run_state (LoadFromFile cc adminConfPath) w = (Inr config, w1)"
    and 2: "run_state (WriteToFile cc (RenameConfig clusterName config) KubernetesRootConfig_path) w1 = (Inr (), w')"
    unfolding copyAdminConf_def by (auto elim!: onErr_Inr_elim)
  from 1 obtain content where "file_content w adminConfPath = Some content"
    "\<exists>k. cc_Load cc content = Inr k \<and> config = set_origin adminConfPath k"
    unfolding LoadFromFile_def by (auto elim!: onErr_Inr_elim dest!: ReadFile_ok split: sum.splits)
  moreover from 2 obtain out where "cc_Write cc (RenameConfig clusterName config) = Inr out"
    "file_content w' KubernetesRootConfig_path = Some out"
    unfolding WriteToFile_def by (auto elim!: onErr_Inr_elim dest!: WriteFile_ok split: sum.splits)
  ultimately show ?thesis by auto
qed

definition sample_clientcmd :: clientcmd where
  "sample_clientcmd = \<lparr>cc_Load = (\<lambda>_. Inr kubeadm_config), cc_Write = (\<lambda>_. Inr ''apiVersion: v1'')\<rparr>"

lemma copy_sample:
  "fst (run_state (copyAdminConf sample_clientcmd ''/etc/kubernetes/admin.conf'' ''iknite'')
     (calm_world [''/etc/kubernetes/admin.conf'' \<mapsto> File [] mode600])) = Inr ()"
  by code_simp

lemma admin_conf_copied_witness:
  "file_content (snd (run_state (copyAdminConf sample_clientcmd ''/etc/kubernetes/admin.conf'' ''iknite'')
     (calm_world [''/etc/kubernetes/admin.conf'' \<mapsto> File [] mode600]))) ''/root/.kube/config'' = Some ''apiVersion: v1''"
proof -
  let ?w = "calm_world [''/etc/kubernetes/admin.conf'' \<mapsto> File [] mode600]"
  have "run_state (copyAdminConf sample_clientcmd ''/etc/kubernetes/admin.conf'' ''iknite'') ?w =
      (Inr (), snd (run_state (copyAdminConf sample_clientcmd ''/etc/kubernetes/admin.conf'' ''iknite'') ?w))"
    by (simp add: prod_eq_iff copy_sample)
  from admin_conf_copied [OF this] show ?thesis
    by (auto simp: sample_clientcmd_def KubernetesRootConfig_path_def)
qed

text \<open>
  What the program relies on: what has been created or updated is what is read next, with an
  identifier that is not empty, and applying resources leaves the config map alone.
\<close>

definition config_map_laws :: "('k, 'r) kube_api \<Rightarrow> bool" where
  "config_map_laws api \<longleftrightarrow>
     (\<forall>cm s r s'. run_state (cm_Update api cm) s = (Inr r, s') \<longrightarrow>
        (\<exists>cm'. cm_Get api s' = Inr cm' \<and> cm_Data cm' = cm_Data cm \<and> cm_UID cm' \<noteq> '''')) \<and>
     (\<forall>cm s r s'. run_state (cm_Create api cm) s = (Inr r, s') \<longrightarrow>
        (\<exists>cm'. cm_Get api s' = Inr cm' \<and> cm_Data cm' = cm_Data cm \<and> cm_UID cm' \<noteq> '''')) \<and>
     (\<forall>cm s e s'. run_state (cm_Update api cm) s = (Inl e, s') \<longrightarrow> cm_Get api s' = cm_Get api s) \<and>
     (\<forall>cm s e s'. run_state (cm_Create api cm) s = (Inl e, s') \<longrightarrow> cm_Get api s' = cm_Get api s) \<and>
     (\<forall>rs s r s'. run_state (apply_resources api rs) s = (r, s') \<longrightarrow> cm_Get api s' = cm_Get api s)"

lemma config_map_lawsD:
  assumes "config_map_laws api"
  shows "run_state (cm_Update api cm) s = (Inr r, s') \<Longrightarrow> \<exists>cm'. cm_Get api s' = Inr cm' \<and> cm_Data cm' = cm_Data cm"
    and "run_state (cm_Create api cm) s = (Inr r, s') \<Longrightarrow> \<exists>cm'. cm_Get api s' = Inr cm' \<and> cm_Data cm' = cm_Data cm"
    and "run_state (cm_Update api cm) s = (Inl e, s') \<Longrightarrow> cm_Get api s' = cm_Get api s"
    and "run_state (cm_Create api cm) s = (Inl e, s') \<Longrightarrow> cm_Get api s' = cm_Get api s"
    and "run_state (apply_resources api rs) s = (a, s') \<Longrightarrow> cm_Get api s' = cm_Get api s"
  using assms unfolding config_map_laws_def by metis+

lemma WriteIkniteConfigMap_laws:
  assumes "config_map_laws api" and "run_state (WriteIkniteConfigMap api cm) s = (r, s')"
  shows "case r of Inr _ \<Rightarrow> \<exists>cm'. cm_Get api s' = Inr cm' \<and> cm_Data cm' = cm_Data cm
                 | Inl _ \<Rightarrow> cm_Get api s' = cm_Get api s"
proof -
  obtain x t where x: "run_state (if cm_UID cm \<noteq> '''' then cm_Update api cm else cm_Create api cm) s = (x, t)"
    by (metis prod.exhaust)
  with assms(2) config_map_lawsD [OF assms(1)] show ?thesis
    unfolding WriteIkniteConfigMap_def
    by (cases x) (auto simp: run_onErr split: if_splits)
qed

lemma run_GetIkniteConfigMap:
  "run_state (GetIkniteConfigMap api) s =
     ((case cm_Get api s of
         Inl e \<Rightarrow> if errors_Is e ErrNotFound then Inr \<lparr>cm_UID = '''', cm_Data = Some [''configured'' \<mapsto> ''false'']\<rparr> else Inl e
       | Inr cm \<Rightarrow> Inr cm), s)"
  by (auto simp: GetIkniteConfigMap_def split: sum.splits)

lemma Kustomize_configured:
  assumes "cm_Get api s = Inr cm" and "is_configured cm" and "\<not> ForceConfig opts"
  shows "run_state (Kustomize api None resources opts) s = (Inr (), s)"
proof -
  have "run_state (GetIkniteConfigMap api) s = (Inr cm, s)" by (simp add: run_GetIkniteConfigMap assms(1))
  with assms(2,3) show ?thesis by (simp add: Kustomize_def run_onErr)
qed

lemma set_configured_is: "set_configured cm = Inr cm' \<Longrightarrow> cm_Data cm2 = cm_Data cm' \<Longrightarrow> is_configured cm2"
  by (auto simp: set_configured_def is_configured_def split: option.splits)

text \<open>A run that gets as far as applying resources: success sets the mark, failure leaves it alone.\<close>

lemma Kustomize_applies:
  assumes laws: "config_map_laws api" and run: "run_state (Kustomize api None resources opts) s = (r, s')"
    and some: "ko_Kustomization opts \<noteq> '''' \<or> ForceEmbedded opts"
    and g: "run_state (GetIkniteConfigMap api) s = (Inr cm, s)" and nc: "\<not> (is_configured cm \<and> \<not> ForceConfig opts)"
    and rs: "resources (ko_Kustomization opts) (ForceEmbedded opts) = Inr rs"
  shows "(r = Inr () \<longrightarrow> (\<exists>cm. cm_Get api s' = Inr cm \<and> is_configured cm)) \<and> (r \<noteq> Inr () \<longrightarrow> cm_Get api s' = cm_Get api s)"
proof -
  obtain a t where a: "run_state (apply_resources api rs) s = (a, t)" by (metis prod.exhaust)
  have same: "cm_Get api t = cm_Get api s" using config_map_lawsD(5) [OF laws a] .
  have k: "run_state (Kustomize api None resources opts) s =
    (case a of Inl e \<Rightarrow> (Inl (Wrap ''while applying kustomization resources server side'' e), t)
     | Inr _ \<Rightarrow> (case set_configured cm of Inl e \<Rightarrow> (Inl e, t)
         | Inr cm' \<Rightarrow> run_state (onErr (WriteIkniteConfigMap api cm') (Wrap ''while writing configuration'') (\<lambda>_. ret ())) t))"
    using some g nc rs a by (auto simp: Kustomize_def run_onErr split: sum.splits)
  show ?thesis
  proof (cases "\<exists>x cm'. a = Inr x \<and> set_configured cm = Inr cm'")
    case True
    then obtain x cm' where a': "a = Inr x" "set_configured cm = Inr cm'" by blast
    obtain u v where u: "run_state (WriteIkniteConfigMap api cm') t = (u, v)" by (metis prod.exhaust)
    from WriteIkniteConfigMap_laws [OF laws u] k a' u run same show ?thesis
      by (cases u) (auto simp: run_onErr set_configured_is [OF a'(2)])
  next
    case False
    with k run same show ?thesis by (auto split: sum.splits)
  qed
qed


text \<open>An API server that keeps one config map and accepts everything.\<close>

definition toy_api :: "(ConfigMap option \<times> nat, nat) kube_api" where
  "toy_api = \<lparr>cm_Get = (\<lambda>(m, n). case m of None \<Rightarrow> Inl ErrNotFound | Some cm \<Rightarrow> Inr cm),
     cm_Update = (\<lambda>cm. State (\<lambda>(m, n). (Inr (cm\<lparr>cm_UID := ''u''\<rparr>), (Some (cm\<lparr>cm_UID := ''u''\<rparr>), n)))),
     cm_Create = (\<lambda>cm. State (\<lambda>(m, n). (Inr (cm\<lparr>cm_UID := ''u''\<rparr>), (Some (cm\<lparr>cm_UID := ''u''\<rparr>), n)))),
     apply_resources = (\<lambda>r. State (\<lambda>(m, n). (Inr [], (m, n + r))))\<rparr>"

lemma toy_api_laws: "config_map_laws toy_api"
  by (auto simp: config_map_laws_def toy_api_def)


end
