(* ===== verification/Workloads.thy ===== *)
theory Workloads
  imports Utils Kube_Config "HOL-Library.Char_ord" "HOL-Library.List_Lexorder" "HOL-Library.Sublist"
    "HOL-Library.Multiset"
begin

text \<open>
  The state of the workloads of a cluster (\<^verbatim>\<open>pkg/k8s/client.go\<close>, \<^verbatim>\<open>pkg/k8s/kstatus.go\<close>):
  which resource types exist, the objects of those types, whether each of them is ready, and the
  condition that is evaluated while something waits for all of them; the order in which the resources
  of a kustomization are applied; the status of an Argo CD application.

  The API server is a parameter: a record of its answers, each of which may change a state \<open>'s\<close>.
\<close>

section \<open>Access to the cluster\<close>

record 'o info =
  info_Namespace :: string
  info_Name :: string
  info_GroupKind :: string
  info_ObjectName :: string
  info_Object :: 'o

record Application =
  app_Name :: string
  app_Sync :: string
  app_Health :: string
  app_Revision :: string

text \<open>
  \<open>poly_viewer\<close> is kubectl's viewer for the kind of an object: an error when there is none, otherwise
  what it says of the object. \<open>kstatus_Compute\<close> gives whether the object is current, and a message.
\<close>

record ('s, 'o) cluster_access =
  ToRESTMapper :: "('s, error + unit) state"
  KindFor :: "string \<Rightarrow> ('s, error + unit) state"
  all_infos :: "string list \<Rightarrow> ('s, error + 'o info list) state"
  namespace_infos :: "string \<Rightarrow> string list \<Rightarrow> ('s, error + 'o info list) state"
  is_application :: "'o \<Rightarrow> bool"
  FromUnstructured :: "'o \<Rightarrow> error + Application"
  poly_viewer :: "'o \<Rightarrow> error + (error + string \<times> bool)"
  ToUnstructured :: "'o \<Rightarrow> error + unit"
  kstatus_Compute :: "'o \<Rightarrow> error + bool \<times> string"

section \<open>The states of the workloads\<close>

definition OkString :: "bool \<Rightarrow> string" where
  "OkString b = (if b then [CHR 0xF0, CHR 0x9F, CHR 0x9F, CHR 0xA9] else [CHR 0xF0, CHR 0x9F, CHR 0x9F, CHR 0xA5])"

definition workload_String :: "WorkloadState \<Rightarrow> string" where
  "workload_String r = Namespace r @ ''/'' @ WName r @ '':'' @ OkString (Ok r)"

text \<open>A call that is tried again, \<open>n\<close> times at most, as long as \<open>again\<close> accepts its error.\<close>

fun retried :: "nat \<Rightarrow> (error \<Rightarrow> bool) \<Rightarrow> ('s, error + 'a) state \<Rightarrow> ('s, error + 'a) state" where
  "retried 0 again m = m"
| "retried (Suc n) again m = State_Monad.bind m (\<lambda>r. case r of
     Inr x \<Rightarrow> ret x
   | Inl e \<Rightarrow> if again e then retried n again m else throw e)"

fun ValidateResourceTypes :: "('s, 'o) cluster_access \<Rightarrow> string list \<Rightarrow> ('s, error + string list) state" where
  "ValidateResourceTypes a [] = ret []"
| "ValidateResourceTypes a (t # ts) =
     State_Monad.bind (retried 2 (\<lambda>e. \<not> errors_Is e ErrNoMatch) (KindFor a t)) (\<lambda>r. case r of
       Inl e \<Rightarrow> if errors_Is e ErrNoMatch then ValidateResourceTypes a ts
                else throw (Wrap (''while validating resource type '' @ t) e)
     | Inr _ \<Rightarrow> onErr (ValidateResourceTypes a ts) id (\<lambda>valid. ret (t # valid)))"

definition trim_newline :: "string \<Rightarrow> string" where
  "trim_newline s = (if s \<noteq> [] \<and> last s = CHR 0x0A then butlast s else s)"

definition application_viewer :: "Application \<Rightarrow> string \<times> bool" where
  "application_viewer app = (''application '' @ [CHR 0x22] @ app_Name app @ [CHR 0x22] @ '' sync status: '' @ app_Sync app @
      '', health status: '' @ app_Health app, app_Health app = ''Healthy'' \<and> app_Sync app = ''Synced'')"

definition viewer_Status :: "('s, 'o) cluster_access \<Rightarrow> 'o \<Rightarrow> error + string \<times> bool" where
  "viewer_Status a obj =
     (if is_application a obj
      then (case FromUnstructured a obj of
          Inl e \<Rightarrow> Inl (Wrap ''failed to get workload status'' (Wrap ''failed to convert'' e))
        | Inr app \<Rightarrow> Inr (application_viewer app))
      else (case poly_viewer a obj of
          Inl e \<Rightarrow> Inl (Wrap ''failed to get status viewer'' (Wrap ''failed to get status viewer for'' e))
        | Inr (Inl e) \<Rightarrow> Inl (Wrap ''failed to get workload status'' e)
        | Inr (Inr r) \<Rightarrow> Inr r))"

fun view_states :: "('s, 'o) cluster_access \<Rightarrow> 'o info list \<Rightarrow> error + WorkloadState list" where
  "view_states a [] = Inr []"
| "view_states a (i # is) = (case viewer_Status a (info_Object i) of
     Inl e \<Rightarrow> Inl e
   | Inr (msg, ok) \<Rightarrow> (case view_states a is of
       Inl e \<Rightarrow> Inl e
     | Inr ss \<Rightarrow> Inr (\<lparr>Namespace = info_Namespace i, WName = info_ObjectName i, Message = trim_newline msg, Ok = ok\<rparr> # ss)))"

definition workload_types :: "string list" where
  "workload_types = [''deployments'', ''statefulsets'', ''daemonsets'', ''applications'']"

definition AllWorkloadStates :: "('s, 'o) cluster_access \<Rightarrow> ('s, error + WorkloadState list) state" where
  "AllWorkloadStates a =
     onErr (ToRESTMapper a) (Wrap ''failed to get REST mapper'') (\<lambda>_.
     onErr (ValidateResourceTypes a workload_types) (Wrap ''failed to validate resource types'') (\<lambda>types.
     onErr (all_infos a types) (Wrap ''failed to get resource infos'') (\<lambda>infos.
     case view_states a infos of
       Inl e \<Rightarrow> throw e
     | Inr ss \<Rightarrow> ret (sort_key workload_String ss))))"

section \<open>The condition \<^emph>\<open>all workloads are ready\<close>\<close>

text \<open>
  The closure keeps two counters next to the state of the cluster: the evaluations so far, and how
  many in a row have found everything ready. The callback may change the answer.
\<close>

record 's ready_state =
  rs_state :: 's
  iteration :: nat
  okIterations :: nat

type_synonym 's callback =
  "bool \<Rightarrow> nat \<Rightarrow> WorkloadState list \<Rightarrow> WorkloadState list \<Rightarrow> nat \<Rightarrow> nat \<Rightarrow> ('s, bool \<times> error option) state"

definition on_state :: "('s, 'a) state \<Rightarrow> ('s ready_state, 'a) state" where
  "on_state m = State (\<lambda>p. case run_state m (rs_state p) of (x, s) \<Rightarrow> (x, p\<lparr>rs_state := s\<rparr>))"

definition WorkloadsReadyCondition ::
  "('s, 'o) cluster_access \<Rightarrow> 's callback option \<Rightarrow> 's ready_state condition"
where
  "WorkloadsReadyCondition a callback = State_Monad.bind (on_state (AllWorkloadStates a)) (\<lambda>r. case r of
       Inl e \<Rightarrow> State_Monad.return (False, Some e)
     | Inr states \<Rightarrow>
         let unready = filter (\<lambda>s. \<not> Ok s) states; ready = filter Ok states; allReady = (unready = [])
         in State_Monad.bind (modify (\<lambda>p. p\<lparr>okIterations := (if allReady then Suc (okIterations p) else 0)\<rparr>)) (\<lambda>_.
            State_Monad.bind (gets (\<lambda>p. (iteration p, okIterations p))) (\<lambda>(it, okit).
            State_Monad.bind (case callback of
                None \<Rightarrow> State_Monad.return (allReady, None)
              | Some cb \<Rightarrow> on_state (cb allReady (length states) ready unready it okit)) (\<lambda>answer.
            State_Monad.bind (modify (\<lambda>p. p\<lparr>iteration := Suc (iteration p)\<rparr>)) (\<lambda>_.
            State_Monad.return answer)))))"

section \<open>The workloads of one namespace\<close>

definition kstatus_state :: "('s, 'o) cluster_access \<Rightarrow> 'o info \<Rightarrow> WorkloadState" where
  "kstatus_state a i = (case kstatus_Compute a (info_Object i) of
       Inl e \<Rightarrow> \<lparr>Namespace = info_Namespace i, WName = info_ObjectName i, Message = ''failed to compute status'', Ok = False\<rparr>
     | Inr (current, msg) \<Rightarrow> \<lparr>Namespace = info_Namespace i, WName = info_ObjectName i, Message = msg, Ok = current\<rparr>)"

fun kstatus_states :: "('s, 'o) cluster_access \<Rightarrow> 'o info list \<Rightarrow> error + WorkloadState list" where
  "kstatus_states a [] = Inr []"
| "kstatus_states a (i # is) = (case ToUnstructured a (info_Object i) of
     Inl e \<Rightarrow> Inl (Wrap (''failed to convert '' @ info_ObjectName i @ '' to unstructured'') e)
   | Inr _ \<Rightarrow> (case kstatus_states a is of Inl e \<Rightarrow> Inl e | Inr ss \<Rightarrow> Inr (kstatus_state a i # ss)))"

definition workloadStatesToSlice :: "('s, 'o) cluster_access \<Rightarrow> 'o info list \<Rightarrow> error + WorkloadState list" where
  "workloadStatesToSlice a infos = (case kstatus_states a infos of
       Inl e \<Rightarrow> Inl e | Inr ss \<Rightarrow> Inr (sort_key workload_String ss))"

definition ResourceInfosForNamespace ::
  "('s, 'o) cluster_access \<Rightarrow> string \<Rightarrow> string list \<Rightarrow> ('s, error + 'o info list) state"
where
  "ResourceInfosForNamespace a namespace types =
     onErr (namespace_infos a namespace types) (Wrap (''failed to get resource types infos in namespace '' @ namespace)) (\<lambda>infos. ret infos)"

definition WorkloadStatesForNamespace ::
  "('s, 'o) cluster_access \<Rightarrow> string \<Rightarrow> string list \<Rightarrow> ('s, error + WorkloadState list) state"
where
  "WorkloadStatesForNamespace a namespace types =
     onErr (ResourceInfosForNamespace a namespace types)
       (Wrap (''while getting workload states for namespace '' @ namespace)) (\<lambda>infos.
     State_Monad.return (workloadStatesToSlice a infos))"

text \<open>The identifiers of the objects of a namespace: any error is tried again, three attempts in all.\<close>

definition infosToObjectMetadataSet :: "'o info list \<Rightarrow> (string \<times> string \<times> string) list" where
  "infosToObjectMetadataSet infos = map (\<lambda>i. (info_Namespace i, info_Name i, info_GroupKind i)) infos"

definition ObjectMetadataSetForNamespace ::
  "('s, 'o) cluster_access \<Rightarrow> string \<Rightarrow> string list \<Rightarrow> ('s, error + (string \<times> string \<times> string) list) state"
where
  "ObjectMetadataSetForNamespace a namespace types =
     onErr (retried 2 (\<lambda>_. True) (ResourceInfosForNamespace a namespace types))
       (Wrap (''while getting object metadata set for namespace '' @ namespace)) (\<lambda>infos.
     ret (infosToObjectMetadataSet infos))"

section \<open>Argo CD applications\<close>

datatype kstatus = UnknownStatus | CurrentStatus | InProgressStatus

text \<open>\<^verbatim>\<open>Revision[0:7]\<close> panics when the revision is shorter.\<close>

definition application_status :: "Application \<Rightarrow> error + kstatus \<times> string" where
  "application_status app =
     (if app_Sync app = ''Synced'' \<and> app_Health app = ''Healthy''
      then (if length (app_Revision app) < 7 then Inl (Panic ''slice bounds out of range'')
            else Inr (CurrentStatus, ''Application is healthy and synced on revision '' @ take 7 (app_Revision app)))
      else Inr (InProgressStatus, ''Application sync status: '' @ app_Sync app @ '', health status: '' @ app_Health app))"

definition ReadStatusForObject :: "('s, 'o) cluster_access \<Rightarrow> 'o \<Rightarrow> error + kstatus \<times> string" where
  "ReadStatusForObject a obj = (case FromUnstructured a obj of
       Inl e \<Rightarrow> Inl (Wrap ''while converting unstructured to Application'' e)
     | Inr app \<Rightarrow> application_status app)"

definition ReadStatus :: "('s, 'o) cluster_access \<Rightarrow> error + 'o \<Rightarrow> error + kstatus \<times> string" where
  "ReadStatus a got = (case got of
       Inl e \<Rightarrow> Inl (Wrap ''while getting resource'' e)
     | Inr obj \<Rightarrow> ReadStatusForObject a obj)"

section \<open>Laws\<close>

text \<open>What the two lists of states have in common: one state per object, or the first error.\<close>

lemma view_states_map:
  "view_states a is = Inr ss \<Longrightarrow> length ss = length is \<and>
     map (\<lambda>s. (Namespace s, WName s)) ss = map (\<lambda>i. (info_Namespace i, info_ObjectName i)) is \<and>
     list_all2 (\<lambda>i s. \<exists>msg. viewer_Status a (info_Object i) = Inr (msg, Ok s)) is ss"
  by (induction "is" arbitrary: ss) (auto split: sum.splits prod.splits)

lemma retried_calls:
  assumes "\<And>s r s'. run_state m s = (r, s') \<Longrightarrow> ncalls s' = Suc (ncalls s)"
  shows "run_state (retried n again m) s = (r, s') \<Longrightarrow> ncalls s < ncalls s' \<and> ncalls s' \<le> ncalls s + Suc n"
proof (induction n arbitrary: s r s')
  case 0
  with assms show ?case by fastforce
next
  case (Suc n)
  obtain x t where x: "run_state m s = (x, t)" by (metis surj_pair)
  with assms have "ncalls t = Suc (ncalls s)" by blast
  with Suc x show ?case by (fastforce split: sum.splits if_splits)
qed

lemma ValidateResourceTypes_calls:
  assumes "\<And>t s r s'. run_state (KindFor a t) s = (r, s') \<Longrightarrow> ncalls s' = Suc (ncalls s)"
  shows "run_state (ValidateResourceTypes a ts) s = (r, s') \<Longrightarrow> ncalls s' \<le> ncalls s + 3 * length ts"
proof (induction ts arbitrary: s r s')
  case (Cons t ts)
  obtain x u where x: "run_state (retried 2 (\<lambda>e. \<not> errors_Is e ErrNoMatch) (KindFor a t)) s = (x, u)" by (metis surj_pair)
  have u: "ncalls u \<le> ncalls s + 3" using retried_calls [where ncalls = ncalls, OF assms x] by simp
  obtain y v where y: "run_state (ValidateResourceTypes a ts) u = (y, v)" by (metis surj_pair)
  from Cons.IH [OF y] u have "ncalls v \<le> ncalls s + 3 * length (t # ts)" by simp
  moreover have "s' = u \<or> s' = v"
    using Cons.prems x y by (auto simp: run_onErr split: sum.splits if_splits)
  ultimately show ?case using u by auto
qed simp

lemma ValidateResourceTypes_subseq:
  "run_state (ValidateResourceTypes a ts) s = (Inr valid, s') \<Longrightarrow> subseq valid ts"
proof (induction ts arbitrary: s valid s')
  case (Cons t ts)
  then show ?case
    by (auto simp: run_onErr split: sum.splits if_splits prod.splits)
qed simp

lemma ValidateResourceTypes_error:
  "run_state (ValidateResourceTypes a ts) s = (Inl e, s') \<Longrightarrow>
     \<exists>t \<in> set ts. \<exists>cause. e = Wrap (''while validating resource type '' @ t) cause \<and> \<not> errors_Is cause ErrNoMatch"
proof (induction ts arbitrary: s s')
  case (Cons t ts)
  then show ?case
    by (fastforce simp: run_onErr split: sum.splits if_splits prod.splits)
qed simp

section \<open>Properties\<close>

text \<open>
  The states of the workloads are complete and ordered: one state for each object the cluster
  listed for the known types among the four the program asks for, carrying its namespace and name and
  the verdict of its viewer, sorted by namespace, name and verdict.
\<close>

lemma workload_states_complete:
  assumes "run_state (AllWorkloadStates a) s = (Inr ss, s')"
  shows "\<exists>types infos s1. subseq types workload_types \<and> run_state (all_infos a types) s1 = (Inr infos, s') \<and>
     sorted (map workload_String ss) \<and>
     mset (map (\<lambda>x. (Namespace x, WName x)) ss) = mset (map (\<lambda>i. (info_Namespace i, info_ObjectName i)) infos) \<and>
     (\<forall>x \<in> set ss. \<exists>i \<in> set infos. \<exists>msg. viewer_Status a (info_Object i) = Inr (msg, Ok x))"
proof -
  from assms obtain s0 types infos s1 vs where
    types: "run_state (ValidateResourceTypes a workload_types) s0 = (Inr types, s1)"
    and infos: "run_state (all_infos a types) s1 = (Inr infos, s')"
    and vs: "view_states a infos = Inr vs" "ss = sort_key workload_String vs"
    unfolding AllWorkloadStates_def by (auto elim!: onErr_Inr_elim split: sum.splits)
  have "subseq types workload_types" by (rule ValidateResourceTypes_subseq [OF types])
  moreover have "mset (map (\<lambda>x. (Namespace x, WName x)) ss) = mset (map (\<lambda>i. (info_Namespace i, info_ObjectName i)) infos)"
    using view_states_map [OF vs(1)] unfolding vs(2) mset_map mset_sort by (simp flip: mset_map)
  moreover have "\<exists>i \<in> set infos. \<exists>msg. viewer_Status a (info_Object i) = Inr (msg, Ok x)" if "x \<in> set ss" for x
  proof -
    from that have "x \<in> set vs" unfolding vs(2) by simp
    then obtain n where n: "n < length vs" "vs ! n = x" unfolding in_set_conv_nth by blast
    from view_states_map [OF vs(1)] have
      "list_all2 (\<lambda>i s. \<exists>msg. viewer_Status a (info_Object i) = Inr (msg, Ok s)) infos vs" and "length infos = length vs"
      by simp_all
    with list_all2_nthD2 [OF this(1) n(1)] n show ?thesis using nth_mem [of n infos] by metis
  qed
  moreover have "sorted (map workload_String ss)" unfolding vs(2) by simp
  ultimately show ?thesis using infos
    by (intro exI [of _ types] exI [of _ infos] exI [of _ s1] conjI ballI) simp_all
qed

definition two_deployments :: "(nat, bool) cluster_access" where
  "two_deployments = \<lparr>ToRESTMapper = ret (),
     KindFor = (\<lambda>t. State (\<lambda>n. (if t = ''applications'' then Inl ErrNoMatch else Inr (), Suc n))),
     all_infos = (\<lambda>types. ret [\<lparr>info_Namespace = ''b'', info_Name = ''y'', info_GroupKind = ''apps'', info_ObjectName = ''y'', info_Object = True\<rparr>,
        \<lparr>info_Namespace = ''a'', info_Name = ''x'', info_GroupKind = ''apps'', info_ObjectName = ''x'', info_Object = False\<rparr>]),
     namespace_infos = (\<lambda>_ _. ret []), is_application = (\<lambda>_. False), FromUnstructured = (\<lambda>_. Inl ErrNotFound),
     poly_viewer = (\<lambda>ok. Inr (Inr (''replicas'', ok))), ToUnstructured = (\<lambda>_. Inr ()), kstatus_Compute = (\<lambda>ok. Inr (ok, []))\<rparr>"

lemma two_deployments_states:
  "run_state (AllWorkloadStates two_deployments) 0 =
     (Inr [\<lparr>Namespace = ''a'', WName = ''x'', Message = ''replicas'', Ok = False\<rparr>,
           \<lparr>Namespace = ''b'', WName = ''y'', Message = ''replicas'', Ok = True\<rparr>], 4)"
  by code_simp

lemma workload_states_complete_witness:
  "\<exists>ss. fst (run_state (AllWorkloadStates two_deployments) 0) = Inr ss \<and> sorted (map workload_String ss) \<and> length ss = 2"
  using workload_states_complete [OF two_deployments_states] by (auto simp: two_deployments_states)



text \<open>The answers of repeated evaluations of a condition, and where they lead.\<close>

fun evaluations :: "nat \<Rightarrow> 's condition \<Rightarrow> 's \<Rightarrow> (bool \<times> error option) list \<times> 's" where
  "evaluations 0 c s = ([], s)"
| "evaluations (Suc n) c s = (case evaluations n c s of (as, t) \<Rightarrow>
     (case run_state c t of (x, u) \<Rightarrow> (as @ [x], u)))"

lemma run_WorkloadsReadyCondition:
  "run_state (WorkloadsReadyCondition a None) p = (case run_state (AllWorkloadStates a) (rs_state p) of
       (Inl e, s) \<Rightarrow> ((False, Some e), p\<lparr>rs_state := s\<rparr>)
     | (Inr ss, s) \<Rightarrow> ((list_all Ok ss, None),
         p\<lparr>rs_state := s, okIterations := (if list_all Ok ss then Suc (okIterations p) else 0), iteration := Suc (iteration p)\<rparr>))"
  by (auto simp: WorkloadsReadyCondition_def on_state_def Let_def list_all_iff filter_empty_conv split: prod.splits sum.splits)

text \<open>
  The counters of the readiness condition: after any number of evaluations from the start, the
  first is the number of evaluations that got an answer from the cluster and the second the length of
  the last uninterrupted run of \<^emph>\<open>ready\<close> among these; an evaluation that fails counts for neither and
  does not break the run. A cluster without workloads counts as ready.
\<close>

lemma ready_counters:
  assumes "evaluations n (WorkloadsReadyCondition a None) \<lparr>rs_state = s, iteration = 0, okIterations = 0\<rparr> = (as, p)"
  shows "length as = n \<and> iteration p = length (filter (\<lambda>x. snd x = None) as) \<and>
    okIterations p = length (takeWhile fst (rev (filter (\<lambda>x. snd x = None) as)))"
  using assms
proof (induction n arbitrary: as p)
  case (Suc n)
  obtain bs q where b: "evaluations n (WorkloadsReadyCondition a None) \<lparr>rs_state = s, iteration = 0, okIterations = 0\<rparr> = (bs, q)"
    by (metis surj_pair)
  with Suc.IH [OF b] Suc.prems show ?case
    by (auto simp: run_WorkloadsReadyCondition split: prod.splits sum.splits if_splits)
qed simp

lemma ready_counters_witness:
  "okIterations (snd (evaluations 2 (WorkloadsReadyCondition two_deployments None)
     \<lparr>rs_state = 0, iteration = 0, okIterations = 0\<rparr>)) = 0"
proof -
  let ?e = "evaluations 2 (WorkloadsReadyCondition two_deployments None) \<lparr>rs_state = 0, iteration = 0, okIterations = 0\<rparr>"
  have "fst ?e = [(False, None), (False, None)]" by code_simp
  with ready_counters [OF surjective_pairing, of 2 two_deployments 0] show ?thesis by simp
qed

text \<open>
  The two readers of an Argo CD application agree: the one of the status monitor calls it ready
  exactly when the other one reports it as current or panics, and the panic happens exactly for a
  ready application whose revision is shorter than seven characters.
\<close>

lemma application_readers_agree:
  "(snd (application_viewer app) \<longleftrightarrow>
      (\<exists>msg. application_status app = Inr (CurrentStatus, msg)) \<or> (\<exists>m. application_status app = Inl (Panic m))) \<and>
   ((\<exists>m. application_status app = Inl (Panic m)) \<longleftrightarrow> snd (application_viewer app) \<and> length (app_Revision app) < 7) \<and>
   (snd (application_viewer app) \<or> (\<exists>msg. application_status app = Inr (InProgressStatus, msg)))"
  by (auto simp: application_viewer_def application_status_def)

end
