(* ===== verification/Init_Data.thy ===== *)
theory Init_Data
  imports Cleaner Kubelet Workloads
begin

text \<open>
  The data all the phases of \<^verbatim>\<open>iknite init\<close> share (\<^verbatim>\<open>pkg/cmd/init_data.go\<close>): the state of
  the machine extended with the cluster object, the kubelet process, the bus of status updates, the
  shutdown hooks, and the configurations and clients that are made once and kept. The interfaces of
  \<^verbatim>\<open>pkg/k8s/phases/init/types.go\<close> are views of this record.
\<close>

section \<open>The data\<close>

text \<open>The fields of the kubeadm configuration the program reads or writes.\<close>

record InitConfiguration =
  CertificateKey :: string
  BootstrapTokens :: "string list"
  Patches_Directory :: "string option"
  AdvertiseAddress :: string
  BindPort :: int
  SkipPhases :: "string list"
  DNS_Disabled :: bool
  Proxy_Disabled :: bool
  Etcd_DataDir :: string
  CertSANs :: "string list"

text \<open>
  A shutdown hook is a closure in the source. Three phases register one: \<^verbatim>\<open>mdns-publish\<close> closes
  its connection, \<^verbatim>\<open>serve\<close> leaves the bus (with the identifier of its subscription) and stops the
  server, \<^verbatim>\<open>proxy-api\<close> closes its listeners.
\<close>

datatype shutdown = CloseMDNS | StopServer nat | CloseProxyListeners "nat list"

text \<open>
  The goroutines of the error group likewise: the monitor of the workloads, and the watch that sets
  the addresses of the load balancers. Nothing waits for the group.
\<close>

datatype goroutine = MonitorWorkloads | WatchSetLBIPServices "string list"

record 'c initData = world +
  ikniteCluster :: IkniteCluster
  kubeletProcess :: "int option"
  clusterUpdateBus :: "IkniteCluster bus"
  hookManager :: "(string \<times> shutdown) list"
  errGroup :: "goroutine list"
  cfg :: InitConfiguration
  d_dryRun :: bool
  dryRunDir :: string
  certificatesDir :: string
  kubeconfigDir :: string
  kubeconfigPath :: string
  patchesDir :: string
  kubeconfig :: "KConfig option"
  kubeconfigOriginal :: "KConfig option"
  clientGetter :: "KConfig option"
  client :: "'c option"
  adminKubeConfigBootstrapped :: bool

type_synonym ('c, 'x, 'a) dio = "(('c, 'x) initData_scheme, error + 'a) state"

section \<open>Where things are written\<close>

record kubeadm_constants =
  kc_KubernetesDir :: string
  AdminKubeConfigFileName :: string
  StaticPodDirectory :: string
  kc_KubeletRunDirectory :: string

definition GetAdminKubeConfigPath :: "kubeadm_constants \<Rightarrow> string" where
  "GetAdminKubeConfigPath k = path_join (kc_KubernetesDir k) (AdminKubeConfigFileName k)"

definition CertificateWriteDir :: "('c, 'x) initData_scheme \<Rightarrow> string" where
  "CertificateWriteDir d = (if d_dryRun d then dryRunDir d else certificatesDir d)"

definition KubeConfigDir :: "('c, 'x) initData_scheme \<Rightarrow> string" where
  "KubeConfigDir d = (if d_dryRun d then dryRunDir d else kubeconfigDir d)"

definition ManifestDir :: "kubeadm_constants \<Rightarrow> ('c, 'x) initData_scheme \<Rightarrow> string" where
  "ManifestDir k d = (if d_dryRun d then dryRunDir d else StaticPodDirectory k)"

definition KubeletDir :: "kubeadm_constants \<Rightarrow> ('c, 'x) initData_scheme \<Rightarrow> string" where
  "KubeletDir k d = (if d_dryRun d then dryRunDir d else kc_KubeletRunDirectory k)"

definition PatchesDir :: "('c, 'x) initData_scheme \<Rightarrow> string" where
  "PatchesDir d = (if patchesDir d \<noteq> '''' then patchesDir d
     else case Patches_Directory (cfg d) of Some p \<Rightarrow> p | None \<Rightarrow> '''')"

definition Tokens :: "('c, 'x) initData_scheme \<Rightarrow> string list" where
  "Tokens d = BootstrapTokens (cfg d)"

definition SetCertificateKey :: "string \<Rightarrow> (('c, 'x) initData_scheme, unit) state" where
  "SetCertificateKey key = modify (\<lambda>d. d\<lparr>cfg := (cfg d)\<lparr>CertificateKey := key\<rparr>\<rparr>)"

text \<open>In a dry run the path is also stored, so it stays what it was set to.\<close>

definition KubeConfigPath :: "kubeadm_constants \<Rightarrow> (('c, 'x) initData_scheme, string) state" where
  "KubeConfigPath k = State (\<lambda>d.
     let d = (if d_dryRun d then d\<lparr>kubeconfigPath := path_join (dryRunDir d) (AdminKubeConfigFileName k)\<rparr> else d)
     in (kubeconfigPath d, d))"

section \<open>Configurations and clients, made once\<close>

text \<open>
  The parameters: the kubeconfig codec, the functions of kubeadm and of the Kubernetes client
  library. A client getter is determined by the configuration it was made from.
\<close>

record ('c, 's) client_lib =
  cl_cc :: clientcmd
  cl_consts :: kubeadm_constants
  PointKubeConfigToLocalAPIEndpoint :: "string \<Rightarrow> int \<Rightarrow> KConfig \<Rightarrow> KConfig"
  getDryRunClient :: "('s, error + 'c) state"
  ensureAdminClusterRoleBinding :: "string \<Rightarrow> string \<Rightarrow> int \<Rightarrow> ('s, error + 'c) state"
  ClientSet :: "KConfig \<Rightarrow> error + 'c"
  ToClientSet :: "KConfig \<Rightarrow> error + 'c"

definition KubeConfig :: "('c, ('c, 'x) initData_scheme) client_lib \<Rightarrow> ('c, 'x, KConfig) dio" where
  "KubeConfig l = State_Monad.bind (gets kubeconfig) (\<lambda>have. case have of
       Some c \<Rightarrow> ret c
     | None \<Rightarrow>
         State_Monad.bind (KubeConfigPath (cl_consts l)) (\<lambda>path.
         onErr (LoadFromFile (cl_cc l) path) (Wrap ''failed to load kubeconfig from file'') (\<lambda>loaded.
         State_Monad.bind (gets (\<lambda>d. if kubeconfigPath d = GetAdminKubeConfigPath (cl_consts l)
             then PointKubeConfigToLocalAPIEndpoint l (AdvertiseAddress (cfg d)) (BindPort (cfg d)) loaded
             else loaded)) (\<lambda>c.
         State_Monad.bind (modify (\<lambda>d. d\<lparr>kubeconfig := Some c, kubeconfigOriginal := Some loaded\<rparr>)) (\<lambda>_.
         ret c)))))"

definition KubeConfigOriginal :: "('c, ('c, 'x) initData_scheme) client_lib \<Rightarrow> ('c, 'x, KConfig option) dio" where
  "KubeConfigOriginal l = State_Monad.bind (gets kubeconfigOriginal) (\<lambda>have. case have of
       Some c \<Rightarrow> ret (Some c)
     | None \<Rightarrow> onErr (KubeConfig l) id (\<lambda>_.
         State_Monad.bind (gets kubeconfigOriginal) (\<lambda>c. ret c)))"

definition RESTClientGetter :: "('c, ('c, 'x) initData_scheme) client_lib \<Rightarrow> ('c, 'x, KConfig) dio" where
  "RESTClientGetter l = State_Monad.bind (gets clientGetter) (\<lambda>have. case have of
       Some g \<Rightarrow> ret g
     | None \<Rightarrow>
         onErr (KubeConfig l) (Wrap ''failed to get kubeconfig for REST client getter'') (\<lambda>c.
         State_Monad.bind (modify (\<lambda>d. d\<lparr>clientGetter := Some c\<rparr>)) (\<lambda>_. ret c)))"

definition Client :: "('c, ('c, 'x) initData_scheme) client_lib \<Rightarrow> ('c, 'x, 'c) dio" where
  "Client l = State_Monad.bind (gets client) (\<lambda>have. case have of
       Some c \<Rightarrow> ret c
     | None \<Rightarrow> State_Monad.bind (gets d_dryRun) (\<lambda>dry.
         if dry then getDryRunClient l
         else
           State_Monad.bind (KubeConfigPath (cl_consts l)) (\<lambda>path.
           State_Monad.bind (gets adminKubeConfigBootstrapped) (\<lambda>boot.
           if \<not> boot \<and> path = GetAdminKubeConfigPath (cl_consts l)
           then State_Monad.bind (gets cfg) (\<lambda>c.
             onErr (ensureAdminClusterRoleBinding l (kc_KubernetesDir (cl_consts l)) (AdvertiseAddress c) (BindPort c))
               (Wrap (''could not bootstrap the admin user in file '' @ AdminKubeConfigFileName (cl_consts l))) (\<lambda>cl.
             State_Monad.bind (modify (\<lambda>d. d\<lparr>client := Some cl, adminKubeConfigBootstrapped := True\<rparr>)) (\<lambda>_.
             ret cl)))
           else
             onErr (RESTClientGetter l) (Wrap ''failed to get REST client getter'') (\<lambda>getter.
             case ClientSet l getter of
               Inl e \<Rightarrow> throw (Wrap ''failed to create client set from file'' e)
             | Inr cl \<Rightarrow> State_Monad.bind (modify (\<lambda>d. d\<lparr>client := Some cl\<rparr>)) (\<lambda>_. ret cl))))))"

definition JoinHostPort :: "string \<Rightarrow> string \<Rightarrow> string" where
  "JoinHostPort host port =
     (if CHR '':'' \<in> set host then ''['' @ host @ '']:'' @ port else host @ '':'' @ port)"

definition local_server :: "InitConfiguration \<Rightarrow> string" where
  "local_server c = ''https://'' @ JoinHostPort (AdvertiseAddress c) (Itoa (BindPort c))"

definition WaitControlPlaneClient :: "('c, ('c, 'x) initData_scheme) client_lib \<Rightarrow> ('c, 'x, 'c) dio" where
  "WaitControlPlaneClient l =
     onErr (KubeConfig l) (Wrap ''failed to load kubeconfig for wait control plane'') (\<lambda>original.
     State_Monad.bind (gets cfg) (\<lambda>c.
     case ToClientSet l (original\<lparr>Clusters := map (\<lambda>(k, v). (k, v\<lparr>Server := local_server c\<rparr>)) (Clusters original)\<rparr>) of
       Inl e \<Rightarrow> throw (Wrap ''failed to create client set from config'' e)
     | Inr cl \<Rightarrow> ret cl))"

section \<open>Reporting the status\<close>

text \<open>The JSON encoder and the time of a call, given its position.\<close>

record status_env =
  json_Marshal :: "IkniteCluster \<Rightarrow> error + string"
  time_Now :: "nat \<Rightarrow> nat"

definition publish_cluster :: "IkniteCluster \<Rightarrow> ('c, 'x, unit) dio" where
  "publish_cluster c = State (\<lambda>d. case Publish c (clusterUpdateBus d) of
       None \<Rightarrow> (Inl (Panic ''send on closed channel''), d)
     | Some b \<Rightarrow> (Inr (), d\<lparr>clusterUpdateBus := b\<rparr>))"

definition UpdateIkniteCluster ::
  "status_env \<Rightarrow> ClusterState \<Rightarrow> string \<Rightarrow> WorkloadState list \<Rightarrow> WorkloadState list \<Rightarrow> ('c, 'x, unit) dio"
where
  "UpdateIkniteCluster env state phase ready unready =
     State_Monad.bind (modify (\<lambda>d. d\<lparr>ikniteCluster :=
       cluster_Update (time_Now env (clock d)) state phase ready unready (ikniteCluster d)\<rparr>)) (\<lambda>_.
     State_Monad.bind (gets ikniteCluster) (\<lambda>c.
     State_Monad.bind (cluster_Persist (json_Marshal env) c) (\<lambda>_.
     publish_cluster c)))"

definition SetIkniteCluster :: "status_env \<Rightarrow> IkniteCluster \<Rightarrow> ('c, 'x, unit) dio" where
  "SetIkniteCluster env c =
     State_Monad.bind (modify (\<lambda>d. d\<lparr>ikniteCluster := c\<rparr>)) (\<lambda>_.
     State_Monad.bind (cluster_Persist (json_Marshal env) c) (\<lambda>_.
     publish_cluster c))"

definition SetKubeletProcess :: "int option \<Rightarrow> (('c, 'x) initData_scheme, unit) state" where
  "SetKubeletProcess p = modify (\<lambda>d. d\<lparr>kubeletProcess := p\<rparr>)"

definition RegisterIkniteClusterListener :: "(('c, 'x) initData_scheme, nat) state" where
  "RegisterIkniteClusterListener = State (\<lambda>d.
     let (i, b) = Subscribe 1 (clusterUpdateBus d) in (i, d\<lparr>clusterUpdateBus := b\<rparr>))"

definition ErrGroup_Go :: "goroutine \<Rightarrow> (('c, 'x) initData_scheme, unit) state" where
  "ErrGroup_Go g = modify (\<lambda>d. d\<lparr>errGroup := errGroup d @ [g]\<rparr>)"

section \<open>Shutdown hooks\<close>

definition RegisterShutdownHook :: "string \<Rightarrow> shutdown \<Rightarrow> (('c, 'x) initData_scheme, unit) state" where
  "RegisterShutdownHook name fn = modify (\<lambda>d. d\<lparr>hookManager := hookManager d @ [(name, fn)]\<rparr>)"

text \<open>
  The calls the hooks make that are not the program's: closing the mDNS connection, stopping the
  server, closing a listener.
\<close>

record shutdown_env =
  mdns_Close :: "nat \<Rightarrow> error option"
  srv_Shutdown :: "nat \<Rightarrow> error option"
  listener_Close :: "nat \<Rightarrow> nat \<Rightarrow> error option"

definition external_call :: "(nat \<Rightarrow> error option) \<Rightarrow> ('x, unit) io" where
  "external_call f = State (\<lambda>w. (case f (clock w) of None \<Rightarrow> Inr () | Some e \<Rightarrow> Inl e, tick w))"

text \<open>Closing the listeners of the proxy: all of them are closed, and an error of one that is closed already is no error.\<close>

fun close_listeners :: "shutdown_env \<Rightarrow> nat list \<Rightarrow> ('x world_scheme, error list) state" where
  "close_listeners env [] = State_Monad.return []"
| "close_listeners env (l # ls) = State_Monad.bind (external_call (listener_Close env l)) (\<lambda>r.
     State_Monad.bind (close_listeners env ls) (\<lambda>errs. State_Monad.return (case r of
       Inl e \<Rightarrow> if errors_Is e ErrClosed then errs else e # errs
     | Inr _ \<Rightarrow> errs)))"

definition closeProxyAPIListeners :: "shutdown_env \<Rightarrow> nat list \<Rightarrow> ('x, unit) io" where
  "closeProxyAPIListeners env ls = State_Monad.bind (close_listeners env ls) (\<lambda>errs. case errors_Join errs of
     None \<Rightarrow> ret () | Some e \<Rightarrow> throw e)"

fun shutdown_fn :: "shutdown_env \<Rightarrow> shutdown \<Rightarrow> ('c, 'x, unit) dio" where
  "shutdown_fn env CloseMDNS = external_call (mdns_Close env)"
| "shutdown_fn env (StopServer i) =
     State_Monad.bind (modify (\<lambda>d. d\<lparr>clusterUpdateBus := unsubscribe i (clusterUpdateBus d)\<rparr>)) (\<lambda>_.
     external_call (srv_Shutdown env))"
| "shutdown_fn env (CloseProxyListeners ls) = closeProxyAPIListeners env ls"

definition closure :: "shutdown_env \<Rightarrow> string \<times> shutdown \<Rightarrow> ('c, 'x) initData_scheme hook" where
  "closure env h = \<lparr>hook_name = fst h, hook_fn = shutdown_fn env (snd h)\<rparr>"

text \<open>\<open>order\<close> rearranges the hooks into the order in which their goroutines run.\<close>

definition RunShutdownHooks ::
  "shutdown_env \<Rightarrow> ((string \<times> shutdown) list \<Rightarrow> (string \<times> shutdown) list) \<Rightarrow> ('c, 'x, unit) dio"
where
  "RunShutdownHooks env order =
     State_Monad.bind (gets hookManager) (\<lambda>hs. hooks_Run (map (closure env) (order hs)))"

section \<open>What a status update does\<close>

text \<open>The operations of the machine leave the shared data alone.\<close>

lemma same_oracle_data:
  assumes "same_oracle d d'"
  shows "ikniteCluster d' = ikniteCluster d" "kubeletProcess d' = kubeletProcess d"
    "clusterUpdateBus d' = clusterUpdateBus d" "hookManager d' = hookManager d" "cfg d' = cfg d"
    "errGroup d' = errGroup d" "d_dryRun d' = d_dryRun d" "kubeconfigPath d' = kubeconfigPath d" "kubeconfig d' = kubeconfig d"
    "kubeconfigOriginal d' = kubeconfigOriginal d" "clientGetter d' = clientGetter d" "client d' = client d"
proof -
  from assms have e: "d = d'\<lparr>files := files d, clock := clock d, trace := trace d\<rparr>" by (simp add: same_oracle_def)
  show "ikniteCluster d' = ikniteCluster d" "kubeletProcess d' = kubeletProcess d"
    "clusterUpdateBus d' = clusterUpdateBus d" "hookManager d' = hookManager d" "cfg d' = cfg d"
    "errGroup d' = errGroup d" "d_dryRun d' = d_dryRun d" "kubeconfigPath d' = kubeconfigPath d" "kubeconfig d' = kubeconfig d"
    "kubeconfigOriginal d' = kubeconfigOriginal d" "clientGetter d' = clientGetter d" "client d' = client d"
    by (subst e, simp)+
qed

definition status_file_writable :: "('c, 'x) initData_scheme \<Rightarrow> bool" where
  "status_file_writable d \<longleftrightarrow> fs_fault d = (\<lambda>_ _. None) \<and>
     (files d StatusFile = None \<or> (\<exists>c m. files d StatusFile = Some (File c m))) \<and>
     lookup_node (files d) StatusDirectory \<in> {None, Some Directory}"

definition new_status ::
  "status_env \<Rightarrow> ClusterState \<Rightarrow> string \<Rightarrow> WorkloadState list \<Rightarrow> WorkloadState list \<Rightarrow> ('c, 'x) initData_scheme \<Rightarrow> IkniteCluster"
where
  "new_status env state phase ready unready d =
     cluster_Update (time_Now env (clock d)) state phase ready unready (ikniteCluster d)"

lemma run_UpdateIkniteCluster:
  assumes "bus_wf (clusterUpdateBus d)" and "distinct (subs (clusterUpdateBus d))"
  obtains d1 b where
    "run_state (UpdateIkniteCluster env state phase ready unready) d = (Inr (), d1\<lparr>clusterUpdateBus := b\<rparr>)"
    and "delivered (new_status env state phase ready unready d) (subs (clusterUpdateBus d)) (clusterUpdateBus d) b"
    and "run_state (cluster_Persist (json_Marshal env) (new_status env state phase ready unready d))
           (d\<lparr>ikniteCluster := new_status env state phase ready unready d\<rparr>) = ((), d1)"
proof -
  let ?c = "new_status env state phase ready unready d"
  obtain d1 where p: "run_state (cluster_Persist (json_Marshal env) ?c) (d\<lparr>ikniteCluster := ?c\<rparr>) = ((), d1)"
    by (metis (full_types) old.unit.exhaust surj_pair)
  have "same_oracle (d\<lparr>ikniteCluster := ?c\<rparr>) d1" using state_io_relD [OF cluster_Persist_oracle p] .
  then have bus: "clusterUpdateBus d1 = clusterUpdateBus d" by (simp add: same_oracle_data)
  from Publish_delivers [OF assms] obtain b where b: "Publish ?c (clusterUpdateBus d) = Some b"
    "delivered ?c (subs (clusterUpdateBus d)) (clusterUpdateBus d) b" .
  have "run_state (UpdateIkniteCluster env state phase ready unready) d = (Inr (), d1\<lparr>clusterUpdateBus := b\<rparr>)"
    using p bus b unfolding UpdateIkniteCluster_def publish_cluster_def new_status_def by simp
  with b p that show thesis by blast
qed


text \<open>A fresh start on a machine that refuses nothing, with the given files and one listener.\<close>

definition sample_configuration :: InitConfiguration where
  "sample_configuration = \<lparr>CertificateKey = [], BootstrapTokens = [], Patches_Directory = None,
     AdvertiseAddress = ''192.168.99.2'', BindPort = 6443, SkipPhases = [], DNS_Disabled = False,
     Proxy_Disabled = False, Etcd_DataDir = ''/var/lib/etcd'', CertSANs = []\<rparr>"

definition sample_data :: "tree \<Rightarrow> unit initData" where
  "sample_data fs = \<lparr>files = fs, clock = 0, trace = [], fs_fault = (\<lambda>_ _. None),
     cmd_result = (\<lambda>_ _. ([], None)), cmd_effect = (\<lambda>_ _ t. t), pipe_result = (\<lambda>_. None),
     find_result = (\<lambda>_ _. None), signal_result = (\<lambda>_ _ _. None), wait_result = (\<lambda>_ _. None),
     start_result = (\<lambda>_ _ _. Inr 42), outbound_result = (\<lambda>_. Inr (IPv4 10 0 0 1)),
     interfaces_result = (\<lambda>_. Inr []), resolver_result = (\<lambda>_ _. Inr []),
     ikniteCluster = sample_cluster Stopped, kubeletProcess = None,
     clusterUpdateBus = snd (Subscribe 1 empty_bus), hookManager = [], errGroup = [], cfg = sample_configuration,
     d_dryRun = False, dryRunDir = [], certificatesDir = ''/etc/kubernetes/pki'', kubeconfigDir = ''/etc/kubernetes'',
     kubeconfigPath = ''/etc/kubernetes/admin.conf'', patchesDir = [], kubeconfig = None, kubeconfigOriginal = None,
     clientGetter = None, client = None, adminKubeConfigBootstrapped = False\<rparr>"

definition sample_env :: status_env where
  "sample_env = \<lparr>json_Marshal = (\<lambda>_. Inr ''{}''), time_Now = Suc\<rparr>"

lemma sample_bus:
  "bus_wf (clusterUpdateBus (sample_data fs))" "distinct (subs (clusterUpdateBus (sample_data fs)))"
  using bus_wf_Subscribe [OF bus_wf_empty surjective_pairing, of 1]
  by (simp_all add: sample_data_def) (simp add: Subscribe_def empty_bus_def)


section \<open>What is made once\<close>

lemma KubeConfigPath_keeps:
  "run_state (KubeConfigPath k) d = (p, d') \<Longrightarrow> kubeconfig d' = kubeconfig d \<and> clientGetter d' = clientGetter d \<and>
     client d' = client d \<and> adminKubeConfigBootstrapped d' = adminKubeConfigBootstrapped d \<and>
     (\<not> d_dryRun d \<longrightarrow> d' = d \<and> p = kubeconfigPath d)"
  by (cases "d_dryRun d") (auto simp: KubeConfigPath_def Let_def)

lemma LoadFromFile_oracle [frame_intros]: "state_io_rel same_oracle (LoadFromFile cc p)"
  unfolding LoadFromFile_def by (intro so.frame_rules frame_intros)

lemma KubeConfig_outcome:
  assumes "run_state (KubeConfig l) d = (r, d')"
  shows "(case r of Inl e \<Rightarrow> kubeconfig d = None \<and> kubeconfig d' = None \<and> kubeconfigOriginal d' = kubeconfigOriginal d
                  | Inr c \<Rightarrow> kubeconfig d' = Some c) \<and> clientGetter d' = clientGetter d \<and> client d' = client d"
proof (cases "kubeconfig d")
  case None
  obtain p d1 where p: "run_state (KubeConfigPath (cl_consts l)) d = (p, d1)" by (metis surj_pair)
  obtain x d2 where x: "run_state (LoadFromFile (cl_cc l) p) d1 = (x, d2)" by (metis surj_pair)
  note so = same_oracle_data [OF state_io_relD [OF LoadFromFile_oracle x]]
  from p have "kubeconfigOriginal d1 = kubeconfigOriginal d" by (cases "d_dryRun d") (auto simp: KubeConfigPath_def Let_def)
  with assms None p x so KubeConfigPath_keeps [OF p] show ?thesis
    unfolding KubeConfig_def by (cases x) (auto simp: run_onErr)
qed (use assms in \<open>auto simp: KubeConfig_def\<close>)

lemma KubeConfig_cached: "kubeconfig d = Some c \<Longrightarrow> run_state (KubeConfig l) d = (Inr c, d)"
  by (simp add: KubeConfig_def)

lemma RESTClientGetter_outcome:
  assumes "run_state (RESTClientGetter l) d = (r, d')"
  shows "case r of Inl e \<Rightarrow> clientGetter d' = clientGetter d | Inr g \<Rightarrow> clientGetter d' = Some g"
proof (cases "clientGetter d")
  case None
  obtain x d1 where "run_state (KubeConfig l) d = (x, d1)" by (metis surj_pair)
  with assms None KubeConfig_outcome [OF this] show ?thesis
    unfolding RESTClientGetter_def by (cases x) (auto simp: run_onErr)
qed (use assms in \<open>auto simp: RESTClientGetter_def\<close>)

lemma Client_outcome:
  assumes "run_state (Client l) d = (Inr c, d')" and "\<not> d_dryRun d"
  shows "client d' = Some c"
proof (cases "client d")
  case None
  note run = assms(1) [unfolded Client_def]
  obtain p d1 where p: "run_state (KubeConfigPath (cl_consts l)) d = (p, d1)" by (metis surj_pair)
  with KubeConfigPath_keeps [OF p] assms(2) have "d1 = d" by simp
  with run None assms(2) p show ?thesis
    by (auto simp: run_onErr split: if_splits prod.splits sum.splits)
qed (use assms in \<open>auto simp: Client_def\<close>)

text \<open>
  The kubeconfig, the client getter and the client are made once: after a successful call the
  next one returns the same value and touches nothing. A failed load caches nothing, so the next
  call tries again, and the client of a dry run is never kept.
\<close>

lemma clients_made_once:
  "(run_state (KubeConfig l) d = (Inr c, d1) \<longrightarrow> run_state (KubeConfig l) d1 = (Inr c, d1)) \<and>
   (run_state (RESTClientGetter l) d = (Inr g, d2) \<longrightarrow> run_state (RESTClientGetter l) d2 = (Inr g, d2)) \<and>
   (run_state (Client l) d = (Inr cl, d3) \<and> \<not> d_dryRun d \<longrightarrow> run_state (Client l) d3 = (Inr cl, d3)) \<and>
   (run_state (KubeConfig l) d = (Inl e, d4) \<longrightarrow> kubeconfig d4 = None \<and> kubeconfigOriginal d4 = kubeconfigOriginal d) \<and>
   (d_dryRun d \<and> client d = None \<longrightarrow> run_state (Client l) d = run_state (getDryRunClient l) d)"
  using KubeConfig_outcome [of l d] RESTClientGetter_outcome [of l d] Client_outcome [of l d cl d3]
  by (auto simp: KubeConfig_cached RESTClientGetter_def Client_def)

definition sample_constants :: kubeadm_constants where
  "sample_constants = \<lparr>kc_KubernetesDir = ''/etc/kubernetes'', AdminKubeConfigFileName = ''admin.conf'',
     StaticPodDirectory = ''/etc/kubernetes/manifests'', kc_KubeletRunDirectory = ''/var/lib/kubelet''\<rparr>"

definition sample_lib :: "(unit, unit initData) client_lib" where
  "sample_lib = \<lparr>cl_cc = sample_clientcmd, cl_consts = sample_constants,
     PointKubeConfigToLocalAPIEndpoint = (\<lambda>_ _ c. c), getDryRunClient = ret (),
     ensureAdminClusterRoleBinding = (\<lambda>_ _ _. ret ()), ClientSet = (\<lambda>_. Inr ()), ToClientSet = (\<lambda>_. Inr ())\<rparr>"

lemma kubeconfig_sample:
  "fst (run_state (KubeConfig sample_lib) (sample_data [''/etc/kubernetes/admin.conf'' \<mapsto> File [] mode600]))
   = Inr (set_origin ''/etc/kubernetes/admin.conf'' kubeadm_config)"
  by code_simp

lemma clients_made_once_witness:
  "fst (run_state (KubeConfig sample_lib) (snd (run_state (KubeConfig sample_lib)
     (sample_data [''/etc/kubernetes/admin.conf'' \<mapsto> File [] mode600])))) =
   Inr (set_origin ''/etc/kubernetes/admin.conf'' kubeadm_config)"
proof -
  let ?d = "sample_data [''/etc/kubernetes/admin.conf'' \<mapsto> File [] mode600]"
  let ?c = "set_origin ''/etc/kubernetes/admin.conf'' kubeadm_config"
  have "run_state (KubeConfig sample_lib) ?d = (Inr ?c, snd (run_state (KubeConfig sample_lib) ?d))"
    by (simp add: prod_eq_iff kubeconfig_sample)
  with clients_made_once [of sample_lib ?d ?c "snd (run_state (KubeConfig sample_lib) ?d)"] show ?thesis
    by (simp add: kubeconfig_sample)
qed

end
