(* ===== verification/Phases.thy ===== *)
theory Phases
  imports Init_Data
begin

text \<open>
  The phases iknite adds to those of kubeadm (\<^verbatim>\<open>pkg/k8s/phases/init\<close>): preparing and cleaning
  the host, the static pod manifest of the API backend, starting the kubelet, the kubeconfig of root,
  the one-time configuration, the mDNS responder, the status server, the monitor of the workloads,
  and the last phase, which waits for the kubelet to stop and then cleans up. Each phase runs on the
  shared data of \<^verbatim>\<open>Init_Data\<close>; the functions of kubeadm and of other libraries are parameters.
\<close>

section \<open>Preparing and cleaning the host\<close>

definition runPrepareHost :: "'h txeh \<Rightarrow> string \<Rightarrow> ('c, 'x, unit) dio" where
  "runPrepareHost tx newId = State_Monad.bind (gets (\<lambda>d. Spec (ikniteCluster d))) (\<lambda>spec.
     onErr (PrepareKubernetesEnvironment tx newId spec) (Wrap ''failed to prepare kubernetes environment'') (\<lambda>_. ret ()))"

definition runPreCleanHost :: "'h tools \<Rightarrow> ('c, 'x, unit) dio" where
  "runPreCleanHost t = State_Monad.bind (gets (\<lambda>d. Spec (ikniteCluster d))) (\<lambda>spec.
     onErr (CleanAll t \<lparr>ikniteConfig = spec, isDryRun = False\<rparr> False False True)
       (Wrap ''failed to pre-clean host'') (\<lambda>_. ret ()))"

section \<open>Static pod manifests\<close>

text \<open>
  The embedded templates and the template engine: a template is read by name, parsed, and executed
  on the specification, giving what it wrote and possibly an error. \<open>f_Close\<close> is the error of
  closing the file, if any.
\<close>

record manifest_env =
  manifest_ReadFile :: "string \<Rightarrow> error + string"
  template_Parse :: "string \<Rightarrow> string \<Rightarrow> error + (IkniteClusterSpec \<Rightarrow> string \<times> error option)"
  f_Close :: "nat \<Rightarrow> error option"

definition mode666 :: nat where "mode666 = 438"

definition Create :: "string \<Rightarrow> ('x, unit) io" where
  "Create p = fs_call (FCreate p) (\<lambda>fs. case final_name fs p of
       None \<Rightarrow> (Inl (ErrOther ''too many levels of symbolic links''), fs)
     | Some q \<Rightarrow> (case fs q of
           Some Directory \<Rightarrow> (Inl (ErrOther ''is a directory''), fs)
         | Some (File c m) \<Rightarrow> (Inr (), fs(q \<mapsto> File [] m))
         | _ \<Rightarrow> (Inr (), fs(q \<mapsto> File [] mode666))))"

text \<open>Writing to the open file of that name.\<close>

definition put_content :: "string \<Rightarrow> string \<Rightarrow> ('x world_scheme, unit) state" where
  "put_content p out = modify (\<lambda>w. case final_name (files w) p of
       None \<Rightarrow> w
     | Some q \<Rightarrow> (case files w q of
           Some (File c m) \<Rightarrow> w\<lparr>files := (files w)(q \<mapsto> File out m)\<rparr>
         | _ \<Rightarrow> w))"

text \<open>
  The deferred function assigns to a local variable, not to a result: an error of \<^verbatim>\<open>Close\<close> is
  lost, and so is the error of removing a partial file.
\<close>

definition WriteStaticPodManifest ::
  "manifest_env \<Rightarrow> string \<Rightarrow> IkniteClusterSpec \<Rightarrow> string \<Rightarrow> ('x, unit) io"
where
  "WriteStaticPodManifest m manifestDir config name = (case manifest_ReadFile m name of
       Inl e \<Rightarrow> throw (Wrap (''failed to read '' @ name @ '' manifest template'') e)
     | Inr content \<Rightarrow> (case template_Parse m name content of
         Inl e \<Rightarrow> throw (Wrap (''failed to parse '' @ name @ '' manifest template'') e)
       | Inr tmpl \<Rightarrow>
           onErr (MkdirAll manifestDir mode755) (Wrap (''failed to create manifest directory '' @ manifestDir)) (\<lambda>_.
           let f = path_join manifestDir (name @ ''.yaml'')
           in onErr (Create f) (Wrap (''failed to create '' @ name @ ''.yaml'')) (\<lambda>_.
              case tmpl config of (out, err) \<Rightarrow>
                State_Monad.bind (put_content f out) (\<lambda>_.
                State_Monad.bind (external_call (f_Close m)) (\<lambda>closeErr.
                case err of
                  None \<Rightarrow> ret ()
                | Some e \<Rightarrow>
                    State_Monad.bind (case closeErr of Inr _ \<Rightarrow> ignoreErr (Remove f) | Inl _ \<Rightarrow> skip) (\<lambda>_.
                    throw (Wrap (''failed to execute '' @ name @ '' manifest template'') e))))))))"

definition runManifestPhase :: "kubeadm_constants \<Rightarrow> manifest_env \<Rightarrow> string \<Rightarrow> ('c, 'x, unit) dio" where
  "runManifestPhase k m name = State_Monad.bind (gets (\<lambda>d. (ManifestDir k d, Spec (ikniteCluster d)))) (\<lambda>(dir, spec).
     WriteStaticPodManifest m dir spec name)"

section \<open>Starting the kubelet\<close>

record 's kubelet_writers =
  WriteKubeletDynamicEnvFile :: "string \<Rightarrow> ('s, error + unit) state"
  NodeLocalCRISocket :: bool
  WriteInstanceConfigToDisk :: "string \<Rightarrow> ('s, error + unit) state"
  WriteConfigToDisk :: "string \<Rightarrow> string \<Rightarrow> ('s, error + unit) state"

definition runKubeletStart ::
  "kubeadm_constants \<Rightarrow> ('c, 'x) initData_scheme kubelet_writers \<Rightarrow> kubelet_env \<Rightarrow> ('c, 'x, unit) dio"
where
  "runKubeletStart k wr ke = State_Monad.bind (gets (\<lambda>d. (KubeletDir k d, PatchesDir d, d_dryRun d))) (\<lambda>(kubeletDir, patches, dry).
     onErr (WriteKubeletDynamicEnvFile wr kubeletDir)
       (Wrap ''error writing a dynamic environment file for the kubelet'') (\<lambda>_.
     onErr (if NodeLocalCRISocket wr then WriteInstanceConfigToDisk wr kubeletDir else ret ())
       (Wrap ''error writing instance kubelet configuration to disk'') (\<lambda>_.
     onErr (WriteConfigToDisk wr kubeletDir patches) (Wrap ''error writing kubelet configuration to disk'') (\<lambda>_.
     if \<not> dry
     then onErr (StartKubelet ke) (Wrap ''failed to start kubelet'') (\<lambda>pid.
       State_Monad.bind (SetKubeletProcess (Some pid)) (\<lambda>_. ret ()))
     else ret ()))))"

section \<open>Configuring the cluster\<close>

definition runKustomize ::
  "('c, ('c, 'x) initData_scheme) client_lib \<Rightarrow> (('c, 'x) initData_scheme, 'r) kube_api \<Rightarrow>
   (string \<Rightarrow> bool \<Rightarrow> error + 'r) \<Rightarrow> KustomizeOptions \<Rightarrow> ('c, 'x, unit) dio"
where
  "runKustomize l api resources opts =
     onErr (RESTClientGetter l) (Wrap ''failed to load configuration'') (\<lambda>getter.
     onErr (Kustomize api (case ClientSet l getter of Inl e \<Rightarrow> Some e | Inr _ \<Rightarrow> None) resources opts)
       (Wrap ''failed to apply kustomization'') (\<lambda>_. ret ()))"

definition runCopyConfigPhase :: "clientcmd \<Rightarrow> string \<Rightarrow> ('c, 'x, unit) dio \<Rightarrow> ('c, 'x, unit) dio" where
  "runCopyConfigPhase cc adminConfPath ensureServerConfiguration =
     State_Monad.bind (gets (\<lambda>d. Spec (ikniteCluster d))) (\<lambda>spec.
       runCopyConfig cc adminConfPath ensureServerConfiguration spec)"

section \<open>The mDNS responder and the status server\<close>

record mdns_env =
  ResolveUDPAddr4 :: "nat \<Rightarrow> error option"
  ListenUDP4 :: "nat \<Rightarrow> error option"
  ResolveUDPAddr6 :: "nat \<Rightarrow> error option"
  ListenUDP6 :: "nat \<Rightarrow> error option"
  mdns_Server :: "string \<Rightarrow> nat \<Rightarrow> error option"

definition runMDnsPublish :: "mdns_env \<Rightarrow> ('c, 'x, unit) dio" where
  "runMDnsPublish m = State_Monad.bind (gets (\<lambda>d. Spec (ikniteCluster d))) (\<lambda>spec.
     if \<not> EnableMDNS spec then ret ()
     else
       onErr (external_call (ResolveUDPAddr4 m)) (Wrap ''cannot resolve default address'') (\<lambda>_.
       onErr (external_call (ListenUDP4 m)) (Wrap ''cannot listen on default address'') (\<lambda>_.
       onErr (external_call (ResolveUDPAddr6 m)) (Wrap ''cannot resolve default address'') (\<lambda>_.
       onErr (external_call (ListenUDP6 m)) (Wrap ''cannot listen on default address'') (\<lambda>_.
       onErr (external_call (mdns_Server m (DomainName spec))) (Wrap ''cannot create server'') (\<lambda>_.
       State_Monad.bind (RegisterShutdownHook ''mdns'' CloseMDNS) (\<lambda>_. ret ())))))))"

text \<open>The goroutine that passes the updates to the server is the receiver of the subscription.\<close>

definition runServe :: "(IkniteCluster \<Rightarrow> ('c, 'x, unit) dio) \<Rightarrow> ('c, 'x, unit) dio" where
  "runServe StartIkniteServer = State_Monad.bind (gets ikniteCluster) (\<lambda>c.
     onErr (StartIkniteServer c) (Wrap ''failed to start iknite status server'') (\<lambda>_.
     State_Monad.bind RegisterIkniteClusterListener (\<lambda>i.
     State_Monad.bind (RegisterShutdownHook ''serve'' (StopServer i)) (\<lambda>_. ret ()))))"

section \<open>Monitoring the workloads\<close>

definition runMonitorWorkloads :: "('c, ('c, 'x) initData_scheme) client_lib \<Rightarrow> ('c, 'x, unit) dio" where
  "runMonitorWorkloads l =
     onErr (RESTClientGetter l) (Wrap ''cannot load the kubernetes configuration'') (\<lambda>_.
     State_Monad.bind (ErrGroup_Go MonitorWorkloads) (\<lambda>_. ret ()))"

text \<open>
  What one tick of the monitor does with the workloads it found: once Running, the cluster stays
  Running whatever the workloads do.
\<close>

definition monitor_state :: "bool \<Rightarrow> ClusterState \<Rightarrow> ClusterState" where
  "monitor_state allReady current = (if allReady \<or> current = Running then Running else Stabilizing)"

definition monitor_callback :: "status_env \<Rightarrow> ('c, 'x) initData_scheme callback" where
  "monitor_callback env allReady _ ready unready _ _ =
     State_Monad.bind (gets (\<lambda>d. ClState (Status (ikniteCluster d)))) (\<lambda>current.
     State_Monad.bind (UpdateIkniteCluster env (monitor_state allReady current) ''daemonize'' ready unready) (\<lambda>r.
     State_Monad.return (True, err_of r)))"

definition updateWorkloads ::
  "status_env \<Rightarrow> (('c, 'x) initData_scheme, 'o) cluster_access \<Rightarrow> ('c, 'x) initData_scheme ready_state condition"
where
  "updateWorkloads env a = WorkloadsReadyCondition a (Some (monitor_callback env))"

section \<open>Waiting for the kubelet and stopping\<close>

text \<open>\<open>ev\<close> is what ended the wait, \<open>order\<close> the order in which the shutdown hooks ran.\<close>

definition runDaemonize ::
  "status_env \<Rightarrow> shutdown_env \<Rightarrow> 'h tools \<Rightarrow> wait_event \<Rightarrow>
   ((string \<times> shutdown) list \<Rightarrow> (string \<times> shutdown) list) \<Rightarrow> ('c, 'x, unit) dio"
where
  "runDaemonize env se t ev order = State_Monad.bind (gets kubeletProcess) (\<lambda>p. case p of
       None \<Rightarrow> ret ()
     | Some pid \<Rightarrow>
         State_Monad.bind (WaitForKubelet pid ev) (\<lambda>err.
         onErr (UpdateIkniteCluster env Stopping ''stop'' [] []) id (\<lambda>_.
         State_Monad.bind (case err of Inr _ \<Rightarrow> SetKubeletProcess None | Inl _ \<Rightarrow> skip) (\<lambda>_.
         State_Monad.bind (ignoreErr (RunShutdownHooks se order)) (\<lambda>_.
         State_Monad.bind (gets (\<lambda>d. Spec (ikniteCluster d))) (\<lambda>spec.
         State_Monad.bind (ignoreErr (CleanAll t \<lparr>ikniteConfig = spec, isDryRun = False\<rparr> True False False)) (\<lambda>_.
         UpdateIkniteCluster env Stopped '''' [] []))))))) "

section \<open>What the operations leave alone\<close>

definition bus_ok :: "('c, 'x) initData_scheme \<Rightarrow> bool" where
  "bus_ok d \<longleftrightarrow> bus_wf (clusterUpdateBus d) \<and> distinct (subs (clusterUpdateBus d))"

text \<open>The status, the process, the hooks and the goroutines are those of before, and the bus is in order.\<close>

definition keeps_data :: "('c, 'x) initData_scheme \<Rightarrow> ('c, 'x) initData_scheme \<Rightarrow> bool" where
  "keeps_data d d' \<longleftrightarrow> ikniteCluster d' = ikniteCluster d \<and> kubeletProcess d' = kubeletProcess d \<and>
     hookManager d' = hookManager d \<and> errGroup d' = errGroup d \<and> (bus_ok d \<longrightarrow> bus_ok d')"

interpretation kd: frame "keeps_data :: ('c, 'x) initData_scheme \<Rightarrow> ('c, 'x) initData_scheme \<Rightarrow> bool"
  by unfold_locales (auto simp: keeps_data_def)

lemma same_oracle_keeps_data: "same_oracle d d' \<Longrightarrow> keeps_data d d'"
  using same_oracle_data [of d d'] by (simp add: keeps_data_def bus_ok_def)

lemma oracle_frame_data:
  fixes m :: "(('c, 'x) initData_scheme, 'a) state"
  assumes "state_io_rel same_oracle m"
  shows "state_io_rel keeps_data m"
  using assms same_oracle_keeps_data by (fastforce intro: state_io_relI dest: state_io_relD)

lemma files_update_oracle [frame_intros]:
  "state_io_rel same_oracle (modify (files_update f) :: ('x world_scheme, unit) state)"
  by (auto simp: same_oracle_def)

lemma clean_steps_oracle [frame_intros]:
  "state_io_rel same_oracle (StopAllContainers c)" "state_io_rel same_oracle (RemoveKubeletFiles c)"
  "state_io_rel same_oracle (DeleteCniNamespaces c)" "state_io_rel same_oracle (DeleteNetworkInterfaces t c)"
  "state_io_rel same_oracle (ResetIPTables c)" "state_io_rel same_oracle (ResetIPAddress t c)"
  "state_io_rel same_oracle (processMounts p rm dry)"
  unfolding StopAllContainers_def RemoveKubeletFiles_def DeleteCniNamespaces_def DeleteNetworkInterfaces_def
    ResetIPTables_def reset_tables_def ResetIPAddress_def processMounts_def process_mount_def Let_def
  by (intro so.frame_rules frame_intros)+

lemma run_step_oracle [frame_intros]: "state_io_rel same_oracle m \<Longrightarrow> state_io_rel same_oracle (run_step f m)"
  unfolding run_step_def by (intro so.frame_rules)

lemma UnmountPaths_oracle [frame_intros]: "state_io_rel same_oracle (UnmountPaths c failOnError)"
  unfolding UnmountPaths_def by (intro so.frame_rules frame_intros)

lemma CleanAll_oracle [frame_intros]: "state_io_rel same_oracle (CleanAll t c ip tables failOnError)"
  unfolding CleanAll_def
  by (intro so.frame_forE run_step_oracle) (auto simp: clean_steps_oracle UnmountPaths_oracle split: if_splits)

end
