(* ===== verification/Stopping.thy ===== *)
theory Stopping
  imports Phases
begin

text \<open>
  How \<^verbatim>\<open>iknite init\<close> stops: what the last phase leaves behind, and what the monitor of the
  workloads, which runs beside it and which nothing waits for, can do to the status meanwhile.
\<close>

section \<open>Shutdown hooks\<close>

text \<open>Every subscription named by a hook that ran has left the bus.\<close>

definition hooks_rel :: "('c, 'x) initData_scheme \<Rightarrow> ('c, 'x) initData_scheme \<Rightarrow> bool" where
  "hooks_rel d d' \<longleftrightarrow> keeps_data d d' \<and> set (subs (clusterUpdateBus d')) \<subseteq> set (subs (clusterUpdateBus d))"

interpretation hr: frame "hooks_rel :: ('c, 'x) initData_scheme \<Rightarrow> ('c, 'x) initData_scheme \<Rightarrow> bool"
  by unfold_locales (auto simp: hooks_rel_def intro: kd.R_refl elim: kd.R_trans)

lemma run_external_call [simp]:
  "run_state (external_call f) w = (case f (clock w) of None \<Rightarrow> Inr () | Some e \<Rightarrow> Inl e, tick w)"
  by (simp add: external_call_def)

lemma external_call_oracle [frame_intros]: "state_io_rel same_oracle (external_call f)"
  by (auto simp: same_oracle_def tick_def)

lemma close_listeners_oracle: "state_io_rel same_oracle (close_listeners env ls)"
  by (induction ls) (simp_all only: close_listeners.simps, (intro so.frame_rules frame_intros | assumption)+)

lemma closeProxyAPIListeners_oracle [frame_intros]: "state_io_rel same_oracle (closeProxyAPIListeners env ls)"
  unfolding closeProxyAPIListeners_def by (intro so.frame_rules close_listeners_oracle)

lemma tick_data [simp]:
  "ikniteCluster (tick d) = ikniteCluster d" "kubeletProcess (tick d) = kubeletProcess d"
  "hookManager (tick d) = hookManager d" "errGroup (tick d) = errGroup d" "clusterUpdateBus (tick d) = clusterUpdateBus d"
  by (simp_all add: tick_def)

lemma unsubscribe_ok:
  "set (subs (unsubscribe i b)) = set (subs b) - {i}" "distinct (subs b) \<Longrightarrow> distinct (subs (unsubscribe i b))"
  by (auto simp: unsubscribe_def distinct_removeAll)

lemma oracle_hooks_rel: "same_oracle d d' \<Longrightarrow> hooks_rel d d'"
  using same_oracle_keeps_data [of d d'] same_oracle_data [of d d'] by (simp add: hooks_rel_def)

lemma shutdown_fn_rel: "state_io_rel hooks_rel (shutdown_fn env h)"
proof (cases h)
  case (CloseProxyListeners ls)
  then show ?thesis
    using closeProxyAPIListeners_oracle oracle_hooks_rel by (fastforce intro: state_io_relI dest: state_io_relD)
qed (auto simp: hooks_rel_def keeps_data_def bus_ok_def unsubscribe_ok bus_wf_unsubscribe)

lemma shutdown_fn_leaves:
  "run_state (shutdown_fn env (StopServer i)) d = (r, d') \<Longrightarrow> i \<notin> set (subs (clusterUpdateBus d'))"
  by (auto simp: unsubscribe_ok)

lemma closure_sel [simp]: "hook_fn (closure env h) = shutdown_fn env (snd h)" "hook_name (closure env h) = fst h"
  by (simp_all add: closure_def)

lemma run_hooks_rel:
  "run_state (run_hooks (map (closure env) hs) es) d = (r, d') \<Longrightarrow>
     hooks_rel d d' \<and> (\<forall>n i. (n, StopServer i) \<in> set hs \<longrightarrow> i \<notin> set (subs (clusterUpdateBus d')))"
proof (induction hs arbitrary: es d)
  case Nil
  then show ?case by (simp add: hr.R_refl)
next
  case (Cons h hs)
  obtain x d1 where x: "run_state (shutdown_fn env (snd h)) d = (x, d1)" by (metis surj_pair)
  then obtain es' where es: "run_state (run_hooks (map (closure env) hs) es') d1 = (r, d')"
    using Cons.prems by (auto split: sum.splits)
  note IH = Cons.IH [OF es]
  have "i \<notin> set (subs (clusterUpdateBus d'))" if "snd h = StopServer i" for i
    using shutdown_fn_leaves [of env i d x d1] x that IH by (auto simp: hooks_rel_def)
  moreover have "hooks_rel d d'" using state_io_relD [OF shutdown_fn_rel x] IH hr.R_trans by blast
  ultimately show ?case using IH by (metis set_ConsD snd_conv)
qed

lemma RunShutdownHooks_rel:
  assumes "run_state (RunShutdownHooks env order) d = (r, d')" and "set (order (hookManager d)) = set (hookManager d)"
  shows "hooks_rel d d' \<and> (\<forall>n i. (n, StopServer i) \<in> set (hookManager d) \<longrightarrow> i \<notin> set (subs (clusterUpdateBus d')))"
proof -
  obtain es d1 where e: "run_state (run_hooks (map (closure env) (order (hookManager d))) []) d = (es, d1)" by (metis surj_pair)
  have "d1 = d'" using assms(1) e by (auto simp: RunShutdownHooks_def hooks_Run_def split: option.splits)
  with run_hooks_rel [OF e] assms(2) show ?thesis by simp
qed

section \<open>The last phase, step by step\<close>

text \<open>
  Between any two of its calls another goroutine may run. \<open>daemon_step\<close> is one call of
  \<^verbatim>\<open>runDaemonize\<close>; \<open>AtReturn\<close> is its end.
\<close>

datatype daemon_pc =
    AtWait
  | AtStopping "error + unit"
  | AtSetProcess "error + unit"
  | AtHooks
  | AtClean
  | AtStopped
  | AtReturn "error + unit"

fun daemon_step ::
  "status_env \<Rightarrow> shutdown_env \<Rightarrow> 'h tools \<Rightarrow> wait_event \<Rightarrow>
   ((string \<times> shutdown) list \<Rightarrow> (string \<times> shutdown) list) \<Rightarrow> daemon_pc \<Rightarrow> (('c, 'x) initData_scheme, daemon_pc) state"
where
  "daemon_step env se t ev order AtWait = State_Monad.bind (gets kubeletProcess) (\<lambda>p. case p of
     None \<Rightarrow> State_Monad.return (AtReturn (Inr ()))
   | Some pid \<Rightarrow> State_Monad.bind (WaitForKubelet pid ev) (\<lambda>err. State_Monad.return (AtStopping err)))"
| "daemon_step env se t ev order (AtStopping err) =
     State_Monad.bind (UpdateIkniteCluster env Stopping ''stop'' [] []) (\<lambda>r. case r of
       Inl e \<Rightarrow> State_Monad.return (AtReturn (Inl e))
     | Inr _ \<Rightarrow> State_Monad.return (AtSetProcess err))"
| "daemon_step env se t ev order (AtSetProcess err) =
     State_Monad.bind (case err of Inr _ \<Rightarrow> SetKubeletProcess None | Inl _ \<Rightarrow> skip) (\<lambda>_. State_Monad.return AtHooks)"
| "daemon_step env se t ev order AtHooks =
     State_Monad.bind (ignoreErr (RunShutdownHooks se order)) (\<lambda>_. State_Monad.return AtClean)"
| "daemon_step env se t ev order AtClean =
     State_Monad.bind (gets (\<lambda>d. Spec (ikniteCluster d))) (\<lambda>spec.
     State_Monad.bind (ignoreErr (CleanAll t \<lparr>ikniteConfig = spec, isDryRun = False\<rparr> True False False)) (\<lambda>_.
     State_Monad.return AtStopped))"
| "daemon_step env se t ev order AtStopped =
     State_Monad.bind (UpdateIkniteCluster env Stopped '''' [] []) (\<lambda>r. State_Monad.return (AtReturn r))"
| "daemon_step env se t ev order (AtReturn r) = State_Monad.return (AtReturn r)"

fun daemon_run ::
  "nat \<Rightarrow> status_env \<Rightarrow> shutdown_env \<Rightarrow> 'h tools \<Rightarrow> wait_event \<Rightarrow>
   ((string \<times> shutdown) list \<Rightarrow> (string \<times> shutdown) list) \<Rightarrow> daemon_pc \<Rightarrow> (('c, 'x) initData_scheme, daemon_pc) state"
where
  "daemon_run 0 env se t ev order pc = State_Monad.return pc"
| "daemon_run (Suc n) env se t ev order pc =
     State_Monad.bind (daemon_step env se t ev order pc) (daemon_run n env se t ev order)"

lemma daemon_run_return [simp]: "daemon_run n env se t ev order (AtReturn r) = State_Monad.return (AtReturn r)"
  by (induction n) auto

text \<open>Without interference, six steps are the whole phase.\<close>

lemma daemon_run_is_runDaemonize:
  "daemon_run 6 env se t ev order AtWait = State_Monad.bind (runDaemonize env se t ev order) (\<lambda>r. State_Monad.return (AtReturn r))"
proof (rule state.expand, rule ext)
  fix d :: "('a, 'b) initData_scheme"
  have six: "(6 :: nat) = Suc (Suc (Suc (Suc (Suc (Suc 0)))))" by simp
  show "run_state (daemon_run 6 env se t ev order AtWait) d =
      run_state (State_Monad.bind (runDaemonize env se t ev order) (\<lambda>r. State_Monad.return (AtReturn r))) d"
    unfolding six by (auto simp: runDaemonize_def run_onErr split: option.splits sum.splits prod.splits)
qed

section \<open>What the last phase leaves behind\<close>

text \<open>A status update as a step: it succeeds, sets the status and keeps the rest.\<close>

definition updated ::
  "status_env \<Rightarrow> ClusterState \<Rightarrow> string \<Rightarrow> WorkloadState list \<Rightarrow> WorkloadState list \<Rightarrow>
   ('c, 'x) initData_scheme \<Rightarrow> ('c, 'x) initData_scheme \<Rightarrow> bool"
where
  "updated env state phase ready unready d d' \<longleftrightarrow>
     ikniteCluster d' = cluster_Update (time_Now env (clock d)) state phase ready unready (ikniteCluster d) \<and>
     kubeletProcess d' = kubeletProcess d \<and> hookManager d' = hookManager d \<and> errGroup d' = errGroup d \<and>
     subs (clusterUpdateBus d') = subs (clusterUpdateBus d) \<and> bus_ok d'"

lemma update_step:
  assumes "bus_ok d"
  obtains d' where "run_state (UpdateIkniteCluster env state phase ready unready) d = (Inr (), d')"
    and "updated env state phase ready unready d d'"
proof -
  from assms have b: "bus_wf (clusterUpdateBus d)" "distinct (subs (clusterUpdateBus d))" by (auto simp: bus_ok_def)
  from run_UpdateIkniteCluster [OF b, of env state phase ready unready] obtain d1 b where
    u: "run_state (UpdateIkniteCluster env state phase ready unready) d = (Inr (), d1\<lparr>clusterUpdateBus := b\<rparr>)"
    and b': "delivered (new_status env state phase ready unready d) (subs (clusterUpdateBus d)) (clusterUpdateBus d) b"
    and p: "run_state (cluster_Persist (json_Marshal env) (new_status env state phase ready unready d))
           (d\<lparr>ikniteCluster := new_status env state phase ready unready d\<rparr>) = ((), d1)" .
  note so = same_oracle_data [OF state_io_relD [OF cluster_Persist_oracle p]]
  have "updated env state phase ready unready d (d1\<lparr>clusterUpdateBus := b\<rparr>)"
    using so b' assms by (simp add: updated_def bus_ok_def delivered_def new_status_def)
  with u that show thesis by blast
qed

lemma updated_status:
  "updated env state phase ready unready d d' \<Longrightarrow>
     ClState (Status (ikniteCluster d')) = state \<and> CurrentPhase (Status (ikniteCluster d')) = phase \<and>
     Spec (ikniteCluster d') = Spec (ikniteCluster d)"
  by (simp add: updated_def cluster_Update_def)

lemma TerminateProcess_oracle [frame_intros]: "state_io_rel same_oracle (TerminateProcess p al)"
  unfolding TerminateProcess_def by (intro so.frame_rules frame_intros)

lemma WaitForKubelet_oracle [frame_intros]: "state_io_rel same_oracle (WaitForKubelet pid ev)"
  unfolding WaitForKubelet_def by (cases ev; simp only: wait_event.case) (intro so.frame_rules frame_intros)+

text \<open>
  C2: When the kubelet of a running cluster stops, the last phase succeeds whatever fails on the
  way: the status is Stopped with an empty phase, the specification is the one of before, the status
  server has left the bus, and the kubelet process is forgotten exactly when the wait for it
  succeeded. Without a kubelet process nothing at all is done.
\<close>

theorem daemonize_outcome:
  assumes "run_state (runDaemonize env se t ev order) d = (r, d')" and "bus_ok d"
    and "set (order (hookManager d)) = set (hookManager d)"
  shows "(kubeletProcess d = None \<longrightarrow> r = Inr () \<and> d' = d) \<and>
    (\<forall>pid. kubeletProcess d = Some pid \<longrightarrow>
       r = Inr () \<and> ClState (Status (ikniteCluster d')) = Stopped \<and> CurrentPhase (Status (ikniteCluster d')) = '''' \<and>
       Spec (ikniteCluster d') = Spec (ikniteCluster d) \<and>
       kubeletProcess d' = (if fst (run_state (WaitForKubelet pid ev) d) = Inr () then None else Some pid) \<and>
       (\<forall>n i. (n, StopServer i) \<in> set (hookManager d) \<longrightarrow> i \<notin> set (subs (clusterUpdateBus d'))))"
proof (cases "kubeletProcess d")
  case None
  with assms(1) show ?thesis by (simp add: runDaemonize_def)
next
  case (Some pid)
  obtain w d1 where w: "run_state (WaitForKubelet pid ev) d = (w, d1)" by (metis surj_pair)
  have k1: "keeps_data d d1" by (rule same_oracle_keeps_data [OF state_io_relD [OF WaitForKubelet_oracle w]])
  with assms(2) have "bus_ok d1" by (simp add: keeps_data_def)
  then obtain d2 where u: "run_state (UpdateIkniteCluster env Stopping ''stop'' [] []) d1 = (Inr (), d2)"
    "updated env Stopping ''stop'' [] [] d1 d2" by (rule update_step)
  define d3 where "d3 = (if w = Inr () then d2\<lparr>kubeletProcess := None\<rparr> else d2)"
  obtain h d4 where h: "run_state (RunShutdownHooks se order) d3 = (h, d4)" by (metis surj_pair)
  have d3: "hookManager d3 = hookManager d" "ikniteCluster d3 = ikniteCluster d2" "bus_ok d3"
    "kubeletProcess d3 = (if w = Inr () then None else Some pid)"
    using u(2) k1 Some by (auto simp: d3_def updated_def keeps_data_def bus_ok_def)
  from RunShutdownHooks_rel [OF h] assms(3) d3(1) have hr: "hooks_rel d3 d4"
    "\<forall>n i. (n, StopServer i) \<in> set (hookManager d) \<longrightarrow> i \<notin> set (subs (clusterUpdateBus d4))" by auto
  obtain c d5 where c: "run_state (CleanAll t \<lparr>ikniteConfig = Spec (ikniteCluster d4), isDryRun = False\<rparr> True False False) d4 = (c, d5)"
    by (metis surj_pair)
  note so5 = state_io_relD [OF CleanAll_oracle c]
  have k5: "keeps_data d4 d5" "clusterUpdateBus d5 = clusterUpdateBus d4"
    using same_oracle_keeps_data [OF so5] same_oracle_data [OF so5] by auto
  with hr(1) d3(3) have "bus_ok d5" by (simp add: hooks_rel_def keeps_data_def)
  then obtain d6 where v: "run_state (UpdateIkniteCluster env Stopped '''' [] []) d5 = (Inr (), d6)"
    "updated env Stopped '''' [] [] d5 d6" by (rule update_step)
  have "run_state (runDaemonize env se t ev order) d = (Inr (), d6)"
    using Some w u(1) h c v(1) unfolding runDaemonize_def d3_def SetKubeletProcess_def
    by (cases w) (auto simp: run_onErr run_ignoreErr)
  with assms(1) have "r = Inr ()" "d' = d6" by simp_all
  moreover from updated_status [OF v(2)] updated_status [OF u(2)] k5(1) hr(1) d3(2) k1
  have "Spec (ikniteCluster d6) = Spec (ikniteCluster d)" by (simp add: keeps_data_def hooks_rel_def)
  ultimately show ?thesis
    using Some updated_status [OF v(2)] v(2) k5 hr d3(4) w by (auto simp: updated_def keeps_data_def hooks_rel_def)
qed

definition sample_running :: "unit initData" where
  "sample_running = (sample_data Map.empty)\<lparr>kubeletProcess := Some 42, hookManager := [(''serve'', StopServer 1)]\<rparr>"

definition sample_shutdown :: shutdown_env where
  "sample_shutdown = \<lparr>mdns_Close = (\<lambda>_. None), srv_Shutdown = (\<lambda>_. Some (ErrOther ''timeout'')), listener_Close = (\<lambda>_ _. None)\<rparr>"

lemma sample_running_ok: "bus_ok sample_running"
  using sample_bus [of Map.empty] by (simp add: bus_ok_def sample_running_def)

theorem daemonize_outcome_witness:
  "ClState (Status (ikniteCluster (snd (run_state
     (runDaemonize sample_env sample_shutdown (sample_tools Running) (WaitCmdDone None) rev) sample_running)))) = Stopped"
  using daemonize_outcome [OF surjective_pairing sample_running_ok,
      of rev sample_env sample_shutdown "sample_tools Running" "WaitCmdDone None"]
  by (simp add: sample_running_def)

section \<open>Beside the monitor\<close>

text \<open>
  The main goroutine in its last phase and the goroutine of the monitor, with its counters. The flag
  says whether the monitor is still running: it ends when a query fails or when it sees that the
  context has ended, which is so only when the wait ended for that reason.
\<close>

inductive stop_step ::
  "status_env \<Rightarrow> shutdown_env \<Rightarrow> 'h tools \<Rightarrow> wait_event \<Rightarrow>
   ((string \<times> shutdown) list \<Rightarrow> (string \<times> shutdown) list) \<Rightarrow> (('c, 'x) initData_scheme, 'o) cluster_access \<Rightarrow>
   daemon_pc \<times> bool \<times> ('c, 'x) initData_scheme ready_state \<Rightarrow> daemon_pc \<times> bool \<times> ('c, 'x) initData_scheme ready_state \<Rightarrow> bool"
  for env se t ev order a
where
  main_step: "run_state (daemon_step env se t ev order pc) (rs_state p) = (pc', d) \<Longrightarrow>
    stop_step env se t ev order a (pc, m, p) (pc', m, p\<lparr>rs_state := d\<rparr>)"
| monitor_ticks: "run_state (updateWorkloads env a) p = ((done, None), p') \<Longrightarrow>
    stop_step env se t ev order a (pc, True, p) (pc, True, p')"
| monitor_fails: "run_state (updateWorkloads env a) p = ((done, Some e), p') \<Longrightarrow>
    stop_step env se t ev order a (pc, True, p) (pc, False, p')"
| monitor_cancelled: "ev = WaitCtxDone \<Longrightarrow> stop_step env se t ev order a (pc, True, p) (pc, False, p)"

lemma SetKubeletProcess_run [simp]: "run_state (SetKubeletProcess q) d = ((), d\<lparr>kubeletProcess := q\<rparr>)"
  by (simp add: SetKubeletProcess_def)

lemma bus_ok_process [simp]: "bus_ok (d\<lparr>kubeletProcess := q\<rparr>) = bus_ok d"
  by (simp add: bus_ok_def)

lemma daemon_step_ok:
  assumes "run_state (daemon_step env se t ev order pc) d = (pc', d')" and "bus_ok d"
    and "\<And>hs. set (order hs) = set hs" and "pc = AtWait \<Longrightarrow> kubeletProcess d \<noteq> None" and "\<And>r. pc \<noteq> AtReturn r"
  shows "bus_ok d' \<and> pc' \<noteq> AtWait \<and> (\<forall>r. pc' = AtReturn r \<longrightarrow> r = Inr () \<and> ClState (Status (ikniteCluster d')) = Stopped)"
proof (cases pc)
  case AtWait
  then obtain pid where pid: "kubeletProcess d = Some pid" using assms(4) by auto
  obtain w d1 where w: "run_state (WaitForKubelet pid ev) d = (w, d1)" by (metis surj_pair)
  with AtWait pid assms(1) have "pc' = AtStopping w" "d' = d1" by auto
  moreover have "keeps_data d d1" by (rule same_oracle_keeps_data [OF state_io_relD [OF WaitForKubelet_oracle w]])
  ultimately show ?thesis using assms(2) by (simp add: keeps_data_def)
next
  case (AtStopping w)
  from update_step [OF assms(2), of env Stopping "''stop''" "[]" "[]"] obtain d1 where
    u: "run_state (UpdateIkniteCluster env Stopping ''stop'' [] []) d = (Inr (), d1)" "updated env Stopping ''stop'' [] [] d d1" .
  then have "run_state (daemon_step env se t ev order (AtStopping w)) d = (AtSetProcess w, d1)" by simp
  with AtStopping assms(1) u(2) show ?thesis by (auto simp: updated_def)
next
  case (AtSetProcess w)
  with assms(1,2) show ?thesis by (cases w) auto
next
  case AtHooks
  obtain h d1 where h: "run_state (RunShutdownHooks se order) d = (h, d1)" by (metis surj_pair)
  with AtHooks assms(1) have "pc' = AtClean" "d' = d1" by (auto simp: run_ignoreErr)
  with RunShutdownHooks_rel [OF h assms(3)] assms(2) show ?thesis by (simp add: hooks_rel_def keeps_data_def)
next
  case AtClean
  obtain c d1 where c: "run_state (CleanAll t \<lparr>ikniteConfig = Spec (ikniteCluster d), isDryRun = False\<rparr> True False False) d = (c, d1)"
    by (metis surj_pair)
  with AtClean assms(1) have "pc' = AtStopped" "d' = d1" by (auto simp: run_ignoreErr)
  with same_oracle_keeps_data [OF state_io_relD [OF CleanAll_oracle c]] assms(2) show ?thesis by (simp add: keeps_data_def)
next
  case AtStopped
  from update_step [OF assms(2), of env Stopped "''''" "[]" "[]"] obtain d1 where
    u: "run_state (UpdateIkniteCluster env Stopped '''' [] []) d = (Inr (), d1)" "updated env Stopped '''' [] [] d d1" .
  then have "run_state (daemon_step env se t ev order AtStopped) d = (AtReturn (Inr ()), d1)" by simp
  with AtStopped assms(1) have "pc' = AtReturn (Inr ())" "d' = d1" by (simp_all del: daemon_step.simps)
  with updated_status [OF u(2)] u(2) show ?thesis by (simp add: updated_def)
qed (use assms(5) in blast)

lemma monitor_tick_ok:
  assumes "run_state (updateWorkloads env a) p = ((done, err), p')" and "bus_ok (rs_state p)"
    and "state_io_rel keeps_data (AllWorkloadStates a)"
  shows "bus_ok (rs_state p') \<and> kubeletProcess (rs_state p') = kubeletProcess (rs_state p) \<and>
    (case err of None \<Rightarrow> ClState (Status (ikniteCluster (rs_state p'))) \<in> {Running, Stabilizing}
               | Some e \<Rightarrow> ikniteCluster (rs_state p') = ikniteCluster (rs_state p)) \<and>
    (err = None \<longleftrightarrow> (\<exists>ss d. run_state (AllWorkloadStates a) (rs_state p) = (Inr ss, d)))"
proof -
  obtain w d where w: "run_state (AllWorkloadStates a) (rs_state p) = (w, d)" by (metis surj_pair)
  with assms(3) have k: "keeps_data (rs_state p) d" by (rule state_io_relD)
  with assms(2) have b: "bus_ok d" by (simp add: keeps_data_def)
  show ?thesis
  proof (cases w)
    case (Inl e)
    with assms(1) w have "err = Some e" "p' = p\<lparr>rs_state := d\<rparr>"
      by (auto simp: updateWorkloads_def WorkloadsReadyCondition_def on_state_def)
    with k b w Inl show ?thesis by (simp add: keeps_data_def)
  next
    case (Inr ss)
    let ?st = "monitor_state (filter (\<lambda>s. \<not> Ok s) ss = []) (ClState (Status (ikniteCluster d)))"
    from update_step [OF b] obtain d1 where
      u: "run_state (UpdateIkniteCluster env ?st ''daemonize'' (filter Ok ss) (filter (\<lambda>s. \<not> Ok s) ss)) d = (Inr (), d1)"
      "updated env ?st ''daemonize'' (filter Ok ss) (filter (\<lambda>s. \<not> Ok s) ss) d d1" .
    then have "run_state (monitor_callback env (filter (\<lambda>s. \<not> Ok s) ss = []) n (filter Ok ss) (filter (\<lambda>s. \<not> Ok s) ss) i j) d =
        ((True, None), d1)" for n i j
      by (simp add: monitor_callback_def err_of_def)
    with assms(1) w Inr have "err = None" "rs_state p' = d1"
      by (auto simp: updateWorkloads_def WorkloadsReadyCondition_def on_state_def Let_def)
    with updated_status [OF u(2)] u(2) k w Inr show ?thesis
      by (simp add: updated_def keeps_data_def monitor_state_def)
  qed
qed

text \<open>The invariant of the two goroutines; \<open>quiet\<close> says that the monitor ended before the phase did.\<close>

definition stop_inv :: "bool \<Rightarrow> daemon_pc \<times> bool \<times> ('c, 'x) initData_scheme ready_state \<Rightarrow> bool" where
  "stop_inv quiet s \<longleftrightarrow> (case s of (pc, m, p) \<Rightarrow>
     bus_ok (rs_state p) \<and> (quiet \<longrightarrow> \<not> m) \<and> (pc = AtWait \<longrightarrow> kubeletProcess (rs_state p) \<noteq> None) \<and>
     (\<forall>r. pc = AtReturn r \<longrightarrow> r = Inr () \<and>
        ClState (Status (ikniteCluster (rs_state p))) \<in> (if quiet then {Stopped} else {Stopped, Running, Stabilizing})))"

lemma stop_inv_step:
  assumes "stop_step env se t ev order a s s'" and "stop_inv quiet s"
    and "\<And>hs. set (order hs) = set hs" and "state_io_rel keeps_data (AllWorkloadStates a)"
  shows "stop_inv quiet s'"
  using assms(1)
proof cases
  case (main_step pc p pc' d m)
  show ?thesis
  proof (cases "\<exists>r. pc = AtReturn r")
    case True
    with main_step assms(2) show ?thesis by (auto simp: stop_inv_def)
  next
    case False
    with daemon_step_ok [OF main_step(3) _ assms(3)] main_step assms(2) show ?thesis by (auto simp: stop_inv_def)
  qed
next
  case (monitor_ticks p dn p' pc)
  with monitor_tick_ok [OF monitor_ticks(3) _ assms(4)] assms(2) show ?thesis by (auto simp: stop_inv_def)
next
  case (monitor_fails p dn e p' pc)
  with monitor_tick_ok [OF monitor_fails(3) _ assms(4)] assms(2) show ?thesis by (auto simp: stop_inv_def)
next
  case (monitor_cancelled pc p)
  with assms(2) show ?thesis by (auto simp: stop_inv_def)
qed

lemma stop_inv_reachable:
  assumes "(stop_step env se t ev order a)\<^sup>*\<^sup>* s s'" and "stop_inv quiet s"
    and "\<And>hs. set (order hs) = set hs" and "state_io_rel keeps_data (AllWorkloadStates a)"
  shows "stop_inv quiet s'"
  using assms(1,2) by (induction rule: rtranclp_induct) (auto intro: stop_inv_step [OF _ _ assms(3,4)])

lemma main_alone:
  assumes "run_state (daemon_run n env se t ev order pc) (rs_state p) = (pc', d)"
  shows "(stop_step env se t ev order a)\<^sup>*\<^sup>* (pc, m, p) (pc', m, p\<lparr>rs_state := d\<rparr>)"
  using assms
proof (induction n arbitrary: pc p)
  case (Suc n)
  obtain pc1 d1 where s: "run_state (daemon_step env se t ev order pc) (rs_state p) = (pc1, d1)" by (metis surj_pair)
  with Suc.prems have "run_state (daemon_run n env se t ev order pc1) (rs_state (p\<lparr>rs_state := d1\<rparr>)) = (pc', d)" by simp
  from converse_rtranclp_into_rtranclp [OF stop_step.main_step [OF s] Suc.IH [OF this]] show ?case by simp
qed (cases p, auto)

text \<open>
  C17: The monitor of the workloads can undo the last status update, since nothing stops it when the
  kubelet ends by itself and nothing waits for it. However the steps interleave, the phase ends with
  success and the status Stopped, Running or Stabilizing; it is Stopped whenever the monitor has
  ended before the phase does; and if the monitor gets an answer from the API server, an execution
  exists in which the phase is over and the status says Running or Stabilizing.
\<close>

theorem monitor_overwrites_stopped:
  assumes "kubeletProcess (rs_state p) \<noteq> None" and "bus_ok (rs_state p)"
    and "\<And>hs. set (order hs) = set hs" and "state_io_rel keeps_data (AllWorkloadStates a)"
  shows "((stop_step env se t ev order a)\<^sup>*\<^sup>* (AtWait, m, p) (AtReturn r, m', q) \<longrightarrow>
            r = Inr () \<and> ClState (Status (ikniteCluster (rs_state q))) \<in> {Stopped, Running, Stabilizing}) \<and>
         ((stop_step env se t ev order a)\<^sup>*\<^sup>* (AtWait, m, p) (pc, False, q) \<and> (\<forall>r. pc \<noteq> AtReturn r) \<and>
          (stop_step env se t ev order a)\<^sup>*\<^sup>* (pc, False, q) (AtReturn r, m', q') \<longrightarrow>
            ClState (Status (ikniteCluster (rs_state q'))) = Stopped) \<and>
         ((\<forall>d. \<exists>ss d'. run_state (AllWorkloadStates a) d = (Inr ss, d')) \<longrightarrow>
            (\<exists>q. (stop_step env se t ev order a)\<^sup>*\<^sup>* (AtWait, True, p) (AtReturn (Inr ()), True, q) \<and>
               ClState (Status (ikniteCluster (rs_state q))) \<in> {Running, Stabilizing}))"
proof (intro conjI impI)
  have inv: "stop_inv False (AtWait, x, p)" for x using assms(1,2) by (simp add: stop_inv_def)
  note reach = stop_inv_reachable [OF _ _ assms(3,4)]
  show "r = Inr ()" "ClState (Status (ikniteCluster (rs_state q))) \<in> {Stopped, Running, Stabilizing}"
    if "(stop_step env se t ev order a)\<^sup>*\<^sup>* (AtWait, m, p) (AtReturn r, m', q)"
    using reach [OF that inv] by (simp_all add: stop_inv_def)
  show "ClState (Status (ikniteCluster (rs_state q'))) = Stopped"
    if "(stop_step env se t ev order a)\<^sup>*\<^sup>* (AtWait, m, p) (pc, False, q) \<and> (\<forall>r. pc \<noteq> AtReturn r) \<and>
        (stop_step env se t ev order a)\<^sup>*\<^sup>* (pc, False, q) (AtReturn r, m', q')"
  proof -
    from that have "stop_inv False (pc, False, q)" using reach [OF _ inv] by blast
    with that have "stop_inv True (pc, False, q)" by (auto simp: stop_inv_def)
    with that have "stop_inv True (AtReturn r, m', q')" using reach by blast
    then show ?thesis by (simp add: stop_inv_def)
  qed
  assume answers: "\<forall>d. \<exists>ss d'. run_state (AllWorkloadStates a) d = (Inr ss, d')"
  obtain x d where x: "run_state (runDaemonize env se t ev order) (rs_state p) = (x, d)" by (metis surj_pair)
  then have "run_state (daemon_run 6 env se t ev order AtWait) (rs_state p) = (AtReturn x, d)"
    by (simp add: daemon_run_is_runDaemonize)
  note r1 = main_alone [OF this, of a True]
  from reach [OF r1 inv] have ok: "x = Inr ()" "bus_ok (rs_state (p\<lparr>rs_state := d\<rparr>))" by (simp_all add: stop_inv_def)
  obtain dn err q where t: "run_state (updateWorkloads env a) (p\<lparr>rs_state := d\<rparr>) = ((dn, err), q)"
    by (metis surj_pair)
  note tick = monitor_tick_ok [OF t ok(2) assms(4)]
  with answers have "err = None" by simp
  with t have "run_state (updateWorkloads env a) (p\<lparr>rs_state := d\<rparr>) = ((dn, None), q)" by simp
  from rtranclp.rtrancl_into_rtrancl [OF r1 [unfolded ok(1)] stop_step.monitor_ticks [OF this]] tick \<open>err = None\<close>
  show "\<exists>q. (stop_step env se t ev order a)\<^sup>*\<^sup>* (AtWait, True, p) (AtReturn (Inr ()), True, q) \<and>
      ClState (Status (ikniteCluster (rs_state q))) \<in> {Running, Stabilizing}"
    by auto
qed

definition idle_cluster :: "(unit initData, unit) cluster_access" where
  "idle_cluster = \<lparr>ToRESTMapper = ret (), KindFor = (\<lambda>_. ret ()), all_infos = (\<lambda>_. ret []), namespace_infos = (\<lambda>_ _. ret []),
     is_application = (\<lambda>_. False), FromUnstructured = (\<lambda>_. Inl ErrNotFound), poly_viewer = (\<lambda>_. Inr (Inr ([], True))),
     ToUnstructured = (\<lambda>_. Inr ()), kstatus_Compute = (\<lambda>_. Inr (True, []))\<rparr>"

lemma idle_cluster_states: "run_state (AllWorkloadStates idle_cluster) d = (Inr [], d)"
  by (simp add: AllWorkloadStates_def idle_cluster_def workload_types_def run_onErr numeral_2_eq_2)

theorem monitor_overwrites_stopped_witness:
  "\<exists>q. (stop_step sample_env sample_shutdown (sample_tools Running) (WaitCmdDone None) rev idle_cluster)\<^sup>*\<^sup>*
      (AtWait, True, \<lparr>rs_state = sample_running, iteration = 0, okIterations = 0\<rparr>) (AtReturn (Inr ()), True, q) \<and>
    ClState (Status (ikniteCluster (rs_state q))) \<in> {Running, Stabilizing}"
proof -
  let ?p = "\<lparr>rs_state = sample_running, iteration = 0, okIterations = 0\<rparr>"
  have "state_io_rel keeps_data (AllWorkloadStates idle_cluster)"
    by (rule state_io_relI) (simp add: idle_cluster_states kd.R_refl)
  moreover have "kubeletProcess (rs_state ?p) \<noteq> None" by (simp add: sample_running_def)
  ultimately show ?thesis
    using monitor_overwrites_stopped [of ?p rev idle_cluster sample_env sample_shutdown "sample_tools Running" "WaitCmdDone None"]
      sample_running_ok idle_cluster_states by auto
qed

end
