(* ===== verification/Network_Phases.thy ===== *)
theory Network_Phases
  imports Stopping
begin

text \<open>
  The two phases that deal with the addresses of the machine: \<^verbatim>\<open>set-lb-ip\<close>
  (\<^verbatim>\<open>set_lb_ip.go\<close>), a watch that gives the load balancer services that ask for it the
  addresses of the machine, and \<^verbatim>\<open>proxy-api\<close> (\<^verbatim>\<open>proxy_api.go\<close>), which forwards the ports of
  the API server and of the status server from the outbound address to the address of the cluster.
\<close>

section \<open>Load balancer addresses\<close>

record PortStatus =
  ps_Port :: int
  ps_Protocol :: string

record LoadBalancerIngress =
  ing_IP :: string
  ing_Ports :: "PortStatus list"
  ing_IPMode :: "string option"

text \<open>Annotations that are a nil map are \<open>None\<close>. The ports keep only what the code reads.\<close>

record Service =
  svc_Name :: string
  svc_Namespace :: string
  svc_Type :: string
  svc_Annotations :: "(string \<rightharpoonup> string) option"
  svc_Ports :: "PortStatus list"
  svc_Ingress :: "LoadBalancerIngress list"

definition setLBIPAnnotation :: string where "setLBIPAnnotation = ''config.iknite.app/outbound-ip''"
definition setLBIPAnnotationValue :: string where "setLBIPAnnotationValue = ''true''"

definition shouldPatchServiceLBIP :: "Service \<Rightarrow> string list \<Rightarrow> bool" where
  "shouldPatchServiceLBIP service outboundIPs =
     (if svc_Type service \<noteq> ''LoadBalancer'' then False
      else case svc_Annotations service of
        None \<Rightarrow> False
      | Some annotations \<Rightarrow>
          if annotations setLBIPAnnotation \<noteq> Some setLBIPAnnotationValue then False
          else if length (svc_Ingress service) \<noteq> length outboundIPs then True
          else list_ex (\<lambda>ip. ip \<notin> set (map ing_IP (svc_Ingress service))) outboundIPs)"

definition patched_service :: "Service \<Rightarrow> string list \<Rightarrow> Service" where
  "patched_service service outboundIPs = service\<lparr>svc_Ingress :=
     map (\<lambda>ip. \<lparr>ing_IP = ip, ing_Ports = svc_Ports service, ing_IPMode = Some ''VIP''\<rparr>) outboundIPs\<rparr>"

definition patchServiceLBIP ::
  "(Service \<Rightarrow> ('s, error + unit) state) \<Rightarrow> Service \<Rightarrow> string list \<Rightarrow> ('s, error + unit) state"
where
  "patchServiceLBIP UpdateStatus service outboundIPs =
     State_Monad.bind (UpdateStatus (patched_service service outboundIPs)) (\<lambda>r. case r of
       Inl e \<Rightarrow> if errors_Is e ErrNotFound then ret () else throw (Wrap ''failed to update service status'' e)
     | Inr _ \<Rightarrow> ret ())"

datatype event_type = EvAdded | EvModified | EvDeleted | EvBookmark | EvError

datatype watch_object = WatchService Service | WatchStatus string | WatchOther

text \<open>The events of the watch until its channel is closed.\<close>

fun watch_events ::
  "(Service \<Rightarrow> ('s, error + unit) state) \<Rightarrow> string list \<Rightarrow> (event_type \<times> watch_object) list \<Rightarrow> ('s, error + unit) state"
where
  "watch_events upd ips [] = ret ()"
| "watch_events upd ips ((ty, obj) # evs) =
     (if ty = EvError then (case obj of
          WatchStatus msg \<Rightarrow> throw (Errorf (''watch error: '' @ msg))
        | _ \<Rightarrow> throw (Errorf ''unknown watch error''))
      else if ty \<noteq> EvAdded \<and> ty \<noteq> EvModified then watch_events upd ips evs
      else (case obj of
          WatchService service \<Rightarrow>
            if shouldPatchServiceLBIP service ips
            then State_Monad.bind (ignoreErr (patchServiceLBIP upd service ips)) (\<lambda>_. watch_events upd ips evs)
            else watch_events upd ips evs
        | _ \<Rightarrow> watch_events upd ips evs))"

definition watchSetLBIPServices ::
  "(Service \<Rightarrow> ('s, error + unit) state) \<Rightarrow> error + (event_type \<times> watch_object) list \<Rightarrow> string list \<Rightarrow> ('s, error + unit) state"
where
  "watchSetLBIPServices upd watcher outboundIPs = (case watcher of
       Inl e \<Rightarrow> throw (Wrap ''failed to watch services in all namespaces'' e)
     | Inr evs \<Rightarrow> watch_events upd outboundIPs evs)"

definition runSetLBIP :: "('c, ('c, 'x) initData_scheme) client_lib \<Rightarrow> ('c, 'x, unit) dio" where
  "runSetLBIP l =
     onErr GetOutboundIP (Wrap ''failed to get outbound IP'') (\<lambda>outboundIP.
     State_Monad.bind (gets (\<lambda>d. Ip (Spec (ikniteCluster d)))) (\<lambda>clusterIp.
     let ips = [ip_String outboundIP] @ (if clusterIp \<noteq> Some outboundIP then [ip_opt_String clusterIp] else [])
     in onErr (RESTClientGetter l) (Wrap ''failed to get REST client getter'') (\<lambda>getter.
        case ClientSet l getter of
          Inl e \<Rightarrow> throw (Wrap ''failed to get kubernetes clientset'' e)
        | Inr _ \<Rightarrow> State_Monad.bind (ErrGroup_Go (WatchSetLBIPServices ips)) (\<lambda>_. ret ()))))"

section \<open>The API proxy\<close>

fun proxy_ports_from :: "int set \<Rightarrow> int list \<Rightarrow> int list" where
  "proxy_ports_from seen [] = []"
| "proxy_ports_from seen (p # ps) =
     (if p \<le> 0 then proxy_ports_from seen ps
      else if p \<in> seen then proxy_ports_from seen ps
      else p # proxy_ports_from (insert p seen) ps)"

definition proxyAPIPorts :: "int list \<Rightarrow> int list" where
  "proxyAPIPorts sourcePorts = proxy_ports_from {} sourcePorts"

text \<open>\<open>listen addr\<close> opens a listener, which is known by a number. The goroutine that serves it is not modelled.\<close>

definition startProxyAPIListener ::
  "(string \<Rightarrow> ('s, error + nat) state) \<Rightarrow> ip \<Rightarrow> int \<Rightarrow> ('s, error + nat) state"
where
  "startProxyAPIListener listen outboundIP port =
     (let listenAddr = JoinHostPort (ip_String outboundIP) (Itoa port)
      in onErr (listen listenAddr) (Wrap (''listen on '' @ listenAddr)) (\<lambda>l. ret l))"

fun start_listeners ::
  "shutdown_env \<Rightarrow> (string \<Rightarrow> ('x, nat) io) \<Rightarrow> ip \<Rightarrow> nat list \<Rightarrow> int list \<Rightarrow> ('x, nat list) io"
where
  "start_listeners env listen outboundIP listeners [] = ret listeners"
| "start_listeners env listen outboundIP listeners (port # ports) =
     State_Monad.bind (startProxyAPIListener listen outboundIP port) (\<lambda>r. case r of
       Inl e \<Rightarrow> State_Monad.bind (ignoreErr (closeProxyAPIListeners env listeners)) (\<lambda>_.
                 throw (Wrap (''failed to start proxy on port '' @ Itoa port) e))
     | Inr l \<Rightarrow> start_listeners env listen outboundIP (listeners @ [l]) ports)"

definition runProxyAPI ::
  "shutdown_env \<Rightarrow> (string \<Rightarrow> ('c, 'x, nat) dio) \<Rightarrow> ('c, 'x, unit) dio"
where
  "runProxyAPI env listen = State_Monad.bind (gets (\<lambda>d. (Spec (ikniteCluster d), cfg d))) (\<lambda>(spec, c).
     case Ip spec of
       None \<Rightarrow> ret ()
     | Some clusterIP \<Rightarrow>
         onErr GetOutboundIP (Wrap ''failed to get outbound IP'') (\<lambda>outboundIP.
         if outboundIP = clusterIP then ret ()
         else onErr (start_listeners env listen outboundIP [] (proxyAPIPorts [StatusServerPort spec, BindPort c])) id (\<lambda>ls.
           State_Monad.bind (RegisterShutdownHook ''proxy-api'' (CloseProxyListeners ls)) (\<lambda>_. ret ()))))"

section \<open>Properties\<close>

lemma patched_fields [simp]:
  "map ing_IP (svc_Ingress (patched_service s ips)) = ips" "length (svc_Ingress (patched_service s ips)) = length ips"
  "svc_Type (patched_service s ips) = svc_Type s" "svc_Annotations (patched_service s ips) = svc_Annotations s"
  by (simp_all add: patched_service_def comp_def)

lemma patched_settled: "\<not> shouldPatchServiceLBIP (patched_service s ips) ips"
  by (auto simp: shouldPatchServiceLBIP_def list_ex_iff split: option.splits simp del: set_map)

definition wants_lb_ip :: "Service \<Rightarrow> bool" where
  "wants_lb_ip s \<longleftrightarrow> svc_Type s = ''LoadBalancer'' \<and>
     (\<exists>as. svc_Annotations s = Some as \<and> as setLBIPAnnotation = Some setLBIPAnnotationValue)"

lemma covering_same_mset:
  assumes "distinct xs" and "length ys = length xs" and "set xs \<subseteq> set ys"
  shows "mset ys = mset xs"
proof -
  have "card (set ys) \<ge> length ys" using assms card_mono [of "set ys" "set xs"] by (simp add: distinct_card)
  then have d: "distinct ys" using card_length [of ys] card_distinct [of ys] by simp
  then have "card (set ys) = card (set xs)" using assms by (simp add: distinct_card)
  then have "set xs = set ys" using assms(3) by (simp add: card_subset_eq)
  with d assms(1) show ?thesis by (simp add: set_eq_iff_mset_eq_distinct)
qed

text \<open>
  C33: A service is updated exactly when it is a load balancer that asks for it and its ingress
  addresses are not the addresses of the machine, each once. The update changes nothing but the
  ingress, whose entries all carry the ports of the service, and it settles the service: the event
  the update itself causes leads to no further request.
\<close>

theorem lb_ips_converge:
  assumes "distinct ips"
  shows "(shouldPatchServiceLBIP s ips \<longleftrightarrow> wants_lb_ip s \<and> mset (map ing_IP (svc_Ingress s)) \<noteq> mset ips) \<and>
    map ing_IP (svc_Ingress (patched_service s ips)) = ips \<and>
    list_all (\<lambda>i. ing_Ports i = svc_Ports s) (svc_Ingress (patched_service s ips)) \<and>
    (patched_service s ips)\<lparr>svc_Ingress := svc_Ingress s\<rparr> = s \<and>
    run_state (watch_events upd ips ((EvModified, WatchService (patched_service s ips)) # evs)) st = run_state (watch_events upd ips evs) st"
proof (intro conjI)
  show "shouldPatchServiceLBIP s ips \<longleftrightarrow> wants_lb_ip s \<and> mset (map ing_IP (svc_Ingress s)) \<noteq> mset ips"
  proof (cases "wants_lb_ip s")
    case True
    then have "shouldPatchServiceLBIP s ips \<longleftrightarrow>
        length (map ing_IP (svc_Ingress s)) \<noteq> length ips \<or> \<not> set ips \<subseteq> set (map ing_IP (svc_Ingress s))"
      by (auto simp: shouldPatchServiceLBIP_def wants_lb_ip_def list_ex_iff)
    also have "\<dots> \<longleftrightarrow> mset (map ing_IP (svc_Ingress s)) \<noteq> mset ips"
      using covering_same_mset [OF assms, of "map ing_IP (svc_Ingress s)"] by (metis mset_eq_length mset_eq_setD order_refl)
    finally show ?thesis using True by simp
  next
    case False
    then show ?thesis by (auto simp: shouldPatchServiceLBIP_def wants_lb_ip_def split: option.splits)
  qed
qed (simp_all add: patched_settled, simp_all add: patched_service_def list_all_iff)

definition sample_service :: Service where
  "sample_service = \<lparr>svc_Name = ''traefik'', svc_Namespace = ''default'', svc_Type = ''LoadBalancer'',
     svc_Annotations = Some [''config.iknite.app/outbound-ip'' \<mapsto> ''true''], svc_Ports = [\<lparr>ps_Port = 443, ps_Protocol = ''TCP''\<rparr>],
     svc_Ingress = []\<rparr>"

theorem lb_ips_converge_witness:
  "shouldPatchServiceLBIP sample_service [''10.0.0.1''] \<and>
   map ing_IP (svc_Ingress (patched_service sample_service [''10.0.0.1''])) = [''10.0.0.1'']"
proof -
  have "distinct [''10.0.0.1'']" by simp
  from lb_ips_converge [OF this, of sample_service "\<lambda>_. ret ()" "[]" "()"] show ?thesis
    by (simp add: sample_service_def wants_lb_ip_def setLBIPAnnotation_def setLBIPAnnotationValue_def)
qed

text \<open>The services a sequence of events asks to update, up to an error event.\<close>

fun to_patch :: "string list \<Rightarrow> (event_type \<times> watch_object) list \<Rightarrow> Service list" where
  "to_patch ips [] = []"
| "to_patch ips ((ty, obj) # evs) =
     (if ty = EvError then []
      else (case obj of
          WatchService s \<Rightarrow> if (ty = EvAdded \<or> ty = EvModified) \<and> shouldPatchServiceLBIP s ips then [s] else []
        | _ \<Rightarrow> []) @ to_patch ips evs)"

lemma watch_events_spec:
  "snd (run_state (watch_events upd ips evs) st) =
     snd (run_state (forS (\<lambda>s. ignoreErr (patchServiceLBIP upd s ips)) (to_patch ips evs)) st) \<and>
   (fst (run_state (watch_events upd ips evs) st) = Inr () \<longleftrightarrow> list_all (\<lambda>ev. fst ev \<noteq> EvError) evs)"
proof (induction evs arbitrary: st)
  case (Cons ev evs)
  obtain ty obj where ev: "ev = (ty, obj)" by (cases ev)
  show ?case
  proof (cases "ty = EvError")
    case True
    then show ?thesis by (simp add: ev split: watch_object.split)
  next
    case False
    show ?thesis
    proof (cases obj)
      case (WatchService s)
      with False Cons.IH show ?thesis
        by (cases "(ty = EvAdded \<or> ty = EvModified) \<and> shouldPatchServiceLBIP s ips") (auto simp: ev run_ignoreErr)
    qed (use False Cons.IH in \<open>auto simp: ev\<close>)
  qed
qed simp

lemma proxy_ports_from_set:
  "set (proxy_ports_from seen ps) = {p \<in> set ps. p > 0} - seen \<and> distinct (proxy_ports_from seen ps)"
proof (induction ps arbitrary: seen)
  case (Cons p ps)
  from Cons.IH [of seen] Cons.IH [of "insert p seen"] show ?case
    by (cases "p \<le> 0"; cases "p \<in> seen") fastforce+
qed simp

lemma proxyAPIPorts_ok: "set (proxyAPIPorts ps) = {p \<in> set ps. p > 0}" "distinct (proxyAPIPorts ps)"
  using proxy_ports_from_set [of "{}" ps] by (auto simp: proxyAPIPorts_def)

text \<open>The listeners one after the other, as they are opened.\<close>

inductive opened :: "(string \<Rightarrow> ('x, nat) io) \<Rightarrow> ip \<Rightarrow> int list \<Rightarrow> 'x world_scheme \<Rightarrow> nat list \<Rightarrow> 'x world_scheme \<Rightarrow> bool"
  for listen outboundIP
where
  opened_none: "opened listen outboundIP [] s [] s"
| opened_one: "run_state (startProxyAPIListener listen outboundIP port) s = (Inr l, t) \<Longrightarrow>
    opened listen outboundIP ports t ls u \<Longrightarrow> opened listen outboundIP (port # ports) s (l # ls) u"

lemma start_listeners_spec:
  assumes "run_state (start_listeners env listen ip acc ports) s = (r, s')"
  shows "(\<exists>ls. r = Inr (acc @ ls) \<and> opened listen ip ports s ls s') \<or>
    (\<exists>e pre port post ls t u. r = Inl (Wrap (''failed to start proxy on port '' @ Itoa port) e) \<and> ports = pre @ port # post \<and>
       opened listen ip pre s ls t \<and> run_state (startProxyAPIListener listen ip port) t = (Inl e, u) \<and>
       s' = snd (run_state (closeProxyAPIListeners env (acc @ ls)) u))"
  using assms
proof (induction ports arbitrary: acc s)
  case Nil
  then show ?case by (auto intro: opened_none)
next
  case (Cons port ports)
  obtain x t where x: "run_state (startProxyAPIListener listen ip port) s = (x, t)" by (metis surj_pair)
  show ?case
  proof (cases x)
    case (Inl e)
    with x Cons.prems have "r = Inl (Wrap (''failed to start proxy on port '' @ Itoa port) e)"
      "s' = snd (run_state (closeProxyAPIListeners env (acc @ [])) t)" by (auto simp: run_ignoreErr)
    moreover have "port # ports = [] @ port # ports" by simp
    ultimately show ?thesis using x Inl opened_none by blast
  next
    case (Inr l)
    with x Cons.prems have "run_state (start_listeners env listen ip (acc @ [l]) ports) t = (r, s')" by simp
    note one = opened_one [OF x [unfolded Inr]]
    from Cons.IH [OF \<open>run_state (start_listeners env listen ip (acc @ [l]) ports) t = (r, s')\<close>] show ?thesis
    proof (elim disjE exE conjE)
      fix ls assume "r = Inr ((acc @ [l]) @ ls)" "opened listen ip ports t ls s'"
      with one show ?thesis by auto
    next
      fix e pre port' post ls t' u
      assume "r = Inl (Wrap (''failed to start proxy on port '' @ Itoa port') e)" "ports = pre @ port' # post"
        "opened listen ip pre t ls t'" "run_state (startProxyAPIListener listen ip port') t' = (Inl e, u)"
        "s' = snd (run_state (closeProxyAPIListeners env ((acc @ [l]) @ ls)) u)"
      moreover from this(3) have "opened listen ip (port # pre) s (l # ls) t'" by (rule one)
      moreover have "port # pre @ port' # post = (port # pre) @ port' # post" "(acc @ [l]) @ ls = acc @ l # ls" by simp_all
      ultimately show ?thesis by (intro disjI2) metis
    qed
  qed
qed

end
