(* ===== verification/Workflow.thy ===== *)
theory Workflow
  imports Network_Phases "HOL-Library.Sublist"
begin

text \<open>
  The workflow of \<^verbatim>\<open>iknite init\<close> (\<^verbatim>\<open>pkg/cmd/init.go\<close>): the phases and their order, the
  wrapper that reports the phase that runs, the phases that are skipped, and what happens after the
  last one. The phases of kubeadm are parameters, and so is its runner: what is said of a run holds
  for every subsequence of the phases that keeps their order, whatever the runner leaves out.
\<close>

section \<open>Phases and their names\<close>

datatype 's phase = Phase (phase_name: string) (phase_run: "('s, error + unit) state option") (phase_children: "'s phase list")

function PhaseName :: "'s phase \<Rightarrow> 's phase list \<Rightarrow> string" where
  "PhaseName p parentPhases =
     (if parentPhases = [] then phase_name p
      else PhaseName (last parentPhases) (butlast parentPhases) @ ''/'' @ phase_name p)"
  by pat_completeness auto
termination by (relation "measure (\<lambda>(p, ps). length ps)") auto

declare PhaseName.simps [simp del]

definition reported :: "status_env \<Rightarrow> ClusterState \<Rightarrow> string \<Rightarrow> ('c, 'x, unit) dio \<Rightarrow> ('c, 'x, unit) dio" where
  "reported env state phaseName oldRun = onErr (UpdateIkniteCluster env state phaseName [] []) id (\<lambda>_. oldRun)"

text \<open>
  The wrapped phases share slices of parents. Up to three levels of phases \<^verbatim>\<open>append\<close> always copies,
  since the capacity of such a slice is its length; kubeadm has two levels.
\<close>

fun WrapPhase ::
  "status_env \<Rightarrow> ClusterState \<Rightarrow> ('c, 'x) initData_scheme phase list \<Rightarrow> ('c, 'x) initData_scheme phase \<Rightarrow> ('c, 'x) initData_scheme phase"
where
  "WrapPhase env state parentPhases (Phase name run children) =
     Phase name (map_option (reported env state (PhaseName (Phase name run children) parentPhases)) run)
       (map (WrapPhase env state (parentPhases @ [Phase name run children])) children)"

text \<open>The steps of a phase: its own function, then those of its sub-phases, each with its full name.\<close>

fun steps :: "string \<Rightarrow> 's phase \<Rightarrow> (string \<times> ('s, error + unit) state) list" where
  "steps pre (Phase name run children) =
     (case run of None \<Rightarrow> [] | Some m \<Rightarrow> [(pre @ name, m)]) @
     concat (map (steps (pre @ name @ ''/'')) children)"

text \<open>The full names of all phases, those without a function of their own too.\<close>

fun full_names :: "string \<Rightarrow> 's phase \<Rightarrow> string list" where
  "full_names pre (Phase name run children) =
     (pre @ name) # concat (map (full_names (pre @ name @ ''/'')) children)"

section \<open>Skipped phases\<close>

fun skipPhaseIfExists :: "'s phase list \<Rightarrow> string list \<Rightarrow> string \<Rightarrow> string \<Rightarrow> bool \<times> string list" where
  "skipPhaseIfExists [] skipPhases name pre = (False, skipPhases)"
| "skipPhaseIfExists (Phase n run children # phases) skipPhases name pre =
     (let full = pre @ n
      in if full = name then (True, skipPhases @ [full])
         else (case (if children \<noteq> [] then skipPhaseIfExists children skipPhases name (full @ ''/'') else (False, skipPhases)) of
             (True, s) \<Rightarrow> (True, s)
           | (False, s) \<Rightarrow> skipPhaseIfExists phases s name pre))"

definition coreDNSPhase :: string where "coreDNSPhase = ''addon/coredns''"
definition kubeProxyPhase :: string where "kubeProxyPhase = ''addon/kube-proxy''"
definition addonPhase :: string where "addonPhase = ''addon''"
definition KineBackendName :: string where "KineBackendName = ''kine''"

definition manageSkippedAddons :: "InitConfiguration \<Rightarrow> string list \<Rightarrow> string list \<times> InitConfiguration" where
  "manageSkippedAddons c skipPhases =
     (let (dns, proxy, c) = (if addonPhase \<in> set skipPhases then (True, True, c\<lparr>DNS_Disabled := True, Proxy_Disabled := True\<rparr>)
                             else (False, False, c));
          (dns, c) = (if coreDNSPhase \<in> set skipPhases then (True, c\<lparr>DNS_Disabled := True\<rparr>) else (dns, c));
          (proxy, c) = (if kubeProxyPhase \<in> set skipPhases then (True, c\<lparr>Proxy_Disabled := True\<rparr>) else (proxy, c));
          skipPhases = (if DNS_Disabled c \<and> \<not> dns then skipPhases @ [coreDNSPhase] else skipPhases);
          skipPhases = (if Proxy_Disabled c \<and> \<not> proxy then skipPhases @ [kubeProxyPhase] else skipPhases)
      in (skipPhases, c))"

text \<open>What the data initializer does with the data that \<^verbatim>\<open>newInitData\<close> made: the phases to skip, and the data.\<close>

definition initialize_skips ::
  "'s phase list \<Rightarrow> string list \<Rightarrow> ('c, 'x) initData_scheme \<Rightarrow> string list \<times> ('c, 'x) initData_scheme"
where
  "initialize_skips phases options_SkipPhases d =
     (let skips = (if options_SkipPhases = [] then SkipPhases (cfg d) else options_SkipPhases);
          (skips, d) =
            (if UseEtcd (Spec (ikniteCluster d))
             then (snd (skipPhaseIfExists phases skips KineBackendName ''''),
                   d\<lparr>ikniteCluster := (ikniteCluster d)\<lparr>Spec := (Spec (ikniteCluster d))
                      \<lparr>APIBackendDatabaseDirectory := Etcd_DataDir (cfg d)\<rparr>\<rparr>\<rparr>)
             else (snd (skipPhaseIfExists phases skips EtcdBackendName ''''), d));
          skips = snd (skipPhaseIfExists phases skips coreDNSPhase '''');
          (skips, c) = manageSkippedAddons (cfg d) skips
      in (skips, d\<lparr>cfg := c\<rparr>))"

section \<open>The workflow\<close>

record 's kubeadm_phases =
  NewPreflightPhase :: "'s phase"
  NewCertsPhase :: "'s phase"
  NewKubeConfigPhase :: "'s phase"
  NewEtcdPhase :: "'s phase"
  NewControlPlanePhase :: "'s phase"
  NewWaitControlPlanePhase :: "'s phase"
  NewUploadConfigPhase :: "'s phase"
  NewUploadCertsPhase :: "'s phase"
  NewBootstrapTokenPhase :: "'s phase"
  NewKubeletFinalizePhase :: "'s phase"
  NewAddonPhase :: "'s phase"

text \<open>Everything the phases of iknite take from elsewhere.\<close>

record ('c, 'h, 'r, 's) init_env =
  e_status :: status_env
  e_shutdown :: shutdown_env
  e_tools :: "'h tools"
  e_newId :: string
  e_lib :: "('c, 's) client_lib"
  e_manifest :: manifest_env
  e_writers :: "'s kubelet_writers"
  e_kubelet :: kubelet_env
  e_api :: "('s, 'r) kube_api"
  e_resources :: "string \<Rightarrow> bool \<Rightarrow> error + 'r"
  e_options :: KustomizeOptions
  e_ensureServer :: "('s, error + unit) state"
  e_mdns :: mdns_env
  e_startServer :: "IkniteCluster \<Rightarrow> ('s, error + unit) state"
  e_event :: wait_event
  e_order :: "(string \<times> shutdown) list \<Rightarrow> (string \<times> shutdown) list"

definition leaf :: "string \<Rightarrow> ('s, error + unit) state \<Rightarrow> 's phase" where
  "leaf name run = Phase name (Some run) []"

definition workflow_plan ::
  "('c, 'h, 'r, ('c, 'x) initData_scheme) init_env \<Rightarrow> ('c, 'x) initData_scheme kubeadm_phases \<Rightarrow>
   (ClusterState \<times> ('c, 'x) initData_scheme phase) list"
where
  "workflow_plan e k =
    [(Started, leaf ''prepare-host'' (runPrepareHost (hosts_lib (e_tools e)) (e_newId e))),
     (Started, leaf ''pre-clean-host'' (runPreCleanHost (e_tools e))),
     (Initializing, NewPreflightPhase k),
     (Initializing, NewCertsPhase k),
     (Initializing, NewKubeConfigPhase k),
     (Initializing, NewEtcdPhase k),
     (Initializing, leaf ''kine'' (runManifestPhase (cl_consts (e_lib e)) (e_manifest e) ''kine'')),
     (Initializing, NewControlPlanePhase k),
     (Initializing, leaf ''kubelet-start'' (runKubeletStart (cl_consts (e_lib e)) (e_writers e) (e_kubelet e))),
     (Initializing, NewWaitControlPlanePhase k),
     (Initializing, NewUploadConfigPhase k),
     (Initializing, NewUploadCertsPhase k),
     (Initializing, NewBootstrapTokenPhase k),
     (Initializing, NewKubeletFinalizePhase k),
     (Initializing, NewAddonPhase k),
     (Stabilizing, leaf ''copy-config'' (runCopyConfigPhase (cl_cc (e_lib e)) (GetAdminKubeConfigPath (cl_consts (e_lib e))) (e_ensureServer e))),
     (Stabilizing, leaf ''mdns-publish'' (runMDnsPublish (e_mdns e))),
     (Stabilizing, leaf ''kustomize-cluster'' (runKustomize (e_lib e) (e_api e) (e_resources e) (e_options e))),
     (Stabilizing, leaf ''serve'' (runServe (e_startServer e))),
     (Stabilizing, leaf ''set-lb-ip'' (runSetLBIP (e_lib e))),
     (Stabilizing, leaf ''workloads'' (runMonitorWorkloads (e_lib e))),
     (Stabilizing, leaf ''daemonize'' (runDaemonize (e_status e) (e_shutdown e) (e_tools e) (e_event e) (e_order e)))]"

definition addInitWorkflowPhases ::
  "('c, 'h, 'r, ('c, 'x) initData_scheme) init_env \<Rightarrow> ('c, 'x) initData_scheme kubeadm_phases \<Rightarrow>
   ('c, 'x) initData_scheme phase list"
where
  "addInitWorkflowPhases e k = map (\<lambda>(state, p). WrapPhase (e_status e) state [] p) (workflow_plan e k)"

text \<open>The steps of the unwrapped phases, each with the state it is reported under.\<close>

definition planned ::
  "('c, 'h, 'r, ('c, 'x) initData_scheme) init_env \<Rightarrow> ('c, 'x) initData_scheme kubeadm_phases \<Rightarrow>
   (ClusterState \<times> string \<times> ('c, 'x, unit) dio) list"
where
  "planned e k = concat (map (\<lambda>(state, p). map (\<lambda>(n, m). (state, n, m)) (steps '''' p)) (workflow_plan e k))"

section \<open>After the workflow\<close>

definition init_PostRunE ::
  "shutdown_env \<Rightarrow> ((string \<times> shutdown) list \<Rightarrow> (string \<times> shutdown) list) \<Rightarrow> ('c, 'x, unit) dio"
where
  "init_PostRunE se order =
     State_Monad.bind (ignoreErr (RunShutdownHooks se order)) (\<lambda>_.
     State_Monad.bind (gets kubeletProcess) (\<lambda>p.
     onErr (case p of
         None \<Rightarrow> ret ()
       | Some pid \<Rightarrow>
           onErr (process_Signal pid SIGTERM) (Wrap (''failed to terminate the kubelet process '' @ Itoa pid)) (\<lambda>_.
           onErr (process_Wait pid) (Wrap (''kubelet process '' @ Itoa pid @ '' exited with error'')) (\<lambda>_. ret ()))) id (\<lambda>_.
     State_Monad.bind (RemovePidFile KubeletName) (\<lambda>_. ret ()))))"

section \<open>The wrapper\<close>

definition prefix_of :: "'s phase list \<Rightarrow> string" where
  "prefix_of ps = concat (map (\<lambda>p. phase_name p @ ''/'') ps)"

lemma PhaseName_prefix: "PhaseName p ps = prefix_of ps @ phase_name p"
proof (induction ps arbitrary: p rule: rev_induct)
  case Nil
  show ?case by (simp add: PhaseName.simps [of p "[]"] prefix_of_def)
next
  case (snoc q ps)
  then show ?case by (simp add: PhaseName.simps [of p "ps @ [q]"] prefix_of_def)
qed

lemma steps_WrapPhase:
  "steps (prefix_of ps) (WrapPhase env state ps p) = map (\<lambda>(n, m). (n, reported env state n m)) (steps (prefix_of ps) p)"
proof (induction p arbitrary: ps)
  case (Phase name run children)
  let ?ps = "ps @ [Phase name run children]"
  have pre: "prefix_of ?ps = prefix_of ps @ name @ ''/''" by (simp add: prefix_of_def)
  have "map (\<lambda>p. steps (prefix_of ?ps) (WrapPhase env state ?ps p)) children =
      map (\<lambda>p. map (\<lambda>(n, m). (n, reported env state n m)) (steps (prefix_of ?ps) p)) children"
    using Phase.IH by (simp cong: map_cong)
  then show ?case
    unfolding pre by (cases run) (simp_all add: PhaseName_prefix comp_def map_concat cong: map_cong)
qed

lemma full_names_WrapPhase: "full_names pre (WrapPhase env state ps p) = full_names pre p"
proof (induction p arbitrary: ps pre)
  case (Phase name run children)
  then show ?case by (simp add: comp_def cong: map_cong)
qed

lemma steps_addInitWorkflowPhases:
  "concat (map (steps '''') (addInitWorkflowPhases e k)) =
     map (\<lambda>(state, n, m). (n, reported (e_status e) state n m)) (planned e k)"
proof -
  have wrap: "steps '''' (WrapPhase env state [] p) = map (\<lambda>(n, m). (n, reported env state n m)) (steps '''' p)" for env state and p :: "('a, 'b) initData_scheme phase"
    using steps_WrapPhase [of "[]" env state p] by (simp add: prefix_of_def)
  show ?thesis
    by (simp add: addInitWorkflowPhases_def planned_def map_concat comp_def case_prod_unfold wrap)
qed

lemma planned_states_sorted: "sorted (map fst (planned e k))"
proof -
  have s: "map fst (concat (map (\<lambda>(state, p). map (\<lambda>(n, m). (state, n, m)) (steps '''' p)) ps)) =
      concat (map (\<lambda>(state, p). replicate (length (steps '''' p)) state) ps)" for ps :: "(ClusterState \<times> 's phase) list"
    by (induction ps) (auto simp: comp_def case_prod_unfold map_replicate_const)
  have r: "sorted (concat (map (\<lambda>(state, p). replicate (length (steps '''' p)) state) ps))"
    if "sorted (map fst ps)" for ps :: "(ClusterState \<times> 's phase) list"
    using that by (induction ps) (auto simp: sorted_append sorted_replicate)
  show ?thesis unfolding planned_def s by (rule r) (simp add: workflow_plan_def)
qed

section \<open>What the phases leave alone\<close>

definition keeps_status :: "('c, 'x) initData_scheme \<Rightarrow> ('c, 'x) initData_scheme \<Rightarrow> bool" where
  "keeps_status d d' \<longleftrightarrow> Status (ikniteCluster d') = Status (ikniteCluster d) \<and> (bus_ok d \<longrightarrow> bus_ok d')"

interpretation ks: frame "keeps_status :: ('c, 'x) initData_scheme \<Rightarrow> ('c, 'x) initData_scheme \<Rightarrow> bool"
  by unfold_locales (auto simp: keeps_status_def)

lemma oracle_keeps_status:
  fixes m :: "(('c, 'x) initData_scheme, 'a) state"
  assumes "state_io_rel same_oracle m"
  shows "state_io_rel keeps_status m"
  using assms same_oracle_keeps_data
  by (fastforce intro: state_io_relI dest: state_io_relD simp: keeps_status_def keeps_data_def)

lemma data_keeps_status [frame_intros]:
  "state_io_rel keeps_status (KubeConfigPath c)" "state_io_rel keeps_status (SetKubeletProcess q)"
  "state_io_rel keeps_status (ErrGroup_Go g)" "state_io_rel keeps_status (RegisterShutdownHook n h)"
  "state_io_rel keeps_status (modify (\<lambda>d. d\<lparr>kubeconfig := x, kubeconfigOriginal := y\<rparr>))"
  "state_io_rel keeps_status (modify (\<lambda>d. d\<lparr>clientGetter := z\<rparr>))"
  by (auto simp: keeps_status_def KubeConfigPath_def SetKubeletProcess_def ErrGroup_Go_def RegisterShutdownHook_def
      bus_ok_def Let_def)

lemma listener_keeps_status [frame_intros]: "state_io_rel keeps_status RegisterIkniteClusterListener"
proof
  fix d d' :: "('c, 'x) initData_scheme" and i
  assume run: "run_state RegisterIkniteClusterListener d = (i, d')"
  obtain j b where s: "Subscribe 1 (clusterUpdateBus d) = (j, b)" by (metis surj_pair)
  with run have d': "d' = d\<lparr>clusterUpdateBus := b\<rparr>" by (simp add: RegisterIkniteClusterListener_def)
  have "bus_ok d'" if "bus_ok d"
  proof -
    have b: "bus_wf (clusterUpdateBus d)" "distinct (subs (clusterUpdateBus d))" using that by (auto simp: bus_ok_def)
    have "Suc (nextID (clusterUpdateBus d)) \<notin> set (subs (clusterUpdateBus d))"
      using bus_wfD [OF b(1)] by (fastforce simp: chan_ok_def)
    with b s bus_wf_Subscribe [OF b(1) s] show ?thesis by (auto simp: bus_ok_def d' Subscribe_def Let_def)
  qed
  then show "keeps_status d d'" by (simp add: keeps_status_def d')
qed

lemma manifest_oracle [frame_intros]:
  "state_io_rel same_oracle (Create p)" "state_io_rel same_oracle (put_content p out)"
  by (auto simp: Create_def put_content_def run_fs_call same_oracle_def tick_def split: option.splits node.splits)

lemma copy_oracle [frame_intros]:
  "state_io_rel same_oracle (copyAdminConf cc p n)" "state_io_rel same_oracle (copyFile p q)"
  "state_io_rel same_oracle (WriteToFile cc c f)"
  unfolding copyAdminConf_def copyFile_def WriteToFile_def by (intro so.frame_rules frame_intros)+

lemmas machine_keeps_status =
  PrepareKubernetesEnvironment_oracle [THEN oracle_keeps_status] CleanAll_oracle [THEN oracle_keeps_status]
  StartKubelet_oracle [THEN oracle_keeps_status] external_call_oracle [THEN oracle_keeps_status]
  net_oracle(1) [THEN oracle_keeps_status] LoadFromFile_oracle [THEN oracle_keeps_status]
  copy_oracle [THEN oracle_keeps_status]

lemma WriteStaticPodManifest_oracle: "state_io_rel same_oracle (WriteStaticPodManifest m dir c n)"
  unfolding WriteStaticPodManifest_def Let_def by (intro so.frame_rules frame_intros)

lemma RESTClientGetter_keeps_status [frame_intros]: "state_io_rel keeps_status (RESTClientGetter l)"
  unfolding RESTClientGetter_def KubeConfig_def
  by (intro ks.frame_rules frame_intros machine_keeps_status)

text \<open>What is asked of the code outside: the phases of kubeadm and the parameters of the phases do not touch the status.\<close>

definition outside_keeps_status ::
  "('c, 'h, 'r, ('c, 'x) initData_scheme) init_env \<Rightarrow> ('c, 'x) initData_scheme kubeadm_phases \<Rightarrow> bool"
where
  "outside_keeps_status e k \<longleftrightarrow>
     (\<forall>p \<in> {NewPreflightPhase k, NewCertsPhase k, NewKubeConfigPhase k, NewEtcdPhase k, NewControlPlanePhase k,
        NewWaitControlPlanePhase k, NewUploadConfigPhase k, NewUploadCertsPhase k, NewBootstrapTokenPhase k,
        NewKubeletFinalizePhase k, NewAddonPhase k}. \<forall>(n, m) \<in> set (steps '''' p). state_io_rel keeps_status m \<and> n \<noteq> ''daemonize'') \<and>
     (\<forall>f. state_io_rel keeps_status (WriteKubeletDynamicEnvFile (e_writers e) f)) \<and>
     (\<forall>f. state_io_rel keeps_status (WriteInstanceConfigToDisk (e_writers e) f)) \<and>
     (\<forall>f g. state_io_rel keeps_status (WriteConfigToDisk (e_writers e) f g)) \<and>
     (\<forall>c. state_io_rel keeps_status (cm_Update (e_api e) c)) \<and> (\<forall>c. state_io_rel keeps_status (cm_Create (e_api e) c)) \<and>
     (\<forall>r. state_io_rel keeps_status (apply_resources (e_api e) r)) \<and>
     state_io_rel keeps_status (e_ensureServer e) \<and> (\<forall>c. state_io_rel keeps_status (e_startServer e c))"

lemma own_phases_keep_status:
  assumes "outside_keeps_status e k"
  shows "state_io_rel keeps_status (runPrepareHost tx i)" "state_io_rel keeps_status (runPreCleanHost t)"
    "state_io_rel keeps_status (runManifestPhase c mf n)" "state_io_rel keeps_status (runKubeletStart c (e_writers e) ke)"
    "state_io_rel keeps_status (runCopyConfigPhase cc p (e_ensureServer e))" "state_io_rel keeps_status (runMDnsPublish md)"
    "state_io_rel keeps_status (runServe (e_startServer e))" "state_io_rel keeps_status (runSetLBIP l)"
    "state_io_rel keeps_status (runMonitorWorkloads l)"
proof -
  note o = assms [unfolded outside_keeps_status_def]
  show "state_io_rel keeps_status (runPrepareHost tx i)" "state_io_rel keeps_status (runPreCleanHost t)"
    "state_io_rel keeps_status (runManifestPhase c mf n)" "state_io_rel keeps_status (runMDnsPublish md)"
    "state_io_rel keeps_status (runSetLBIP l)" "state_io_rel keeps_status (runMonitorWorkloads l)"
    unfolding runPrepareHost_def runPreCleanHost_def runManifestPhase_def runMDnsPublish_def runSetLBIP_def
      runMonitorWorkloads_def Let_def
    by (intro ks.frame_rules frame_intros machine_keeps_status WriteStaticPodManifest_oracle [THEN oracle_keeps_status])+
  show "state_io_rel keeps_status (runKubeletStart c (e_writers e) ke)"
    unfolding runKubeletStart_def using o by (intro ks.frame_rules frame_intros machine_keeps_status) blast+
  show "state_io_rel keeps_status (runCopyConfigPhase cc p (e_ensureServer e))"
    unfolding runCopyConfigPhase_def runCopyConfig_def using o by (intro ks.frame_rules frame_intros machine_keeps_status) blast+
  show "state_io_rel keeps_status (runServe (e_startServer e))"
    unfolding runServe_def using o by (intro ks.frame_rules frame_intros machine_keeps_status) blast+
qed

lemma runKustomize_keeps_status:
  assumes "outside_keeps_status e k"
  shows "state_io_rel keeps_status (runKustomize l (e_api e) rs opts)"
proof -
  note o = assms [unfolded outside_keeps_status_def]
  have g: "state_io_rel keeps_status (GetIkniteConfigMap (e_api e))"
    by (rule state_io_relI) (simp add: run_GetIkniteConfigMap ks.R_refl)
  have w: "state_io_rel keeps_status (WriteIkniteConfigMap (e_api e) c)" for c
    unfolding WriteIkniteConfigMap_def using o by (intro ks.frame_rules) blast+
  have a: "state_io_rel keeps_status (apply_resources (e_api e) r)" for r using o by blast
  show ?thesis
    unfolding runKustomize_def Kustomize_def by (intro ks.frame_rules frame_intros g w a)
qed

lemma planned_keeps_status:
  assumes "outside_keeps_status e k" and "(state, n, m) \<in> set (planned e k)" and "n \<noteq> ''daemonize''"
  shows "state_io_rel keeps_status m"
proof -
  let ?ok = "\<lambda>(state, p). \<forall>(n, m) \<in> set (steps '''' p). n \<noteq> ''daemonize'' \<longrightarrow> state_io_rel keeps_status m"
  note own = own_phases_keep_status [OF assms(1)] runKustomize_keeps_status [OF assms(1)]
  have leaf: "?ok (state, leaf x run)" if "x \<noteq> ''daemonize'' \<Longrightarrow> state_io_rel keeps_status run" for state x run
    using that by (auto simp: leaf_def)
  have outside: "?ok (st, p)" if "p \<in> {NewPreflightPhase k, NewCertsPhase k, NewKubeConfigPhase k, NewEtcdPhase k, NewControlPlanePhase k,
        NewWaitControlPlanePhase k, NewUploadConfigPhase k, NewUploadCertsPhase k, NewBootstrapTokenPhase k,
        NewKubeletFinalizePhase k, NewAddonPhase k}" for st p
    using assms(1) that unfolding outside_keeps_status_def by blast
  have out: "?ok (st, NewPreflightPhase k)" "?ok (st, NewCertsPhase k)" "?ok (st, NewKubeConfigPhase k)"
    "?ok (st, NewEtcdPhase k)" "?ok (st, NewControlPlanePhase k)" "?ok (st, NewWaitControlPlanePhase k)"
    "?ok (st, NewUploadConfigPhase k)" "?ok (st, NewUploadCertsPhase k)" "?ok (st, NewBootstrapTokenPhase k)"
    "?ok (st, NewKubeletFinalizePhase k)" "?ok (st, NewAddonPhase k)" for st
    by (rule outside, simp)+
  have "list_all ?ok (workflow_plan e k)"
    unfolding workflow_plan_def list.pred_inject by (intro conjI TrueI out leaf own) simp_all
  with assms(2,3) show ?thesis by (fastforce simp: planned_def list_all_iff)
qed

section \<open>The status follows the phases\<close>

lemma run_steps_status:
  assumes "run_state (forE (\<lambda>(state, n, m). reported env state n m) xs) d = (r, d')" and "bus_ok d"
    and "\<And>state n m. (state, n, m) \<in> set xs \<Longrightarrow> state_io_rel keeps_status m" and "xs \<noteq> []"
  shows "\<exists>pre state n m post d1. xs = pre @ (state, n, m) # post \<and>
    ClState (Status (ikniteCluster d')) = state \<and> CurrentPhase (Status (ikniteCluster d')) = n \<and>
    run_state m d1 = (r, d') \<and> (r = Inr () \<longrightarrow> post = [])"
  using assms
proof (induction xs arbitrary: d)
  case (Cons x xs)
  obtain state n m where x: "x = (state, n, m)" by (cases x)
  from update_step [OF Cons.prems(2), of env state n "[]" "[]"] obtain d1 where
    u: "run_state (UpdateIkniteCluster env state n [] []) d = (Inr (), d1)" "updated env state n [] [] d d1" .
  obtain y d2 where y: "run_state m d1 = (y, d2)" by (metis surj_pair)
  have "state_io_rel keeps_status m" using Cons.prems(3) [of state n m] x by simp
  then have k: "keeps_status d1 d2" using y by (rule state_io_relD)
  with updated_status [OF u(2)] have st: "ClState (Status (ikniteCluster d2)) = state" "CurrentPhase (Status (ikniteCluster d2)) = n"
    by (simp_all add: keeps_status_def)
  have run: "run_state (reported env state n m) d = (y, d2)" using u(1) y by (simp add: reported_def run_onErr)
  show ?case
  proof (cases "y = Inr () \<and> xs \<noteq> []")
    case True
    with run x Cons.prems(1) have "run_state (forE (\<lambda>(state, n, m). reported env state n m) xs) d2 = (r, d')"
      by (simp add: run_onErr)
    moreover have "bus_ok d2" using k u(2) by (simp add: keeps_status_def updated_def)
    ultimately show ?thesis using Cons.IH [of d2] Cons.prems(3) True by (metis append_Cons list.set_intros(2))
  next
    case False
    then have "r = y \<and> d' = d2" using run x Cons.prems(1) by (cases y) (auto simp: run_onErr)
    moreover have "y = Inr () \<longrightarrow> xs = []" using False by blast
    ultimately show ?thesis using st y x by (metis append_Nil)
  qed
qed simp

lemma subseq_map_elim:
  assumes "subseq ys (map f zs)"
  obtains xs where "subseq xs zs" and "ys = map f xs"
proof -
  from assms obtain N where "ys = nths (map f zs) N" unfolding subseq_conv_nths ..
  then have "ys = map f (nths zs N)" by (simp add: nths_map)
  with that show thesis using subseq_conv_nths by blast
qed

lemma subseq_set: "subseq xs zs \<Longrightarrow> x \<in> set xs \<Longrightarrow> x \<in> set zs"
  using set_nths_subset by (fastforce simp: subseq_conv_nths)

lemma sorted_subseq_map: "subseq xs zs \<Longrightarrow> sorted (map f zs) \<Longrightarrow> sorted (map f xs)"
  by (auto simp: subseq_conv_nths sorted_nths simp flip: nths_map)

text \<open>
  C1: While \<^verbatim>\<open>iknite init\<close> works through any selection of its phases in their order (all but the
  last one, which has its own theorem), the status always names the phase that ran last, and so after
  a failure the phase that failed, with the state planned for it; the states of the phases never go
  back, from Started over Initializing to Stabilizing. Outside code is asked only not to touch the
  status.
\<close>

theorem init_status_follows_phases:
  assumes "outside_keeps_status e k" and "bus_ok d" and "ys \<noteq> []"
    and "subseq ys (concat (map (steps '''') (addInitWorkflowPhases e k)))" and "''daemonize'' \<notin> set (map fst ys)"
    and "run_state (forE snd ys) d = (r, d')"
  shows "\<exists>xs. subseq xs (planned e k) \<and> sorted (map fst xs) \<and>
    ys = map (\<lambda>(state, n, m). (n, reported (e_status e) state n m)) xs \<and>
    (\<exists>pre state n m post d1. xs = pre @ (state, n, m) # post \<and>
       ClState (Status (ikniteCluster d')) = state \<and> CurrentPhase (Status (ikniteCluster d')) = n \<and>
       run_state m d1 = (r, d') \<and> (r = Inr () \<longrightarrow> post = []))"
proof -
  from assms(4) obtain xs where xs: "subseq xs (planned e k)"
    and ys: "ys = map (\<lambda>(state, n, m). (n, reported (e_status e) state n m)) xs"
    unfolding steps_addInitWorkflowPhases by (rule subseq_map_elim)
  have f: "forE snd (map (\<lambda>(state, n, m). (n, reported (e_status e) state n m)) zs) =
      forE (\<lambda>(state, n, m). reported (e_status e) state n m) zs" for zs
    by (induction zs) auto
  have "state_io_rel keeps_status m" if "(state, n, m) \<in> set xs" for state n m
  proof -
    from that xs have "(state, n, m) \<in> set (planned e k)" by (rule subseq_set [rotated])
    moreover from that assms(5) have "n \<noteq> ''daemonize''" unfolding ys by force
    ultimately show ?thesis by (rule planned_keeps_status [OF assms(1)])
  qed
  from run_steps_status [OF assms(6) [unfolded ys f] assms(2) this] assms(3) ys
  have "\<exists>pre state n m post d1. xs = pre @ (state, n, m) # post \<and>
       ClState (Status (ikniteCluster d')) = state \<and> CurrentPhase (Status (ikniteCluster d')) = n \<and>
       run_state m d1 = (r, d') \<and> (r = Inr () \<longrightarrow> post = [])" by simp
  moreover have "sorted (map fst xs)"
    by (rule sorted_subseq_map [OF xs planned_states_sorted])
  ultimately show ?thesis using xs ys by blast
qed

text \<open>A run whose kubeadm phases do nothing, on a machine that refuses nothing.\<close>

definition no_phases :: "unit initData kubeadm_phases" where
  "no_phases = \<lparr>NewPreflightPhase = leaf ''preflight'' (ret ()), NewCertsPhase = leaf ''certs'' (throw (ErrOther ''disk full'')),
     NewKubeConfigPhase = leaf ''kubeconfig'' (ret ()), NewEtcdPhase = Phase ''etcd'' None [leaf ''local'' (ret ())],
     NewControlPlanePhase = leaf ''control-plane'' (ret ()), NewWaitControlPlanePhase = leaf ''wait-control-plane'' (ret ()),
     NewUploadConfigPhase = leaf ''upload-config'' (ret ()), NewUploadCertsPhase = leaf ''upload-certs'' (ret ()),
     NewBootstrapTokenPhase = leaf ''bootstrap-token'' (ret ()), NewKubeletFinalizePhase = leaf ''kubelet-finalize'' (ret ()),
     NewAddonPhase = Phase ''addon'' None [leaf ''coredns'' (ret ()), leaf ''kube-proxy'' (ret ())]\<rparr>"

definition sample_init :: "(unit, unit, unit, unit initData) init_env" where
  "sample_init = \<lparr>e_status = sample_env, e_shutdown = sample_shutdown, e_tools = sample_tools Running, e_newId = ''id'',
     e_lib = sample_lib, e_manifest = \<lparr>manifest_ReadFile = (\<lambda>_. Inr []), template_Parse = (\<lambda>_ _. Inr (\<lambda>_. ([], None))), f_Close = (\<lambda>_. None)\<rparr>,
     e_writers = \<lparr>WriteKubeletDynamicEnvFile = (\<lambda>_. ret ()), NodeLocalCRISocket = True, WriteInstanceConfigToDisk = (\<lambda>_. ret ()), WriteConfigToDisk = (\<lambda>_ _. ret ())\<rparr>,
     e_kubelet = sample_kubelet, e_api = \<lparr>cm_Get = (\<lambda>_. Inl ErrNotFound), cm_Update = (\<lambda>c. ret c), cm_Create = (\<lambda>c. ret c), apply_resources = (\<lambda>_. ret [])\<rparr>,
     e_resources = (\<lambda>_ _. Inr ()), e_options = NewKustomizeOptions, e_ensureServer = ret (),
     e_mdns = \<lparr>ResolveUDPAddr4 = (\<lambda>_. None), ListenUDP4 = (\<lambda>_. None), ResolveUDPAddr6 = (\<lambda>_. None), ListenUDP6 = (\<lambda>_. None), mdns_Server = (\<lambda>_ _. None)\<rparr>,
     e_startServer = (\<lambda>_. ret ()), e_event = WaitCmdDone None, e_order = id\<rparr>"

lemma return_keeps_status: "state_io_rel keeps_status (State_Monad.return x)"
  by (intro ks.frame_rules)

lemma sample_init_outside: "outside_keeps_status sample_init no_phases"
  by (simp add: outside_keeps_status_def sample_init_def no_phases_def leaf_def return_keeps_status)

theorem init_status_follows_phases_witness:
  "CurrentPhase (Status (ikniteCluster (snd (run_state (forE snd
     [(''certs'', reported sample_env Initializing ''certs'' (throw (ErrOther ''disk full'')))]) (sample_data Map.empty))))) = ''certs''"
proof -
  let ?ys = "[(''certs'', reported sample_env Initializing ''certs'' (throw (ErrOther ''disk full'')))]"
  have p: "planned sample_init no_phases =
     take 3 (planned sample_init no_phases) @ (Initializing, ''certs'', throw (ErrOther ''disk full'')) # drop 4 (planned sample_init no_phases)"
    by (simp add: planned_def workflow_plan_def no_phases_def leaf_def)
  have mem: "(''certs'', reported sample_env Initializing ''certs'' (throw (ErrOther ''disk full''))) \<in>
      set (concat (map (steps '''') (addInitWorkflowPhases sample_init no_phases)))"
    unfolding steps_addInitWorkflowPhases by (subst p) (simp add: sample_init_def)
  have "bus_ok (sample_data Map.empty)" using sample_bus by (simp add: bus_ok_def)
  from init_status_follows_phases [OF sample_init_outside this _ _ _ surjective_pairing, of ?ys] mem
  show ?thesis by (auto simp: subseq_singleton_left Cons_eq_append_conv append_eq_Cons_conv)
qed

section \<open>Which phases are skipped\<close>

lemma skipPhaseIfExists_spec:
  "skipPhaseIfExists ps skips n pre =
     (n \<in> set (concat (map (full_names pre) ps)),
      skips @ (if n \<in> set (concat (map (full_names pre) ps)) then [n] else []))"
proof (induction ps skips n pre rule: skipPhaseIfExists.induct)
  case (2 m run children phases skips n pre)
  show ?case
  proof (cases "pre @ m = n")
    case True
    then show ?thesis by (auto simp: Let_def)
  next
    case False
    note IH = "2.IH" [OF refl False]
    show ?thesis
    proof (cases "children = []")
      case True
      with IH(2) [of False skips] False show ?thesis by (auto simp: Let_def)
    next
      case nonempty: False
      have c: "skipPhaseIfExists children skips n ((pre @ m) @ ''/'') =
          (n \<in> set (concat (map (full_names ((pre @ m) @ ''/'')) children)),
           skips @ (if n \<in> set (concat (map (full_names ((pre @ m) @ ''/'')) children)) then [n] else []))"
        by (rule IH(1) [OF nonempty])
      show ?thesis
      proof (cases "n \<in> set (concat (map (full_names ((pre @ m) @ ''/'')) children))")
        case True
        with c nonempty False show ?thesis by (auto simp: Let_def)
      next
        case notin: False
        have "skipPhaseIfExists phases skips n pre = (n \<in> set (concat (map (full_names pre) phases)),
            skips @ (if n \<in> set (concat (map (full_names pre) phases)) then [n] else []))"
          using IH(2) [of False skips] c nonempty notin by simp
        with c nonempty False notin show ?thesis by (auto simp: Let_def)
      qed
    qed
  qed
qed simp

lemma manageSkippedAddons_spec:
  assumes "manageSkippedAddons c skips = (skips', c')"
  shows "\<exists>more. skips' = skips @ more \<and> set more \<subseteq> {coreDNSPhase, kubeProxyPhase}"
    and "DNS_Disabled c' \<longleftrightarrow> addonPhase \<in> set skips' \<or> coreDNSPhase \<in> set skips'"
    and "Proxy_Disabled c' \<longleftrightarrow> addonPhase \<in> set skips' \<or> kubeProxyPhase \<in> set skips'"
    and "DNS_Disabled c \<Longrightarrow> DNS_Disabled c'" and "Proxy_Disabled c \<Longrightarrow> Proxy_Disabled c'"
  using assms
  by (auto simp: manageSkippedAddons_def Let_def coreDNSPhase_def kubeProxyPhase_def addonPhase_def split: if_splits)

lemma full_names_addInit:
  "set (concat (map (full_names '''') (addInitWorkflowPhases e k))) =
     (\<Union>p \<in> snd ` set (workflow_plan e k). set (full_names '''' p))"
  by (auto simp: addInitWorkflowPhases_def full_names_WrapPhase)

lemma init_phase_names:
  "''kine'' \<in> set (concat (map (full_names '''') (addInitWorkflowPhases e k)))"
  "x \<in> set (full_names '''' (NewEtcdPhase k)) \<Longrightarrow> x \<in> set (concat (map (full_names '''') (addInitWorkflowPhases e k)))"
  "x \<in> set (full_names '''' (NewAddonPhase k)) \<Longrightarrow> x \<in> set (concat (map (full_names '''') (addInitWorkflowPhases e k)))"
  unfolding full_names_addInit by (auto simp: workflow_plan_def leaf_def)

text \<open>
  C22: The phases that are left out are consistent with the configuration: what the user asked to
  skip stays skipped; of the two API backends the one the configuration does not ask for is skipped
  and the other one is not, unless the user did; CoreDNS is always skipped; and an addon is marked as
  disabled exactly when its phase, or the whole addon phase, is skipped. With etcd the database
  directory is the one of kubeadm's configuration.
\<close>

theorem skipped_phases_consistent:
  assumes "initialize_skips (addInitWorkflowPhases e k) opts d = (skips, d')"
    and "''etcd'' \<in> set (full_names '''' (NewEtcdPhase k))" and "''addon/coredns'' \<in> set (full_names '''' (NewAddonPhase k))"
    and "user = (if opts = [] then SkipPhases (cfg d) else opts)"
  shows "(\<exists>more. skips = user @ more) \<and>
    (UseEtcd (Spec (ikniteCluster d)) \<longrightarrow> ''kine'' \<in> set skips \<and> (''etcd'' \<in> set skips \<longleftrightarrow> ''etcd'' \<in> set user) \<and>
       APIBackendDatabaseDirectory (Spec (ikniteCluster d')) = Etcd_DataDir (cfg d)) \<and>
    (\<not> UseEtcd (Spec (ikniteCluster d)) \<longrightarrow> ''etcd'' \<in> set skips \<and> (''kine'' \<in> set skips \<longleftrightarrow> ''kine'' \<in> set user) \<and>
       ikniteCluster d' = ikniteCluster d) \<and>
    ''addon/coredns'' \<in> set skips \<and> DNS_Disabled (cfg d') \<and>
    (Proxy_Disabled (cfg d') \<longleftrightarrow> ''addon'' \<in> set skips \<or> ''addon/kube-proxy'' \<in> set skips)"
proof -
  let ?ps = "addInitWorkflowPhases e k"
  define backend where "backend = (if UseEtcd (Spec (ikniteCluster d)) then ''kine'' else ''etcd'')"
  define base where "base = (user @ [backend]) @ [''addon/coredns'']"
  have k: "snd (skipPhaseIfExists ?ps xs ''kine'' '''') = xs @ [''kine'']"
    "snd (skipPhaseIfExists ?ps xs ''etcd'' '''') = xs @ [''etcd'']"
    "snd (skipPhaseIfExists ?ps xs ''addon/coredns'' '''') = xs @ [''addon/coredns'']" for xs
    using init_phase_names(1) [of e k] init_phase_names(2) [OF assms(2), of e] init_phase_names(3) [OF assms(3), of e]
    by (simp_all only: skipPhaseIfExists_spec snd_conv if_True)
  obtain s c where s: "manageSkippedAddons (cfg d) base = (s, c)" by (metis surj_pair)
  have "skips = s \<and> cfg d' = c \<and> ikniteCluster d' = (if UseEtcd (Spec (ikniteCluster d))
      then (ikniteCluster d)\<lparr>Spec := (Spec (ikniteCluster d))\<lparr>APIBackendDatabaseDirectory := Etcd_DataDir (cfg d)\<rparr>\<rparr>
      else ikniteCluster d)"
    using assms(1) s unfolding initialize_skips_def Let_def assms(4) [symmetric] KineBackendName_def EtcdBackendName_def coreDNSPhase_def
    by (cases "UseEtcd (Spec (ikniteCluster d))") (auto simp: k base_def backend_def split: prod.splits)
  moreover note m = manageSkippedAddons_spec [OF s]
  moreover from m(1) obtain more where "s = base @ more" "set more \<subseteq> {coreDNSPhase, kubeProxyPhase}" by blast
  ultimately show ?thesis
    by (auto simp: base_def backend_def coreDNSPhase_def kubeProxyPhase_def addonPhase_def)
qed

theorem skipped_phases_consistent_witness:
  "''etcd'' \<in> set (fst (initialize_skips (addInitWorkflowPhases sample_init no_phases) [] (sample_data Map.empty)))"
proof -
  have e: "''etcd'' \<in> set (full_names '''' (NewEtcdPhase no_phases))"
    "''addon/coredns'' \<in> set (full_names '''' (NewAddonPhase no_phases))"
    by (simp_all add: no_phases_def leaf_def)
  have "\<not> UseEtcd (Spec (ikniteCluster (sample_data Map.empty)))"
    by (simp add: sample_data_def sample_cluster_def with_defaults_def zero_spec_def Let_def)
  with skipped_phases_consistent [OF surjective_pairing e refl, of sample_init "[]" "sample_data Map.empty"] show ?thesis by simp
qed

section \<open>Stopping once\<close>

text \<open>A frame that allows calls outside and leaving the bus allows the hooks.\<close>

lemma hooks_frame:
  fixes R :: "('c, 'x) initData_scheme \<Rightarrow> ('c, 'x) initData_scheme \<Rightarrow> bool"
  assumes "frame R" and c: "\<And>f. state_io_rel R (external_call f)"
    and b: "\<And>i. state_io_rel R (modify (\<lambda>d. d\<lparr>clusterUpdateBus := unsubscribe i (clusterUpdateBus d)\<rparr>))"
  shows "state_io_rel R (RunShutdownHooks env order)"
proof -
  note rules = frame.frame_rules [OF assms(1)]
  have cl: "state_io_rel R (close_listeners env ls)" for ls
    by (induction ls) (simp_all only: close_listeners.simps, (intro rules c | assumption)+)
  have fn: "state_io_rel R (shutdown_fn env h)" for h
    by (cases h) (simp_all only: shutdown_fn.simps closeProxyAPIListeners_def, (intro rules c b cl)+)
  have "state_io_rel R (run_hooks (map (closure env) hs) es)" for hs es
  proof (induction hs arbitrary: es)
    case Nil
    show ?case by (simp only: list.map run_hooks.simps) (intro rules)
  next
    case (Cons h hs)
    then show ?case by (simp only: list.map run_hooks.simps closure_sel) (intro rules fn)
  qed
  then show ?thesis unfolding RunShutdownHooks_def hooks_Run_def by (intro rules)
qed

definition quiet_rel :: "('c, 'x) initData_scheme \<Rightarrow> ('c, 'x) initData_scheme \<Rightarrow> bool" where
  "quiet_rel d d' \<longleftrightarrow> trace d' = trace d \<and> fs_fault d' = fs_fault d \<and> kubeletProcess d' = kubeletProcess d"

interpretation qr: frame "quiet_rel :: ('c, 'x) initData_scheme \<Rightarrow> ('c, 'x) initData_scheme \<Rightarrow> bool"
  by unfold_locales (auto simp: quiet_rel_def)

lemma hooks_quiet: "state_io_rel quiet_rel (RunShutdownHooks env order)"
  by (rule hooks_frame [OF qr.frame_axioms]) (auto simp: quiet_rel_def)

lemma RemovePidFile_effect:
  assumes "run_state (RemovePidFile s) w = (r, w')"
  shows "trace w' = trace w \<and> (fs_fault w = (\<lambda>_ _. None) \<longrightarrow> files w' (ServicePidFilePath s) = None)"
  using assms by (auto simp: RemovePidFile_def run_ignoreErr Remove_def run_fs_call split: option.splits)

text \<open>
  C30: After the last phase has seen the kubelet stop, the code that runs after the workflow sends no
  further signal and waits for nothing; if the kubelet could not be waited for, it sends exactly one
  more SIGTERM and waits at most once. When it succeeds, the pid file is gone, unless the file system
  refuses.
\<close>

theorem kubelet_stopped_once:
  assumes "run_state (init_PostRunE se order) d = (r, d')"
  shows "(kubeletProcess d = None \<longrightarrow> r = Inr () \<and> trace d' = trace d) \<and>
    (\<forall>pid. kubeletProcess d = Some pid \<longrightarrow>
       trace d' \<in> {trace d @ [Signaled pid SIGTERM], trace d @ [Signaled pid SIGTERM, Waited pid]}) \<and>
    (r = Inr () \<and> fs_fault d = (\<lambda>_ _. None) \<longrightarrow> files d' (ServicePidFilePath KubeletName) = None)"
proof -
  obtain h d1 where h: "run_state (RunShutdownHooks se order) d = (h, d1)" by (metis surj_pair)
  have q: "trace d1 = trace d" "fs_fault d1 = fs_fault d" "kubeletProcess d1 = kubeletProcess d"
    using state_io_relD [OF hooks_quiet h] by (simp_all add: quiet_rel_def)
  have rm: "trace (snd (run_state (RemovePidFile KubeletName) w)) = trace w"
    "fs_fault w = (\<lambda>_ _. None) \<Longrightarrow> files (snd (run_state (RemovePidFile KubeletName) w)) (ServicePidFilePath KubeletName) = None"
    for w :: "('a, 'b) initData_scheme"
    using RemovePidFile_effect [OF surjective_pairing, of KubeletName w] by blast+
  show ?thesis
  proof (cases "kubeletProcess d")
    case None
    with assms h q have "r = Inr ()" "d' = snd (run_state (RemovePidFile KubeletName) d1)"
      by (auto simp: init_PostRunE_def run_ignoreErr run_onErr split: prod.splits)
    with None rm q show ?thesis by simp
  next
    case (Some pid)
    with assms h q show ?thesis
      by (auto simp: init_PostRunE_def run_ignoreErr run_onErr process_Signal_def process_Wait_def
          split: prod.splits sum.splits option.splits dest!: RemovePidFile_effect)
  qed
qed

theorem kubelet_stopped_once_witness:
  "trace (snd (run_state (init_PostRunE sample_shutdown id) (sample_data Map.empty))) = []"
  using kubelet_stopped_once [OF surjective_pairing, of "sample_data Map.empty" sample_shutdown id]
  by (simp add: sample_data_def)

end
