(* ===== verification/Checkers.thy ===== *)
theory Checkers
  imports Checks Workflow
begin

text \<open>
  The checks of \<^verbatim>\<open>iknite status\<close> (\<^verbatim>\<open>pkg/checkers\<close>) and the commands that prepare, start and watch the
  cluster from outside (\<^verbatim>\<open>pkg/cmd/start.go\<close>, \<^verbatim>\<open>kubelet.go\<close>, \<^verbatim>\<open>prepare.go\<close>). The shared data of the
  checks is the machine extended with what the check of the workloads records for its printer
  (\<open>checkWorkloadData\<close>); the type assertions of the source on that data cannot fail. The Kubernetes
  client library, kubeadm's waiter and \<^verbatim>\<open>afero.Walk\<close> are parameters.
\<close>

section \<open>Files\<close>

definition checkFileAndContent :: "string \<Rightarrow> string \<Rightarrow> ('x world_scheme, outcome) state" where
  "checkFileAndContent path expectedContent = State_Monad.bind (Stat path) (\<lambda>r. case r of
       Inl err \<Rightarrow> State_Monad.return (False, '''',
         Some (if errors_Is err ErrNotExist then Errorf (path @ '' does not exist'')
               else Wrap (''error checking '' @ path) err))
     | Inr info \<Rightarrow>
         if node_IsDir info
         then State_Monad.return (False, '''', Some (Errorf (path @ '' is a directory, not a file'')))
         else if expectedContent = []
         then State_Monad.return (True, path @ '' exists and is a file'', None)
         else State_Monad.bind (ReadFile path) (\<lambda>c. State_Monad.return (case c of
             Inl err \<Rightarrow> (False, '''', Some (Wrap (''failed to read '' @ path) err))
           | Inr content \<Rightarrow>
               if TrimSpace content \<noteq> TrimSpace expectedContent
               then (False, '''', Some (Errorf (''unexpected content in '' @ path)))
               else (True, path @ '' exists with expected content'', None))))"

definition FileCheck :: "string \<Rightarrow> string \<Rightarrow> string \<Rightarrow> string \<Rightarrow> 'x world_scheme Check" where
  "FileCheck name description path expectedContent =
     Check (Some (checkFileAndContent path expectedContent)) name description [] []"

definition SimpleFileCheck :: "string \<Rightarrow> string \<Rightarrow> 'x world_scheme Check" where
  "SimpleFileCheck name path =
     Check (Some (checkFileAndContent path '''')) name (''Check '' @ path) [] []"

definition difference :: "string list \<Rightarrow> string list \<Rightarrow> string list" where
  "difference a b = filter (\<lambda>item. item \<notin> set b) a"

text \<open>
  \<open>walk\<close> lists what \<^verbatim>\<open>afero.Walk\<close> visits from a root, the root included, without following symbolic
  links: the paths in the order of the walk. \<open>path_rel\<close> is \<^verbatim>\<open>filepath.Rel\<close> for a path at or below the
  base.
\<close>

type_synonym walker = "tree \<Rightarrow> string \<Rightarrow> string list"

definition path_rel :: "string \<Rightarrow> string \<Rightarrow> string" where
  "path_rel base p = (if p = base then ''.'' else drop (Suc (length base)) p)"

definition walk_files :: "walker \<Rightarrow> string \<Rightarrow> ('x, string list) io" where
  "walk_files walk root = fs_call (FReadDir root) (\<lambda>fs.
     (Inr (map (path_rel root) (filter (\<lambda>p. case fs p of Some n \<Rightarrow> \<not> node_IsDir n | None \<Rightarrow> False) (walk fs root))), fs))"

definition FileTreeDifference ::
  "walker \<Rightarrow> string \<Rightarrow> string list \<Rightarrow> ('x, string list \<times> string list) io"
where
  "FileTreeDifference walk path expectedFiles =
     onErr (EvalSymlinks path) (Wrap (''failed to evaluate symlinks for '' @ path)) (\<lambda>actualPath.
     onErr (walk_files walk actualPath) (Wrap ''failed to walk file tree'') (\<lambda>foundFiles.
     ret (difference expectedFiles foundFiles, difference foundFiles expectedFiles)))"

definition strings_Join :: "string list \<Rightarrow> string \<Rightarrow> string" where
  "strings_Join xs sep = (case xs of [] \<Rightarrow> [] | y # ys \<Rightarrow> y @ concat (map (\<lambda>z. sep @ z) ys))"

definition checkFileTree :: "walker \<Rightarrow> string \<Rightarrow> string list \<Rightarrow> ('x world_scheme, outcome) state" where
  "checkFileTree walk path expectedFiles = State_Monad.bind (FileTreeDifference walk path expectedFiles) (\<lambda>r.
     State_Monad.return (case r of
       Inl err \<Rightarrow> (False, '''', Some err)
     | Inr (missingFiles, extraFiles) \<Rightarrow>
         if missingFiles \<noteq> [] then (False, ''Missing files: '' @ strings_Join missingFiles '', '', None)
         else if extraFiles \<noteq> [] then (False, ''Extra files: '' @ strings_Join extraFiles '', '', None)
         else (True, ''All expected '' @ nat_digits (length expectedFiles) @ '' files found in '' @ path, None)))"

definition FileTreeCheck :: "walker \<Rightarrow> string \<Rightarrow> string \<Rightarrow> string \<Rightarrow> string list \<Rightarrow> 'x world_scheme Check" where
  "FileTreeCheck walk name description path expectedFiles =
     Check (Some (checkFileTree walk path expectedFiles)) name description [] []"

definition checkApiBackendData :: "walker \<Rightarrow> string \<Rightarrow> ('x world_scheme, outcome) state" where
  "checkApiBackendData walk apiBackendName =
     (let expectedFiles = (if apiBackendName = EtcdBackendName then [''member/snap/db''] else [''kine.db'']);
          dir = ''/var/lib/'' @ apiBackendName
      in State_Monad.bind (FileTreeDifference walk dir expectedFiles) (\<lambda>r. State_Monad.return (case r of
           Inl err \<Rightarrow> (False, '''', Some (Wrap (''failed to check '' @ apiBackendName @ '' file tree'') err))
         | Inr (missingFiles, _) \<Rightarrow>
             if missingFiles \<noteq> [] then (False, dir @ '' has no data file'', None)
             else (True, dir @ '' has data files'', None))))"

definition APIBackendDataCheck :: "walker \<Rightarrow> string \<Rightarrow> 'x world_scheme Check" where
  "APIBackendDataCheck walk apiBackendName =
     Check (Some (checkApiBackendData walk apiBackendName)) (''api_backend_'' @ apiBackendName @ ''_data'')
       (''Check that the '' @ apiBackendName @ '' data directory (/var/lib/'' @ apiBackendName @
        '') is present and contains data'') [] []"

section \<open>Services\<close>

datatype ServiceType = ServiceTypeOpenRC | ServiceTypePidFile

text \<open>\<^verbatim>\<open>CheckPidFile\<close> gives the process identifier zero when there is no process.\<close>

definition CheckService :: "string \<Rightarrow> ServiceType \<Rightarrow> ('x world_scheme, outcome) state" where
  "CheckService serviceName serviceType =
     (let running = (\<lambda>pid. (True, ''Service '' @ serviceName @ '' is running with pid '' @ Itoa pid, None));
          stopped = (False, '''', Some (Errorf (''service '' @ serviceName @ '' is not running'')))
      in case serviceType of
           ServiceTypeOpenRC \<Rightarrow> State_Monad.bind (IsServiceStarted serviceName) (\<lambda>r. State_Monad.return (case r of
               Inl err \<Rightarrow> (False, '''', Some (Wrap (''failed to check if service '' @ serviceName @ '' is started'') err))
             | Inr success \<Rightarrow> if success then running 0 else stopped))
         | ServiceTypePidFile \<Rightarrow> State_Monad.bind (CheckPidFile serviceName) (\<lambda>r. State_Monad.return (case r of
               Inl err \<Rightarrow> (False, '''', Some (Wrap (''failed to check PID file for service '' @ serviceName) err))
             | Inr None \<Rightarrow> stopped
             | Inr (Some pid) \<Rightarrow> if pid = 0 then stopped else running pid)))"

definition ServiceCheck :: "string \<Rightarrow> string \<Rightarrow> ServiceType \<Rightarrow> string list \<Rightarrow> 'x world_scheme Check" where
  "ServiceCheck name serviceName serviceType parents =
     Check (Some (CheckService serviceName serviceType)) name
       (''Check if '' @ serviceName @ '' service is running'')
       (if parents = [] then [''openrc''] else parents) []"

definition checkOpenRCStarted :: "('x world_scheme, outcome) state" where
  "checkOpenRCStarted = State_Monad.bind (Exists SoftLevelPath) (\<lambda>r. State_Monad.return (case r of
       Inl err \<Rightarrow> (False, '''', Some (Wrap ''failed to check if OpenRC is started'' err))
     | Inr exists \<Rightarrow> if \<not> exists then (False, ''OpenRC is not started'', None) else (True, ''OpenRC is started'', None)))"

definition OpenRCCheck :: "'x world_scheme Check" where
  "OpenRCCheck = Check (Some checkOpenRCStarted) ''openrc'' ''Check that OpenRC is started'' [] []"

definition checkServiceIsNotRunnable :: "string \<Rightarrow> string \<Rightarrow> ('x world_scheme, outcome) state" where
  "checkServiceIsNotRunnable confFilePath serviceName =
     State_Monad.bind (IsServiceRunnable confFilePath serviceName) (\<lambda>r. State_Monad.return (case r of
       Inl err \<Rightarrow> (False, '''', Some (Wrap (''failed to check if '' @ serviceName @ '' service is runnable'') err))
     | Inr runnable \<Rightarrow>
         if runnable then (False, serviceName @ '' service is runnable'', None)
         else (True, ''/etc/rc.conf hack preventing '' @ serviceName @ '' from running in place'', None)))"

definition NewPreventedServiceCheck :: "string \<Rightarrow> 'x world_scheme Check" where
  "NewPreventedServiceCheck serviceName =
     Check (Some (checkServiceIsNotRunnable RcConfFile serviceName)) (''prevented_service_'' @ serviceName)
       (''Check if the '' @ serviceName @ '' service is not runnable'') [] []"

section \<open>Network\<close>

definition checkDomainName :: "string \<Rightarrow> ip option \<Rightarrow> ('x world_scheme, outcome) state" where
  "checkDomainName domainName a =
     (if domainName = [] then State_Monad.return (True, ''Domain name is not set'', None)
      else State_Monad.bind (IsHostMapped a domainName) (\<lambda>(contains, ips). State_Monad.return
        (if contains \<and> list_ex (\<lambda>i. ip_String i = ip_opt_String a) ips
         then (True, ''Domain name '' @ domainName @ '' is mapped to IP '' @ ip_opt_String a, None)
         else (False, ''Domain name '' @ domainName @ '' is not mapped to IP '' @ ip_opt_String a, None))))"

definition DomainNameCheck :: "string \<Rightarrow> ip option \<Rightarrow> 'x world_scheme Check" where
  "DomainNameCheck domainName a =
     Check (Some (checkDomainName domainName a)) ''domain_name'' ''Check if the domain name is set'' [] []"

definition checkIpIsBound :: "IkniteClusterSpec \<Rightarrow> ('x world_scheme, outcome) state" where
  "checkIpIsBound spec =
     (if CreateIp spec
      then State_Monad.bind (CheckIpExists (Ip spec)) (\<lambda>r. State_Monad.return (case r of
          Inl err \<Rightarrow> (False, '''', Some (Wrap ''failed to check if IP exists'' err))
        | Inr result \<Rightarrow>
            if result then (True, ''IP address '' @ ip_opt_String (Ip spec) @ '' is bound to an interface'', None)
            else (False, ''IP address '' @ ip_opt_String (Ip spec) @ '' is not bound to any interface'', None)))
      else State_Monad.return (True, [CHR ''D'', CHR ''o'', CHR ''n'', CHR 0x27, CHR ''t''] @ '' need to create IP'', None))"

definition NewIpBoundCheck :: "IkniteClusterSpec \<Rightarrow> 'x world_scheme Check" where
  "NewIpBoundCheck spec =
     Check (Some (checkIpIsBound spec)) ''ip_bound'' ''Check if the IP address is bound to an interface'' [] []"

section \<open>Clients of the cluster\<close>

text \<open>
  What the program uses of the client libraries: reading a kubeconfig (\<open>'c\<close> is the configuration),
  making a client set, kubeadm's waiter, the static pods it reads from disk (\<open>'p\<close>), the request for
  \<^verbatim>\<open>/healthz\<close>, the loops that poll, and the access to the workloads.
\<close>

record ('w, 'c, 'p, 'o) kube_tools =
  NewClientConfigFromBytes :: "string \<Rightarrow> error + 'c"
  rest_Host :: "'c \<Rightarrow> error + string"
  NewForConfig :: "'c \<Rightarrow> error + unit"
  UnversionedRESTClientFor :: "'c \<Rightarrow> error + unit"
  WaiterForKubelet :: "'c \<Rightarrow> int \<Rightarrow> string \<Rightarrow> int \<Rightarrow> ('w, error + unit) state"
  ReadMultipleStaticPodsFromDisk :: "('w, error + 'p) state"
  WaitForControlPlaneComponents :: "'c \<Rightarrow> int \<Rightarrow> 'p \<Rightarrow> string \<Rightarrow> ('w, error + unit) state"
  GetHealthz :: "'c \<Rightarrow> int \<Rightarrow> ('w, error + string) state"
  world_poller :: "'w poll_state poller"
  workloads_poller :: "'w ready_state poll_state poller"
  workloads_access :: "'c \<Rightarrow> ('w, 'o) cluster_access"
  adminKubeConfigPath :: string

definition NewClientFromFile :: "('x world_scheme, 'c, 'p, 'o) kube_tools \<Rightarrow> string \<Rightarrow> ('x, 'c) io" where
  "NewClientFromFile k path =
     onErr (ReadFile path) (Wrap ''failed to read kubeconfig file'') (\<lambda>content.
       case NewClientConfigFromBytes k content of
         Inl e \<Rightarrow> throw (Wrap ''failed to create client config from bytes'' e)
       | Inr c \<Rightarrow> ret c)"

definition NewDefaultClient :: "('x world_scheme, 'c, 'p, 'o) kube_tools \<Rightarrow> ('x, 'c) io" where
  "NewDefaultClient k = NewClientFromFile k (adminKubeConfigPath k)"

text \<open>\<open>rest_Host\<close> is the host of the REST configuration, so its error is that of \<^verbatim>\<open>ClientConfig()\<close>.\<close>

definition ToRESTConfig :: "('w, 'c, 'p, 'o) kube_tools \<Rightarrow> 'c \<Rightarrow> error + string" where
  "ToRESTConfig k c = (case rest_Host k c of
       Inl e \<Rightarrow> Inl (Wrap ''failed to get REST config'' e) | Inr h \<Rightarrow> Inr h)"

definition ClientSet :: "('w, 'c, 'p, 'o) kube_tools \<Rightarrow> 'c \<Rightarrow> error + 'c" where
  "ClientSet k c = (case ToRESTConfig k c of
       Inl e \<Rightarrow> Inl (Wrap ''failed to get REST config for Kubernetes client'' e)
     | Inr _ \<Rightarrow> (case NewForConfig k c of
           Inl e \<Rightarrow> Inl (Wrap ''failed to create Kubernetes client'' e) | Inr _ \<Rightarrow> Inr c))"

definition ClientSetFromFile :: "('x world_scheme, 'c, 'p, 'o) kube_tools \<Rightarrow> string \<Rightarrow> ('x, 'c) io" where
  "ClientSetFromFile k path = onErr (NewClientFromFile k path) id (\<lambda>c. State_Monad.return (ClientSet k c))"

definition RESTClient :: "('w, 'c, 'p, 'o) kube_tools \<Rightarrow> 'c \<Rightarrow> error + 'c" where
  "RESTClient k c = (case ToRESTConfig k c of
       Inl e \<Rightarrow> Inl (Wrap ''failed to get REST config for discovery'' e)
     | Inr _ \<Rightarrow> (case UnversionedRESTClientFor k c of
           Inl e \<Rightarrow> Inl (Wrap ''failed to create REST client'' e) | Inr _ \<Rightarrow> Inr c))"

section \<open>Health and workloads\<close>

definition failed_check :: "error \<Rightarrow> outcome" where
  "failed_check e = (False, '''', Some e)"

definition CheckKubeletHealth :: "('x world_scheme, 'c, 'p, 'o) kube_tools \<Rightarrow> int \<Rightarrow> ('x world_scheme, outcome) state" where
  "CheckKubeletHealth k timeout = State_Monad.bind (ClientSetFromFile k (adminKubeConfigPath k)) (\<lambda>r. case r of
       Inl e \<Rightarrow> State_Monad.return (failed_check (Wrap ''failed to create client set for kubelet health check'' e))
     | Inr cs \<Rightarrow> State_Monad.bind (WaiterForKubelet k cs timeout ''127.0.0.1'' 10248) (\<lambda>w.
         State_Monad.return (case w of
           Inl e \<Rightarrow> failed_check (Wrap ''kubelet health check failed'' e)
         | Inr _ \<Rightarrow> (True, ''Kubelet is healthy'', None))))"

definition NewKubeletHealthCheck :: "('x world_scheme, 'c, 'p, 'o) kube_tools \<Rightarrow> int \<Rightarrow> 'x world_scheme Check" where
  "NewKubeletHealthCheck k timeout = Check (Some (CheckKubeletHealth k timeout)) ''kubelet_health''
     ''Check if the kubelet is reachable and healthy'' [''kubelet_running''] []"

definition CheckApiServerHealth ::
  "('x world_scheme, 'c, 'p, 'o) kube_tools \<Rightarrow> int \<Rightarrow> IkniteClusterSpec \<Rightarrow> ('x world_scheme, outcome) state"
where
  "CheckApiServerHealth k timeout spec = State_Monad.bind (ClientSetFromFile k (adminKubeConfigPath k)) (\<lambda>r. case r of
       Inl e \<Rightarrow> State_Monad.return (failed_check (Wrap ''failed to create client set for API server health check'' e))
     | Inr cs \<Rightarrow> State_Monad.bind (ReadMultipleStaticPodsFromDisk k) (\<lambda>p. case p of
         Inl e \<Rightarrow> State_Monad.return (failed_check (Wrap ''control plane health check failed'' e))
       | Inr podMap \<Rightarrow> State_Monad.bind (WaitForControlPlaneComponents k cs timeout podMap (GetApiEndPoint spec)) (\<lambda>w.
           State_Monad.return (case w of
             Inl e \<Rightarrow> failed_check (Wrap ''control plane health check failed'' e)
           | Inr _ \<Rightarrow> (True, ''API Server is healthy'', None)))))"

definition NewApiServerHealthCheck ::
  "('x world_scheme, 'c, 'p, 'o) kube_tools \<Rightarrow> int \<Rightarrow> IkniteClusterSpec \<Rightarrow> 'x world_scheme Check"
where
  "NewApiServerHealthCheck k timeout spec = Check (Some (CheckApiServerHealth k timeout spec)) ''apiserver_health''
     ''Check if the kube-apiserver is healthy'' [''kubelet_running''] []"

definition healthz_condition :: "('w, 'c, 'p, 'o) kube_tools \<Rightarrow> 'c \<Rightarrow> int \<Rightarrow> 'w condition" where
  "healthz_condition k cs checkTimeout = State_Monad.bind (GetHealthz k cs checkTimeout) (\<lambda>r.
     State_Monad.return (case r of
       Inl e \<Rightarrow> (False, Some (Wrap ''failed to call /healthz endpoint'' e))
     | Inr body \<Rightarrow>
         if TrimSpace body \<noteq> ''ok'' then (False, Some (Errorf (''iknite status server returned unexpected response: '' @ body)))
         else (True, None)))"

definition CheckIkniteServerHealth ::
  "('x world_scheme, 'c, 'p, 'o) kube_tools \<Rightarrow> WaitOptions \<Rightarrow> ('x world_scheme, outcome) state"
where
  "CheckIkniteServerHealth k waitOptions = State_Monad.bind (NewClientFromFile k IkniteLocalConfPath) (\<lambda>r. case r of
       Inl e \<Rightarrow> State_Monad.return (failed_check (Wrap (''failed to load iknite config from '' @ IkniteLocalConfPath) e))
     | Inr kubeClient \<Rightarrow> (case RESTClient k kubeClient of
         Inl e \<Rightarrow> State_Monad.return (failed_check (Wrap ''failed to create REST client'' e))
       | Inr restClient \<Rightarrow> State_Monad.bind
           (Poll (world_poller k) waitOptions (healthz_condition k restClient (CheckTimeout waitOptions))) (\<lambda>err.
           State_Monad.return (case err of
             Some e \<Rightarrow> failed_check (Wrap ''iknite status server health check failed'' e)
           | None \<Rightarrow> (True, ''Iknite status server is healthy'', None)))))"

definition NewIkniteServerHealthCheck :: "('x world_scheme, 'c, 'p, 'o) kube_tools \<Rightarrow> 'x world_scheme Check" where
  "NewIkniteServerHealthCheck k = Check
     (Some (CheckIkniteServerHealth k (NewWaitOptions\<lparr>Retries := 3, Timeout := 15000000000\<rparr>))) ''iknite_server_health''
     ''Check if the iknite status server is healthy'' [''apiserver_health''] []"

text \<open>The data of the checks; \<open>startTime\<close> is set once the check of the workloads begins.\<close>

record checkWorkloadData = world +
  startTime :: "nat option"
  readyWorkloads :: "WorkloadState list"
  notReadyWorkloads :: "WorkloadState list"
  workloadCount :: nat
  wd_iteration :: nat
  wd_okIterations :: nat
  wd_ok :: bool

definition record_workloads :: "'x checkWorkloadData_scheme callback" where
  "record_workloads allReady n ready unready it okIt = State_Monad.bind
     (modify (\<lambda>d. d\<lparr>wd_ok := allReady, workloadCount := n, readyWorkloads := ready,
        notReadyWorkloads := unready, wd_iteration := it, wd_okIterations := okIt\<rparr>)) (\<lambda>_.
     State_Monad.return (allReady, None))"

definition with_counters :: "('s ready_state, 'a) state \<Rightarrow> ('s, 'a) state" where
  "with_counters m = State (\<lambda>s. case run_state m \<lparr>rs_state = s, iteration = 0, okIterations = 0\<rparr> of
     (x, p) \<Rightarrow> (x, rs_state p))"

definition CheckWorkloads ::
  "('x checkWorkloadData_scheme, 'c, 'p, 'o) kube_tools \<Rightarrow> WaitOptions \<Rightarrow> ('x checkWorkloadData_scheme, outcome) state"
where
  "CheckWorkloads k waitOptions = State_Monad.bind (NewDefaultClient k) (\<lambda>r. case r of
       Inl e \<Rightarrow> State_Monad.return (failed_check (Wrap ''while loading local cluster configuration'' e))
     | Inr kubeClient \<Rightarrow>
         State_Monad.bind (modify (\<lambda>d. d\<lparr>startTime := Some (clock d)\<rparr>)) (\<lambda>_.
         State_Monad.bind (with_counters (Poll (workloads_poller k) waitOptions
             (WorkloadsReadyCondition (workloads_access k kubeClient) (Some record_workloads)))) (\<lambda>err. case err of
           Some e \<Rightarrow> State_Monad.return (failed_check (Wrap ''while waiting for workloads'' e))
         | None \<Rightarrow> State_Monad.bind (gets wd_ok) (\<lambda>ok. State_Monad.return (ok, '''', None)))))"

section \<open>The phases of the checks\<close>

definition NewEnvironmentCheckPhase :: "IkniteClusterSpec \<Rightarrow> 'x world_scheme Check" where
  "NewEnvironmentCheckPhase spec = NewPhase ''environment'' ''Environment configuration''
     [FileCheck ''ip_forward'' ''Check IP forwarding is enabled'' ''/proc/sys/net/ipv4/ip_forward'' (''1'' @ NL),
      FileCheck ''bridge_nf_call_iptables'' ''Check IP Tables is active for bridges''
        ''/proc/sys/net/bridge/bridge-nf-call-iptables'' (''1'' @ NL),
      FileCheck ''machine_id'' ''Check machine id is defined'' ''/etc/machine-id'' '''',
      FileCheck ''crictl_yaml'' ''Check crictl configuration is defined'' ''/etc/crictl.yaml'' '''',
      NewPreventedServiceCheck KubeletName,
      FileCheck ''iknite_service'' ''Check if iknite is active on default runlevel''
        ''/etc/runlevels/default/iknite'' '''',
      NewIpBoundCheck spec,
      DomainNameCheck (DomainName spec) (Ip spec)]"

definition pkiFiles :: "string list" where
  "pkiFiles =
     [''etcd/ca.key'', ''etcd/healthcheck-client.key'', ''etcd/peer.key'', ''etcd/ca.crt'',
      ''etcd/healthcheck-client.crt'', ''etcd/peer.crt'', ''etcd/server.key'', ''etcd/server.crt'', ''sa.pub'',
      ''front-proxy-ca.key'', ''ca.key'', ''apiserver-kubelet-client.crt'', ''apiserver.crt'',
      ''apiserver-etcd-client.crt'', ''sa.key'', ''ca.crt'', ''front-proxy-client.crt'', ''front-proxy-client.key'',
      ''apiserver.key'', ''apiserver-etcd-client.key'', ''apiserver-kubelet-client.key'', ''front-proxy-ca.crt'',
      ''iknite-client.crt'', ''iknite-client.key'', ''iknite-server.crt'', ''iknite-server.key'']"

definition NewConfigurationCheckPhase :: "walker \<Rightarrow> IkniteClusterSpec \<Rightarrow> 'x world_scheme Check" where
  "NewConfigurationCheckPhase walk spec =
     (let apiBackendName = (if UseEtcd spec then EtcdBackendName else KineBackendName);
          dBManifestCheck = SimpleFileCheck (''manifest_'' @ apiBackendName)
            (''/etc/kubernetes/manifests/'' @ apiBackendName @ ''.yaml'')
      in NewPhase ''configuration'' ''Kubernetes configuration''
       [FileTreeCheck walk ''pki'' ''Check PKI files'' ''/etc/kubernetes/pki'' pkiFiles,
        NewPhase ''manifests'' ''Kubernetes manifests''
          [dBManifestCheck,
           SimpleFileCheck ''manifest_apiserver'' ''/etc/kubernetes/manifests/kube-apiserver.yaml'',
           SimpleFileCheck ''manifest_controller'' ''/etc/kubernetes/manifests/kube-controller-manager.yaml'',
           SimpleFileCheck ''manifest_scheduler'' ''/etc/kubernetes/manifests/kube-scheduler.yaml''],
        SimpleFileCheck ''kubelet_conf'' ''/etc/kubernetes/kubelet.conf'',
        SimpleFileCheck ''admin_conf'' ''/etc/kubernetes/admin.conf'',
        SimpleFileCheck ''kubelet_config'' ''/var/lib/kubelet/config.yaml'',
        SimpleFileCheck ''kubeadm_flags'' ''/var/lib/kubelet/kubeadm-flags.env'',
        SimpleFileCheck ''iknite_conf'' ''/etc/kubernetes/iknite.conf'',
        APIBackendDataCheck walk apiBackendName])"

definition NewRuntimeCheckPhase ::
  "('x world_scheme, 'c, 'p, 'o) kube_tools \<Rightarrow> IkniteClusterSpec \<Rightarrow> WaitOptions \<Rightarrow> 'x world_scheme Check"
where
  "NewRuntimeCheckPhase k spec waitOptions = NewPhase ''runtime'' ''Runtime status''
     [OpenRCCheck,
      ServiceCheck ''iknite_running'' ''iknite'' ServiceTypeOpenRC [],
      ServiceCheck ''containerd_running'' ''containerd'' ServiceTypeOpenRC [],
      ServiceCheck ''buildkitd_running'' ''buildkitd'' ServiceTypeOpenRC [],
      ServiceCheck ''kubelet_running'' KubeletName ServiceTypePidFile [''iknite_running''],
      NewKubeletHealthCheck k (CheckTimeout waitOptions),
      NewApiServerHealthCheck k (CheckTimeout waitOptions) spec,
      NewIkniteServerHealthCheck k]"

definition NewWorkloadStatusCheck ::
  "('x checkWorkloadData_scheme, 'c, 'p, 'o) kube_tools \<Rightarrow> WaitOptions \<Rightarrow> 'x checkWorkloadData_scheme Check"
where
  "NewWorkloadStatusCheck k waitOptions =
     Check (Some (CheckWorkloads k waitOptions)) ''workload_status'' ''Check Workload Status'' [''runtime''] []"

definition ConfigureIkniteClusterChecker ::
  "walker \<Rightarrow> ('x checkWorkloadData_scheme, 'c, 'p, 'o) kube_tools \<Rightarrow> IkniteClusterSpec \<Rightarrow> WaitOptions \<Rightarrow>
   'x checkWorkloadData_scheme CheckExecutor \<Rightarrow> 'x checkWorkloadData_scheme CheckExecutor"
where
  "ConfigureIkniteClusterChecker walk k spec waitOptions executor =
     AddCheck (NewWorkloadStatusCheck k waitOptions)
     (AddCheck (NewRuntimeCheckPhase k spec waitOptions)
     (AddCheck (NewConfigurationCheckPhase walk spec)
     (AddCheck (NewEnvironmentCheckPhase spec) executor)))"

section \<open>start, kubelet, prepare\<close>

definition IsIkniteReady :: "(string \<Rightarrow> error + IkniteCluster) \<Rightarrow> 'x world_scheme condition" where
  "IsIkniteReady unmarshal = State_Monad.bind (LoadIkniteCluster unmarshal) (\<lambda>r. State_Monad.return (case r of
       Inl err \<Rightarrow>
         if \<not> errors_Is err ErrNotExist then (False, Some (Wrap ''failed to load iknite cluster state'' err))
         else (False, None)
     | Inr cluster \<Rightarrow>
         (ClState (Status cluster) > Initializing \<and> Count (WorkloadsState (Status cluster)) > 0, None)))"

text \<open>The part of \<^verbatim>\<open>performStart\<close> that decides whether to start the cluster.\<close>

definition check_existing_configuration ::
  "('x world_scheme, 'c, 'p, 'o) kube_tools \<Rightarrow> IkniteClusterSpec \<Rightarrow> ('x, unit) io"
where
  "check_existing_configuration k spec = State_Monad.bind (NewDefaultClient k) (\<lambda>r. State_Monad.return (case r of
       Inr kubeClient \<Rightarrow>
         if \<not> IsConfigServerAddress (ToRESTConfig k kubeClient) (GetApiEndPoint spec)
         then Inl (Errorf ''kubeconfig server address does not match iknite config API endpoint. Please reset the cluster with `iknite reset` and start again'')
         else Inr ()
     | Inl err \<Rightarrow>
         if \<not> errors_Is err ErrNotExist then Inl (Wrap ''failed to load existing cluster admin.conf'' err)
         else Inr ()))"

definition performStart ::
  "'h txeh \<Rightarrow> string \<Rightarrow> (string \<Rightarrow> error + IkniteCluster) \<Rightarrow> ('x world_scheme, 'c, 'p, 'o) kube_tools \<Rightarrow>
   IkniteClusterSpec \<Rightarrow> WaitOptions \<Rightarrow> ('x, unit) io"
where
  "performStart tx newId unmarshal k spec waitOptions =
     onErr (PrepareKubernetesEnvironment tx newId spec) (Wrap ''failed to prepare kubernetes environment'') (\<lambda>_.
     onErr (check_existing_configuration k spec) id (\<lambda>_.
     onErr (EnsureOpenRC ''default'') (Wrap ''failed to start OpenRC'') (\<lambda>_.
     State_Monad.bind (Poll (world_poller k) waitOptions (IsIkniteReady unmarshal)) (\<lambda>err. case err of
       Some e \<Rightarrow> throw (Wrap ''cluster did not become ready in time'' e)
     | None \<Rightarrow> ret ()))))"

definition performKubelet ::
  "'h txeh \<Rightarrow> string \<Rightarrow> ('x world_scheme, 'c, 'p, 'o) kube_tools \<Rightarrow> IkniteClusterSpec \<Rightarrow> kubelet_env \<Rightarrow>
   loop_event list \<Rightarrow> ('x world_scheme, (error + unit) option) state"
where
  "performKubelet tx newId k spec env evs = State_Monad.bind (NewDefaultClient k) (\<lambda>r. case r of
       Inl e \<Rightarrow> State_Monad.return (Some (Inl (Wrap ''failed to create kube client'' e)))
     | Inr kubeClient \<Rightarrow> State_Monad.bind (PrepareKubernetesEnvironment tx newId spec) (\<lambda>p. case p of
         Inl e \<Rightarrow> State_Monad.return (Some (Inl (Wrap ''failed to prepare Kubernetes environment'' e)))
       | Inr _ \<Rightarrow> State_Monad.bind (StartAndConfigureKubelet env evs) (\<lambda>s. State_Monad.return (case s of
           Some (Inl e) \<Rightarrow> Some (Inl (Wrap ''failed to start and configure kubelet'' e))
         | _ \<Rightarrow> s))))"

definition performPrepare :: "'h txeh \<Rightarrow> string \<Rightarrow> IkniteClusterSpec \<Rightarrow> ('x, unit) io" where
  "performPrepare tx newId spec = PrepareKubernetesEnvironment tx newId spec"

section \<open>The checks of the program are in order\<close>

lemmas check_defs =
  FileCheck_def SimpleFileCheck_def FileTreeCheck_def APIBackendDataCheck_def ServiceCheck_def OpenRCCheck_def
  NewPreventedServiceCheck_def DomainNameCheck_def NewIpBoundCheck_def NewKubeletHealthCheck_def
  NewApiServerHealthCheck_def NewIkniteServerHealthCheck_def NewWorkloadStatusCheck_def NewPhase_def

definition check_leaf :: "string \<Rightarrow> string list \<Rightarrow> unit Check" where
  "check_leaf nm deps = Check None nm [] deps []"

text \<open>Names and dependencies of all the checks; the two names that change with the API backend are arguments.\<close>

definition iknite_skeleton :: "string \<Rightarrow> string \<Rightarrow> unit Check list" where
  "iknite_skeleton manifest backend =
     [Check None ''environment'' [] [] (map (\<lambda>n. check_leaf n [])
        [''ip_forward'', ''bridge_nf_call_iptables'', ''machine_id'', ''crictl_yaml'', ''prevented_service_kubelet'',
         ''iknite_service'', ''ip_bound'', ''domain_name'']),
      Check None ''configuration'' [] []
        ([check_leaf ''pki'' [], Check None ''manifests'' [] [] (map (\<lambda>n. check_leaf n [])
            [manifest, ''manifest_apiserver'', ''manifest_controller'', ''manifest_scheduler''])] @
         map (\<lambda>n. check_leaf n []) [''kubelet_conf'', ''admin_conf'', ''kubelet_config'', ''kubeadm_flags'', ''iknite_conf'', backend]),
      Check None ''runtime'' [] []
        [check_leaf ''openrc'' [], check_leaf ''iknite_running'' [''openrc''], check_leaf ''containerd_running'' [''openrc''],
         check_leaf ''buildkitd_running'' [''openrc''], check_leaf ''kubelet_running'' [''iknite_running''],
         check_leaf ''kubelet_health'' [''kubelet_running''], check_leaf ''apiserver_health'' [''kubelet_running''],
         check_leaf ''iknite_server_health'' [''apiserver_health'']],
      check_leaf ''workload_status'' [''runtime'']]"

definition iknite_checks ::
  "walker \<Rightarrow> ('x checkWorkloadData_scheme, 'c, 'p, 'o) kube_tools \<Rightarrow> IkniteClusterSpec \<Rightarrow> WaitOptions \<Rightarrow>
   'x checkWorkloadData_scheme CheckExecutor"
where
  "iknite_checks walk k spec waitOptions =
     PrepareRun (ConfigureIkniteClusterChecker walk k spec waitOptions NewCheckExecutor)"

lemma iknite_checks_skeleton:
  obtains cs where "iknite_checks walk k spec w = PrepareRun (NewCheckExecutor\<lparr>Checks := cs\<rparr>)"
    and "map skeleton cs = (if UseEtcd spec then iknite_skeleton ''manifest_etcd'' ''api_backend_etcd_data''
                            else iknite_skeleton ''manifest_kine'' ''api_backend_kine_data'')"
proof
  let ?cs = "[NewEnvironmentCheckPhase spec, NewConfigurationCheckPhase walk spec, NewRuntimeCheckPhase k spec w,
      NewWorkloadStatusCheck k w]"
  show "iknite_checks walk k spec w = PrepareRun (NewCheckExecutor\<lparr>Checks := ?cs\<rparr>)"
    by (simp add: iknite_checks_def ConfigureIkniteClusterChecker_def AddCheck_def NewCheckExecutor_def)
  show "map skeleton ?cs = (if UseEtcd spec then iknite_skeleton ''manifest_etcd'' ''api_backend_etcd_data''
                            else iknite_skeleton ''manifest_kine'' ''api_backend_kine_data'')"
    by (simp add: NewEnvironmentCheckPhase_def NewConfigurationCheckPhase_def NewRuntimeCheckPhase_def Let_def
        iknite_skeleton_def check_leaf_def check_defs EtcdBackendName_def KineBackendName_def KubeletName_def)
qed

lemma iknite_skeleton_orderly:
  "let e = PrepareRun (NewCheckExecutor\<lparr>Checks := iknite_skeleton ''manifest_etcd'' ''api_backend_etcd_data''\<rparr>)
   in links_orderly (map addr (Results e)) (links (Results e) (executor_store e)) id"
  "let e = PrepareRun (NewCheckExecutor\<lparr>Checks := iknite_skeleton ''manifest_kine'' ''api_backend_kine_data''\<rparr>)
   in links_orderly (map addr (Results e)) (links (Results e) (executor_store e)) id"
  by code_simp+

lemma iknite_skeleton_links:
  "let e = PrepareRun (NewCheckExecutor\<lparr>Checks := iknite_skeleton ''manifest_etcd'' ''api_backend_etcd_data''\<rparr>)
   in (\<Sum>(a, ps, qs) \<leftarrow> links (Results e) (executor_store e). length ps + length qs + 5) = 204"
  "let e = PrepareRun (NewCheckExecutor\<lparr>Checks := iknite_skeleton ''manifest_kine'' ''api_backend_kine_data''\<rparr>)
   in (\<Sum>(a, ps, qs) \<leftarrow> links (Results e) (executor_store e). length ps + length qs + 5) = 204"
  by code_simp+

lemma iknite_checks_budget: "check_budget (iknite_checks walk k spec w) = 205"
proof -
  obtain cs where cs: "iknite_checks walk k spec w = PrepareRun (NewCheckExecutor\<lparr>Checks := cs\<rparr>)"
    "map skeleton cs = (if UseEtcd spec then iknite_skeleton ''manifest_etcd'' ''api_backend_etcd_data''
                        else iknite_skeleton ''manifest_kine'' ''api_backend_kine_data'')"
    by (rule iknite_checks_skeleton)
  have "check_budget (iknite_checks walk k spec w) = check_budget (skeleton_executor cs)"
    unfolding cs(1) check_budget_links prepared_links ..
  also have "\<dots> = 205"
    using iknite_skeleton_links cs(2) by (simp add: check_budget_links skeleton_executor_def Let_def)
  finally show ?thesis .
qed

lemma iknite_stuck_ended:
  assumes "(check_step (Results (iknite_checks walk k spec w)))\<^sup>*\<^sup>* (executor_Run (iknite_checks walk k spec w) d) s"
    and "\<forall>r \<in> set (all_results (Results (iknite_checks walk k spec w))). act r s = []"
  shows "\<forall>r \<in> set (Results (iknite_checks walk k spec w)). ended s r"
proof -
  obtain cs where cs: "iknite_checks walk k spec w = PrepareRun (NewCheckExecutor\<lparr>Checks := cs\<rparr>)"
    "map skeleton cs = (if UseEtcd spec then iknite_skeleton ''manifest_etcd'' ''api_backend_etcd_data''
                        else iknite_skeleton ''manifest_kine'' ''api_backend_kine_data'')"
    by (rule iknite_checks_skeleton)
  have "links_orderly (map addr (Results (skeleton_executor cs)))
      (links (Results (skeleton_executor cs)) (executor_store (skeleton_executor cs))) id"
    using iknite_skeleton_orderly cs(2) by (simp add: skeleton_executor_def Let_def)
  from skeleton_run_ended [OF this] assms show ?thesis unfolding cs(1) by blast
qed


section \<open>What the checks and the commands tell\<close>

lemma calls_last_success:
  assumes "calls c s raw t" and "streak raw \<ge> 1"
  obtains u e where "run_state c u = ((True, e), t)"
  using assms
proof (cases rule: calls.cases)
  case (one_more raw' v x)
  then show ?thesis using assms(2) that [of v "snd x"] by (cases x) (auto simp: streak_snoc split: if_splits)
qed (simp add: streak_def)

lemma LoadIkniteCluster_files: "run_state (LoadIkniteCluster um) w = (r, w') \<Longrightarrow> files w' = files w"
  by (auto simp: LoadIkniteCluster_def ReadFile_def run_fs_call split: option.splits sum.splits node.splits)

lemma LoadIkniteCluster_ok:
  assumes "run_state (LoadIkniteCluster um) w = (Inr c, w')"
  obtains json where "file_content w StatusFile = Some json" and "um json = Inr c" and "files w' = files w"
  using assms
  by (auto simp: LoadIkniteCluster_def ReadFile_def run_fs_call file_content_def
      split: option.splits sum.splits node.splits)

lemma IsIkniteReady_true:
  assumes "run_state (IsIkniteReady um) u = ((True, e), t)"
  obtains json c where "file_content t StatusFile = Some json" and "um json = Inr c"
    and "ClState (Status c) > Initializing" and "Count (WorkloadsState (Status c)) > 0"
proof -
  obtain r u' where l: "run_state (LoadIkniteCluster um) u = (r, u')" by (metis surj_pair)
  with assms obtain c where r: "r = Inr c" "u' = t" "ClState (Status c) > Initializing"
      "Count (WorkloadsState (Status c)) > 0"
    by (cases r) (auto simp: IsIkniteReady_def split: if_splits)
  from LoadIkniteCluster_ok [OF l [unfolded r(1,2)]] obtain json where
    "file_content u StatusFile = Some json" "um json = Inr c" "files t = files u" .
  then show ?thesis using that r by (simp add: file_content_def)
qed

lemma existing_configuration_agrees:
  assumes "run_state (check_existing_configuration k spec) w = (Inr (), w')"
    and "fst (run_state (NewDefaultClient k) w) = Inr kc"
  shows "ToRESTConfig k kc = Inr (''https://'' @ GetApiEndPoint spec @ '':6443'')"
  using assms
  by (auto simp: check_existing_configuration_def IsConfigServerAddress_def split: prod.splits sum.splits if_splits)


text \<open>Tools for a machine without a cluster: every client call fails, a poll gives up after one look.\<close>

definition no_workloads :: "('s, unit) cluster_access" where
  "no_workloads = \<lparr>ToRESTMapper = ret (), KindFor = (\<lambda>_. ret ()), all_infos = (\<lambda>_. ret []),
     namespace_infos = (\<lambda>_ _. ret []), is_application = (\<lambda>_. False), FromUnstructured = (\<lambda>_. Inl ErrNoMatch),
     poly_viewer = (\<lambda>_. Inl ErrNoMatch), ToUnstructured = (\<lambda>_. Inr ()), kstatus_Compute = (\<lambda>_. Inl ErrNoMatch)\<rparr>"

definition idle_tools :: "('w, unit, unit, unit) kube_tools" where
  "idle_tools = \<lparr>NewClientConfigFromBytes = (\<lambda>_. Inr ()), rest_Host = (\<lambda>_. Inr ''https://kaweezle.local:6443''),
     NewForConfig = (\<lambda>_. Inr ()), UnversionedRESTClientFor = (\<lambda>_. Inr ()),
     WaiterForKubelet = (\<lambda>_ _ _ _. throw DeadlineExceeded), ReadMultipleStaticPodsFromDisk = ret (),
     WaitForControlPlaneComponents = (\<lambda>_ _ _ _. throw DeadlineExceeded), GetHealthz = (\<lambda>_ _. throw DeadlineExceeded),
     world_poller = impatient_poller, workloads_poller = impatient_poller, workloads_access = (\<lambda>_. no_workloads),
     adminKubeConfigPath = ''/etc/kubernetes/admin.conf''\<rparr>"

definition running_status :: "string \<Rightarrow> error + IkniteCluster" where
  "running_status json = Inr ((sample_cluster Running)\<lparr>Status := zero_status\<lparr>ClState := Running,
     WorkloadsState := (WorkloadsState zero_status)\<lparr>Count := 2\<rparr>\<rparr>\<rparr>)"

definition started_machine :: world where
  "started_machine = ready_machine\<lparr>files := (files ready_machine)(StatusFile \<mapsto> File ''status'' mode644)\<rparr>"


definition sample_check_data :: checkWorkloadData where
  "sample_check_data = world.extend (calm_world Map.empty) (checkWorkloadData.fields None [] [] 0 0 0 False)"


text \<open>
  The law of a walk on a tree: it visits exactly the paths at or below the root.
\<close>

definition walk_law :: "walker \<Rightarrow> tree \<Rightarrow> bool" where
  "walk_law walk fs \<longleftrightarrow> (\<forall>d. set (walk fs d) = {p. fs p \<noteq> None \<and> (p = d \<or> below d p)})"

lemma difference_Nil: "difference a b = [] \<longleftrightarrow> set a \<subseteq> set b"
  by (auto simp: difference_def filter_empty_conv)

lemma checkFileTree_passes:
  "fst (fst (run_state (checkFileTree walk dir names) w)) \<longleftrightarrow>
     fst (run_state (FileTreeDifference walk dir names) w) = Inr ([], [])"
  by (cases "run_state (FileTreeDifference walk dir names) w")
     (auto simp: checkFileTree_def split: sum.splits prod.splits if_splits)

lemma run_FileTreeDifference:
  assumes "fs_fault w = (\<lambda>_ _. None)" and "final_name (files w) path = Some d" and "files w d \<noteq> None"
  shows "fst (run_state (FileTreeDifference walk path expected) w) =
     (let found = map (path_rel d) (filter (\<lambda>p. case files w p of Some n \<Rightarrow> \<not> node_IsDir n | None \<Rightarrow> False) (walk (files w) d))
      in Inr (difference expected found, difference found expected))"
  using assms
  by (auto simp: FileTreeDifference_def EvalSymlinks_def walk_files_def run_onErr run_fs_call Let_def)

text \<open>
  C40: the file checks say exactly what they are named for, on a file system that refuses nothing. The
  check of a file passes if and only if the path leads to a file and its content, trimmed, is the
  expected one, trimmed (any content when none is expected). The check of a file tree passes if and
  only if the directory, after its symbolic links, exists and the files below it, named relative to
  it, are the expected files and no others.
\<close>

theorem file_checks_exact:
  assumes calm: "fs_fault w = (\<lambda>_ _. None)" and walk: "walk_law walk (files w)"
  shows "(fst (fst (run_state (checkFileAndContent path expected) w)) \<longleftrightarrow>
            lookup_node (files w) path \<noteq> None \<and> lookup_node (files w) path \<noteq> Some Directory \<and>
            (expected = [] \<or> (\<exists>c. file_content w path = Some c \<and> TrimSpace c = TrimSpace expected))) \<and>
         (fst (fst (run_state (checkFileTree walk dir names) w)) \<longleftrightarrow>
            (\<exists>d. final_name (files w) dir = Some d \<and> files w d \<noteq> None \<and>
               set names = path_rel d ` {p. (p = d \<or> below d p) \<and> files w p \<noteq> None \<and> files w p \<noteq> Some Directory}))"
proof
  show "fst (fst (run_state (checkFileAndContent path expected) w)) \<longleftrightarrow>
            lookup_node (files w) path \<noteq> None \<and> lookup_node (files w) path \<noteq> Some Directory \<and>
            (expected = [] \<or> (\<exists>c. file_content w path = Some c \<and> TrimSpace c = TrimSpace expected))"
    using calm
    by (cases "lookup_node (files w) path")
       (auto simp: checkFileAndContent_def Stat_def ReadFile_def run_fs_call file_content_def split: node.splits)
  show "fst (fst (run_state (checkFileTree walk dir names) w)) \<longleftrightarrow>
            (\<exists>d. final_name (files w) dir = Some d \<and> files w d \<noteq> None \<and>
               set names = path_rel d ` {p. (p = d \<or> below d p) \<and> files w p \<noteq> None \<and> files w p \<noteq> Some Directory})"
  proof (cases "\<exists>d. final_name (files w) dir = Some d \<and> files w d \<noteq> None")
    case False
    then have "\<exists>e. fst (run_state (FileTreeDifference walk dir names) w) = Inl e"
      using calm by (auto simp: FileTreeDifference_def EvalSymlinks_def run_onErr run_fs_call split: option.splits)
    with False show ?thesis by (auto simp: checkFileTree_passes)
  next
    case True
    then obtain d where d: "final_name (files w) dir = Some d" "files w d \<noteq> None" by blast
    have vis: "{p \<in> set (walk (files w) d). case files w p of Some n \<Rightarrow> \<not> node_IsDir n | None \<Rightarrow> False} =
        {p. (p = d \<or> below d p) \<and> files w p \<noteq> None \<and> files w p \<noteq> Some Directory}"
      using walk unfolding walk_law_def by (auto split: option.splits elim: node_IsDir.elims)
    have "fst (fst (run_state (checkFileTree walk dir names) w)) \<longleftrightarrow>
        set names = path_rel d ` {p. (p = d \<or> below d p) \<and> files w p \<noteq> None \<and> files w p \<noteq> Some Directory}"
      unfolding checkFileTree_passes run_FileTreeDifference [OF calm d]
      by (simp only: Let_def difference_Nil set_map set_filter vis sum.inject prod.inject) blast
    moreover have "final_name (files w) dir = Some d' \<longleftrightarrow> d' = d" for d' using d by auto
    ultimately show ?thesis using d by simp
  qed
qed

text \<open>A machine with a directory of two files, and the walk of it.\<close>

definition pki_machine :: world where
  "pki_machine = calm_world [''/pki'' \<mapsto> Directory, ''/pki/ca.key'' \<mapsto> File ''key'' mode600, ''/pki/ca.crt'' \<mapsto> File ''crt'' mode644]"

definition pki_walk :: walker where
  "pki_walk fs d = filter (\<lambda>p. p = d \<or> below d p) [''/pki'', ''/pki/ca.key'', ''/pki/ca.crt'']"

theorem file_checks_exact_witness:
  "(fst (fst (run_state (checkFileAndContent ''/pki/ca.key'' ''key '') pki_machine)) \<longleftrightarrow>
     (\<exists>c. file_content pki_machine ''/pki/ca.key'' = Some c \<and> TrimSpace c = TrimSpace ''key '')) \<and>
   fst (fst (run_state (checkFileTree pki_walk ''/pki'' [''ca.key'', ''ca.crt'']) pki_machine))"
proof -
  have calm: "fs_fault pki_machine = (\<lambda>_ _. None)" by (simp add: pki_machine_def)
  have walk: "walk_law pki_walk (files pki_machine)"
    by (auto simp: walk_law_def pki_walk_def pki_machine_def split: if_splits)
  have l: "lookup_node (files pki_machine) ''/pki/ca.key'' = Some (File ''key'' mode600)" by code_simp
  have "fst (fst (run_state (checkFileTree pki_walk ''/pki'' [''ca.key'', ''ca.crt'']) pki_machine))" by code_simp
  then show ?thesis using file_checks_exact [OF calm walk, of "''/pki/ca.key''" "''key ''"] l by simp
qed


end
