(* ===== verification/Server.thy ===== *)
theory Server
  imports Kube_Config
begin

text \<open>
  The certificates of the status server and the server itself: \<^verbatim>\<open>pkg/pki/io.go\<close> and
  \<^verbatim>\<open>pkg/server/server.go\<close>. Keys, certificates and key pairs are values of the cryptographic
  libraries (types \<open>'key\<close>, \<open>'cert\<close> and \<open>'pair\<close>), which are parameters (\<open>pki_lib\<close>); the
  files they are kept in, with their modes, and every answer of the HTTP handlers are modelled.
  The lemmas show which files are made, that private keys are made readable by their owner only, that
  nothing that exists is overwritten, and what a client of the server sees.
\<close>

section \<open>Certificates and keys on disk\<close>

datatype 'key private_key = RSA_key 'key | ECDSA_key 'key | Other_key

datatype key_usage = ServerAuth | ClientAuth

record cert_config =
  CommonName :: string
  Organization :: "string list"
  AltDNSNames :: "string list"
  AltIPs :: "ip list"
  Usage :: key_usage

record ('cert, 'key, 'pair) pki_lib =
  ParseCertsPEM :: "string \<Rightarrow> error + 'cert list"
  ParsePrivateKeyPEM :: "string \<Rightarrow> error + 'key private_key"
  MarshalPrivateKeyToPEM :: "'key \<Rightarrow> error + string"
  EncodeCertPEM :: "'cert \<Rightarrow> string"
  NewCertAndKey :: "'cert \<Rightarrow> 'key \<Rightarrow> cert_config \<Rightarrow> error + 'cert \<times> 'key"
  X509KeyPair :: "string \<Rightarrow> string \<Rightarrow> error + 'pair"
  AppendCertsFromPEM :: "string \<Rightarrow> bool"
  CreateWithCerts :: "string \<Rightarrow> string \<Rightarrow> string \<Rightarrow> string \<Rightarrow> string \<Rightarrow> string \<Rightarrow> KConfig"

definition couldnt :: string where "couldnt = ''couldn'' @ [CHR 0x27] @ ''t''"

definition pathForCert :: "string \<Rightarrow> string \<Rightarrow> string" where
  "pathForCert pkiPath name = path_join pkiPath (name @ ''.crt'')"

definition pathForKey :: "string \<Rightarrow> string \<Rightarrow> string" where
  "pathForKey pkiPath name = path_join pkiPath (name @ ''.key'')"

definition PathsForCertAndKey :: "string \<Rightarrow> string \<Rightarrow> string \<times> string" where
  "PathsForCertAndKey pkiPath name = (pathForCert pkiPath name, pathForKey pkiPath name)"

definition writeKey :: "string \<Rightarrow> string \<Rightarrow> ('x, unit) io" where
  "writeKey keyPath data = onErr (MkdirAll (path_dir keyPath) mode755) id (\<lambda>_. WriteFile keyPath data mode600)"

definition writeCert :: "string \<Rightarrow> string \<Rightarrow> ('x, unit) io" where
  "writeCert certPath data = onErr (MkdirAll (path_dir certPath) mode755) id (\<lambda>_. WriteFile certPath data mode644)"

text \<open>A nil key or certificate is \<open>None\<close>.\<close>

definition WriteKey :: "('cert, 'key, 'pair) pki_lib \<Rightarrow> string \<Rightarrow> string \<Rightarrow> 'key option \<Rightarrow> ('x, unit) io" where
  "WriteKey l pkiPath name key = (case key of
       None \<Rightarrow> throw (Errorf ''private key cannot be nil when writing to file'')
     | Some k \<Rightarrow> (case MarshalPrivateKeyToPEM l k of
           Inl e \<Rightarrow> throw (Wrap ''unable to marshal private key to PEM'' e)
         | Inr encoded \<Rightarrow> onErr (writeKey (pathForKey pkiPath name) encoded)
             (Wrap (''unable to write private key to file '' @ pathForKey pkiPath name)) (\<lambda>_. ret ())))"

definition WriteCert :: "('cert, 'key, 'pair) pki_lib \<Rightarrow> string \<Rightarrow> string \<Rightarrow> 'cert option \<Rightarrow> ('x, unit) io" where
  "WriteCert l pkiPath name certificate = (case certificate of
       None \<Rightarrow> throw (Errorf ''certificate cannot be nil when writing to file'')
     | Some c \<Rightarrow> onErr (writeCert (pathForCert pkiPath name) (EncodeCertPEM l c))
         (Wrap (''unable to write certificate to file '' @ pathForCert pkiPath name)) (\<lambda>_. ret ()))"

definition WriteCertAndKey ::
  "('cert, 'key, 'pair) pki_lib \<Rightarrow> string \<Rightarrow> string \<Rightarrow> 'cert option \<Rightarrow> 'key option \<Rightarrow> ('x, unit) io"
where
  "WriteCertAndKey l pkiPath name certificate key =
     onErr (WriteKey l pkiPath name key) (Wrap (couldnt @ '' write key'')) (\<lambda>_.
     WriteCert l pkiPath name certificate)"

text \<open>\<^verbatim>\<open>!os.IsNotExist(err)\<close> also holds when \<^verbatim>\<open>Stat\<close> fails for another reason.\<close>

definition not_absent :: "error + 'a \<Rightarrow> bool" where
  "not_absent r = (case r of Inl e \<Rightarrow> \<not> os_IsNotExist e | Inr _ \<Rightarrow> True)"

definition CertOrKeyExist :: "string \<Rightarrow> string \<Rightarrow> ('x world_scheme, bool) state" where
  "CertOrKeyExist pkiPath name = (let (certificatePath, privateKeyPath) = PathsForCertAndKey pkiPath name in
     State_Monad.bind (Stat certificatePath) (\<lambda>c.
     State_Monad.bind (Stat privateKeyPath) (\<lambda>k.
     State_Monad.return (not_absent c \<or> not_absent k))))"

definition CertsFromFile :: "('cert, 'key, 'pair) pki_lib \<Rightarrow> string \<Rightarrow> ('x, 'cert list) io" where
  "CertsFromFile l file =
     onErr (ReadFile file) (Wrap (couldnt @ '' read the certificate file '' @ file)) (\<lambda>pemBlock.
       case ParseCertsPEM l pemBlock of
         Inl e \<Rightarrow> throw (Wrap (couldnt @ '' parse the certificate file '' @ file) e)
       | Inr certs \<Rightarrow> ret certs)"

definition PrivateKeyFromFile :: "('cert, 'key, 'pair) pki_lib \<Rightarrow> string \<Rightarrow> ('x, 'key private_key) io" where
  "PrivateKeyFromFile l file = onErr (ReadFile file) id (\<lambda>data.
       case ParsePrivateKeyPEM l data of
         Inl e \<Rightarrow> throw (Wrap (''error reading private key file '' @ file) e)
       | Inr key \<Rightarrow> ret key)"

definition TryLoadCertFromDisk :: "('cert, 'key, 'pair) pki_lib \<Rightarrow> string \<Rightarrow> string \<Rightarrow> ('x, 'cert) io" where
  "TryLoadCertFromDisk l pkiPath name =
     onErr (CertsFromFile l (pathForCert pkiPath name))
       (Wrap (couldnt @ '' load the certificate file '' @ pathForCert pkiPath name)) (\<lambda>certs.
       case certs of [] \<Rightarrow> throw (Panic ''index out of range'') | c # _ \<Rightarrow> ret c)"

definition TryLoadKeyFromDisk :: "('cert, 'key, 'pair) pki_lib \<Rightarrow> string \<Rightarrow> string \<Rightarrow> ('x, 'key) io" where
  "TryLoadKeyFromDisk l pkiPath name =
     onErr (PrivateKeyFromFile l (pathForKey pkiPath name))
       (Wrap (couldnt @ '' load the private key file '' @ pathForKey pkiPath name)) (\<lambda>privKey.
       case privKey of
         RSA_key k \<Rightarrow> ret k
       | ECDSA_key k \<Rightarrow> ret k
       | Other_key \<Rightarrow> throw (Errorf (''the private key file '' @ pathForKey pkiPath name @ '' is neither in RSA nor ECDSA format'')))"

definition TryLoadCertAndKeyFromDisk :: "('cert, 'key, 'pair) pki_lib \<Rightarrow> string \<Rightarrow> string \<Rightarrow> ('x, 'cert \<times> 'key) io" where
  "TryLoadCertAndKeyFromDisk l pkiPath name =
     onErr (TryLoadCertFromDisk l pkiPath name) (Wrap ''failed to load certificate'') (\<lambda>certificate.
     onErr (TryLoadKeyFromDisk l pkiPath name) (Wrap ''failed to load key'') (\<lambda>key.
     ret (certificate, key)))"

definition LoadX509KeyPair :: "('cert, 'key, 'pair) pki_lib \<Rightarrow> string \<Rightarrow> string \<Rightarrow> ('x, 'pair) io" where
  "LoadX509KeyPair l certFile keyFile =
     onErr (ReadFile certFile) id (\<lambda>certPEMBlock.
     onErr (ReadFile keyFile) id (\<lambda>keyPEMBlock.
     State_Monad.return (X509KeyPair l certPEMBlock keyPEMBlock)))"

section \<open>The configuration of the server\<close>

definition IkniteServerCertName :: string where "IkniteServerCertName = ''iknite-server''"
definition IkniteClientCertName :: string where "IkniteClientCertName = ''iknite-client''"
definition IkniteConfName :: string where "IkniteConfName = ''iknite''"

definition server_cert_config :: "string list \<Rightarrow> ip list \<Rightarrow> cert_config" where
  "server_cert_config dnsNames ips = \<lparr>CommonName = ''iknite-server'', Organization = [''system:iknite''],
     AltDNSNames = [''iknite'', ''localhost''] @ dnsNames, AltIPs = IPv4 127 0 0 1 # ips, Usage = ServerAuth\<rparr>"

definition client_cert_config :: cert_config where
  "client_cert_config = \<lparr>CommonName = ''iknite-client'', Organization = [''system:iknite''],
     AltDNSNames = [], AltIPs = [], Usage = ClientAuth\<rparr>"

text \<open>
  \<^verbatim>\<open>EnsureServerCertAndKey\<close> and \<^verbatim>\<open>EnsureClientCertAndKey\<close> differ in the name of the files, the
  configuration of the certificate and the word in their messages.
\<close>

definition ensure_cert_and_key ::
  "('cert, 'key, 'pair) pki_lib \<Rightarrow> string \<Rightarrow> string \<Rightarrow> cert_config \<Rightarrow> string \<Rightarrow> ('x, unit) io"
where
  "ensure_cert_and_key l certDir name config who = State_Monad.bind (CertOrKeyExist certDir name) (\<lambda>exists.
     if exists then ret ()
     else onErr (TryLoadCertAndKeyFromDisk l certDir ''ca'') (Wrap ''failed to load CA cert and key'') (\<lambda>(caCert, caKey).
       case NewCertAndKey l caCert caKey config of
         Inl e \<Rightarrow> throw (Wrap (''failed to create '' @ who @ '' cert and key'') e)
       | Inr (cert, key) \<Rightarrow> onErr (WriteCertAndKey l certDir name (Some cert) (Some key))
           (Wrap (''failed to write '' @ who @ '' cert and key'')) (\<lambda>_. ret ())))"

definition EnsureServerCertAndKey ::
  "('cert, 'key, 'pair) pki_lib \<Rightarrow> string \<Rightarrow> string list \<Rightarrow> ip list \<Rightarrow> ('x, unit) io"
where
  "EnsureServerCertAndKey l certDir dnsNames ips =
     ensure_cert_and_key l certDir IkniteServerCertName (server_cert_config dnsNames ips) ''server''"

definition EnsureClientCertAndKey :: "('cert, 'key, 'pair) pki_lib \<Rightarrow> string \<Rightarrow> ('x, unit) io" where
  "EnsureClientCertAndKey l certDir =
     ensure_cert_and_key l certDir IkniteClientCertName client_cert_config ''client''"

fun ip_IsLoopback :: "ip \<Rightarrow> bool" where
  "ip_IsLoopback (IPv4 a b c d) \<longleftrightarrow> a = 127"

definition JoinHostPort :: "string \<Rightarrow> string \<Rightarrow> string" where
  "JoinHostPort h p = (if CHR '':'' \<in> set h then ''['' @ h @ '']:'' @ p else h @ '':'' @ p)"

definition server_address :: "IkniteClusterSpec \<Rightarrow> string" where
  "server_address spec =
     (if DomainName spec \<noteq> [] then DomainName spec
      else case Ip spec of
          Some a \<Rightarrow> if \<not> ip_IsLoopback a then ip_String a else ''localhost''
        | None \<Rightarrow> ''localhost'')"

definition server_URL :: "IkniteClusterSpec \<Rightarrow> string" where
  "server_URL spec = ''https://'' @ JoinHostPort (server_address spec) (Itoa (StatusServerPort spec))"

definition EnsureIkniteConf ::
  "('cert, 'key, 'pair) pki_lib \<Rightarrow> clientcmd \<Rightarrow> string \<Rightarrow> string \<Rightarrow> IkniteClusterSpec \<Rightarrow> ('x, unit) io"
where
  "EnsureIkniteConf l cc certDir confPath spec =
     onErr (ReadFile (path_join certDir ''ca.crt'')) (Wrap ''failed to read CA cert'') (\<lambda>caCertPEM.
     onErr (ReadFile (path_join certDir (IkniteClientCertName @ ''.crt''))) (Wrap ''failed to read client cert'') (\<lambda>clientCertPEM.
     onErr (ReadFile (path_join certDir (IkniteClientCertName @ ''.key''))) (Wrap ''failed to read client key'') (\<lambda>clientKeyPEM.
     onErr (WriteToFile cc (CreateWithCerts l (server_URL spec) IkniteConfName IkniteConfName caCertPEM clientKeyPEM clientCertPEM)
              confPath) (Wrap (''failed to write iknite.conf to '' @ confPath)) (\<lambda>_. ret ()))))"

definition EnsureIkniteServerConfiguration ::
  "('cert, 'key, 'pair) pki_lib \<Rightarrow> clientcmd \<Rightarrow> string \<Rightarrow> IkniteClusterSpec \<Rightarrow> ('x, unit) io"
where
  "EnsureIkniteServerConfiguration l cc certDir spec =
     (let dnsNames = (if DomainName spec \<noteq> [] then [DomainName spec] else []);
          ips = (case Ip spec of Some a \<Rightarrow> if \<not> ip_IsLoopback a then [a] else [] | None \<Rightarrow> [])
      in onErr (EnsureServerCertAndKey l certDir dnsNames ips) (Wrap ''failed to ensure server cert'') (\<lambda>_.
         onErr (EnsureClientCertAndKey l certDir) (Wrap ''failed to ensure client cert'') (\<lambda>_.
         onErr (EnsureIkniteConf l cc certDir IkniteConfPath spec)
           (Wrap (''failed to write iknite client config to '' @ IkniteConfPath)) (\<lambda>_. ret ()))))"

section \<open>The server\<close>

text \<open>
  The server object: what \<^verbatim>\<open>NewIkniteServer\<close> puts into the TLS configuration and the address, and
  the two fields that change, the JSON text it serves (\<open>None\<close> is nil) and the mark of a shutdown.
\<close>

record 'pair IkniteServer =
  tls_Certificate :: 'pair
  tls_ClientCAs :: string
  tls_RequireAndVerifyClientCert :: bool
  tls_MinVersion :: nat
  http_Addr :: string
  clusterJSON :: "string option"
  isShutDown :: bool

record response =
  code :: nat
  ContentType :: string
  body :: string

definition http_Error :: "string \<Rightarrow> nat \<Rightarrow> response" where
  "http_Error message c = \<lparr>code = c, ContentType = ''text/plain; charset=utf-8'', body = message @ NL\<rparr>"

definition SetCluster :: "(IkniteCluster \<Rightarrow> error + string) \<Rightarrow> IkniteCluster \<Rightarrow> 'pair IkniteServer \<Rightarrow> 'pair IkniteServer" where
  "SetCluster marshal c s = (case marshal c of Inl e \<Rightarrow> s | Inr data \<Rightarrow> s\<lparr>clusterJSON := Some data\<rparr>)"

definition statusHandler :: "'pair IkniteServer \<Rightarrow> string \<Rightarrow> response" where
  "statusHandler s method =
     (if method \<noteq> ''GET'' then http_Error ''method not allowed'' 405
      else case clusterJSON s of
          None \<Rightarrow> http_Error ''status not available'' 503
        | Some data \<Rightarrow> \<lparr>code = 200, ContentType = ''application/json'', body = data\<rparr>)"

definition healthzHandler :: "'pair IkniteServer \<Rightarrow> string \<Rightarrow> response" where
  "healthzHandler s method =
     (if method \<noteq> ''GET'' then http_Error ''method not allowed'' 405
      else \<lparr>code = 200, ContentType = ''text/plain'', body = ''ok''\<rparr>)"

text \<open>\<^verbatim>\<open>ServeHTTP\<close>: the multiplexer of the standard library has two exact patterns.\<close>

definition ServeHTTP :: "'pair IkniteServer \<Rightarrow> string \<Rightarrow> string \<Rightarrow> response" where
  "ServeHTTP s method path =
     (if path = ''/status'' then statusHandler s method
      else if path = ''/healthz'' then healthzHandler s method
      else http_Error ''404 page not found'' 404)"

text \<open>\<^verbatim>\<open>Shutdown\<close> of a server, or of nil; \<open>r\<close> is the answer of \<^verbatim>\<open>http.Server.Shutdown\<close>.\<close>

definition Shutdown :: "error + unit \<Rightarrow> 'pair IkniteServer option \<Rightarrow> (error + unit) \<times> 'pair IkniteServer option" where
  "Shutdown r srv = (case srv of
       None \<Rightarrow> (Inr (), None)
     | Some s \<Rightarrow> (case r of
           Inl e \<Rightarrow> (Inl (Wrap ''failed to shutdown iknite status server'' e), Some s)
         | Inr _ \<Rightarrow> (Inr (), Some (s\<lparr>isShutDown := True\<rparr>))))"

definition NewIkniteServer ::
  "('cert, 'key, 'pair) pki_lib \<Rightarrow> string \<Rightarrow> IkniteClusterSpec \<Rightarrow> ('x, 'pair IkniteServer) io"
where
  "NewIkniteServer l certDir spec =
     onErr (ReadFile (path_join certDir ''ca.crt'')) (Wrap ''failed to read CA cert'') (\<lambda>caCertPEM.
     if \<not> AppendCertsFromPEM l caCertPEM then throw (Errorf ''failed to parse CA cert'')
     else onErr (LoadX509KeyPair l (path_join certDir (IkniteServerCertName @ ''.crt''))
                  (path_join certDir (IkniteServerCertName @ ''.key'')))
            (Wrap ''failed to load server cert and key'') (\<lambda>tlsCert.
          ret \<lparr>tls_Certificate = tlsCert, tls_ClientCAs = caCertPEM, tls_RequireAndVerifyClientCert = True,
               tls_MinVersion = 0x0303, http_Addr = JoinHostPort ''0.0.0.0'' (Itoa (StatusServerPort spec)),
               clusterJSON = None, isShutDown = False\<rparr>))"

text \<open>
  \<^verbatim>\<open>StartIkniteServer\<close>: \<open>listenErr\<close> is the error \<^verbatim>\<open>ListenAndServeTLS\<close> reports within the fifty
  milliseconds the function waits, if it does; an error that comes later is only logged.
\<close>

definition StartIkniteServer ::
  "('cert, 'key, 'pair) pki_lib \<Rightarrow> clientcmd \<Rightarrow> (IkniteCluster \<Rightarrow> error + string) \<Rightarrow>
   ('pair IkniteServer \<Rightarrow> error option) \<Rightarrow> string \<Rightarrow> IkniteCluster \<Rightarrow> ('x, 'pair IkniteServer) io"
where
  "StartIkniteServer l cc marshal listenErr certDir cluster =
     onErr (EnsureIkniteServerConfiguration l cc certDir (Spec cluster))
       (Wrap ''failed to ensure iknite server configuration'') (\<lambda>_.
     onErr (NewIkniteServer l certDir (Spec cluster)) (Wrap ''failed to create iknite server'') (\<lambda>srv.
     let srv = SetCluster marshal cluster srv in
     case listenErr srv of
       Some err \<Rightarrow> throw (Wrap ''iknite status server failed to start'' err)
     | None \<Rightarrow> ret srv))"

section \<open>What creating a directory changes\<close>

lemma resolve_add:
  "fs q = None \<Longrightarrow> (\<And>l. x \<noteq> Symlink l) \<Longrightarrow> resolve n (fs(q \<mapsto> x)) p = resolve n fs p"
proof (induction n arbitrary: p)
  case (Suc n)
  then show ?case by (cases "p = q") (auto split: option.splits node.splits)
qed simp

lemma final_name_add: "fs q = None \<Longrightarrow> (\<And>l. x \<noteq> Symlink l) \<Longrightarrow> final_name (fs(q \<mapsto> x)) p = final_name fs p"
  unfolding final_name_def by (rule resolve_add)

text \<open>The nodes a path can lead to when directories have been added to the tree.\<close>

definition or_directory :: "node option \<Rightarrow> node option \<Rightarrow> bool" where
  "or_directory n n' \<longleftrightarrow> n' = n \<or> (n = None \<and> n' = Some Directory)"

lemma lookup_make_dirs:
  "final_name (make_dirs q fs) p = final_name fs p \<and> or_directory (lookup_node fs p) (lookup_node (make_dirs q fs) p)"
proof -
  have "final_name (fold (\<lambda>q m. if m q = None then m(q \<mapsto> Directory) else m) qs fs) p = final_name fs p \<and>
      or_directory (lookup_node fs p) (lookup_node (fold (\<lambda>q m. if m q = None then m(q \<mapsto> Directory) else m) qs fs) p)" for qs
  proof (induction qs arbitrary: fs)
    case (Cons q qs)
    let ?fs = "if fs q = None then fs(q \<mapsto> Directory) else fs"
    have f: "final_name ?fs p = final_name fs p" by (simp add: final_name_add)
    then have "or_directory (lookup_node fs p) (lookup_node ?fs p)"
      by (auto simp: lookup_node_def or_directory_def split: option.splits)
    with f Cons [of ?fs] show ?case by (auto simp: or_directory_def)
  qed (simp add: or_directory_def)
  then show ?thesis by (simp add: make_dirs_def)
qed

definition only_dirs_added :: "'x world_scheme \<Rightarrow> 'x world_scheme \<Rightarrow> bool" where
  "only_dirs_added w w' \<longleftrightarrow> (\<forall>p. final_name (files w') p = final_name (files w) p \<and>
     or_directory (lookup_node (files w) p) (lookup_node (files w') p))"

lemma MkdirAll_dirs: "run_state (MkdirAll p m) w = (r, w') \<Longrightarrow> only_dirs_added w w'"
  using lookup_make_dirs
  by (fastforce simp: MkdirAll_def run_fs_call only_dirs_added_def or_directory_def split: option.splits node.splits)

lemma only_dirs_keeps: "only_dirs_added w w' \<Longrightarrow> keeps_existing w w'"
  unfolding only_dirs_added_def keeps_existing_def or_directory_def by (metis option.discI)

lemma WriteFile_created:
  assumes w: "run_state (WriteFile p d m) w = (Inr (), w')" and no: "\<And>c k. lookup_node (files w) p \<noteq> Some (File c k)"
  shows "lookup_node (files w') p = Some (File d m)" and "keeps_existing w w'"
    and "final_name (files w') q = final_name (files w) q"
    and "final_name (files w) q \<noteq> final_name (files w) p \<Longrightarrow> lookup_node (files w') q = lookup_node (files w) q"
proof -
  obtain r where r: "final_name (files w) p = Some r" "files w r = None" "files w' = (files w)(r \<mapsto> File d m)"
    using w no resolve_not_link [of 40 "files w" p]
    by (auto simp: WriteFile_def run_fs_call lookup_node_def final_name_def split: option.splits node.splits)
  show "final_name (files w') q = final_name (files w) q" by (simp add: r final_name_add)
  show "lookup_node (files w') p = Some (File d m)" using r by (simp add: lookup_after_write)
  show "keeps_existing w w'" using r by (simp add: keeps_existing_def lookup_update_missing)
  show "lookup_node (files w') q = lookup_node (files w) q" if "final_name (files w) q \<noteq> final_name (files w) p"
    using that r by (auto simp: lookup_node_def final_name_add split: option.splits)
qed

section \<open>Certificates are made once\<close>

lemma write_created:
  assumes "run_state (onErr (MkdirAll (path_dir p) m') id (\<lambda>_. WriteFile p d m)) w = (Inr (), w')"
    and "\<And>c k. lookup_node (files w) p \<noteq> Some (File c k)"
  shows "lookup_node (files w') p = Some (File d m)" and "keeps_existing w w'"
    and "final_name (files w') q = final_name (files w) q"
    and "final_name (files w) q \<noteq> final_name (files w) p \<Longrightarrow>
           or_directory (lookup_node (files w) q) (lookup_node (files w') q)"
proof -
  from assms(1) obtain v where m: "run_state (MkdirAll (path_dir p) m') w = (Inr (), v)"
    and wr: "run_state (WriteFile p d m) v = (Inr (), w')"
    by (auto elim!: onErr_Inr_elim)
  have d: "only_dirs_added w v" using m by (rule MkdirAll_dirs)
  then have no: "lookup_node (files v) p \<noteq> Some (File c k)" for c k
    using assms(2) unfolding only_dirs_added_def or_directory_def by (metis node.distinct(1) option.inject)
  note c = WriteFile_created [OF wr no]
  show "lookup_node (files w') p = Some (File d m)" by (rule c)
  show "keeps_existing w w'" using only_dirs_keeps [OF d] c(2) by (rule ke.R_trans)
  show "final_name (files w') q = final_name (files w) q" using c(3) d by (simp add: only_dirs_added_def)
  show "or_directory (lookup_node (files w) q) (lookup_node (files w') q)"
    if "final_name (files w) q \<noteq> final_name (files w) p"
    using c(4) [of q] d that by (simp add: only_dirs_added_def)
qed

lemma run_CertOrKeyExist:
  assumes "fs_fault w = (\<lambda>_ _. None)"
  shows "run_state (CertOrKeyExist pkiPath name) w =
     (path_exists w (pathForCert pkiPath name) \<or> path_exists w (pathForKey pkiPath name), tick (tick w))"
  using assms
  by (auto simp: CertOrKeyExist_def PathsForCertAndKey_def run_Stat not_absent_def path_exists_def os_IsNotExist_def
      split: option.splits)

lemma load_frames:
  "state_io_rel same_files (TryLoadCertAndKeyFromDisk l pkiPath name)"
  unfolding TryLoadCertAndKeyFromDisk_def TryLoadCertFromDisk_def TryLoadKeyFromDisk_def CertsFromFile_def
    PrivateKeyFromFile_def
  by (intro sf.frame_onErr frame_intros) (auto intro!: sf.frame_rules split: sum.splits list.splits private_key.splits)

lemma WriteCertAndKey_made:
  assumes run: "run_state (WriteCertAndKey l pkiPath name (Some cert) (Some key)) w = (Inr (), w')"
    and crt: "\<not> path_exists w (pathForCert pkiPath name)" and "\<not> path_exists w (pathForKey pkiPath name)"
    and ne: "final_name (files w) (pathForCert pkiPath name) \<noteq> final_name (files w) (pathForKey pkiPath name)"
  obtains pem where "MarshalPrivateKeyToPEM l key = Inr pem"
    and "lookup_node (files w') (pathForKey pkiPath name) = Some (File pem mode600)"
    and "lookup_node (files w') (pathForCert pkiPath name) = Some (File (EncodeCertPEM l cert) mode644)"
    and "keeps_existing w w'"
proof -
  let ?c = "pathForCert pkiPath name" and ?k = "pathForKey pkiPath name"
  from run obtain pem v where pem: "MarshalPrivateKeyToPEM l key = Inr pem"
    and k: "run_state (writeKey ?k pem) w = (Inr (), v)"
    and c: "run_state (writeCert ?c (EncodeCertPEM l cert)) v = (Inr (), w')"
    unfolding WriteCertAndKey_def WriteKey_def WriteCert_def
    by (auto elim!: onErr_Inr_elim split: sum.splits)
  have nk: "lookup_node (files w) ?k \<noteq> Some (File a b)" for a b using assms(3) by (simp add: path_exists_def)
  note kw = write_created [OF k [unfolded writeKey_def] nk]
  have "or_directory (lookup_node (files w) ?c) (lookup_node (files v) ?c)" using kw(4) ne by blast
  then have nc: "lookup_node (files v) ?c \<noteq> Some (File a b)" for a b using crt by (auto simp: or_directory_def path_exists_def)
  note cw = write_created [OF c [unfolded writeCert_def] nc]
  have "lookup_node (files w') ?k = Some (File pem mode600)" using cw(2) kw(1) by (simp add: keeps_existing_def)
  with that pem cw(1) ke.R_trans [OF kw(2) cw(2)] show ?thesis by blast
qed

lemma ensure_cert_and_key_made:
  assumes run: "run_state (ensure_cert_and_key l certDir name config who) w = (Inr (), w')"
    and calm: "fs_fault w = (\<lambda>_ _. None)"
    and ne: "final_name (files w) (pathForCert certDir name) \<noteq> final_name (files w) (pathForKey certDir name)"
  shows "keeps_existing w w' \<and>
    (if path_exists w (pathForCert certDir name) \<or> path_exists w (pathForKey certDir name) then files w' = files w
     else \<exists>caCert caKey cert key pem.
       NewCertAndKey l caCert caKey config = Inr (cert, key) \<and> MarshalPrivateKeyToPEM l key = Inr pem \<and>
       lookup_node (files w') (pathForKey certDir name) = Some (File pem mode600) \<and>
       lookup_node (files w') (pathForCert certDir name) = Some (File (EncodeCertPEM l cert) mode644))"
proof (cases "path_exists w (pathForCert certDir name) \<or> path_exists w (pathForKey certDir name)")
  case True
  then have "w' = tick (tick w)" using run by (simp add: ensure_cert_and_key_def run_CertOrKeyExist [OF calm])
  with True show ?thesis by (simp add: keeps_existing_def)
next
  case False
  then obtain caCert caKey cert key v where
      ld: "run_state (TryLoadCertAndKeyFromDisk l certDir ''ca'') (tick (tick w)) = (Inr (caCert, caKey), v)"
    and new: "NewCertAndKey l caCert caKey config = Inr (cert, key)"
    and wr: "run_state (WriteCertAndKey l certDir name (Some cert) (Some key)) v = (Inr (), w')"
    using run unfolding ensure_cert_and_key_def
    by (auto simp: run_CertOrKeyExist [OF calm] elim!: onErr_Inr_elim split: sum.splits prod.splits)
  have v: "files v = files w" using state_io_relD [OF load_frames ld] by (simp add: same_files_def)
  have "\<not> path_exists v (pathForCert certDir name)" "\<not> path_exists v (pathForKey certDir name)"
    "final_name (files v) (pathForCert certDir name) \<noteq> final_name (files v) (pathForKey certDir name)"
    using False v ne by (simp_all add: path_exists_def)
  from WriteCertAndKey_made [OF wr this] obtain pem where
      pem: "MarshalPrivateKeyToPEM l key = Inr pem"
      "lookup_node (files w') (pathForKey certDir name) = Some (File pem mode600)"
      "lookup_node (files w') (pathForCert certDir name) = Some (File (EncodeCertPEM l cert) mode644)"
    and k: "keeps_existing v w'" .
  have "keeps_existing w w'" using k v by (simp add: keeps_existing_def)
  with False new pem show ?thesis by auto
qed

section \<open>What clients see\<close>

text \<open>The JSON text of the last cluster that could be encoded.\<close>

fun latest_json :: "(IkniteCluster \<Rightarrow> error + string) \<Rightarrow> IkniteCluster list \<Rightarrow> string option \<Rightarrow> string option" where
  "latest_json marshal [] j = j"
| "latest_json marshal (c # cs) j = latest_json marshal cs (case marshal c of Inl e \<Rightarrow> j | Inr d \<Rightarrow> Some d)"

lemma SetCluster_fold:
  "clusterJSON (fold (SetCluster marshal) cs s) = latest_json marshal cs (clusterJSON s)"
  by (induction cs arbitrary: s) (auto simp: SetCluster_def split: sum.splits)

section \<open>Properties\<close>

text \<open>
  C24: the certificate of the status server. When both of its files are missing, they are made from the
  certificate authority with the names and addresses of the server and for server authentication, and
  the private key is written with mode 0600; when either exists, nothing is changed; and in both cases
  every file that existed is as it was.
\<close>

theorem server_certificate_made:
  assumes "run_state (EnsureServerCertAndKey l certDir dnsNames ips) w = (Inr (), w')"
    and "fs_fault w = (\<lambda>_ _. None)"
    and "final_name (files w) (pathForCert certDir IkniteServerCertName) \<noteq>
         final_name (files w) (pathForKey certDir IkniteServerCertName)"
  shows "keeps_existing w w' \<and>
    (if path_exists w (pathForCert certDir IkniteServerCertName) \<or> path_exists w (pathForKey certDir IkniteServerCertName)
     then files w' = files w
     else \<exists>caCert caKey cert key pem.
       NewCertAndKey l caCert caKey \<lparr>CommonName = ''iknite-server'', Organization = [''system:iknite''],
         AltDNSNames = [''iknite'', ''localhost''] @ dnsNames, AltIPs = IPv4 127 0 0 1 # ips, Usage = ServerAuth\<rparr> = Inr (cert, key) \<and>
       MarshalPrivateKeyToPEM l key = Inr pem \<and>
       lookup_node (files w') (pathForKey certDir IkniteServerCertName) = Some (File pem mode600) \<and>
       lookup_node (files w') (pathForCert certDir IkniteServerCertName) = Some (File (EncodeCertPEM l cert) mode644))"
  using ensure_cert_and_key_made [OF assms(1) [unfolded EnsureServerCertAndKey_def] assms(2,3)]
  unfolding server_cert_config_def .

text \<open>A library whose keys and certificates are their own encodings, and a directory with its authority.\<close>

definition plain_pki :: "(string, string, string) pki_lib" where
  "plain_pki = \<lparr>ParseCertsPEM = (\<lambda>s. Inr [s]), ParsePrivateKeyPEM = (\<lambda>s. Inr (RSA_key s)),
     MarshalPrivateKeyToPEM = Inr, EncodeCertPEM = id,
     NewCertAndKey = (\<lambda>c k cfg. Inr (c @ CommonName cfg, k @ CommonName cfg)),
     X509KeyPair = (\<lambda>c k. Inr (c @ k)), AppendCertsFromPEM = (\<lambda>_. True),
     CreateWithCerts = (\<lambda>u n us ca k c. \<lparr>AuthInfos = [], Clusters = [], Contexts = [], CurrentContext = n\<rparr>)\<rparr>"

definition authority_world :: world where
  "authority_world = calm_world [''/pki'' \<mapsto> Directory, ''/pki/ca.crt'' \<mapsto> File ''C'' mode644, ''/pki/ca.key'' \<mapsto> File ''K'' mode600]"

theorem server_certificate_made_witness:
  "lookup_node (files (snd (run_state (EnsureServerCertAndKey plain_pki ''/pki'' [] []) authority_world))) ''/pki/iknite-server.key''
     = Some (File ''Kiknite-server'' mode600) \<and>
   keeps_existing authority_world (snd (run_state (EnsureServerCertAndKey plain_pki ''/pki'' [] []) authority_world))"
proof -
  let ?run = "run_state (EnsureServerCertAndKey plain_pki ''/pki'' [] []) authority_world"
  have "fst ?run = Inr ()" by code_simp
  then have run: "?run = (Inr (), snd ?run)" by (metis prod.collapse)
  have calm: "fs_fault authority_world = (\<lambda>_ _. None)" by (simp add: authority_world_def)
  have ne: "final_name (files authority_world) (pathForCert ''/pki'' IkniteServerCertName) \<noteq>
      final_name (files authority_world) (pathForKey ''/pki'' IkniteServerCertName)" by code_simp
  have "lookup_node (files (snd ?run)) ''/pki/iknite-server.key'' = Some (File ''Kiknite-server'' mode600)" by code_simp
  then show ?thesis using server_certificate_made [OF run calm ne] by blast
qed

text \<open>
  C36: half a certificate is never repaired. When the certificate of the server exists and its key does
  not (a write that failed half-way leaves the key without the certificate, a clean-up the reverse),
  ensuring the certificate succeeds and makes nothing, and building the server fails; the same with
  the two exchanged.
\<close>

theorem half_certificate_stuck:
  assumes calm: "fs_fault w = (\<lambda>_ _. None)"
    and half: "path_exists w (pathForCert certDir IkniteServerCertName) \<noteq> path_exists w (pathForKey certDir IkniteServerCertName)"
  shows "\<exists>w'. run_state (EnsureServerCertAndKey l certDir dnsNames ips) w = (Inr (), w') \<and> files w' = files w \<and>
           (\<exists>e. fst (run_state (NewIkniteServer l certDir spec) w') = Inl e)"
proof -
  let ?w' = "tick (tick w)"
  have run: "run_state (EnsureServerCertAndKey l certDir dnsNames ips) w = (Inr (), ?w')"
    using half by (auto simp: EnsureServerCertAndKey_def ensure_cert_and_key_def run_CertOrKeyExist [OF calm])
  have pair: "\<exists>e. fst (run_state (LoadX509KeyPair l (path_join certDir (IkniteServerCertName @ ''.crt''))
      (path_join certDir (IkniteServerCertName @ ''.key''))) (tick ?w')) = Inl e"
    using half calm
    by (auto simp: LoadX509KeyPair_def run_onErr run_ReadFile path_exists_def pathForCert_def pathForKey_def
        split: option.splits node.splits)
  obtain r where r: "run_state (ReadFile (path_join certDir ''ca.crt'')) ?w' = (r, tick ?w')"
    by (simp add: run_ReadFile)
  have "\<exists>e. fst (run_state (NewIkniteServer l certDir spec) ?w') = Inl e"
  proof (cases r)
    case (Inr pem)
    then show ?thesis using r pair by (auto simp: NewIkniteServer_def run_onErr split: prod.splits)
  qed (use r in \<open>simp add: NewIkniteServer_def run_onErr\<close>)
  with run show ?thesis by auto
qed

text \<open>The directory of an authority with the certificate of the server and without its key.\<close>

definition half_world :: world where
  "half_world = authority_world\<lparr>files := (files authority_world)(''/pki/iknite-server.crt'' \<mapsto> File ''S'' mode644)\<rparr>"

theorem half_certificate_stuck_witness:
  "\<exists>w'. run_state (EnsureServerCertAndKey plain_pki ''/pki'' [] []) half_world = (Inr (), w') \<and> files w' = files half_world \<and>
     (\<exists>e. fst (run_state (NewIkniteServer plain_pki ''/pki'' zero_spec) w') = Inl e)"
proof (rule half_certificate_stuck)
  show "fs_fault half_world = (\<lambda>_ _. None)" by (simp add: half_world_def authority_world_def)
  show "path_exists half_world (pathForCert ''/pki'' IkniteServerCertName) \<noteq>
      path_exists half_world (pathForKey ''/pki'' IkniteServerCertName)" by code_simp
qed


definition plain_clientcmd :: clientcmd where
  "plain_clientcmd = \<lparr>cc_Load = (\<lambda>_. Inl ErrNotFound), cc_Write = (\<lambda>c. Inr (CurrentContext c))\<rparr>"

definition two_states :: "IkniteCluster \<Rightarrow> error + string" where
  "two_states c = (if ClState (Status c) = Running then Inr ''running'' else Inl (ErrOther ''encoding''))"

definition running_cluster :: IkniteCluster where
  "running_cluster = \<lparr>Kind = [], APIVersion = [], Spec = zero_spec, Status = zero_status\<lparr>ClState := Running\<rparr>\<rparr>"



end
