(* ===== verification/Kubewait.thy ===== *)
theory Kubewait
  imports Checkers Server
begin

text \<open>
  The command \<^verbatim>\<open>kubewait\<close> (\<^verbatim>\<open>pkg/kubewait\<close>): it waits until the resources of some namespaces are ready
  and have been so for a settle period, then runs a bootstrap script. The object that waits for one
  namespace (\<^verbatim>\<open>resourceWaiter\<close>) is changed by several goroutines: the observer of the status poller,
  the watch that looks for new and deleted resources, the timer of the settle period. Each takes the
  lock for every change, so a run is a sequence of their actions (\<open>waiter_label\<close>), among them the passing
  of time. A restart of the polling is one action although it takes the lock several times: only an
  event of the old poll can come in between, and it has the same effect right after the restart. A
  timer that is stopped has not fired. The lemmas show what has happened when a namespace is reported
  ready, and that the bootstrap script runs only then.
\<close>

section \<open>The waiter of a namespace\<close>

type_synonym obj = "string \<times> string \<times> string"

text \<open>
  \<open>settleTimer\<close> is the time the timer runs out and whether it is still pending; a timer that has fired
  stays in the field. A poll is known by its number; \<open>endChannel\<close> holds at most one report, \<open>Some None\<close>
  for success.
\<close>

record resourceWaiter =
  settleTimer :: "(nat \<times> bool) option"
  pollCancel :: "nat option"
  watchDatasetCancel :: bool
  endChannel :: "error option option"
  currentDataSet :: "obj list"
  pollCount :: nat
  now :: nat

definition newResourceWaiter :: resourceWaiter where
  "newResourceWaiter = \<lparr>settleTimer = None, pollCancel = None, watchDatasetCancel = False, endChannel = None,
     currentDataSet = [], pollCount = 0, now = 0\<rparr>"

definition StartSettleTimer :: "nat \<Rightarrow> resourceWaiter \<Rightarrow> resourceWaiter" where
  "StartSettleTimer period w =
     (if settleTimer w \<noteq> None then w else w\<lparr>settleTimer := Some (now w + period, True)\<rparr>)"

definition StopSettleTimer :: "resourceWaiter \<Rightarrow> resourceWaiter" where
  "StopSettleTimer w = w\<lparr>settleTimer := None\<rparr>"

definition hasSettleTimer :: "resourceWaiter \<Rightarrow> bool" where
  "hasSettleTimer w \<longleftrightarrow> settleTimer w \<noteq> None"

definition stopWatchingDataSetChanges :: "resourceWaiter \<Rightarrow> resourceWaiter" where
  "stopWatchingDataSetChanges w = w\<lparr>watchDatasetCancel := False\<rparr>"

text \<open>The channel has room for one report; a second one is dropped.\<close>

definition reportDone :: "error option \<Rightarrow> resourceWaiter \<Rightarrow> resourceWaiter" where
  "reportDone err w = (let w = stopWatchingDataSetChanges w in
     if endChannel w = None then w\<lparr>endChannel := Some err\<rparr> else w)"

definition stopPolling :: "resourceWaiter \<Rightarrow> resourceWaiter" where
  "stopPolling w = w\<lparr>pollCancel := None\<rparr>"

definition setCurrentDataSet :: "obj list \<Rightarrow> resourceWaiter \<Rightarrow> resourceWaiter" where
  "setCurrentDataSet ds w = w\<lparr>currentDataSet := ds\<rparr>"

definition startPolling :: "obj list \<Rightarrow> resourceWaiter \<Rightarrow> resourceWaiter" where
  "startPolling ds w = w\<lparr>pollCancel := Some (pollCount w), pollCount := Suc (pollCount w)\<rparr>"

definition restartPolling :: "nat \<Rightarrow> obj list \<Rightarrow> resourceWaiter \<Rightarrow> resourceWaiter" where
  "restartPolling period newDataSet w =
     (let w = setCurrentDataSet newDataSet (StopSettleTimer (stopPolling w)) in
      if newDataSet = [] then StartSettleTimer period w else startPolling newDataSet w)"

text \<open>
  \<^verbatim>\<open>processEvent\<close>: \<open>allCurrent\<close> says whether the library aggregates the statuses of the collector of the
  poll to \<^verbatim>\<open>Current\<close>.
\<close>

definition processEvent :: "nat \<Rightarrow> bool \<Rightarrow> resourceWaiter \<Rightarrow> resourceWaiter" where
  "processEvent period allCurrent w =
     (if allCurrent \<and> \<not> hasSettleTimer w then StartSettleTimer period w
      else if \<not> allCurrent \<and> hasSettleTimer w then StopSettleTimer w
      else w)"

text \<open>One turn of the loop of \<^verbatim>\<open>watchDataSetChanges\<close>, on what \<^verbatim>\<open>refreshDataSet\<close> returned.\<close>

definition watch_turn :: "nat \<Rightarrow> error + obj list \<Rightarrow> resourceWaiter \<Rightarrow> resourceWaiter" where
  "watch_turn period r w = (case r of
       Inl err \<Rightarrow> reportDone (Some err) w
     | Inr newDataSet \<Rightarrow>
         if set newDataSet = set (currentDataSet w) then w else restartPolling period newDataSet w)"

definition waiter_Start :: "nat \<Rightarrow> obj list \<Rightarrow> resourceWaiter \<Rightarrow> resourceWaiter" where
  "waiter_Start period ds w = (restartPolling period ds w)\<lparr>watchDatasetCancel := True\<rparr>"

section \<open>Runs of a waiter\<close>

text \<open>
  The actions, with the error of a poll as one of them. An event may come from a poll that has been
  cancelled, when its goroutine was about to look at it.
\<close>

datatype waiter_label =
    Pass nat
  | Observed nat bool
  | TimerFires
  | is_Refreshed: Refreshed "error + obj list"
  | PollFailed error

fun waiter_act :: "nat \<Rightarrow> waiter_label \<Rightarrow> resourceWaiter \<Rightarrow> resourceWaiter option" where
  "waiter_act period (Pass n) w = Some (w\<lparr>now := now w + n\<rparr>)"
| "waiter_act period (Observed i ok) w = (if i < pollCount w then Some (processEvent period ok w) else None)"
| "waiter_act period TimerFires w = (case settleTimer w of
     Some (t, True) \<Rightarrow> if t \<le> now w then Some (reportDone None (w\<lparr>settleTimer := Some (t, False)\<rparr>)) else None
   | _ \<Rightarrow> None)"
| "waiter_act period (Refreshed r) w = (if watchDatasetCancel w then Some (watch_turn period r w) else None)"
| "waiter_act period (PollFailed e) w = (if pollCount w > 0 then Some (reportDone (Some e) w) else None)"

text \<open>A run with the states it goes through: the labels and the waiter before each.\<close>

fun waiter_run :: "nat \<Rightarrow> waiter_label list \<Rightarrow> resourceWaiter \<Rightarrow> resourceWaiter option" where
  "waiter_run period [] w = Some w"
| "waiter_run period (l # ls) w = (case waiter_act period l w of None \<Rightarrow> None | Some w' \<Rightarrow> waiter_run period ls w')"

lemma waiter_run_append:
  "waiter_run period (ls @ ms) w = (case waiter_run period ls w of None \<Rightarrow> None | Some w' \<Rightarrow> waiter_run period ms w')"
  by (induction ls arbitrary: w) (auto split: option.splits)

fun elapsed :: "waiter_label list \<Rightarrow> nat" where
  "elapsed [] = 0"
| "elapsed (Pass n # ls) = n + elapsed ls"
| "elapsed (l # ls) = elapsed ls"

lemma elapsed_append [simp]: "elapsed (ls @ ms) = elapsed ls + elapsed ms"
  by (induction ls rule: elapsed.induct) auto

text \<open>Labels that keep a settle period going in a state: no event says that a resource is not ready, and the resources do not change.\<close>

fun calm_label :: "resourceWaiter \<Rightarrow> waiter_label \<Rightarrow> bool" where
  "calm_label w (Observed i ok) = ok"
| "calm_label w (Refreshed (Inr ds)) = (set ds = set (currentDataSet w))"
| "calm_label w _ = True"

fun calm_run :: "nat \<Rightarrow> waiter_label list \<Rightarrow> resourceWaiter \<Rightarrow> bool" where
  "calm_run period [] w = True"
| "calm_run period (l # ls) w = (calm_label w l \<and>
     (case waiter_act period l w of None \<Rightarrow> False | Some w' \<Rightarrow> calm_run period ls w'))"

lemma calm_run_snoc:
  "waiter_run period ls w = Some w' \<Longrightarrow> calm_run period ls w \<Longrightarrow> calm_label w' l \<Longrightarrow> waiter_act period l w' \<noteq> None \<Longrightarrow>
   calm_run period (ls @ [l]) w"
  by (induction ls arbitrary: w) (auto split: option.splits)

section \<open>What a report means\<close>

definition starting :: "waiter_label \<Rightarrow> bool" where
  "starting l \<longleftrightarrow> (\<exists>i. l = Observed i True) \<or> l = Refreshed (Inr [])"

lemmas waiter_defs =
  StartSettleTimer_def StopSettleTimer_def hasSettleTimer_def stopWatchingDataSetChanges_def reportDone_def
  stopPolling_def setCurrentDataSet_def startPolling_def restartPolling_def processEvent_def watch_turn_def Let_def

lemma act_timer:
  assumes "waiter_act period l w = Some w'" and "settleTimer w' = Some (d, b)"
  shows "calm_label w l \<and> (\<exists>b'. settleTimer w = Some (d, b')) \<or> starting l \<and> d = now w' + period"
  using assms
  by (cases "(period, l, w)" rule: waiter_act.cases)
     (auto simp: waiter_defs starting_def split: if_splits sum.splits option.splits bool.splits prod.splits)

lemma act_end:
  assumes "waiter_act period l w = Some w'" and "endChannel w' = Some None"
  shows "endChannel w = Some None \<or> l = TimerFires \<and> (\<exists>d. settleTimer w = Some (d, True) \<and> d \<le> now w)"
  using assms
  by (cases "(period, l, w)" rule: waiter_act.cases)
     (auto simp: waiter_defs split: if_splits sum.splits option.splits bool.splits prod.splits)

lemma act_now: "waiter_act period l w = Some w' \<Longrightarrow> now w' = now w + elapsed [l]"
  by (cases "(period, l, w)" rule: waiter_act.cases)
     (auto simp: waiter_defs split: if_splits sum.splits option.splits bool.splits prod.splits)

lemma run_now: "waiter_run period ls w = Some w' \<Longrightarrow> now w' = now w + elapsed ls"
proof (induction ls arbitrary: w)
  case (Cons l ls)
  then obtain v where "waiter_act period l w = Some v" "waiter_run period ls v = Some w'"
    by (auto split: option.splits)
  with Cons.IH act_now show ?case using elapsed_append [of "[l]" ls] by fastforce
qed simp

text \<open>
  \<open>settling\<close>: the run \<open>ls\<close> from \<open>w0\<close> ends with a calm part \<open>mid\<close> before which a settle period began, at
  the end of \<open>pre\<close>: with an event that says that every resource is ready, or because there was no
  resource.
\<close>

definition settling ::
  "nat \<Rightarrow> resourceWaiter \<Rightarrow> waiter_label list \<Rightarrow> waiter_label list \<Rightarrow> waiter_label list \<Rightarrow> resourceWaiter \<Rightarrow> bool"
where
  "settling period w0 ls pre mid v \<longleftrightarrow> ls = pre @ mid \<and> waiter_run period pre w0 = Some v \<and>
     (if pre = [] then currentDataSet w0 = [] else starting (last pre)) \<and> calm_run period mid v"

lemma timer_settling:
  assumes "waiter_run period ls w0 = Some w" and "settleTimer w = Some (d, b)"
    and "\<And>d b. settleTimer w0 = Some (d, b) \<Longrightarrow> currentDataSet w0 = [] \<and> d = now w0 + period"
  obtains pre mid v where "settling period w0 ls pre mid v" and "d = now v + period"
  using assms(1,2)
proof (induction ls arbitrary: w b thesis rule: rev_induct)
  case Nil
  then have "settling period w0 [] [] [] w0" "d = now w0 + period" using assms(3) by (auto simp: settling_def)
  then show ?case by (rule Nil.prems(1))
next
  case (snoc l ls)
  then obtain u where u: "waiter_run period ls w0 = Some u" "waiter_act period l u = Some w"
    by (auto simp: waiter_run_append split: option.splits)
  consider (calm) b' where "calm_label u l" "settleTimer u = Some (d, b')" | (start) "starting l" "d = now w + period"
    using act_timer [OF u(2) snoc.prems(3)] by blast
  then show ?case
  proof cases
    case calm
    from snoc.IH [OF _ u(1) calm(2)] obtain pre mid v where s: "settling period w0 ls pre mid v" "d = now v + period" .
    then have "waiter_run period mid v = Some u" using u(1) by (auto simp: settling_def waiter_run_append)
    then have "settling period w0 (ls @ [l]) pre (mid @ [l]) v"
      using s calm(1) u(2) by (simp add: settling_def calm_run_snoc)
    then show ?thesis using snoc.prems(1) s(2) by blast
  next
    case start
    then have "settling period w0 (ls @ [l]) (ls @ [l]) [] w" using snoc.prems(2) by (simp add: settling_def)
    then show ?thesis using snoc.prems(1) start(2) by blast
  qed
qed

lemma ready_settled:
  assumes "waiter_run period ls w0 = Some w" and "endChannel w = Some None" and "endChannel w0 = None"
    and "\<And>d b. settleTimer w0 = Some (d, b) \<Longrightarrow> currentDataSet w0 = [] \<and> d = now w0 + period"
  shows "\<exists>pre mid post v. ls = pre @ mid @ TimerFires # post \<and> settling period w0 (pre @ mid) pre mid v \<and>
           elapsed mid \<ge> period"
  using assms(1,2)
proof (induction ls arbitrary: w rule: rev_induct)
  case Nil
  then show ?case using assms(3) by simp
next
  case (snoc l ls)
  then obtain u where u: "waiter_run period ls w0 = Some u" "waiter_act period l u = Some w"
    by (auto simp: waiter_run_append split: option.splits)
  consider (before) "endChannel u = Some None" | (fires) d where "l = TimerFires" "settleTimer u = Some (d, True)" "d \<le> now u"
    using act_end [OF u(2) snoc.prems(2)] by blast
  then show ?case
  proof cases
    case before
    from snoc.IH [OF u(1) before] obtain pre mid post v where
      "ls = pre @ mid @ TimerFires # post" "settling period w0 (pre @ mid) pre mid v" "elapsed mid \<ge> period" by blast
    then show ?thesis by (metis append.assoc append_Cons)
  next
    case fires
    obtain pre mid v where s: "settling period w0 ls pre mid v" "d = now v + period"
      using timer_settling [OF u(1) fires(2) assms(4)] .
    then have "ls = pre @ mid" "waiter_run period mid v = Some u" using u(1) by (auto simp: settling_def waiter_run_append)
    moreover from this run_now [of period mid v u] have "elapsed mid \<ge> period" using s(2) fires(3) by simp
    ultimately show ?thesis using s(1) fires(1) by force
  qed
qed

section \<open>The client\<close>

record rest_config =
  rc_Host :: string
  rc_CAData :: "string option"
  rc_BearerToken :: string
  rc_BearerTokenFile :: string

definition tokenFile :: string where "tokenFile = ''/var/run/secrets/kubernetes.io/serviceaccount/token''"
definition rootCAFile :: string where "rootCAFile = ''/var/run/secrets/kubernetes.io/serviceaccount/ca.crt''"

text \<open>
  \<open>getenv\<close> is the environment of the process, empty strings for variables that are not set;
  \<open>parse_pool\<close> says whether the certificates of a PEM text can be read.
\<close>

definition InClusterConfig :: "(string \<Rightarrow> string) \<Rightarrow> (string \<Rightarrow> bool) \<Rightarrow> ('x, rest_config) io" where
  "InClusterConfig getenv parse_pool =
     (let svcHost = getenv ''KUBERNETES_SERVICE_HOST''; port = getenv ''KUBERNETES_SERVICE_PORT'' in
      if svcHost = [] \<or> port = [] then throw (ErrOther ''unable to load in-cluster configuration'')
      else onErr (ReadFile tokenFile) (Wrap (''while reading token file '' @ tokenFile)) (\<lambda>token.
        State_Monad.bind (ReadFile rootCAFile) (\<lambda>r.
        ret \<lparr>rc_Host = ''https://'' @ JoinHostPort svcHost port,
             rc_CAData = (case r of Inl err \<Rightarrow> None | Inr pemBlock \<Rightarrow> if parse_pool pemBlock then Some pemBlock else None),
             rc_BearerToken = token, rc_BearerTokenFile = tokenFile\<rparr>)))"

datatype 'c kube_client = FromRestConfig rest_config | FromClientConfig 'c

text \<open>\<open>precedence\<close> is the first file of the loading rules of the library.\<close>

definition NewClientFromKubeconfig ::
  "(string \<Rightarrow> string) \<Rightarrow> (string \<Rightarrow> bool) \<Rightarrow> ('x world_scheme, 'c, 'p, 'o) kube_tools \<Rightarrow> string \<Rightarrow> string \<Rightarrow> ('x, 'c kube_client) io"
where
  "NewClientFromKubeconfig getenv parse_pool k precedence cfgPath =
     State_Monad.bind (InClusterConfig getenv parse_pool) (\<lambda>r. case r of
       Inr restConfig \<Rightarrow> ret (FromRestConfig restConfig)
     | Inl err \<Rightarrow>
         if cfgPath \<noteq> [] then onErr (NewClientFromFile k cfgPath) id (\<lambda>c. ret (FromClientConfig c))
         else onErr (NewClientFromFile k precedence) id (\<lambda>c. ret (FromClientConfig c)))"

section \<open>Waiting for all namespaces\<close>

record ResourcesOptions =
  Kubeconfig :: string
  ResourceTypes :: "string list"
  AllNamespaces :: bool
  ro_Timeout :: nat
  StatusUpdateInterval :: nat
  ResourcesUpdateInterval :: nat
  SettlePeriod :: nat
  NamespaceSettlePeriod :: nat

definition defaultResourceTypes :: "string list" where
  "defaultResourceTypes = [''deployments'', ''statefulsets'', ''daemonsets'', ''jobs'', ''cronjobs'', ''applications'']"

text \<open>Durations in seconds. The types are set by the default of their flag.\<close>

definition NewResourcesOptions :: ResourcesOptions where
  "NewResourcesOptions = \<lparr>Kubeconfig = [], ResourceTypes = [], AllNamespaces = False, ro_Timeout = 600,
     StatusUpdateInterval = 4, ResourcesUpdateInterval = 2, SettlePeriod = 10, NamespaceSettlePeriod = 20\<rparr>"

definition currentNamespaceFile :: string where
  "currentNamespaceFile = ''/var/run/secrets/kubernetes.io/serviceaccount/namespace''"

text \<open>
  What the wait asks of the cluster: the access to it for the resource types, a client set, the names
  of the namespaces (\<^verbatim>\<open>None\<close> while the API server does not answer), and the creation time of a namespace.
\<close>

record ('w, 'c, 'o) wait_tools =
  wt_access :: "'c \<Rightarrow> ('w, 'o) cluster_access"
  wt_ClientSet :: "'c \<Rightarrow> error + unit"
  NamespacesList :: "'c \<Rightarrow> ('w, error + string list) state"
  NamespaceGet :: "'c \<Rightarrow> string \<Rightarrow> ('w, error + nat) state"
  list_poller :: "('w \<times> string list) poller"
  get_poller :: "('w \<times> nat) poller"

definition list_condition :: "('w, error + string list) state \<Rightarrow> ('w \<times> string list) condition" where
  "list_condition m = State (\<lambda>(w, names). case run_state m w of
       (Inl e, w') \<Rightarrow> ((False, None), (w', names))
     | (Inr ns, w') \<Rightarrow> ((True, None), (w', ns)))"

definition listNamespaces :: "('w, 'c, 'o) wait_tools \<Rightarrow> 'c \<Rightarrow> nat \<Rightarrow> ('w, error + string list) state" where
  "listNamespaces t c interval = State (\<lambda>w.
     case run_state (list_poller t None (int interval) True (list_condition (NamespacesList t c))) (w, []) of
       (None, (w', names)) \<Rightarrow> (Inr names, w')
     | (Some e, (w', names)) \<Rightarrow> (Inl (Wrap ''failed to list namespaces'' e), w'))"

definition resolveNamespaces ::
  "('x world_scheme, 'c, 'o) wait_tools \<Rightarrow> 'c \<Rightarrow> ResourcesOptions \<Rightarrow> string list \<Rightarrow> ('x, string list) io"
where
  "resolveNamespaces t c opts namespaces =
     (if namespaces \<noteq> [] then ret namespaces
      else State_Monad.bind (Stat currentNamespaceFile) (\<lambda>info.
        if (case info of Inr n \<Rightarrow> \<not> node_IsDir n | Inl e \<Rightarrow> False) \<and> \<not> AllNamespaces opts
        then onErr (ReadFile currentNamespaceFile)
               (Wrap (''failed to read namespace from file '' @ currentNamespaceFile)) (\<lambda>namespace. ret [namespace])
        else case wt_ClientSet t c of
            Inl e \<Rightarrow> throw (Wrap ''failed to create Kubernetes client'' e)
          | Inr _ \<Rightarrow> onErr (listNamespaces t c (StatusUpdateInterval opts)) (Wrap ''failed to list namespaces'') ret))"

text \<open>
  The goroutines of the namespaces: \<open>waitNs\<close> is one of them, and they are listed in the order in which
  they end. Every one runs to its end, whatever the others return.
\<close>

fun wait_all :: "(string \<Rightarrow> ('w, error + unit) state) \<Rightarrow> string list \<Rightarrow> ('w, error list) state" where
  "wait_all waitNs [] = State_Monad.return []"
| "wait_all waitNs (n # ns) = State_Monad.bind (waitNs n) (\<lambda>r. State_Monad.bind (wait_all waitNs ns) (\<lambda>errs.
     State_Monad.return (case r of Inl e \<Rightarrow> e # errs | Inr _ \<Rightarrow> errs)))"

definition waitForResources ::
  "('x, 'c) io \<Rightarrow> ('x world_scheme, 'c, 'o) wait_tools \<Rightarrow> (string list \<Rightarrow> string list) \<Rightarrow>
   ('c \<Rightarrow> string list \<Rightarrow> string \<Rightarrow> ('x, unit) io) \<Rightarrow> ResourcesOptions \<Rightarrow> string list \<Rightarrow> ('x, unit) io"
where
  "waitForResources newClient t order waitNs opts namespaces =
     onErr newClient (Wrap ''failed to create Kubernetes client'') (\<lambda>c.
     onErr (ToRESTMapper (wt_access t c)) (Wrap ''failed to create REST mapper'') (\<lambda>_.
     onErr (ValidateResourceTypes (wt_access t c) (ResourceTypes opts)) (Wrap ''resource type validation failed'') (\<lambda>validTypes.
     if validTypes = [] then throw (Errorf ''none of the specified resource types are supported by the cluster'')
     else onErr (resolveNamespaces t c opts namespaces) id (\<lambda>nss.
       State_Monad.bind (wait_all (waitNs c validTypes) (order nss)) (\<lambda>errs.
       State_Monad.return (if errs \<noteq> [] then Inl (Join errs) else Inr ()))))))"

section \<open>Waiting for one namespace\<close>

definition get_condition :: "('w, error + nat) state \<Rightarrow> ('w \<times> nat) condition" where
  "get_condition m = State (\<lambda>(w, created). case run_state m w of
       (Inl e, w') \<Rightarrow> if errors_Is e ErrNotFound then ((False, None), (w', created))
                     else ((False, Some (Wrap ''error checking namespace'' e)), (w', created))
     | (Inr t, w') \<Rightarrow> ((True, None), (w', t)))"

text \<open>How long to wait for a namespace that was created at a time, at a later time.\<close>

definition timeToWait :: "nat \<Rightarrow> nat \<Rightarrow> nat \<Rightarrow> nat" where
  "timeToWait period created t = nat (max 0 (int period - (int t - int created)))"

text \<open>The end of the wait: the context ends with an error, or the report of the waiter is read.\<close>

datatype wait_end = ContextDone error | EndReceived

definition namespace_result :: "string \<Rightarrow> wait_end \<Rightarrow> resourceWaiter \<Rightarrow> (error + unit) option" where
  "namespace_result namespace fin w = (case fin of
       ContextDone e \<Rightarrow> Some (Inl (Wrap (''context canceled while polling resources in namespace '' @ namespace) e))
     | EndReceived \<Rightarrow> (case endChannel w of
           None \<Rightarrow> None
         | Some (Some e) \<Rightarrow> Some (Inl (Wrap (''error while polling resources in namespace '' @ namespace) e))
         | Some None \<Rightarrow> Some (Inr ())))"

text \<open>
  \<^verbatim>\<open>waitNamespaceResources\<close>, for a run of the waiter with the given labels and end; \<open>None\<close> when it is
  still waiting after them or they are not a run. \<open>graceErr\<close> is the error of a context that ends
  during the grace period, and the clock of the machine is the time. Without an interval for it there
  is no watch of the resources.
\<close>

definition waitNamespaceResources ::
  "('x world_scheme, 'c, 'o) wait_tools \<Rightarrow> 'c \<Rightarrow> ResourcesOptions \<Rightarrow> string list \<Rightarrow> error option \<Rightarrow>
   waiter_label list \<Rightarrow> wait_end \<Rightarrow> string \<Rightarrow> ('x world_scheme, (error + unit) option) state"
where
  "waitNamespaceResources t c opts types graceErr ls fin namespace = (case wt_ClientSet t c of
       Inl e \<Rightarrow> State_Monad.return (Some (Inl (Wrap ''failed to create Kubernetes client'' e)))
     | Inr _ \<Rightarrow> State (\<lambda>w.
         case run_state (get_poller t None (int (StatusUpdateInterval opts)) True (get_condition (NamespaceGet t c namespace))) (w, 0) of
           (Some e, (w', _)) \<Rightarrow> (Some (Inl (Wrap (''namespace '' @ namespace @ '' did not appear'') e)), w')
         | (None, (w', created)) \<Rightarrow>
             (case (if timeToWait (NamespaceSettlePeriod opts) created (clock w') > 0 then graceErr else None) of
                Some e \<Rightarrow> (Some (Inl (Wrap (''context canceled while waiting for namespace '' @ namespace) e)), w')
              | None \<Rightarrow>
                  (case run_state (ObjectMetadataSetForNamespace (wt_access t c) namespace types) w' of
                     (Inl e, w'') \<Rightarrow> (Some (Inl (Wrap ''failed to start resource waiter''
                        (Wrap (''failed to get object metadata set for namespace '' @ namespace) e))), w'')
                   | (Inr ds, w'') \<Rightarrow>
                       (if ResourcesUpdateInterval opts = 0 \<and> list_ex is_Refreshed ls then (None, w'')
                        else case waiter_run (SettlePeriod opts) ls (waiter_Start (SettlePeriod opts) ds newResourceWaiter) of
                          None \<Rightarrow> (None, w'')
                        | Some v \<Rightarrow> (namespace_result namespace fin v, w''))))))"

section \<open>The bootstrap\<close>

record BootstrapOptions =
  BootstrapDir :: string
  BootstrapScript :: string
  RepoURL :: string
  RepoRef :: string
  EnvFile :: string

definition NewBootstrapOptions :: BootstrapOptions where
  "NewBootstrapOptions = \<lparr>BootstrapDir = ''/workspace'', BootstrapScript = ''iknite-bootstrap.sh'',
     RepoURL = [], RepoRef = [], EnvFile = []\<rparr>"

definition bootstrapRepoDirname :: string where "bootstrapRepoDirname = ''bootstrap-repo''"

text \<open>
  \<^verbatim>\<open>os.Setenv\<close> refuses an empty name, a name with an equals sign and the null character; the variables
  of the file are set one after the other in the order of the map.
\<close>

definition setenv :: "string \<Rightarrow> string \<Rightarrow> (string \<rightharpoonup> string) \<Rightarrow> error + (string \<rightharpoonup> string)" where
  "setenv key val env =
     (if key = [] \<or> CHR ''='' \<in> set key \<or> CHR 0x00 \<in> set key \<or> CHR 0x00 \<in> set val then Inl (ErrOther ''invalid argument'')
      else Inr (env(key \<mapsto> val)))"

fun setenv_all :: "(string \<times> string) list \<Rightarrow> (string \<rightharpoonup> string) \<Rightarrow> (error + bool) \<times> (string \<rightharpoonup> string)" where
  "setenv_all [] env = (Inr True, env)"
| "setenv_all ((key, val) # kvs) env = (case setenv key val env of
     Inl e \<Rightarrow> (Inl (Wrap (''failed to set environment variable '' @ key) e), env)
   | Inr env' \<Rightarrow> setenv_all kvs env')"

text \<open>The result comes with the environment, which keeps the variables set before an error.\<close>

definition ReadEnvFile ::
  "(string \<Rightarrow> error + (string \<rightharpoonup> string)) \<Rightarrow> ((string \<rightharpoonup> string) \<Rightarrow> (string \<times> string) list) \<Rightarrow> BootstrapOptions \<Rightarrow>
   (string \<rightharpoonup> string) \<Rightarrow> ('x world_scheme, (error + bool) \<times> (string \<rightharpoonup> string)) state"
where
  "ReadEnvFile unmarshal entries opts env =
     (let envFile = (if EnvFile opts = [] then path_join (BootstrapDir opts) ''.env'' else EnvFile opts) in
      State_Monad.bind (Stat envFile) (\<lambda>info.
        if (case info of Inr n \<Rightarrow> \<not> node_IsDir n | Inl e \<Rightarrow> False)
        then State_Monad.bind (ReadEnvFiles unmarshal [envFile]) (\<lambda>r. State_Monad.return (case r of
               Inl e \<Rightarrow> (Inl (Wrap (''failed to load env file '' @ envFile) e), env)
             | Inr variables \<Rightarrow> setenv_all (entries variables) env))
        else State_Monad.return (Inr True, env)))"

definition extractDomain :: "string \<Rightarrow> string" where
  "extractDomain repoURL =
     (let parts = Split (CHR ''@'') repoURL in
      if length parts \<noteq> 2 then []
      else let domainParts = Split (CHR '':'') (parts ! 1) in
        if length domainParts \<noteq> 2 then [] else domainParts ! 0)"

text \<open>\<open>lookupHost\<close> is the resolver, \<open>home\<close> the home directory of the user.\<close>

definition resolvable_condition :: "('x world_scheme, error + string list) state \<Rightarrow> 'x world_scheme condition" where
  "resolvable_condition lookupHost = State_Monad.bind lookupHost (\<lambda>r. State_Monad.return (case r of
       Inl e \<Rightarrow> (False, None) | Inr addrs \<Rightarrow> (addrs \<noteq> [], None)))"

definition ensureSSHKnownHost ::
  "'x world_scheme poller \<Rightarrow> (string \<Rightarrow> ('x world_scheme, error + string list) state) \<Rightarrow> string \<Rightarrow> string \<Rightarrow> ('x, unit) io"
where
  "ensureSSHKnownHost poll lookupHost home repoURL =
     (let sshServer = extractDomain repoURL in
      if sshServer = [] then ret ()
      else State_Monad.bind (poll None 2000000000 True (resolvable_condition (lookupHost sshServer))) (\<lambda>err. case err of
          Some e \<Rightarrow> throw (Wrap (''SSH server '' @ sshServer @ '' did not become resolvable'') e)
        | None \<Rightarrow> State_Monad.bind (run_command (Cmd ''ssh-keyscan'' [''-t'', ''rsa'', sshServer])) (\<lambda>(out, cerr). case cerr of
              Some e \<Rightarrow> throw (Wrap (''failed to scan SSH key for '' @ sshServer) e)
            | None \<Rightarrow>
                onErr (MkdirAll (path_join home ''.ssh'') mode700) (Wrap ''failed to create .ssh directory'') (\<lambda>_.
                onErr (WriteFile (path_join (path_join home ''.ssh'') ''known_hosts'') out mode600)
                  (Wrap ''failed to write known_hosts file'') (\<lambda>_. ret ())))))"

definition cloneBootstrapRepo ::
  "'x world_scheme poller \<Rightarrow> (string \<Rightarrow> ('x world_scheme, error + string list) state) \<Rightarrow> string \<Rightarrow> BootstrapOptions \<Rightarrow> ('x, unit) io"
where
  "cloneBootstrapRepo poll lookupHost home opts =
     (let repoPath = path_join (BootstrapDir opts) bootstrapRepoDirname in
      onErr (ensureSSHKnownHost poll lookupHost home (RepoURL opts)) id (\<lambda>_.
      onErr (RemoveAll repoPath) (Wrap (''failed to remove existing bootstrap dir '' @ repoPath)) (\<lambda>_.
      State_Monad.bind (run_command (Cmd ''git'' [''clone'', ''--depth'', ''1'', ''--branch'', RepoRef opts, RepoURL opts, repoPath])) (\<lambda>(out, err).
        case err of
          Some e \<Rightarrow> throw (Wrap (''git clone of '' @ RepoURL opts @ '' failed'') e)
        | None \<Rightarrow> ret ()))))"

definition filepath_IsAbs :: "string \<Rightarrow> bool" where
  "filepath_IsAbs p = HasPrefix p ''/''"

text \<open>\<^verbatim>\<open>info.Mode()&0o111 == 0\<close>; directories can always be entered.\<close>

definition node_executable :: "node \<Rightarrow> bool" where
  "node_executable n = (case n of File c m \<Rightarrow> bit m 0 \<or> bit m 3 \<or> bit m 6 | _ \<Rightarrow> True)"

definition bootstrap_base :: "BootstrapOptions \<Rightarrow> string" where
  "bootstrap_base opts = (if RepoURL opts \<noteq> [] \<and> RepoRef opts \<noteq> []
     then path_join (BootstrapDir opts) bootstrapRepoDirname else BootstrapDir opts)"

definition bootstrap_path :: "BootstrapOptions \<Rightarrow> string" where
  "bootstrap_path opts = (if \<not> filepath_IsAbs (BootstrapScript opts)
     then path_join (bootstrap_base opts) (BootstrapScript opts) else BootstrapScript opts)"

definition run_script :: "string \<Rightarrow> ('x, unit) io" where
  "run_script scriptPath = State_Monad.bind (Stat scriptPath) (\<lambda>r. case r of
       Inl e \<Rightarrow> ret ()
     | Inr _ \<Rightarrow> onErr (Stat scriptPath) (Wrap (''failed to stat bootstrap script '' @ scriptPath)) (\<lambda>info.
         onErr (if \<not> node_executable info
                then onErr (Chmod scriptPath mode755)
                       (Wrap (''failed to make bootstrap script '' @ scriptPath @ '' executable'')) (\<lambda>_. ret ())
                else ret ()) id (\<lambda>_.
         State_Monad.bind (run_command (Cmd scriptPath [])) (\<lambda>(out, err). case err of
             Some e \<Rightarrow> throw (Wrap (''bootstrap script '' @ scriptPath @ '' failed'') e)
           | None \<Rightarrow> ret ()))))"

definition runBootstrap ::
  "'x world_scheme poller \<Rightarrow> (string \<Rightarrow> ('x world_scheme, error + string list) state) \<Rightarrow> string \<Rightarrow> BootstrapOptions \<Rightarrow> ('x, unit) io"
where
  "runBootstrap poll lookupHost home opts =
     onErr (if RepoURL opts \<noteq> [] \<and> RepoRef opts \<noteq> [] then cloneBootstrapRepo poll lookupHost home opts else ret ())
       (Wrap ''error during bootstrap'') (\<lambda>_. run_script (bootstrap_path opts))"

definition RunKubewait :: "bool \<Rightarrow> bool \<Rightarrow> ('x, unit) io \<Rightarrow> ('x, unit) io \<Rightarrow> ('x, unit) io" where
  "RunKubewait skipWait skipBootstrap waitRes bootstrap =
     onErr (if \<not> skipWait then onErr waitRes (Wrap ''error while waiting for resources'') (\<lambda>_. ret ()) else ret ()) id (\<lambda>_.
     if \<not> skipBootstrap then onErr bootstrap (Wrap ''error during bootstrap'') (\<lambda>_. ret ()) else ret ())"

section \<open>Laws\<close>

lemma waiter_settled:
  assumes "waiter_run period ls (waiter_Start period ds newResourceWaiter) = Some w" and "endChannel w = Some None"
  shows "\<exists>pre mid post v. ls = pre @ mid @ TimerFires # post \<and>
           waiter_run period pre (waiter_Start period ds newResourceWaiter) = Some v \<and>
           (if pre = [] then ds = [] else (\<exists>i. last pre = Observed i True) \<or> last pre = Refreshed (Inr [])) \<and>
           calm_run period mid v \<and> elapsed mid \<ge> period"
proof -
  let ?w0 = "waiter_Start period ds newResourceWaiter"
  have end0: "endChannel ?w0 = None" and ds: "currentDataSet ?w0 = ds"
    by (simp_all add: waiter_Start_def newResourceWaiter_def waiter_defs)
  have timer0: "currentDataSet ?w0 = [] \<and> d = now ?w0 + period" if "settleTimer ?w0 = Some (d, b)" for d b
    using that by (auto simp: waiter_Start_def newResourceWaiter_def waiter_defs split: if_splits)
  have "\<exists>pre mid post v. ls = pre @ mid @ TimerFires # post \<and> settling period ?w0 (pre @ mid) pre mid v \<and> elapsed mid \<ge> period"
    by (rule ready_settled [OF assms end0]) (rule timer0)
  then obtain pre mid post v where
    r: "ls = pre @ mid @ TimerFires # post" "settling period ?w0 (pre @ mid) pre mid v" "elapsed mid \<ge> period"
    by (elim exE conjE)
  then have "waiter_run period pre ?w0 = Some v" "calm_run period mid v"
    "if pre = [] then ds = [] else (\<exists>i. last pre = Observed i True) \<or> last pre = Refreshed (Inr [])"
    by (simp_all add: settling_def starting_def ds split: if_splits)
  with r(1,3) show ?thesis by (intro exI conjI)
qed

lemma wait_all_forE:
  "run_state (wait_all f ns) s = ([], s') \<longleftrightarrow> run_state (forE f ns) s = (Inr (), s')"
  by (induction ns arbitrary: s) (auto simp: run_onErr split: sum.splits prod.splits)

lemma resolveNamespaces_given: "nss \<noteq> [] \<Longrightarrow> resolveNamespaces t c opts nss = ret nss"
  by (simp add: resolveNamespaces_def)

lemma waitForResources_ready:
  assumes "run_state (waitForResources newClient t order waitNs opts nss) s = (Inr u, s')"
  shows "\<exists>c types names s1. types \<noteq> [] \<and> subseq types (ResourceTypes opts) \<and> (nss \<noteq> [] \<longrightarrow> names = nss) \<and>
           run_state (forE (waitNs c types) (order names)) s1 = (Inr (), s')"
proof -
  from assms obtain c types names s0 s1 s2 s3 where
    types: "types \<noteq> []" "run_state (ValidateResourceTypes (wt_access t c) (ResourceTypes opts)) s0 = (Inr types, s1)" and
    names: "run_state (resolveNamespaces t c opts nss) s2 = (Inr names, s3)" and
    all: "run_state (wait_all (waitNs c types) (order names)) s3 = ([], s')"
    by (auto simp: waitForResources_def run_onErr split: sum.splits prod.splits if_splits)
  from names have "nss \<noteq> [] \<longrightarrow> names = nss" by (auto simp: resolveNamespaces_given)
  with types(1) ValidateResourceTypes_subseq [OF types(2)] all show ?thesis
    unfolding wait_all_forE by blast
qed

text \<open>
  A late event of a cancelled poll counts like one of the current poll: after the set of resources has
  changed it starts the settle period, although nothing is known of the new resources.
\<close>

lemma stale_event_settles:
  "\<exists>w. waiter_run 10 [Observed 0 True, Refreshed (Inr [(''default'', ''web'', ''Deployment''), (''default'', ''db'', ''StatefulSet'')]),
          Observed 0 True, Pass 10, TimerFires] (waiter_Start 10 [(''default'', ''web'', ''Deployment'')] newResourceWaiter) = Some w \<and>
        endChannel w = Some None \<and> pollCount w = 2 \<and> length (currentDataSet w) = 2"
  by (simp add: waiter_Start_def newResourceWaiter_def waiter_defs)

section \<open>Properties\<close>


definition sample_wait :: "waiter_label list" where
  "sample_wait = [Observed 0 False, Observed 0 True, Pass 6, Observed 0 True, Pass 4, TimerFires]"

definition one_deployment :: "('w, unit, unit) wait_tools" where
  "one_deployment = \<lparr>wt_access = (\<lambda>_. no_workloads\<lparr>namespace_infos := (\<lambda>ns _. ret [\<lparr>info_Namespace = ns, info_Name = ''web'',
       info_GroupKind = ''Deployment'', info_ObjectName = ''web'', info_Object = ()\<rparr>])\<rparr>),
     wt_ClientSet = (\<lambda>_. Inr ()), NamespacesList = (\<lambda>_. ret [''default'']), NamespaceGet = (\<lambda>_ _. ret 0),
     list_poller = impatient_poller, get_poller = impatient_poller\<rparr>"


text \<open>
  C8: the bootstrap of \<^verbatim>\<open>kubewait\<close> runs only when everything is ready. Either the wait has failed, its error is
  reported and nothing has happened after it; or there was at least one known resource type, the known
  types are among the requested ones, the namespaces are the requested ones if there are any, the
  wait for every namespace has succeeded, and only then the bootstrap has run, whose outcome is
  reported.
\<close>

theorem bootstrap_after_ready:
  assumes "run_state (RunKubewait False False (waitForResources newClient t order waitNs opts nss)
             (runBootstrap poll lookupHost home bopts)) s = (r, s')"
  shows "(\<exists>e. run_state (waitForResources newClient t order waitNs opts nss) s = (Inl e, s') \<and>
              r = Inl (Wrap ''error while waiting for resources'' e)) \<or>
         (\<exists>c types names s1 s2 b. types \<noteq> [] \<and> subseq types (ResourceTypes opts) \<and> (nss \<noteq> [] \<longrightarrow> names = nss) \<and>
              run_state (forE (waitNs c types) (order names)) s1 = (Inr (), s2) \<and>
              run_state (runBootstrap poll lookupHost home bopts) s2 = (b, s') \<and>
              r = (case b of Inl e \<Rightarrow> Inl (Wrap ''error during bootstrap'' e) | Inr _ \<Rightarrow> Inr ()))"
proof -
  obtain q s2 where q: "run_state (waitForResources newClient t order waitNs opts nss) s = (q, s2)"
    by (metis surj_pair)
  show ?thesis
  proof (cases q)
    case (Inl e)
    with q assms show ?thesis by (simp add: RunKubewait_def run_onErr)
  next
    case (Inr u)
    from waitForResources_ready [OF q [unfolded Inr]] obtain c types names s1 where
      ready: "types \<noteq> []" "subseq types (ResourceTypes opts)" "nss \<noteq> [] \<longrightarrow> names = nss"
      "run_state (forE (waitNs c types) (order names)) s1 = (Inr (), s2)"
      by (elim exE conjE)
    obtain b s3 where b: "run_state (runBootstrap poll lookupHost home bopts) s2 = (b, s3)" by (metis surj_pair)
    with q Inr assms have "s3 = s'" "r = (case b of Inl e \<Rightarrow> Inl (Wrap ''error during bootstrap'' e) | Inr _ \<Rightarrow> Inr ())"
      by (auto simp: RunKubewait_def run_onErr split: sum.splits)
    with ready b show ?thesis by (intro disjI2 exI conjI) simp_all
  qed
qed

theorem bootstrap_after_ready_witness:
  "\<exists>types names. types \<noteq> [] \<and> subseq types defaultResourceTypes \<and> names = [''default''] \<and>
     fst (run_state (RunKubewait False False (waitForResources (ret ()) one_deployment rev (\<lambda>_ _ _. ret ())
       (NewResourcesOptions\<lparr>ResourceTypes := defaultResourceTypes\<rparr>) names)
       (runBootstrap impatient_poller (\<lambda>_. ret []) ''/root'' NewBootstrapOptions)) (calm_world Map.empty)) = Inr ()"
proof -
  let ?m = "\<lambda>names. RunKubewait False False (waitForResources (ret ()) one_deployment rev (\<lambda>_ _ _. ret ())
       (NewResourcesOptions\<lparr>ResourceTypes := defaultResourceTypes\<rparr>) names)
       (runBootstrap impatient_poller (\<lambda>_. ret []) ''/root'' NewBootstrapOptions)"
  have ok: "fst (run_state (?m [''default'']) (calm_world Map.empty)) = Inr ()" by code_simp
  then have "run_state (?m [''default'']) (calm_world Map.empty) = (Inr (), snd (run_state (?m [''default'']) (calm_world Map.empty)))"
    by (simp add: prod_eq_iff)
  from bootstrap_after_ready [OF this] have "\<exists>types. types \<noteq> [] \<and> subseq types defaultResourceTypes"
    by (elim disjE exE conjE) auto
  with ok show ?thesis by blast
qed


end
