(* ===== verification/Secrets.thy ===== *)
theory Secrets
  imports Server "HOL-Library.Sublist"
begin

text \<open>
  The secrets of \<^verbatim>\<open>iknitectl secrets\<close> (\<^verbatim>\<open>pkg/secrets\<close>): reading, writing and removing values of a SOPS file,
  and its initialisation with an SSH key pair. The libraries for SSH keys and for SOPS files are
  parameters; what the code relies on of SOPS is \<open>sops_contract\<close> and \<open>branch_contract\<close>. The lemmas show
  that a value that was set is the one read next, that a removed one is gone, that the other values
  stay, and that an initialisation never changes a private key that exists.
\<close>

section \<open>The libraries\<close>

text \<open>
  Private keys \<open>'priv\<close> and public keys \<open>'pub\<close>. \<open>ed25519\<close> tells the supported kind of private keys;
  \<open>GenerateKey\<close> depends on the time only to be random.
\<close>

record ('priv, 'pub) ssh_lib =
  ParseRawPrivateKey :: "string \<Rightarrow> error + 'priv"
  ed25519 :: "'priv \<Rightarrow> bool"
  NewPublicKey :: "'priv \<Rightarrow> error + 'pub"
  MarshalAuthorizedKey :: "'pub \<Rightarrow> string"
  ParseAuthorizedKey :: "string \<Rightarrow> error + 'pub \<times> string"
  GenerateKey :: "nat \<Rightarrow> error + 'priv"
  MarshalPrivateKey :: "'priv \<Rightarrow> string \<Rightarrow> error + string"
  renderTemplate :: "string \<Rightarrow> (string \<times> string) list \<Rightarrow> error + string"

text \<open>
  The tree of a SOPS file: its documents \<open>'b\<close>, its master keys \<open>'mk\<close> and the data key \<open>'dk\<close>, and the rest
  of its metadata. Values are \<open>'v\<close>, identities \<open>'id\<close>; \<open>as_string\<close> is the type switch on \<^verbatim>\<open>string\<close>, \<open>age_key\<close> the
  type assertion to \<^verbatim>\<open>sopsage.MasterKey\<close>. The store of a file depends on its name.
\<close>

record ('b, 'mk, 'dk, 'm) sops_Tree =
  Branches :: "'b list"
  KeyGroups :: "'mk list list"
  MDataKey :: "'dk option"
  MRest :: 'm

record ('b, 'mk, 'dk, 'm, 'v, 'id) sops_lib =
  LoadEncryptedFile :: "string \<Rightarrow> string \<Rightarrow> error + ('b, 'mk, 'dk, 'm) sops_Tree"
  age_key :: "'mk \<Rightarrow> bool"
  ParseIdentity :: "string \<Rightarrow> error + 'id"
  AgeDecrypt :: "'id \<Rightarrow> 'mk \<Rightarrow> error + 'dk"
  GetDataKey :: "('b, 'mk, 'dk, 'm) sops_Tree \<Rightarrow> error + 'dk"
  tree_Decrypt :: "('b, 'mk, 'dk, 'm) sops_Tree \<Rightarrow> 'dk \<Rightarrow> error + ('b, 'mk, 'dk, 'm) sops_Tree"
  Truncate :: "'b \<Rightarrow> string list \<Rightarrow> error + 'v"
  branch_Set :: "'b \<Rightarrow> string list \<Rightarrow> string \<Rightarrow> error + 'b"
  branch_Unset :: "'b \<Rightarrow> string list \<Rightarrow> error + 'b"
  empty_branch :: 'b
  EncryptTree :: "('b, 'mk, 'dk, 'm) sops_Tree \<Rightarrow> 'dk \<Rightarrow> error + ('b, 'mk, 'dk, 'm) sops_Tree"
  EmitEncryptedFile :: "string \<Rightarrow> ('b, 'mk, 'dk, 'm) sops_Tree \<Rightarrow> error + string"
  as_string :: "'v \<Rightarrow> string option"
  value_yaml :: "'v \<Rightarrow> error + string"
  LoadPlainFile :: "string \<Rightarrow> string \<Rightarrow> error + 'b list"
  MasterKeysFromRecipients :: "string \<Rightarrow> error + 'mk list"
  new_metadata :: "string \<Rightarrow> 'm"
  GenerateDataKey :: "('b, 'mk, 'dk, 'm) sops_Tree \<Rightarrow> error + 'dk \<times> ('b, 'mk, 'dk, 'm) sops_Tree"

section \<open>Paths\<close>

record secrets_Options =
  so_SecretsFile :: string
  so_HomeDir :: string
  so_KeyFile :: string
  so_Force :: bool

definition DefaultSecretsFile :: string where "DefaultSecretsFile = ''secrets.sops.yaml''"

text \<open>
  \<^verbatim>\<open>filepath.Dir\<close> and \<^verbatim>\<open>filepath.Join\<close> also for names in the working directory and at the root, and
  \<^verbatim>\<open>filepath.Rel\<close> on clean paths: \<open>None\<close> is its error.
\<close>

definition filepath_Dir :: "string \<Rightarrow> string" where
  "filepath_Dir p = (if path_dir p \<noteq> [] then path_dir p else if HasPrefix p ''/'' then ''/'' else ''.'')"

definition filepath_Join :: "string \<Rightarrow> string \<Rightarrow> string" where
  "filepath_Join d n = (if d = ''.'' then n else if d = ''/'' then ''/'' @ n else path_join d n)"

definition components :: "string \<Rightarrow> string list" where
  "components p = filter (\<lambda>c. c \<noteq> []) (Split (CHR ''/'') p)"

fun strip_common :: "string list \<Rightarrow> string list \<Rightarrow> string list \<times> string list" where
  "strip_common (b # bs) (t # ts) = (if b = t then strip_common bs ts else (b # bs, t # ts))"
| "strip_common bs ts = (bs, ts)"

definition filepath_Rel :: "string \<Rightarrow> string \<Rightarrow> string option" where
  "filepath_Rel base targ =
     (if base = targ then Some ''.''
      else if HasPrefix base ''/'' \<noteq> HasPrefix targ ''/'' then None
      else case strip_common (components base) (components targ) of (bs, ts) \<Rightarrow>
        if bs \<noteq> [] \<and> hd bs = ''..'' then None
        else Some (Join_strings ''/'' (replicate (length bs) ''..'' @ ts)))"

definition expandHomePath :: "string \<Rightarrow> string \<Rightarrow> string" where
  "expandHomePath homeDir path =
     (if homeDir = [] then path
      else if path = ''~'' then homeDir
      else if HasPrefix path ''~/'' then filepath_Join homeDir (drop 2 path)
      else path)"

definition displayPath :: "string \<Rightarrow> string \<Rightarrow> string" where
  "displayPath homeDir path =
     (if homeDir = [] then path
      else case filepath_Rel homeDir path of
          Some r \<Rightarrow> if r \<noteq> ''.'' \<and> r \<noteq> ''..'' \<and> \<not> HasPrefix r ''../'' then filepath_Join ''~'' r
                   else if path = homeDir then ''~'' else path
        | None \<Rightarrow> if path = homeDir then ''~'' else path)"

record secretsInitPaths =
  secretsFile :: string
  sopsConfigFile :: string
  keyFile :: string
  publicKeyFile :: string
  displayKeyFile :: string
  displayPublicKeyFile :: string

text \<open>
  \<open>userHome\<close> is what \<^verbatim>\<open>os.UserHomeDir\<close> returns. The home directory found for the default key is kept in
  the options.
\<close>

definition SetDefaults :: "error + string \<Rightarrow> (string \<Rightarrow> string) \<Rightarrow> secrets_Options \<Rightarrow> error + secrets_Options" where
  "SetDefaults userHome getenv o' =
     (case (if so_HomeDir o' = [] then userHome else Inr (so_HomeDir o')) of
        Inl e \<Rightarrow> Inl (Wrap ''failed to get user home directory'' e)
      | Inr homeDir \<Rightarrow> Inr (o'\<lparr>so_HomeDir := homeDir,
          so_SecretsFile := (if so_SecretsFile o' = [] then DefaultSecretsFile else so_SecretsFile o'),
          so_KeyFile := (if so_KeyFile o' = [] then
             (let envFile = getenv ''SOPS_AGE_SSH_PRIVATE_KEY_FILE'' in
              if envFile \<noteq> [] then envFile else filepath_Join (filepath_Join homeDir ''.ssh'') ''id_ed25519'')
             else so_KeyFile o')\<rparr>))"

definition resolveSecretsInitPaths ::
  "error + string \<Rightarrow> secrets_Options \<Rightarrow> error + secretsInitPaths \<times> secrets_Options"
where
  "resolveSecretsInitPaths userHome opts =
     (let sf = (if so_SecretsFile opts = [] then DefaultSecretsFile else so_SecretsFile opts) in
      case (if so_KeyFile opts = [] \<and> so_HomeDir opts = [] then userHome else Inr (so_HomeDir opts)) of
        Inl e \<Rightarrow> Inl (Wrap ''failed to determine home directory'' e)
      | Inr home \<Rightarrow>
          let kf0 = (if so_KeyFile opts = [] then filepath_Join (filepath_Join home ''.ssh'') ''id_ed25519'' else so_KeyFile opts);
              kf = expandHomePath home kf0
          in Inr (\<lparr>secretsFile = sf, sopsConfigFile = filepath_Join (filepath_Dir sf) ''.sops.yaml'', keyFile = kf,
                publicKeyFile = kf @ ''.pub'', displayKeyFile = displayPath home kf,
                displayPublicKeyFile = displayPath home (kf @ ''.pub'')\<rparr>, opts\<lparr>so_HomeDir := home\<rparr>))"

fun trimmed_parts :: "string list \<Rightarrow> string list option" where
  "trimmed_parts [] = Some []"
| "trimmed_parts (p # ps) = (if TrimSpace p = [] then None else map_option (\<lambda>r. TrimSpace p # r) (trimmed_parts ps))"

definition buildSecretsPath :: "string \<Rightarrow> error + string list" where
  "buildSecretsPath path = (case trimmed_parts (Split (CHR ''.'') path) of
       None \<Rightarrow> Inl (Errorf (''invalid secret path '' @ path))
     | Some parts \<Rightarrow> Inr (''data'' # parts))"

section \<open>SSH keys\<close>

record sshKeyInfo =
  AuthorizedKey :: string
  PrivateKeyPEM :: string
  Generated :: bool
  AuthorizedKeyDerived :: bool

definition marshalAuthorizedKey :: "('priv, 'pub) ssh_lib \<Rightarrow> 'pub \<Rightarrow> string \<Rightarrow> string" where
  "marshalAuthorizedKey h k comment =
     (let trimmed = TrimSpace (MarshalAuthorizedKey h k) in
      if comment = [] then trimmed else trimmed @ '' '' @ comment)"

definition sshPublicKeyFromPrivateKey :: "('priv, 'pub) ssh_lib \<Rightarrow> 'priv \<Rightarrow> error + 'pub" where
  "sshPublicKeyFromPrivateKey h k =
     (if \<not> ed25519 h k then Inl (Errorf ''unsupported private key type'')
      else case NewPublicKey h k of
          Inl e \<Rightarrow> Inl (Wrap ''failed to convert ed25519 public key to SSH format'' e)
        | Inr pub \<Rightarrow> Inr pub)"

definition sshAuthorizedKeyFromPrivateKey :: "('priv, 'pub) ssh_lib \<Rightarrow> string \<Rightarrow> string \<Rightarrow> error + string" where
  "sshAuthorizedKeyFromPrivateKey h bytes comment = (case ParseRawPrivateKey h bytes of
       Inl e \<Rightarrow> Inl (Wrap ''failed to parse private key file'' e)
     | Inr raw \<Rightarrow> (case sshPublicKeyFromPrivateKey h raw of
           Inl e \<Rightarrow> Inl e
         | Inr pub \<Rightarrow> Inr (marshalAuthorizedKey h pub comment)))"

definition readAuthorizedKeyFromPublicKeyFile :: "('priv, 'pub) ssh_lib \<Rightarrow> string \<Rightarrow> ('x, string) io" where
  "readAuthorizedKeyFromPublicKeyFile h pubFile =
     onErr (ReadFile pubFile) (Wrap ''failed to read public key file'') (\<lambda>bytes.
     case ParseAuthorizedKey h bytes of
       Inl e \<Rightarrow> throw (Wrap ''failed to parse public key file'' e)
     | Inr (k, comment) \<Rightarrow> ret (marshalAuthorizedKey h k (if comment = [] then path_base pubFile else comment)))"

definition writePublicKeyFile :: "string \<Rightarrow> string \<Rightarrow> ('x, unit) io" where
  "writePublicKeyFile pubFile authorizedKey =
     onErr (WriteFile pubFile (authorizedKey @ NL) mode644) (Wrap ''failed to write public key file'') (\<lambda>_. ret ())"

definition createKeyPair :: "('priv, 'pub) ssh_lib \<Rightarrow> string \<Rightarrow> string \<Rightarrow> string \<Rightarrow> ('x, sshKeyInfo) io" where
  "createKeyPair h kf pubFile comment =
     onErr (MkdirAll (filepath_Dir kf) mode700) (Wrap ''failed to create key directory'') (\<lambda>_.
     State_Monad.bind (gets clock) (\<lambda>t.
     case GenerateKey h t of
       Inl e \<Rightarrow> throw (Wrap ''failed to generate ed25519 key pair'' e)
     | Inr priv \<Rightarrow> (case NewPublicKey h priv of
           Inl e \<Rightarrow> throw (Wrap ''failed to convert public key to SSH format'' e)
         | Inr pub \<Rightarrow> (case MarshalPrivateKey h priv comment of
               Inl e \<Rightarrow> throw (Wrap ''failed to marshal private key'' e)
             | Inr bytes \<Rightarrow>
                 onErr (WriteFile kf bytes mode600) (Wrap ''failed to write private key file'') (\<lambda>_.
                 onErr (writePublicKeyFile pubFile (marshalAuthorizedKey h pub comment)) id (\<lambda>_.
                 ret \<lparr>AuthorizedKey = marshalAuthorizedKey h pub comment, PrivateKeyPEM = TrimRightNL bytes,
                      Generated = True, AuthorizedKeyDerived = True\<rparr>))))))"

definition ensureSSHKeyPair :: "('priv, 'pub) ssh_lib \<Rightarrow> string \<Rightarrow> string \<Rightarrow> ('x, sshKeyInfo) io" where
  "ensureSSHKeyPair h kf pubFile =
     onErr (Exists kf) (Wrap ''failed to check key file'') (\<lambda>privateExists.
     onErr (Exists pubFile) (Wrap ''failed to check public key file'') (\<lambda>publicExists.
     if publicExists \<and> \<not> privateExists
     then throw (Errorf (''public key file '' @ pubFile @ '' exists but private key file '' @ kf @ '' does not''))
     else onErr (if publicExists
                 then onErr (readAuthorizedKeyFromPublicKeyFile h pubFile)
                        (Wrap ''failed to read authorized key from public key file'') ret
                 else ret []) id (\<lambda>authorized.
       if privateExists
       then onErr (ReadFile kf) (Wrap ''failed to read key file'') (\<lambda>bytes.
         if publicExists
         then ret \<lparr>AuthorizedKey = authorized, PrivateKeyPEM = TrimRightNL bytes, Generated = False, AuthorizedKeyDerived = False\<rparr>
         else (case sshAuthorizedKeyFromPrivateKey h bytes (path_base kf) of
             Inl e \<Rightarrow> throw (Wrap ''failed to derive public key from private key'' e)
           | Inr key \<Rightarrow> onErr (writePublicKeyFile pubFile key) id (\<lambda>_.
               ret \<lparr>AuthorizedKey = key, PrivateKeyPEM = TrimRightNL bytes, Generated = False, AuthorizedKeyDerived = True\<rparr>)))
       else createKeyPair h kf pubFile (path_base kf))))"

section \<open>Reading the file\<close>

type_synonym ('b, 'mk, 'dk, 'm) FileSecrets = "('b, 'mk, 'dk, 'm) sops_Tree \<times> 'dk \<times> nat"

text \<open>\<^verbatim>\<open>fileInfo.Mode().Perm()\<close>; a directory is not read.\<close>

definition node_Perm :: "node \<Rightarrow> nat" where
  "node_Perm n = (case n of File c m \<Rightarrow> m mod 512 | Directory \<Rightarrow> mode755 | Symlink t \<Rightarrow> 511)"

definition parseSSHIdentityFromPrivateKeyFile :: "('b, 'mk, 'dk, 'm, 'v, 'id) sops_lib \<Rightarrow> string \<Rightarrow> ('x, 'id) io" where
  "parseSSHIdentityFromPrivateKeyFile l keyPath =
     onErr (ReadFile keyPath) (Wrap ''failed to read private key file'') (\<lambda>k.
     case ParseIdentity l k of
       Inl e \<Rightarrow> throw (Wrap ''failed to parse SSH identity'' e)
     | Inr i \<Rightarrow> ret i)"

definition getDataKeyFromOpts ::
  "('b, 'mk, 'dk, 'm, 'v, 'id) sops_lib \<Rightarrow> error + string \<Rightarrow> secrets_Options \<Rightarrow> 'mk \<Rightarrow> ('x, 'dk) io"
where
  "getDataKeyFromOpts l userHome opts mk = (case resolveSecretsInitPaths userHome opts of
       Inl e \<Rightarrow> throw (Wrap ''failed to resolve secrets init paths'' e)
     | Inr (paths, _) \<Rightarrow>
         onErr (parseSSHIdentityFromPrivateKeyFile l (keyFile paths))
           (Wrap ''failed to parse SSH identity from private key file'') (\<lambda>i.
         case AgeDecrypt l i mk of
           Inl e \<Rightarrow> throw (Wrap ''failed to decrypt data key with SSH identity'' e)
         | Inr dk \<Rightarrow> ret dk))"

definition first_key :: "'mk list list \<Rightarrow> error + 'mk" where
  "first_key gs = (case gs of (mk # _) # _ \<Rightarrow> Inr mk | _ \<Rightarrow> Inl (Panic ''index out of range''))"

definition data_key ::
  "('b, 'mk, 'dk, 'm, 'v, 'id) sops_lib \<Rightarrow> error + string \<Rightarrow> secrets_Options \<Rightarrow> ('b, 'mk, 'dk, 'm) sops_Tree \<Rightarrow> 'mk \<Rightarrow> ('x, 'dk) io"
where
  "data_key l userHome opts tree mk =
     State_Monad.bind (if age_key l mk
         then State_Monad.bind (getDataKeyFromOpts l userHome opts mk) (\<lambda>r. State_Monad.return (case r of
                Inl e \<Rightarrow> (None, Some e) | Inr dk \<Rightarrow> (Some dk, None)))
         else State_Monad.return (None, None)) (\<lambda>(dataKey, err).
     case dataKey of
       Some dk \<Rightarrow> ret dk
     | None \<Rightarrow> (case GetDataKey l tree of
           Inr dk \<Rightarrow> ret dk
         | Inl standardErr \<Rightarrow> throw (Wrap ''failed to retrieve data key'' (case err of
               Some e \<Rightarrow> Join [standardErr, e] | None \<Rightarrow> standardErr))))"

definition loadAndDecryptSecrets ::
  "('b, 'mk, 'dk, 'm, 'v, 'id) sops_lib \<Rightarrow> error + string \<Rightarrow> secrets_Options \<Rightarrow> ('x, ('b, 'mk, 'dk, 'm) FileSecrets) io"
where
  "loadAndDecryptSecrets l userHome opts =
     onErr (Exists (so_SecretsFile opts)) (Wrap ''failed to check secrets file'') (\<lambda>exist.
     if \<not> exist then throw (Errorf (''secrets file not found: '' @ so_SecretsFile opts))
     else onErr (Stat (so_SecretsFile opts)) (Wrap ''failed to stat secrets file'') (\<lambda>info.
     onErr (ReadFile (so_SecretsFile opts)) (Wrap ''failed to read secrets file'') (\<lambda>bytes.
     case LoadEncryptedFile l (so_SecretsFile opts) bytes of
       Inl e \<Rightarrow> throw (Wrap ''failed to parse encrypted secrets'' e)
     | Inr tree \<Rightarrow> (case first_key (KeyGroups tree) of
           Inl p \<Rightarrow> throw p
         | Inr mk \<Rightarrow> onErr (data_key l userHome opts tree mk) id (\<lambda>dk.
             case tree_Decrypt l (tree\<lparr>MDataKey := Some dk\<rparr>) dk of
               Inl e \<Rightarrow> throw (Wrap ''failed to decrypt secrets file'' e)
             | Inr t \<Rightarrow> ret (t, dk, node_Perm info))))))"

section \<open>Reading and changing values\<close>

definition secret_text :: "('b, 'mk, 'dk, 'm, 'v, 'id) sops_lib \<Rightarrow> string \<Rightarrow> 'v \<Rightarrow> error + string" where
  "secret_text l path v = (case as_string l v of
       Some s \<Rightarrow> Inr s
     | None \<Rightarrow> (case value_yaml l v of
           Inl e \<Rightarrow> Inl (Wrap (''failed to marshal value at '' @ path) e)
         | Inr y \<Rightarrow> Inr (TrimRightNL y)))"

definition GetSecret ::
  "('b, 'mk, 'dk, 'm, 'v, 'id) sops_lib \<Rightarrow> error + string \<Rightarrow> secrets_Options \<Rightarrow> string \<Rightarrow> ('x, string) io"
where
  "GetSecret l userHome opts path =
     onErr (loadAndDecryptSecrets l userHome opts) id (\<lambda>(tree, dk, mode).
     case buildSecretsPath path of
       Inl e \<Rightarrow> throw e
     | Inr fullPath \<Rightarrow> (case Branches tree of
           [] \<Rightarrow> throw (Errorf ''secrets file has no data'')
         | b # bs \<Rightarrow> (case Truncate l b fullPath of
               Inl e \<Rightarrow> throw (Wrap (''secret path '' @ path @ '' not found'') e)
             | Inr v \<Rightarrow> State_Monad.return (secret_text l path v))))"

definition store_secrets ::
  "('b, 'mk, 'dk, 'm, 'v, 'id) sops_lib \<Rightarrow> secrets_Options \<Rightarrow> ('b, 'mk, 'dk, 'm) FileSecrets \<Rightarrow> ('x, unit) io"
where
  "store_secrets l opts = (\<lambda>(tree, dk, mode). case EncryptTree l tree dk of
       Inl e \<Rightarrow> throw (Wrap ''failed to encrypt updated secrets'' e)
     | Inr encrypted \<Rightarrow> (case EmitEncryptedFile l (so_SecretsFile opts) encrypted of
           Inl e \<Rightarrow> throw (Wrap ''failed to encode encrypted secrets'' e)
         | Inr bytes \<Rightarrow> onErr (WriteFile (so_SecretsFile opts) bytes mode)
             (Wrap ''failed to write secrets file'') (\<lambda>_. ret ())))"

definition SetSecret ::
  "('b, 'mk, 'dk, 'm, 'v, 'id) sops_lib \<Rightarrow> error + string \<Rightarrow> secrets_Options \<Rightarrow> string \<Rightarrow> string \<Rightarrow> ('x, unit) io"
where
  "SetSecret l userHome opts path val =
     onErr (loadAndDecryptSecrets l userHome opts) id (\<lambda>(tree, dk, mode).
     case buildSecretsPath path of
       Inl e \<Rightarrow> throw e
     | Inr fullPath \<Rightarrow>
         let bs = (if Branches tree = [] then [empty_branch l] else Branches tree)
         in case branch_Set l (hd bs) fullPath val of
           Inl p \<Rightarrow> throw p
         | Inr b \<Rightarrow> store_secrets l opts (tree\<lparr>Branches := b # tl bs\<rparr>, dk, mode))"

definition RemoveSecret ::
  "('b, 'mk, 'dk, 'm, 'v, 'id) sops_lib \<Rightarrow> error + string \<Rightarrow> secrets_Options \<Rightarrow> string \<Rightarrow> ('x, unit) io"
where
  "RemoveSecret l userHome opts path =
     onErr (loadAndDecryptSecrets l userHome opts) id (\<lambda>(tree, dk, mode).
     case buildSecretsPath path of
       Inl e \<Rightarrow> throw e
     | Inr fullPath \<Rightarrow> (case Branches tree of
           [] \<Rightarrow> throw (Errorf (''secret path '' @ path @ '' not found''))
         | b # bs \<Rightarrow> (case branch_Unset l b fullPath of
               Inl e \<Rightarrow> throw (Wrap (''secret path '' @ path @ '' not found'') e)
             | Inr b' \<Rightarrow> store_secrets l opts (tree\<lparr>Branches := b' # bs\<rparr>, dk, mode))))"

section \<open>Initialisation\<close>

definition already_exists :: "string \<Rightarrow> string" where
  "already_exists p = p @ '' already exists, not overwriting''"

definition checkSecretsFilesExists :: "secretsInitPaths \<Rightarrow> ('x, string list) io" where
  "checkSecretsFilesExists paths =
     onErr (Exists (sopsConfigFile paths)) (Wrap ''failed to check .sops.yaml'') (\<lambda>e1.
     onErr (Exists (secretsFile paths)) (Wrap ''failed to check secrets file'') (\<lambda>e2.
     ret ((if e1 then [already_exists (sopsConfigFile paths)] else []) @
          (if e2 then [already_exists (secretsFile paths)] else []))))"

definition encryptSecretsPlaintext ::
  "('b, 'mk, 'dk, 'm, 'v, 'id) sops_lib \<Rightarrow> string \<Rightarrow> string \<Rightarrow> string \<Rightarrow> error + string"
where
  "encryptSecretsPlaintext l sf plaintext recipient = (case LoadPlainFile l sf plaintext of
       Inl e \<Rightarrow> Inl (Wrap ''failed to parse plaintext secrets template'' e)
     | Inr [] \<Rightarrow> Inl (Errorf ''plaintext secrets template produced no YAML documents'')
     | Inr bs \<Rightarrow> (case MasterKeysFromRecipients l recipient of
           Inl e \<Rightarrow> Inl (Wrap (''failed to parse recipient '' @ recipient) e)
         | Inr keys \<Rightarrow> (case GenerateDataKey l \<lparr>Branches = bs, KeyGroups = [keys], MDataKey = None, MRest = new_metadata l sf\<rparr> of
               Inl e \<Rightarrow> Inl (Wrap ''failed to generate data key'' e)
             | Inr (dk, tree) \<Rightarrow> (case EncryptTree l tree dk of
                   Inl e \<Rightarrow> Inl (Wrap ''failed to encrypt initial secrets file'' e)
                 | Inr encrypted \<Rightarrow> (case EmitEncryptedFile l sf encrypted of
                       Inl e \<Rightarrow> Inl (Wrap ''failed to encode encrypted secrets file'' e)
                     | Inr bytes \<Rightarrow> Inr bytes)))))"

definition key_message :: "secretsInitPaths \<Rightarrow> sshKeyInfo \<Rightarrow> string" where
  "key_message paths i =
     (if Generated i then ''Generated new SSH key pair at '' @ displayKeyFile paths @ '' and '' @ displayPublicKeyFile paths
      else if AuthorizedKeyDerived i then ''Derived public key from existing private key at '' @ displayKeyFile paths @
        '' and wrote to '' @ displayPublicKeyFile paths
      else ''Using existing SSH key pair at '' @ displayKeyFile paths @ '' and '' @ displayPublicKeyFile paths)"

definition template_values :: "secretsInitPaths \<Rightarrow> sshKeyInfo \<Rightarrow> (string \<times> string) list" where
  "template_values paths i =
     [(''publicKeyPath'', displayPublicKeyFile paths), (''publicKey'', AuthorizedKey i),
      (''privateKeyPath'', displayKeyFile paths), (''privateKey'', PrivateKeyPEM i)]"

text \<open>What follows the key pair: the configuration of SOPS and the encrypted file.\<close>

definition write_secrets_files ::
  "('priv, 'pub) ssh_lib \<Rightarrow> ('b, 'mk, 'dk, 'm, 'v, 'id) sops_lib \<Rightarrow> secretsInitPaths \<Rightarrow> sshKeyInfo \<Rightarrow> ('x, unit) io"
where
  "write_secrets_files h l paths i = (case renderTemplate h ''sops.yaml.gotmpl'' (template_values paths i) of
       Inl e \<Rightarrow> throw (Wrap ''failed to render SOPS config template'' e)
     | Inr sopsConfig \<Rightarrow> onErr (WriteFile (sopsConfigFile paths) sopsConfig mode644)
         (Wrap (''failed to write '' @ sopsConfigFile paths)) (\<lambda>_.
         case renderTemplate h ''secrets.sops.yaml.gotmpl'' (template_values paths i) of
           Inl e \<Rightarrow> throw (Wrap ''failed to render secrets template'' e)
         | Inr plain \<Rightarrow> (case encryptSecretsPlaintext l (secretsFile paths) plain (AuthorizedKey i) of
               Inl e \<Rightarrow> throw e
             | Inr bytes \<Rightarrow> onErr (WriteFile (secretsFile paths) bytes mode644)
                 (Wrap (''failed to write '' @ secretsFile paths)) (\<lambda>_. ret ()))))"

definition InitSecrets ::
  "('priv, 'pub) ssh_lib \<Rightarrow> ('b, 'mk, 'dk, 'm, 'v, 'id) sops_lib \<Rightarrow> error + string \<Rightarrow> secrets_Options \<Rightarrow> ('x, string list) io"
where
  "InitSecrets h l userHome opts = (case resolveSecretsInitPaths userHome opts of
       Inl e \<Rightarrow> throw e
     | Inr (paths, _) \<Rightarrow>
         onErr (if \<not> so_Force opts then checkSecretsFilesExists paths else ret [])
           (Wrap ''failed to check existing secrets files'') (\<lambda>found.
         if found \<noteq> [] then ret found
         else onErr (ensureSSHKeyPair h (keyFile paths) (publicKeyFile paths)) id (\<lambda>i.
           onErr (write_secrets_files h l paths i) id (\<lambda>_.
           ret ([key_message paths i, ''Wrote '' @ sopsConfigFile paths, ''Wrote '' @ secretsFile paths] @
             (if Generated i \<and> so_KeyFile opts \<noteq> []
              then [''Set SOPS_AGE_SSH_PRIVATE_KEY_FILE='' @ keyFile paths @ '' to decrypt the generated secrets file''] else []))))))"

section \<open>What the code relies on\<close>

text \<open>
  A file encrypted again with its data key has the same keys as before, and decrypts to the documents
  it was given. On documents, a value that was set is found, one that was unset is not, and both leave
  the values at unrelated paths alone.
\<close>

definition sops_contract :: "('b, 'mk, 'dk, 'm, 'v, 'id) sops_lib \<Rightarrow> bool" where
  "sops_contract l \<longleftrightarrow> (\<forall>p d t dk td bs te bytes.
     LoadEncryptedFile l p d = Inr t \<and> tree_Decrypt l (t\<lparr>MDataKey := Some dk\<rparr>) dk = Inr td \<and>
     EncryptTree l (td\<lparr>Branches := bs\<rparr>) dk = Inr te \<and> EmitEncryptedFile l p te = Inr bytes \<longrightarrow>
     (\<exists>t2 td2. LoadEncryptedFile l p bytes = Inr t2 \<and> KeyGroups t2 = KeyGroups t \<and> GetDataKey l t2 = GetDataKey l t \<and>
        tree_Decrypt l (t2\<lparr>MDataKey := Some dk\<rparr>) dk = Inr td2 \<and> Branches td2 = bs))"

definition unrelated :: "string list \<Rightarrow> string list \<Rightarrow> bool" where
  "unrelated p q \<longleftrightarrow> \<not> prefix p q \<and> \<not> prefix q p"

definition branch_contract :: "('b, 'mk, 'dk, 'm, 'v, 'id) sops_lib \<Rightarrow> bool" where
  "branch_contract l \<longleftrightarrow>
     (\<forall>b p v b'. branch_Set l b p v = Inr b' \<longrightarrow> (\<exists>x. Truncate l b' p = Inr x \<and> as_string l x = Some v)) \<and>
     (\<forall>b p b'. branch_Unset l b p = Inr b' \<longrightarrow> (\<exists>e. Truncate l b' p = Inl e)) \<and>
     (\<forall>b p q b' x. unrelated p q \<and> Truncate l b q = Inr x \<and> (branch_Unset l b p = Inr b' \<or> (\<exists>v. branch_Set l b p v = Inr b')) \<longrightarrow>
        Truncate l b' q = Inr x)"

section \<open>Laws of reading and writing\<close>

definition key_path :: "error + string \<Rightarrow> secrets_Options \<Rightarrow> string option" where
  "key_path userHome opts = (case resolveSecretsInitPaths userHome opts of Inl e \<Rightarrow> None | Inr (p, _) \<Rightarrow> Some (keyFile p))"

definition separate_key :: "error + string \<Rightarrow> secrets_Options \<Rightarrow> tree \<Rightarrow> bool" where
  "separate_key userHome opts fs \<longleftrightarrow> (case key_path userHome opts of
       None \<Rightarrow> True | Some k \<Rightarrow> final_name fs k \<noteq> final_name fs (so_SecretsFile opts))"

lemma secrets_frames [frame_intros]:
  "state_io_rel same_files (data_key l userHome opts t mk)"
  "state_io_rel same_oracle (data_key l userHome opts t mk)"
  unfolding data_key_def getDataKeyFromOpts_def parseSSHIdentityFromPrivateKeyFile_def
  by (intro sf.frame_rules so.frame_rules frame_intros)+

lemma load_secrets_frames [frame_intros]:
  "state_io_rel same_files (loadAndDecryptSecrets l userHome opts)"
  "state_io_rel same_oracle (loadAndDecryptSecrets l userHome opts)"
  unfolding loadAndDecryptSecrets_def
  by (intro sf.frame_rules so.frame_rules frame_intros)+

lemma data_key_cong:
  assumes "fs_fault w = (\<lambda>_ _. None)" and "fs_fault v = (\<lambda>_ _. None)" and "GetDataKey l t = GetDataKey l t'"
    and "\<And>k. key_path userHome opts = Some k \<Longrightarrow> lookup_node (files v) k = lookup_node (files w) k"
  shows "fst (run_state (data_key l userHome opts t mk) w) = fst (run_state (data_key l userHome opts t' mk) v)"
  using assms
  by (auto simp: data_key_def getDataKeyFromOpts_def parseSSHIdentityFromPrivateKeyFile_def run_onErr run_ReadFile
      key_path_def split: sum.splits prod.splits option.splits)

lemma load_result:
  assumes "fs_fault w = (\<lambda>_ _. None)"
  shows "fst (run_state (loadAndDecryptSecrets l userHome opts) w) = Inr (td, dk, mode) \<longleftrightarrow>
    (\<exists>c m t mk. lookup_node (files w) (so_SecretsFile opts) = Some (File c m) \<and> mode = m mod 512 \<and>
       LoadEncryptedFile l (so_SecretsFile opts) c = Inr t \<and> first_key (KeyGroups t) = Inr mk \<and>
       fst (run_state (data_key l userHome opts t mk) w) = Inr dk \<and>
       tree_Decrypt l (t\<lparr>MDataKey := Some dk\<rparr>) dk = Inr td)"
proof -
  let ?v = "tick (tick (tick w))"
  have dk: "fst (run_state (data_key l userHome opts t mk) ?v) = fst (run_state (data_key l userHome opts t mk) w)" for t mk
    using assms by (intro data_key_cong) simp_all
  show ?thesis
    using assms
    by (cases "lookup_node (files w) (so_SecretsFile opts)")
      (auto simp: loadAndDecryptSecrets_def run_onErr run_read_ops path_exists_def node_Perm_def dk [symmetric]
        split: sum.splits prod.splits option.splits node.splits)
qed

lemma resolve_overwrite:
  "(\<And>t. fs q \<noteq> Some (Symlink t)) \<Longrightarrow> (\<And>t. x \<noteq> Symlink t) \<Longrightarrow> resolve n (fs(q \<mapsto> x)) p = resolve n fs p"
  by (induction n arbitrary: p) (auto split: option.splits node.splits)

lemma WriteFile_over:
  assumes "run_state (WriteFile p d m) w = (Inr (), w')" and "lookup_node (files w) p = Some (File c k)"
  shows "lookup_node (files w') p = Some (File d k)"
    and "final_name (files w) q \<noteq> final_name (files w) p \<Longrightarrow> lookup_node (files w') q = lookup_node (files w) q"
    and "fs_fault w' = fs_fault w"
proof -
  from assms obtain r where r: "final_name (files w) p = Some r" "files w r = Some (File c k)"
    "files w' = (files w)(r \<mapsto> File d k)" "fs_fault w' = fs_fault w"
    by (auto simp: WriteFile_def run_fs_call lookup_node_def split: option.splits)
  have f: "final_name (files w') s = final_name (files w) s" for s
    unfolding r(3) final_name_def using r(2) by (intro resolve_overwrite) simp_all
  show "lookup_node (files w') p = Some (File d k)" using r f by (simp add: lookup_node_def)
  show "fs_fault w' = fs_fault w" by (rule r)
  show "lookup_node (files w') q = lookup_node (files w) q" if "final_name (files w) q \<noteq> final_name (files w) p"
    using that r f by (auto simp: lookup_node_def split: option.splits)
qed

text \<open>After the documents of a file have been replaced, the next load finds the new ones, with the same key and the same mode.\<close>

definition only_file_changed :: "string \<Rightarrow> 'x world_scheme \<Rightarrow> 'x world_scheme \<Rightarrow> bool" where
  "only_file_changed p w w' \<longleftrightarrow> fs_fault w' = fs_fault w \<and>
     (\<forall>q. final_name (files w) q \<noteq> final_name (files w) p \<longrightarrow> lookup_node (files w') q = lookup_node (files w) q) \<and>
     (\<exists>c d m. lookup_node (files w) p = Some (File c m) \<and> lookup_node (files w') p = Some (File d m))"

lemma store_reload:
  assumes "sops_contract l" and calm: "fs_fault w = (\<lambda>_ _. None)"
    and key: "separate_key userHome opts (files w)"
    and load: "run_state (loadAndDecryptSecrets l userHome opts) w = (Inr (td, dk, mode), w1)"
    and store: "run_state (store_secrets l opts (td\<lparr>Branches := bs\<rparr>, dk, mode)) w1 = (Inr (), w')"
  shows "only_file_changed (so_SecretsFile opts) w w'"
    and "\<exists>td2. fst (run_state (loadAndDecryptSecrets l userHome opts) w') = Inr (td2, dk, mode) \<and> Branches td2 = bs"
proof -
  let ?p = "so_SecretsFile opts"
  have w1: "files w1 = files w" "fs_fault w1 = fs_fault w"
    using state_io_relD [OF load_secrets_frames(1) load] same_oracle_simps(1) [OF state_io_relD [OF load_secrets_frames(2) load]]
    by (simp_all add: same_files_def)
  from load have "fst (run_state (loadAndDecryptSecrets l userHome opts) w) = Inr (td, dk, mode)" by simp
  then obtain c m t mk where t: "lookup_node (files w) ?p = Some (File c m)" "mode = m mod 512"
      "LoadEncryptedFile l ?p c = Inr t" "first_key (KeyGroups t) = Inr mk"
      "fst (run_state (data_key l userHome opts t mk) w) = Inr dk"
      "tree_Decrypt l (t\<lparr>MDataKey := Some dk\<rparr>) dk = Inr td"
    unfolding load_result [OF calm] by (elim exE conjE)
  from store obtain te bytes where te: "EncryptTree l (td\<lparr>Branches := bs\<rparr>) dk = Inr te"
      "EmitEncryptedFile l ?p te = Inr bytes" "run_state (WriteFile ?p bytes mode) w1 = (Inr (), w')"
    by (auto simp: store_secrets_def elim!: onErr_Inr_elim split: sum.splits)
  from t(1) w1 have "lookup_node (files w1) ?p = Some (File c m)" by simp
  note wr = WriteFile_over [OF te(3) this, unfolded w1]
  show "only_file_changed ?p w w'" unfolding only_file_changed_def using wr t(1) by blast
  from assms(1) [unfolded sops_contract_def] t(3,6) te(1,2) obtain t2 td2 where
    t2: "LoadEncryptedFile l ?p bytes = Inr t2" "KeyGroups t2 = KeyGroups t" "GetDataKey l t2 = GetDataKey l t"
      "tree_Decrypt l (t2\<lparr>MDataKey := Some dk\<rparr>) dk = Inr td2" "Branches td2 = bs" by metis
  have "fst (run_state (data_key l userHome opts t2 mk) w') = fst (run_state (data_key l userHome opts t mk) w)"
    using calm t2(3) wr(2,3) key by (intro data_key_cong) (auto simp: separate_key_def)
  with t t2 wr calm have "fst (run_state (loadAndDecryptSecrets l userHome opts) w') = Inr (td2, dk, mode)"
    by (subst load_result) auto
  with t2(5) show "\<exists>td2. fst (run_state (loadAndDecryptSecrets l userHome opts) w') = Inr (td2, dk, mode) \<and> Branches td2 = bs"
    by blast
qed

lemma GetSecret_result:
  "fst (run_state (loadAndDecryptSecrets l userHome opts) w) = Inr (td, dk, mode) \<Longrightarrow> buildSecretsPath path = Inr p \<Longrightarrow>
   fst (run_state (GetSecret l userHome opts path) w) = (case Branches td of
       [] \<Rightarrow> Inl (Errorf ''secrets file has no data'')
     | b # bs \<Rightarrow> (case Truncate l b p of
           Inl e \<Rightarrow> Inl (Wrap (''secret path '' @ path @ '' not found'') e)
         | Inr v \<Rightarrow> secret_text l path v))"
  by (cases "run_state (loadAndDecryptSecrets l userHome opts) w")
    (auto simp: GetSecret_def run_onErr split: list.splits sum.splits)

text \<open>What a reader finds at a path in the first document.\<close>

definition read_branch :: "('b, 'mk, 'dk, 'm, 'v, 'id) sops_lib \<Rightarrow> 'b \<Rightarrow> string \<Rightarrow> string list \<Rightarrow> error + string" where
  "read_branch l b path p = (case Truncate l b p of
       Inl e \<Rightarrow> Inl (Wrap (''secret path '' @ path @ '' not found'') e)
     | Inr v \<Rightarrow> secret_text l path v)"

lemma read_unrelated:
  assumes "branch_contract l" and "unrelated p q" and "read_branch l b path q = Inr r"
    and "branch_Unset l b p = Inr b' \<or> (\<exists>v. branch_Set l b p v = Inr b')"
  shows "read_branch l b' path q = Inr r"
proof -
  from assms(3) obtain x where x: "Truncate l b q = Inr x" "secret_text l path x = Inr r"
    by (auto simp: read_branch_def split: sum.splits)
  with assms(1,2,4) have "Truncate l b' q = Inr x" unfolding branch_contract_def by blast
  with x show ?thesis by (simp add: read_branch_def)
qed

text \<open>The secrets at the paths unrelated to one are readable as before.\<close>

definition others_kept ::
  "('b, 'mk, 'dk, 'm, 'v, 'id) sops_lib \<Rightarrow> error + string \<Rightarrow> secrets_Options \<Rightarrow> string \<Rightarrow> 'x world_scheme \<Rightarrow> 'x world_scheme \<Rightarrow> bool"
where
  "others_kept l userHome opts path w w' \<longleftrightarrow> (\<forall>other p q r.
     buildSecretsPath path = Inr p \<and> buildSecretsPath other = Inr q \<and> unrelated p q \<and>
     fst (run_state (GetSecret l userHome opts other) w) = Inr r \<longrightarrow>
     fst (run_state (GetSecret l userHome opts other) w') = Inr r)"

lemma store_reads:
  assumes "sops_contract l" and br: "branch_contract l" and calm: "fs_fault w = (\<lambda>_ _. None)"
    and key: "separate_key userHome opts (files w)"
    and load: "run_state (loadAndDecryptSecrets l userHome opts) w = (Inr (td, dk, mode), w1)"
    and store: "run_state (store_secrets l opts (td\<lparr>Branches := b' # bs\<rparr>, dk, mode)) w1 = (Inr (), w')"
    and p: "buildSecretsPath path = Inr p"
    and b': "Branches td \<noteq> [] \<Longrightarrow> branch_Unset l (hd (Branches td)) p = Inr b' \<or> (\<exists>v. branch_Set l (hd (Branches td)) p v = Inr b')"
  shows "fst (run_state (GetSecret l userHome opts path) w') = read_branch l b' path p"
    and "others_kept l userHome opts path w w'"
proof -
  obtain td2 where td2: "fst (run_state (loadAndDecryptSecrets l userHome opts) w') = Inr (td2, dk, mode)" "Branches td2 = b' # bs"
    using store_reload(2) [OF assms(1) calm key load store] by (elim exE conjE)
  have after: "fst (run_state (GetSecret l userHome opts other) w') = read_branch l b' other q"
    if "buildSecretsPath other = Inr q" for other q
    using GetSecret_result [OF td2(1) that] td2(2) by (simp add: read_branch_def)
  show "fst (run_state (GetSecret l userHome opts path) w') = read_branch l b' path p" using p by (rule after)
  show "others_kept l userHome opts path w w'"
    unfolding others_kept_def
  proof (intro allI impI, elim conjE)
    fix other p' q r
    assume a: "buildSecretsPath path = Inr p'" "buildSecretsPath other = Inr q" "unrelated p' q"
      "fst (run_state (GetSecret l userHome opts other) w) = Inr r"
    from load have "fst (run_state (loadAndDecryptSecrets l userHome opts) w) = Inr (td, dk, mode)" by simp
    from GetSecret_result [OF this a(2)] a(4) obtain b bs0 where
      b: "Branches td = b # bs0" "read_branch l b other q = Inr r"
      by (cases "Branches td") (simp_all add: read_branch_def)
    from read_unrelated [OF br _ b(2)] a(1,3) p b' b(1)
    have "read_branch l b' other q = Inr r" by simp
    then show "fst (run_state (GetSecret l userHome opts other) w') = Inr r" by (simp add: after [OF a(2)])
  qed
qed

section \<open>Properties of the secrets\<close>

text \<open>
  C9: a secret that was set is the one that is read next, whatever its path held before; secrets at other
  paths that do not contain it or lie inside it are read as before; only the secrets file has changed,
  and its mode has not. The private key must be another file than the secrets file, and the file
  system free of errors.
\<close>

theorem secret_set_get:
  assumes "sops_contract l" and "branch_contract l" and "fs_fault w = (\<lambda>_ _. None)"
    and "separate_key userHome opts (files w)"
    and "run_state (SetSecret l userHome opts path val) w = (Inr (), w')"
  shows "fst (run_state (GetSecret l userHome opts path) w') = Inr val \<and>
    others_kept l userHome opts path w w' \<and> only_file_changed (so_SecretsFile opts) w w'"
proof -
  from assms(5) obtain td dk mode w1 p b where
    load: "run_state (loadAndDecryptSecrets l userHome opts) w = (Inr (td, dk, mode), w1)" and
    p: "buildSecretsPath path = Inr p" and
    b: "branch_Set l (hd (if Branches td = [] then [empty_branch l] else Branches td)) p val = Inr b" and
    store: "run_state (store_secrets l opts (td\<lparr>Branches := b # tl (if Branches td = [] then [empty_branch l] else Branches td)\<rparr>,
      dk, mode)) w1 = (Inr (), w')"
    unfolding SetSecret_def Let_def by (elim onErr_Inr_elim) (auto split: sum.splits)
  from b assms(2) obtain x where "Truncate l b p = Inr x" "as_string l x = Some val" unfolding branch_contract_def by metis
  then have "read_branch l b path p = Inr val" by (simp add: read_branch_def secret_text_def)
  moreover have "branch_Unset l (hd (Branches td)) p = Inr b \<or> (\<exists>v. branch_Set l (hd (Branches td)) p v = Inr b)"
    if "Branches td \<noteq> []" using b that by auto
  ultimately show ?thesis
    using store_reads [OF assms(1-4) load store p] store_reload(1) [OF assms(1,3,4) load store] by metis
qed

text \<open>A library whose documents hold one token, are not encrypted and are their own file.\<close>

definition one_token :: "(string, unit, unit, unit, string, unit) sops_lib" where
  "one_token = \<lparr>LoadEncryptedFile = (\<lambda>p d. Inr \<lparr>Branches = [d], KeyGroups = [[()]], MDataKey = None, MRest = ()\<rparr>),
     age_key = (\<lambda>_. True), ParseIdentity = (\<lambda>_. Inr ()), AgeDecrypt = (\<lambda>_ _. Inr ()), GetDataKey = (\<lambda>_. Inl ErrNotFound),
     tree_Decrypt = (\<lambda>t _. Inr t),
     Truncate = (\<lambda>b p. if b \<noteq> [] \<and> p = [''data'', ''token''] then Inr b else Inl ErrNotFound),
     branch_Set = (\<lambda>b p v. if v \<noteq> [] \<and> p = [''data'', ''token''] then Inr v else Inl (Panic ''one token only'')),
     branch_Unset = (\<lambda>b p. if b \<noteq> [] \<and> p = [''data'', ''token''] then Inr [] else Inl ErrNotFound),
     empty_branch = [], EncryptTree = (\<lambda>t _. Inr t), EmitEncryptedFile = (\<lambda>p t. case Branches t of [b] \<Rightarrow> Inr b | _ \<Rightarrow> Inl ErrNotFound),
     as_string = Some, value_yaml = Inr, LoadPlainFile = (\<lambda>p d. Inr [d]), MasterKeysFromRecipients = (\<lambda>_. Inr [()]),
     new_metadata = (\<lambda>_. ()), GenerateDataKey = (\<lambda>t. Inr ((), t))\<rparr>"

definition token_options :: secrets_Options where
  "token_options = \<lparr>so_SecretsFile = ''/s/secrets.sops.yaml'', so_HomeDir = ''/root'', so_KeyFile = [], so_Force = False\<rparr>"

definition token_world :: world where
  "token_world = calm_world [''/root/.ssh/id_ed25519'' \<mapsto> File ''key'' mode600, ''/s/secrets.sops.yaml'' \<mapsto> File ''old'' mode600]"

lemma one_token_contract: "sops_contract one_token" "branch_contract one_token"
  unfolding sops_contract_def branch_contract_def one_token_def unrelated_def
  by (auto split: list.splits if_splits)

lemma token_world_ok: "fs_fault token_world = (\<lambda>_ _. None)" "separate_key (Inr ''/root'') token_options (files token_world)"
  by (simp add: token_world_def, code_simp)

theorem secret_set_get_witness:
  "fst (run_state (GetSecret one_token (Inr ''/root'') token_options ''token'')
     (snd (run_state (SetSecret one_token (Inr ''/root'') token_options ''token'' ''new'') token_world))) = Inr ''new''"
proof -
  let ?r = "run_state (SetSecret one_token (Inr ''/root'') token_options ''token'' ''new'') token_world"
  have "fst ?r = Inr ()" by code_simp
  then have "?r = (Inr (), snd ?r)" by (simp add: prod_eq_iff)
  from secret_set_get [OF one_token_contract token_world_ok this] show ?thesis by (rule conjunct1)
qed

text \<open>
  a secret that was removed is gone: reading it fails, secrets at unrelated paths are read as before,
  and only the secrets file has changed.
\<close>

lemma secret_removed:
  assumes "sops_contract l" and "branch_contract l" and "fs_fault w = (\<lambda>_ _. None)"
    and "separate_key userHome opts (files w)"
    and "run_state (RemoveSecret l userHome opts path) w = (Inr (), w')"
  shows "(\<exists>e. fst (run_state (GetSecret l userHome opts path) w') = Inl (Wrap (''secret path '' @ path @ '' not found'') e)) \<and>
    others_kept l userHome opts path w w' \<and> only_file_changed (so_SecretsFile opts) w w'"
proof -
  from assms(5) obtain td dk mode w1 p b0 bs b where
    load: "run_state (loadAndDecryptSecrets l userHome opts) w = (Inr (td, dk, mode), w1)" and
    p: "buildSecretsPath path = Inr p" and td: "Branches td = b0 # bs" and b: "branch_Unset l b0 p = Inr b" and
    store: "run_state (store_secrets l opts (td\<lparr>Branches := b # bs\<rparr>, dk, mode)) w1 = (Inr (), w')"
    unfolding RemoveSecret_def by (elim onErr_Inr_elim) (auto split: sum.splits list.splits)
  from b assms(2) obtain e where "Truncate l b p = Inl e" unfolding branch_contract_def by metis
  then have "read_branch l b path p = Inl (Wrap (''secret path '' @ path @ '' not found'') e)" by (simp add: read_branch_def)
  moreover have "branch_Unset l (hd (Branches td)) p = Inr b \<or> (\<exists>v. branch_Set l (hd (Branches td)) p v = Inr b)"
    using b td by simp
  ultimately show ?thesis
    using store_reads [OF assms(1-4) load store p] store_reload(1) [OF assms(1,3,4) load store] by metis
qed


lemma secret_removed_witness:
  "\<exists>e. fst (run_state (GetSecret one_token (Inr ''/root'') token_options ''token'')
     (snd (run_state (RemoveSecret one_token (Inr ''/root'') token_options ''token'') token_world))) = Inl (Wrap ''secret path token not found'' e)"
proof -
  let ?r = "run_state (RemoveSecret one_token (Inr ''/root'') token_options ''token'') token_world"
  have "fst ?r = Inr ()" by code_simp
  then have "?r = (Inr (), snd ?r)" by (simp add: prod_eq_iff)
  from secret_removed [OF one_token_contract token_world_ok this] show ?thesis by simp
qed

section \<open>Laws of the initialisation\<close>

text \<open>
  \<open>writes_only ps\<close>: links lead where they did, and a path that does not lead to one of the files \<open>ps\<close> leads
  to the same node, except that directories may have been made.
\<close>

definition writes_only :: "string set \<Rightarrow> 'x world_scheme \<Rightarrow> 'x world_scheme \<Rightarrow> bool" where
  "writes_only ps w w' \<longleftrightarrow> (\<forall>q. final_name (files w') q = final_name (files w) q \<and>
     ((\<forall>p\<in>ps. final_name (files w) q \<noteq> final_name (files w) p) \<longrightarrow>
        or_directory (lookup_node (files w) q) (lookup_node (files w') q)))"

interpretation wo: frame "writes_only ps :: 'x world_scheme \<Rightarrow> 'x world_scheme \<Rightarrow> bool" for ps
proof (unfold_locales, goal_cases)
  case (1 s) show ?case by (simp add: writes_only_def or_directory_def)
next
  case (2 s t u)
  have "or_directory a b \<Longrightarrow> or_directory b c \<Longrightarrow> or_directory a c" for a b c by (auto simp: or_directory_def)
  with 2 show ?case by (auto 4 4 simp: writes_only_def)
qed

lemma same_files_writes: "state_io_rel same_files m \<Longrightarrow> state_io_rel (writes_only ps) m"
  by (rule state_io_relI) (auto simp: writes_only_def same_files_def or_directory_def dest!: state_io_relD)

lemma WriteFile_writes: "p \<in> ps \<Longrightarrow> state_io_rel (writes_only ps) (WriteFile p d m)"
proof (rule state_io_relI)
  fix r and w w' :: "'x world_scheme"
  assume p: "p \<in> ps" and run: "run_state (WriteFile p d m) w = (r, w')"
  consider "files w' = files w" | s k where "final_name (files w) p = Some s" "files w' = (files w)(s \<mapsto> File d k)"
    using run by (auto simp: WriteFile_def run_fs_call split: option.splits node.splits)
  then show "writes_only ps w w'"
  proof cases
    case 1
    then show ?thesis by (simp add: writes_only_def or_directory_def)
  next
    case 2
    then have "files w s \<noteq> Some (Symlink t)" for t using resolve_not_link [of 40 "files w" p s] by (simp add: final_name_def)
    then have f: "final_name (files w') q = final_name (files w) q" for q
      unfolding 2(2) final_name_def by (intro resolve_overwrite) simp_all
    show ?thesis using p f 2 by (auto simp: writes_only_def or_directory_def lookup_node_def split: option.splits)
  qed
qed

lemma MkdirAll_writes: "state_io_rel (writes_only ps) (MkdirAll p m)"
  by (rule state_io_relI) (auto simp: writes_only_def only_dirs_added_def dest!: MkdirAll_dirs)

lemmas writes_intros = wo.frame_rules same_files_writes WriteFile_writes MkdirAll_writes

lemma key_files_written:
  "state_io_rel (writes_only {pubFile}) (writePublicKeyFile pubFile key)"
  "state_io_rel same_files (readAuthorizedKeyFromPublicKeyFile h pubFile)"
  unfolding writePublicKeyFile_def readAuthorizedKeyFromPublicKeyFile_def
  by (intro wo.frame_rules WriteFile_writes sf.frame_rules frame_intros; simp)+

lemma secrets_files_written:
  "state_io_rel (writes_only {sopsConfigFile paths, secretsFile paths}) (write_secrets_files h l paths i)"
  unfolding write_secrets_files_def by (intro wo.frame_rules WriteFile_writes) simp_all

lemma writes_only_keeps:
  "writes_only ps w w' \<Longrightarrow> lookup_node (files w) q = Some n \<Longrightarrow> (\<And>p. p \<in> ps \<Longrightarrow> final_name (files w) q \<noteq> final_name (files w) p) \<Longrightarrow>
   lookup_node (files w') q = Some n"
  unfolding writes_only_def or_directory_def by (metis option.distinct(1))

lemma ensure_key_existing:
  assumes run: "run_state (ensureSSHKeyPair h kf pubFile) w = (r, w')" and ex: "path_exists w kf"
  shows "writes_only {pubFile} w w'"
proof -
  have "state_io_rel (writes_only {pubFile}) (onErr (Exists pubFile) (Wrap ''failed to check public key file'') (\<lambda>publicExists.
     onErr (if publicExists
                 then onErr (readAuthorizedKeyFromPublicKeyFile h pubFile)
                        (Wrap ''failed to read authorized key from public key file'') ret
                 else ret []) id (\<lambda>authorized.
       onErr (ReadFile kf) (Wrap ''failed to read key file'') (\<lambda>bytes.
         if publicExists
         then ret \<lparr>AuthorizedKey = authorized, PrivateKeyPEM = TrimRightNL bytes, Generated = False, AuthorizedKeyDerived = False\<rparr>
         else (case sshAuthorizedKeyFromPrivateKey h bytes (path_base kf) of
             Inl e \<Rightarrow> throw (Wrap ''failed to derive public key from private key'' e)
           | Inr key \<Rightarrow> onErr (writePublicKeyFile pubFile key) id (\<lambda>_.
               ret \<lparr>AuthorizedKey = key, PrivateKeyPEM = TrimRightNL bytes, Generated = False, AuthorizedKeyDerived = True\<rparr>))))))"
    (is "state_io_rel _ ?k")
    by (intro wo.frame_rules key_files_written same_files_writes frame_intros)
  then have k: "run_state ?k (tick w) = (r, w') \<Longrightarrow> writes_only {pubFile} (tick w) w'" by (rule state_io_relD)
  have "writes_only {pubFile} (tick w) w'"
  proof (cases "fs_fault w (clock w) (FExists kf)")
    case None
    then have "run_state ?k (tick w) = (r, w')" using run ex by (simp add: ensureSSHKeyPair_def run_onErr run_Exists)
    then show ?thesis by (rule k)
  next
    case (Some e)
    then have "w' = tick w" using run by (simp add: ensureSSHKeyPair_def run_onErr run_Exists)
    then show ?thesis by (simp add: wo.R_refl)
  qed
  then show ?thesis by (simp add: writes_only_def)
qed

lemma create_key_mode:
  assumes run: "run_state (createKeyPair h kf pubFile c) w = (Inr i, w')" and no: "\<not> path_exists w kf"
    and ne: "final_name (files w) kf \<noteq> final_name (files w) pubFile"
  shows "\<exists>pem. lookup_node (files w') kf = Some (File pem mode600)" and "writes_only {kf, pubFile} w w'"
proof -
  from run obtain u v pem key where
    m: "run_state (MkdirAll (filepath_Dir kf) mode700) w = (Inr (), u)" and
    k: "run_state (WriteFile kf pem mode600) u = (Inr (), v)" and
    p: "run_state (writePublicKeyFile pubFile key) v = (Inr (), w')"
    unfolding createKeyPair_def by (auto elim!: onErr_Inr_elim split: sum.splits)
  have d: "only_dirs_added w u" using m by (rule MkdirAll_dirs)
  then have "or_directory (lookup_node (files w) kf) (lookup_node (files u) kf)" by (simp add: only_dirs_added_def)
  then have "lookup_node (files u) kf \<noteq> Some (File a b)" for a b
    using no by (auto simp: or_directory_def path_exists_def)
  note c = WriteFile_created [OF k this]
  have w: "writes_only {pubFile} v w'" using key_files_written(1) p by (rule state_io_relD)
  have "final_name (files v) kf \<noteq> final_name (files v) pubFile" using ne d c(3) by (simp add: only_dirs_added_def)
  then show "\<exists>pem. lookup_node (files w') kf = Some (File pem mode600)"
    using writes_only_keeps [OF w c(1)] by auto
  have "writes_only {kf, pubFile} w u" using MkdirAll_writes m by (rule state_io_relD)
  also have "writes_only {kf, pubFile} u v" using WriteFile_writes k by (rule state_io_relD) simp
  finally (wo.R_trans) have "writes_only {kf, pubFile} w v" .
  moreover have "writes_only {kf, pubFile} v w'" using w by (auto simp: writes_only_def)
  ultimately show "writes_only {kf, pubFile} w w'" by (rule wo.R_trans)
qed

lemma check_found:
  assumes "run_state (checkSecretsFilesExists paths) w = (r, v)"
  shows "files v = files w" and "r = Inr found \<Longrightarrow> found \<noteq> [] \<longleftrightarrow> path_exists w (sopsConfigFile paths) \<or> path_exists w (secretsFile paths)"
  using assms by (auto simp: checkSecretsFilesExists_def run_onErr run_Exists split: option.splits if_splits)

definition key_apart :: "secretsInitPaths \<Rightarrow> tree \<Rightarrow> bool" where
  "key_apart paths fs \<longleftrightarrow> final_name fs (keyFile paths) \<notin>
     final_name fs ` {publicKeyFile paths, sopsConfigFile paths, secretsFile paths}"

text \<open>The part of the initialisation that follows the checks.\<close>

definition init_work ::
  "('priv, 'pub) ssh_lib \<Rightarrow> ('b, 'mk, 'dk, 'm, 'v, 'id) sops_lib \<Rightarrow> secretsInitPaths \<Rightarrow> ('x, sshKeyInfo) io"
where
  "init_work h l paths = onErr (ensureSSHKeyPair h (keyFile paths) (publicKeyFile paths)) id (\<lambda>i.
     onErr (write_secrets_files h l paths i) id (\<lambda>_. ret i))"

lemma init_work_key:
  assumes run: "run_state (init_work h l paths) w = (r, w')" and apart: "key_apart paths (files w)"
  shows "lookup_node (files w) (keyFile paths) = Some n \<Longrightarrow> lookup_node (files w') (keyFile paths) = Some n"
    and "r = Inr i \<Longrightarrow> \<not> path_exists w (keyFile paths) \<Longrightarrow> \<exists>pem. lookup_node (files w') (keyFile paths) = Some (File pem mode600)"
proof -
  let ?k = "keyFile paths" and ?files = "{sopsConfigFile paths, secretsFile paths}"
  obtain q v where q: "run_state (ensureSSHKeyPair h ?k (publicKeyFile paths)) w = (q, v)" by (metis surj_pair)
  have rest: "state_io_rel (writes_only ?files) (onErr (write_secrets_files h l paths i) id (\<lambda>_. ret i))" for i
    by (intro wo.frame_rules secrets_files_written)
  have v: "writes_only ?files v w'"
    using run q state_io_relD [OF rest] by (cases q) (auto simp: init_work_def run_onErr wo.R_refl)
  have ne: "final_name (files w) ?k \<noteq> final_name (files w) p" if "p \<in> insert (publicKeyFile paths) ?files" for p
    using apart that by (auto simp: key_apart_def)
  { fix n assume n: "lookup_node (files w) ?k = Some n"
    then have e: "writes_only {publicKeyFile paths} w v" by (intro ensure_key_existing [OF q]) (simp add: path_exists_def)
    then have "lookup_node (files v) ?k = Some n" using n ne by (auto intro: writes_only_keeps)
    moreover have "final_name (files v) x = final_name (files w) x" for x using e by (simp add: writes_only_def)
    ultimately show "lookup_node (files w') ?k = Some n" using ne by (auto intro!: writes_only_keeps [OF v]) }
  { assume r: "r = Inr i" and no: "\<not> path_exists w ?k"
    with run q have "q = Inr i" by (cases q) (auto simp: init_work_def run_onErr split: prod.splits sum.splits)
    with q no have c: "run_state (createKeyPair h ?k (publicKeyFile paths) (path_base ?k)) (tick (tick w)) = (Inr i, v)"
      by (auto simp: ensureSSHKeyPair_def run_onErr run_Exists split: option.splits if_splits)
    from create_key_mode [OF c] no ne obtain pem where
      pem: "lookup_node (files v) ?k = Some (File pem mode600)" and e: "writes_only {?k, publicKeyFile paths} (tick (tick w)) v" by auto
    have "final_name (files v) x = final_name (files w) x" for x using e by (simp add: writes_only_def)
    then show "\<exists>pem. lookup_node (files w') ?k = Some (File pem mode600)"
      using ne pem by (auto intro!: writes_only_keeps [OF v]) }
qed

lemma InitSecrets_outcome:
  assumes run: "run_state (InitSecrets h l userHome opts) w = (r, w')"
    and paths: "resolveSecretsInitPaths userHome opts = Inr (paths, o')"
  shows "files w' = files w \<and> (r = Inr msgs \<longrightarrow> \<not> so_Force opts \<and> (path_exists w (sopsConfigFile paths) \<or> path_exists w (secretsFile paths))) \<or>
    ((so_Force opts \<or> \<not> path_exists w (sopsConfigFile paths) \<and> \<not> path_exists w (secretsFile paths)) \<and>
     (\<exists>v q. files v = files w \<and> run_state (init_work h l paths) v = (q, w') \<and> (isl q \<longleftrightarrow> isl r)))"
proof -
  let ?check = "if \<not> so_Force opts then checkSecretsFilesExists paths else ret []"
  obtain c v where c: "run_state ?check w = (c, v)" by (metis surj_pair)
  have v: "files v = files w" using c check_found(1) by (auto split: if_splits)
  show ?thesis
  proof (cases "c = Inr []")
    case True
    have "so_Force opts \<or> \<not> path_exists w (sopsConfigFile paths) \<and> \<not> path_exists w (secretsFile paths)"
      using c True check_found(2) [of paths w "Inr []" v "[]"] by (auto split: if_splits)
    moreover have "\<exists>q. run_state (init_work h l paths) v = (q, w') \<and> (isl q \<longleftrightarrow> isl r)"
      using run c True by (auto simp: InitSecrets_def paths run_onErr init_work_def split: prod.splits sum.splits)
    ultimately show ?thesis using v by blast
  next
    case False
    then have "w' = v" and r: "r = Inr msgs \<Longrightarrow> c = Inr msgs \<and> msgs \<noteq> []"
      using run c by (auto simp: InitSecrets_def paths run_onErr split: sum.splits if_splits)
    moreover have "\<not> so_Force opts \<and> (path_exists w (sopsConfigFile paths) \<or> path_exists w (secretsFile paths))" if "r = Inr msgs"
      using r [OF that] c check_found(2) [of paths w c v msgs] by (auto split: if_splits)
    ultimately show ?thesis using v by blast
  qed
qed

text \<open>
  C10: the initialisation of the secrets never changes a private key that exists, forced or not and whether
  it succeeds or not. Unless it is forced it changes no file when its configuration or the secrets file
  exists. When it succeeds otherwise, there is a private key, and one it has made has mode 0600. The
  private key must be another file than the three others.
\<close>

theorem init_secrets_safe:
  assumes run: "run_state (InitSecrets h l userHome opts) w = (r, w')"
    and paths: "resolveSecretsInitPaths userHome opts = Inr (paths, o')" and apart: "key_apart paths (files w)"
  shows "(\<forall>n. lookup_node (files w) (keyFile paths) = Some n \<longrightarrow> lookup_node (files w') (keyFile paths) = Some n) \<and>
    (\<not> so_Force opts \<and> (path_exists w (sopsConfigFile paths) \<or> path_exists w (secretsFile paths)) \<longrightarrow> files w' = files w) \<and>
    (\<forall>msgs. r = Inr msgs \<and> files w' \<noteq> files w \<longrightarrow> path_exists w' (keyFile paths) \<and>
       (\<not> path_exists w (keyFile paths) \<longrightarrow> (\<exists>pem. lookup_node (files w') (keyFile paths) = Some (File pem mode600))))"
proof -
  consider (kept) "files w' = files w"
    | (work) v q where "so_Force opts \<or> \<not> path_exists w (sopsConfigFile paths) \<and> \<not> path_exists w (secretsFile paths)"
        "files v = files w" "run_state (init_work h l paths) v = (q, w')" "isl q \<longleftrightarrow> isl r"
    using InitSecrets_outcome [OF run paths, of "[]"] by auto
  then show ?thesis
  proof cases
    case kept
    then show ?thesis by simp
  next
    case work
    from apart work(2) have "key_apart paths (files v)" by simp
    note key = init_work_key [OF work(3) this]
    have made: "\<exists>pem. lookup_node (files w') (keyFile paths) = Some (File pem mode600)"
      if "r = Inr msgs" "\<not> path_exists w (keyFile paths)" for msgs
      using that work(2,4) key(2) by (cases q) (auto simp: path_exists_def)
    then show ?thesis using work(1,2) key(1) by (auto simp: path_exists_def)
  qed
qed

definition plain_ssh :: "(string, string) ssh_lib" where
  "plain_ssh = \<lparr>ParseRawPrivateKey = Inr, ed25519 = (\<lambda>_. True), NewPublicKey = Inr, MarshalAuthorizedKey = id,
     ParseAuthorizedKey = (\<lambda>s. Inr (s, [])), GenerateKey = (\<lambda>t. Inr ''new key''), MarshalPrivateKey = (\<lambda>k c. Inr k),
     renderTemplate = (\<lambda>t vs. Inr t)\<rparr>"

theorem init_secrets_safe_witness:
  "\<exists>paths o' w'. resolveSecretsInitPaths (Inr ''/root'') token_options = Inr (paths, o') \<and>
     w' = snd (run_state (InitSecrets plain_ssh one_token (Inr ''/root'') token_options) (calm_world Map.empty)) \<and>
     (\<exists>pem. lookup_node (files w') (keyFile paths) = Some (File pem mode600))"
proof -
  let ?w = "calm_world Map.empty :: world"
  let ?r = "run_state (InitSecrets plain_ssh one_token (Inr ''/root'') token_options) ?w"
  let ?p = "case resolveSecretsInitPaths (Inr ''/root'') token_options of Inr p \<Rightarrow> p"
  have p: "resolveSecretsInitPaths (Inr ''/root'') token_options = Inr (fst ?p, snd ?p)" by code_simp
  have ok: "\<not> isl (fst ?r)" "key_apart (fst ?p) (files ?w)" "\<not> path_exists ?w (keyFile (fst ?p))"
    "path_exists (snd ?r) (secretsFile (fst ?p))" by code_simp+
  then have "files (snd ?r) \<noteq> files ?w" by (auto simp: path_exists_def lookup_node_def split: option.splits)
  with init_secrets_safe [OF surjective_pairing p ok(2), of plain_ssh one_token] ok(1,3)
  have "\<exists>pem. lookup_node (files (snd ?r)) (keyFile (fst ?p)) = Some (File pem mode600)"
    by (cases "fst ?r") simp_all
  with p show ?thesis by blast
qed

section \<open>Displayed paths\<close>

text \<open>Clean absolute paths, by their components.\<close>

definition path_of :: "string list \<Rightarrow> string" where
  "path_of cs = ''/'' @ Join_strings ''/'' cs"

definition clean :: "string list \<Rightarrow> bool" where
  "clean cs \<longleftrightarrow> (\<forall>c \<in> set cs. c \<noteq> [] \<and> CHR ''/'' \<notin> set c \<and> c \<noteq> ''.'' \<and> c \<noteq> ''..'')"

lemma Split_Join: "cs \<noteq> [] \<Longrightarrow> (\<And>c. c \<in> set cs \<Longrightarrow> d \<notin> set c) \<Longrightarrow> Split d (Join_strings [d] cs) = cs"
proof (induction cs)
  case (Cons c cs)
  then show ?case by (cases cs) (auto simp: Split_absent Split_append)
qed simp

lemma components_path_of: "clean cs \<Longrightarrow> components (path_of cs) = cs"
proof (cases "cs = []")
  case False
  moreover assume "clean cs"
  ultimately have "Split (CHR ''/'') (Join_strings ''/'' cs) = cs" and "filter (\<lambda>c. c \<noteq> []) cs = cs"
    by (auto simp: clean_def filter_id_conv intro: Split_Join)
  then show ?thesis by (simp add: components_def path_of_def)
qed (simp add: components_def path_of_def)

lemma strip_common_append: "strip_common bs ts = (bs', ts') \<Longrightarrow> \<exists>cs. bs = cs @ bs' \<and> ts = cs @ ts'"
  by (induction bs ts rule: strip_common.induct) (auto split: if_splits)

lemma Join_append: "xs \<noteq> [] \<Longrightarrow> ys \<noteq> [] \<Longrightarrow> Join_strings d (xs @ ys) = Join_strings d xs @ d @ Join_strings d ys"
proof (induction xs)
  case (Cons x xs)
  then show ?case by (cases xs; cases ys) auto
qed simp

lemma Join_relative:
  assumes "clean ts" and "ts \<noteq> []"
  shows "Join_strings ''/'' ts \<noteq> ''.''" "Join_strings ''/'' ts \<noteq> ''..''" "\<not> HasPrefix (Join_strings ''/'' ts) ''../''"
    "Join_strings ''/'' ts \<noteq> []"
proof -
  have s: "Split (CHR ''/'') (Join_strings ''/'' ts) = ts" using assms by (intro Split_Join) (auto simp: clean_def)
  have hd: "hd ts \<noteq> ''.''" "hd ts \<noteq> ''..''" "hd ts \<noteq> []" using assms by (auto simp: clean_def)
  show "Join_strings ''/'' ts \<noteq> ''.''" "Join_strings ''/'' ts \<noteq> ''..''" "Join_strings ''/'' ts \<noteq> []"
    using s hd by (force simp: Split_absent)+
  show "\<not> HasPrefix (Join_strings ''/'' ts) ''../''"
  proof
    assume "HasPrefix (Join_strings ''/'' ts) ''../''"
    then obtain r where "Join_strings ''/'' ts = ''..'' @ CHR ''/'' # r" unfolding HasPrefix_iff by auto
    with s have "ts = ''..'' # Split (CHR ''/'') r" using Split_append [of "CHR ''/''" "''..''" r] by simp
    with hd show False by simp
  qed
qed

lemma Join_upwards: "Join_strings ''/'' (''..'' # cs) = ''..'' \<or> HasPrefix (Join_strings ''/'' (''..'' # cs)) ''../''"
  by (cases cs) (auto simp: HasPrefix_def)

text \<open>A displayed path, with the home directory as a tilde, stands for the path it was made from.\<close>

lemma displayed_path_expands:
  assumes "clean hs" and "clean cs"
  shows "expandHomePath (path_of hs) (displayPath (path_of hs) (path_of cs)) = path_of cs"
proof -
  have abs: "path_of cs \<noteq> ''~''" "\<not> HasPrefix (path_of cs) ''~/''" by (simp_all add: path_of_def HasPrefix_def)
  obtain bs ts where st: "strip_common hs cs = (bs, ts)" by (metis surj_pair)
  then obtain ps where ps: "hs = ps @ bs" "cs = ps @ ts" using strip_common_append by blast
  have ts: "clean ts" using assms(2) ps by (simp add: clean_def)
  have rel: "filepath_Rel (path_of hs) (path_of cs) = Some (Join_strings ''/'' (replicate (length bs) ''..'' @ ts))"
    if "path_of hs \<noteq> path_of cs"
  proof -
    have "clean bs" using assms(1) unfolding ps(1) clean_def by simp
    then have "\<not> (bs \<noteq> [] \<and> hd bs = ''..'')" using hd_in_set unfolding clean_def by blast
    moreover have "HasPrefix (path_of xs) ''/''" for xs by (simp add: path_of_def HasPrefix_def)
    ultimately show ?thesis using that by (simp add: filepath_Rel_def components_path_of [OF assms(1)] components_path_of [OF assms(2)] st)
  qed
  consider (same) "path_of hs = path_of cs" | (below) "path_of hs \<noteq> path_of cs" "bs = []" "ts \<noteq> []" | (outside) "path_of hs \<noteq> path_of cs" "bs \<noteq> []"
    using ps by (cases "bs = []"; cases "ts = []") auto
  then show ?thesis
  proof cases
    case same
    then show ?thesis by (simp add: displayPath_def filepath_Rel_def expandHomePath_def path_of_def)
  next
    case below
    let ?r = "Join_strings ''/'' ts"
    have d: "displayPath (path_of hs) (path_of cs) = ''~/'' @ ?r"
      using rel [OF below(1)] below(2) Join_relative [OF ts below(3)]
      by (simp add: displayPath_def path_of_def filepath_Join_def path_join_def)
    have r: "?r \<noteq> []" using Join_relative(4) [OF ts below(3)] .
    have "filepath_Join (path_of hs) ?r = path_of cs"
    proof (cases "ps = []")
      case True
      then show ?thesis using ps below(2) by (simp add: filepath_Join_def path_of_def)
    next
      case False
      then have "Join_strings ''/'' ps \<noteq> []" using assms(1) ps by (intro Join_relative(4)) (auto simp: clean_def)
      then show ?thesis
        unfolding ps below(2) append_Nil2 path_of_def Join_append [OF False below(3)]
        using r by (simp add: filepath_Join_def path_join_def)
    qed
    then show ?thesis unfolding d by (simp add: expandHomePath_def HasPrefix_def path_of_def)
  next
    case outside
    then obtain n where "length bs = Suc n" by (cases bs) auto
    with rel [OF outside(1)] have "filepath_Rel (path_of hs) (path_of cs) = Some (Join_strings ''/'' (''..'' # replicate n ''..'' @ ts))" by simp
    with Join_upwards [of "replicate n ''..'' @ ts"] outside(1) have "displayPath (path_of hs) (path_of cs) = path_of cs"
      by (auto simp: displayPath_def)
    with abs show ?thesis by (simp add: expandHomePath_def)
  qed
qed


end
