(* ===== verification/Applications.thy ===== *)
theory Applications
  imports Secrets "HOL-Library.List_Lexorder" "HOL-Library.Char_ord"
begin

text \<open>
  The commands of \<^verbatim>\<open>iknitectl\<close> that render applications (\<^verbatim>\<open>pkg/cmd/iknitectl\<close>, \<^verbatim>\<open>pkg/kustomize\<close>) and that install a
  signing key. Kustomize, the YAML library and the standard output are parameters, helm and helmfile
  are commands of the machine. The lemmas show which file a resource ends up in, when one replaces
  another, and that a rendered environment has no files of an earlier one.
\<close>

section \<open>Kustomize\<close>

text \<open>
  A resource map is a list of resources \<open>'r\<close>. \<open>krusty_Run\<close> is the library on the files of the machine, and
  \<open>write_out\<close> the writer of the command.
\<close>

record ('w, 'r) kustomize_lib =
  krusty_Run :: "string \<Rightarrow> ('w, error + 'r list) state"
  GetKind :: "'r \<Rightarrow> string"
  GetName :: "'r \<Rightarrow> string"
  resource_yaml :: "'r \<Rightarrow> error + string"
  AsYaml :: "'r list \<Rightarrow> error + string"
  NewResMapFromBytes :: "string \<Rightarrow> error + 'r list"
  write_out :: "string \<Rightarrow> ('w, error + unit) state"

definition BuildOnFileSystem :: "('x world_scheme, 'r) kustomize_lib \<Rightarrow> string \<Rightarrow> ('x, 'r list) io" where
  "BuildOnFileSystem l dir = onErr (krusty_Run l dir) (Wrap (''failed to run kustomize on '' @ dir)) ret"

definition WriteToWriter :: "('x world_scheme, 'r) kustomize_lib \<Rightarrow> 'r list \<Rightarrow> ('x, unit) io" where
  "WriteToWriter l resources = (case AsYaml l resources of
       Inl e \<Rightarrow> throw (Wrap ''failed to convert resources to YAML'' e)
     | Inr y \<Rightarrow> onErr (write_out l y) (Wrap ''failed to write output'') (\<lambda>_. ret ()))"

definition replace_char :: "char \<Rightarrow> char \<Rightarrow> string \<Rightarrow> string" where
  "replace_char a b s = map (\<lambda>c. if c = a then b else c) s"

definition resource_filename :: "string \<Rightarrow> string \<Rightarrow> string" where
  "resource_filename k n = k @ ''-'' @ replace_char (CHR '':'') (CHR ''_'') n @ ''.yaml''"

definition write_resource :: "('x world_scheme, 'r) kustomize_lib \<Rightarrow> string \<Rightarrow> 'r \<Rightarrow> ('x, unit) io" where
  "write_resource l destDir r = (case resource_yaml l r of
       Inl e \<Rightarrow> throw (Wrap (''failed to marshal resource '' @ GetKind l r @ ''/'' @ GetName l r) e)
     | Inr y \<Rightarrow>
         let path = filepath_Join destDir (resource_filename (GetKind l r) (GetName l r))
         in onErr (WriteFile path y mode644) (Wrap (''failed to write file '' @ path)) (\<lambda>_. ret ()))"

definition SplitResMapToDir :: "('x world_scheme, 'r) kustomize_lib \<Rightarrow> 'r list \<Rightarrow> string \<Rightarrow> ('x, unit) io" where
  "SplitResMapToDir l resources destDir =
     onErr (MkdirAll destDir mode755) (Wrap (''failed to create directory '' @ destDir)) (\<lambda>_.
     forE (write_resource l destDir) resources)"

text \<open>\<^verbatim>\<open>runKustomize\<close>, with the destination directory empty when there is none.\<close>

definition ctl_runKustomize :: "('x world_scheme, 'r) kustomize_lib \<Rightarrow> string \<Rightarrow> string \<Rightarrow> ('x, unit) io" where
  "ctl_runKustomize l dir destDir =
     onErr (DirExists dir) (Wrap ''failed to check kustomization directory'') (\<lambda>exist.
     if \<not> exist then throw (Errorf (''kustomization directory does not exist: '' @ dir))
     else onErr (Exists (filepath_Join dir ''kustomization.yaml'')) (Wrap ''failed to check kustomization.yaml'') (\<lambda>found.
     if \<not> found then throw (Errorf (''kustomization.yaml not found in: '' @ dir))
     else onErr (BuildOnFileSystem l dir) (Wrap (''while building kustomization in '' @ dir @ '' kustomize'')) (\<lambda>resources.
     if destDir = [] then onErr (WriteToWriter l resources) (Wrap ''failed to write kustomization output'') (\<lambda>_. ret ())
     else onErr (SplitResMapToDir l resources destDir) (Wrap ''failed to split kustomization output to directory'') (\<lambda>_. ret ()))))"

section \<open>Applications\<close>

datatype appType = appTypeKustomize | appTypeHelmfile | appTypeHelm | appTypeUnknown

text \<open>The first of some files of a directory that exists, with its type and path.\<close>

fun first_existing :: "string \<Rightarrow> (string \<times> appType \<times> string) list \<Rightarrow> ('x, appType \<times> string) io" where
  "first_existing dir [] = ret (appTypeUnknown, [])"
| "first_existing dir ((name, t, path) # cs) =
     onErr (Exists (filepath_Join dir name)) (Wrap (''failed to check '' @ name)) (\<lambda>found.
     if found then ret (t, path) else first_existing dir cs)"

definition detectAppType :: "string \<Rightarrow> ('x, appType \<times> string) io" where
  "detectAppType dir = first_existing dir
     [(''kustomization.yaml'', appTypeKustomize, dir),
      (''helmfile.yaml'', appTypeHelmfile, filepath_Join dir ''helmfile.yaml''),
      (''helmfile.yaml.gotmpl'', appTypeHelmfile, filepath_Join dir ''helmfile.yaml.gotmpl''),
      (''Chart.yaml'', appTypeHelm, dir)]"

definition runCommandToResmap :: "('x world_scheme, 'r) kustomize_lib \<Rightarrow> string \<Rightarrow> string list \<Rightarrow> ('x, 'r list) io" where
  "runCommandToResmap l cmd args = State_Monad.bind (run_command (Cmd cmd args)) (\<lambda>(out, err). case err of
       Some e \<Rightarrow> throw (Wrap (''command '' @ cmd @ '' failed'') e)
     | None \<Rightarrow> (case NewResMapFromBytes l out of
           Inl e \<Rightarrow> throw (Wrap (''failed to create resmap from '' @ cmd @ '' output'') e)
         | Inr rs \<Rightarrow> ret rs))"

definition renderHelmfile :: "('x world_scheme, 'r) kustomize_lib \<Rightarrow> string \<Rightarrow> ('x, 'r list) io" where
  "renderHelmfile l f = runCommandToResmap l ''helmfile'' [''template'', ''--skip-tests'', ''--args=--skip-crds'', ''-f'', f]"

definition renderHelm :: "('x world_scheme, 'r) kustomize_lib \<Rightarrow> string \<Rightarrow> ('x, 'r list) io" where
  "renderHelm l dir = runCommandToResmap l ''helm'' [''template'', path_base dir, dir, ''--skip-crds'']"

definition renderApp :: "('x world_scheme, 'r) kustomize_lib \<Rightarrow> string \<Rightarrow> ('x, 'r list) io" where
  "renderApp l dir = onErr (detectAppType dir) id (\<lambda>(t, path). case t of
       appTypeKustomize \<Rightarrow> BuildOnFileSystem l path
     | appTypeHelmfile \<Rightarrow> renderHelmfile l path
     | appTypeHelm \<Rightarrow> renderHelm l path
     | appTypeUnknown \<Rightarrow> throw (Errorf (''directory '' @ dir @ '' has no recognized app definition'')))"

definition renderAppWithOutput :: "('x world_scheme, 'r) kustomize_lib \<Rightarrow> string \<Rightarrow> string \<Rightarrow> ('x, unit) io" where
  "renderAppWithOutput l dir destDir =
     onErr (renderApp l dir) (Wrap ''while rendering with output'') (\<lambda>resources.
     if destDir \<noteq> [] then onErr (SplitResMapToDir l resources destDir) (Wrap ''failed to split resources to directory'') (\<lambda>_. ret ())
     else WriteToWriter l resources)"

definition schema_template :: string where
  "schema_template = ''/{{.Group}}/{{.ResourceKind}}_{{.ResourceAPIVersion}}.json''"

definition kubeconform_args :: "string \<Rightarrow> string list" where
  "kubeconform_args schemasDir = [''-schema-location'', ''default''] @
     (if schemasDir \<noteq> [] then [''-schema-location'', schemasDir @ schema_template] else []) @
     [''-schema-location'', ''https://raw.githubusercontent.com/datreeio/CRDs-catalog/main'' @ schema_template,
      ''-schema-location'', ''https://raw.githubusercontent.com/yannh/kubernetes-json-schema/master/master/customresourcedefinition.json'',
      ''-summary'']"

definition runKubeconform :: "('x world_scheme, 'r) kustomize_lib \<Rightarrow> 'r list \<Rightarrow> string \<Rightarrow> ('x, unit) io" where
  "runKubeconform l resources schemasDir = (case AsYaml l resources of
       Inl e \<Rightarrow> throw (Wrap ''failed to convert resources to YAML'' e)
     | Inr y \<Rightarrow> State_Monad.bind (run_command (Cmd ''kubeconform'' (kubeconform_args schemasDir))) (\<lambda>(out, err). case err of
           Some e \<Rightarrow> throw (Wrap ''kubeconform validation failed'' e)
         | None \<Rightarrow> ret ()))"

definition with_directory :: "string \<Rightarrow> ('x, unit) io \<Rightarrow> ('x, unit) io" where
  "with_directory dir m = onErr (DirExists dir) (Wrap ''failed to check directory'') (\<lambda>exist.
     if \<not> exist then throw (Errorf (''directory does not exist: '' @ dir)) else m)"

definition runValidateApp :: "('x world_scheme, 'r) kustomize_lib \<Rightarrow> string \<Rightarrow> string \<Rightarrow> ('x, unit) io" where
  "runValidateApp l dir schemasDir = with_directory dir (onErr (renderApp l dir) id (\<lambda>rs. runKubeconform l rs schemasDir))"

definition runRenderApp :: "('x world_scheme, 'r) kustomize_lib \<Rightarrow> string \<Rightarrow> string \<Rightarrow> ('x, unit) io" where
  "runRenderApp l dir destDir = with_directory dir (renderAppWithOutput l dir destDir)"

section \<open>Rendering an environment\<close>

record argoApplication =
  aa_Kind :: string
  aa_Name :: string
  aa_Path :: string

fun parse_files :: "(string \<Rightarrow> error + argoApplication) \<Rightarrow> string \<Rightarrow> string list \<Rightarrow> ('x, argoApplication list) io" where
  "parse_files unmarshal dir [] = ret []"
| "parse_files unmarshal dir (n # ns) =
     (if \<not> HasSuffix n ''.yaml'' then parse_files unmarshal dir ns
      else onErr (ReadFile (filepath_Join dir n)) (Wrap (''failed to read '' @ n)) (\<lambda>text.
        onErr (parse_files unmarshal dir ns) id (\<lambda>apps.
        ret (case unmarshal text of
               Inl e \<Rightarrow> apps
             | Inr app \<Rightarrow> if aa_Kind app = ''Application'' \<and> aa_Name app \<noteq> [] then app # apps else apps))))"

definition parseApplicationsFromDir ::
  "(tree \<Rightarrow> string \<Rightarrow> string list) \<Rightarrow> (string \<Rightarrow> error + argoApplication) \<Rightarrow> string \<Rightarrow> ('x, argoApplication list) io"
where
  "parseApplicationsFromDir dir_order unmarshal manifestsDir =
     onErr (ReadDir dir_order manifestsDir) (Wrap (''failed to read directory '' @ manifestsDir)) (\<lambda>names.
     parse_files unmarshal manifestsDir (sort names))"

definition render_application ::
  "('x world_scheme, 'r) kustomize_lib \<Rightarrow> string \<Rightarrow> string \<Rightarrow> string \<Rightarrow> argoApplication \<Rightarrow> ('x, unit) io"
where
  "render_application l baseDir applicationsDir stage app =
     (if aa_Path app = [] then throw (Errorf (''application '' @ aa_Name app @ '' in appstage '' @ stage @ '' has no spec.source.path''))
      else onErr (renderAppWithOutput l (filepath_Join baseDir (aa_Path app)) (filepath_Join applicationsDir (aa_Name app)))
             (Wrap (''failed to render application '' @ aa_Name app)) (\<lambda>_. ret ()))"

definition render_stage ::
  "('x world_scheme, 'r) kustomize_lib \<Rightarrow> (tree \<Rightarrow> string \<Rightarrow> string list) \<Rightarrow> (string \<Rightarrow> error + argoApplication) \<Rightarrow>
   string \<Rightarrow> string \<Rightarrow> string \<Rightarrow> ('x, unit) io"
where
  "render_stage l dir_order unmarshal destDir baseDir appstageDir =
     (let stage = path_base appstageDir;
          manifestsDir = filepath_Join (filepath_Join destDir stage) ''manifests'';
          applicationsDir = filepath_Join (filepath_Join destDir stage) ''applications''
      in onErr (BuildOnFileSystem l appstageDir) (Wrap (''failed to render appstage '' @ stage)) (\<lambda>resources.
         onErr (SplitResMapToDir l resources manifestsDir) (Wrap (''failed to write manifests for appstage '' @ stage)) (\<lambda>_.
         onErr (parseApplicationsFromDir dir_order unmarshal manifestsDir)
           (Wrap (''failed to parse applications for appstage '' @ stage)) (\<lambda>apps.
         forE (render_application l baseDir applicationsDir stage) apps))))"

definition stage_dirs :: "tree \<Rightarrow> string \<Rightarrow> string list \<Rightarrow> string list" where
  "stage_dirs fs dir names = sort (map (filepath_Join dir)
     (filter (\<lambda>n. fs (filepath_Join dir n) = Some Directory \<and> HasPrefix n ''appstage-'') names))"

definition runRenderAll ::
  "('x world_scheme, 'r) kustomize_lib \<Rightarrow> (tree \<Rightarrow> string \<Rightarrow> string list) \<Rightarrow> (string \<Rightarrow> error + argoApplication) \<Rightarrow>
   string \<Rightarrow> string \<Rightarrow> string \<Rightarrow> ('x, unit) io"
where
  "runRenderAll l dir_order unmarshal appstagesDir destDir baseDir =
     onErr (DirExists appstagesDir) (Wrap ''failed to check appstages directory'') (\<lambda>exist.
     if \<not> exist then throw (Errorf (''appstages directory not found: '' @ appstagesDir))
     else onErr (RemoveAll destDir) (Wrap ''failed to remove destination directory'') (\<lambda>_.
     onErr (MkdirAll destDir mode755) (Wrap ''failed to create destination directory'') (\<lambda>_.
     onErr (ReadDir dir_order appstagesDir) (Wrap ''failed to read appstages directory'') (\<lambda>names.
     State_Monad.bind (gets files) (\<lambda>fs.
     if stage_dirs fs appstagesDir names = []
     then throw (Errorf (''no appstage- prefixed directories found in '' @ appstagesDir))
     else forE (render_stage l dir_order unmarshal destDir baseDir) (stage_dirs fs appstagesDir names))))))"

section \<open>The signing key\<close>

text \<open>
  \<open>decrypt\<close> is the decryption of SOPS with the parsing of the text, \<open>field\<close> what is found at a path of it
  and \<open>string_field\<close> the strings in a map; \<open>None\<close> is a value of another type.
\<close>

record 'n signing_lib =
  decrypt :: "string \<Rightarrow> error + 'n list"
  GetFieldValue :: "'n \<Rightarrow> string \<Rightarrow> error + 'n"
  is_map :: "'n \<Rightarrow> bool"
  string_field :: "'n \<Rightarrow> string \<Rightarrow> string option"

record SigningKeyOptions =
  sk_KeyName :: string
  sk_SecretsFile :: string
  sk_DestDir :: string

abbreviation mode400 :: nat where "mode400 \<equiv> 256"

definition signing_key :: "'n signing_lib \<Rightarrow> string \<Rightarrow> 'n list \<Rightarrow> error + string \<times> string" where
  "signing_key l keyName docs = (case docs of
       [] \<Rightarrow> Inl (Errorf ''no YAML documents found in decrypted secrets'')
     | doc # _ \<Rightarrow> (case GetFieldValue l doc keyName of
           Inl e \<Rightarrow> Inl (Wrap (keyName @ '' not found in secrets file'') e)
         | Inr v \<Rightarrow>
             if \<not> is_map l v then Inl (Errorf (keyName @ '' has invalid format in secrets file''))
             else (case (string_field l v ''name'', string_field l v ''private_key'') of
                 (None, _) \<Rightarrow> Inl (Errorf (keyName @ ''.name not found or invalid in secrets file''))
               | (Some n, None) \<Rightarrow> Inl (Errorf (keyName @ ''.private_key not found or invalid in secrets file''))
               | (Some n, Some k) \<Rightarrow> Inr (n, k))))"

definition InstallSigningKey :: "'n signing_lib \<Rightarrow> SigningKeyOptions \<Rightarrow> ('x, unit) io" where
  "InstallSigningKey l opts =
     onErr (Exists (sk_SecretsFile opts)) (Wrap ''failed to check if secrets file exists'') (\<lambda>exist.
     if \<not> exist then throw (Errorf (''secrets file not found: '' @ sk_SecretsFile opts))
     else onErr (ReadFile (sk_SecretsFile opts)) (Wrap ''failed to read secrets file'') (\<lambda>bytes.
     case decrypt l bytes of
       Inl e \<Rightarrow> throw (Wrap ''failed to decrypt secrets file'' e)
     | Inr docs \<Rightarrow> (case signing_key l (sk_KeyName opts) docs of
           Inl e \<Rightarrow> throw e
         | Inr (n, k) \<Rightarrow>
             onErr (MkdirAll (sk_DestDir opts) mode755) (Wrap ''failed to create destination directory'') (\<lambda>_.
             onErr (WriteFile (filepath_Join (sk_DestDir opts) (n @ ''.rsa'')) k mode400)
               (Wrap ''failed to write signing key file'') (\<lambda>_.
             onErr (Stat (filepath_Join (sk_DestDir opts) (n @ ''.rsa''))) (Wrap ''failed to stat output file'') (\<lambda>_. ret ()))))))"

section \<open>Laws\<close>

definition resource_path :: "('x world_scheme, 'r) kustomize_lib \<Rightarrow> string \<Rightarrow> 'r \<Rightarrow> string" where
  "resource_path l destDir r = filepath_Join destDir (resource_filename (GetKind l r) (GetName l r))"

lemma write_resource_ok:
  assumes "run_state (write_resource l d r) u = (Inr (), v)" and "\<And>t. files u (resource_path l d r) \<noteq> Some (Symlink t)"
  obtains y m where "resource_yaml l r = Inr y" and "files v = (files u)(resource_path l d r \<mapsto> File y m)"
proof -
  from assms(1) obtain y where y: "resource_yaml l r = Inr y"
    and w: "run_state (WriteFile (resource_path l d r) y mode644) u = (Inr (), v)"
    by (auto simp: write_resource_def resource_path_def Let_def elim!: onErr_Inr_elim split: sum.splits)
  have "\<exists>m. files v = (files u)(resource_path l d r \<mapsto> File y m)"
    using w by (auto simp: WriteFile_def run_fs_call final_name_plain [of "files u", OF assms(2)] split: option.splits node.splits)
  with y that show ?thesis by blast
qed

lemma write_resources:
  assumes "run_state (forE (write_resource l d) rs) u = (Inr (), w)"
    and "\<And>r t. r \<in> set rs \<Longrightarrow> files u (resource_path l d r) \<noteq> Some (Symlink t)"
  shows "\<forall>q. q \<notin> resource_path l d ` set rs \<longrightarrow> files w q = files u q"
    and "\<forall>pre r post. rs = pre @ r # post \<and> resource_path l d r \<notin> resource_path l d ` set post \<longrightarrow>
           (\<exists>y m. resource_yaml l r = Inr y \<and> files w (resource_path l d r) = Some (File y m))"
  using assms
proof (induction rs arbitrary: u)
  case (Cons r rs)
  { case 1
    from 1(1) obtain v where v: "run_state (write_resource l d r) u = (Inr (), v)"
      and rest: "run_state (forE (write_resource l d) rs) v = (Inr (), w)" by (auto elim!: onErr_Inr_elim)
    have "files u (resource_path l d r) \<noteq> Some (Symlink t)" for t using 1(2) [of r] by simp
    from write_resource_ok [OF v this] obtain y m where
      "resource_yaml l r = Inr y" and y: "files v = (files u)(resource_path l d r \<mapsto> File y m)" .
    have "\<forall>q. q \<notin> resource_path l d ` set rs \<longrightarrow> files w q = files v q"
      using 1(2) y by (intro Cons.IH(1) [OF rest]) auto
    with y show ?case by simp }
  { case 2
    from 2(1) obtain v where v: "run_state (write_resource l d r) u = (Inr (), v)"
      and rest: "run_state (forE (write_resource l d) rs) v = (Inr (), w)" by (auto elim!: onErr_Inr_elim)
    have "files u (resource_path l d r) \<noteq> Some (Symlink t)" for t using 2(2) [of r] by simp
    from write_resource_ok [OF v this] obtain y m where
      y: "resource_yaml l r = Inr y" "files v = (files u)(resource_path l d r \<mapsto> File y m)" .
    have plain: "files v (resource_path l d s) \<noteq> Some (Symlink t)" if "s \<in> set rs" for s t
      using 2(2) [of s t] y(2) that by auto
    note ih = Cons.IH [OF rest plain]
    show ?case
    proof (intro allI impI, elim conjE)
      fix pre s post
      assume a: "r # rs = pre @ s # post" "resource_path l d s \<notin> resource_path l d ` set post"
      show "\<exists>y m. resource_yaml l s = Inr y \<and> files w (resource_path l d s) = Some (File y m)"
      proof (cases pre)
        case Nil
        with a ih(1) y show ?thesis by auto
      next
        case (Cons x xs)
        with a have "rs = xs @ s # post" by simp
        with a(2) ih(2) show ?thesis by blast
      qed
    qed }
qed simp_all

lemma fold_entry: "(\<And>p m. g p m q = m q \<or> g p m q = x) \<Longrightarrow> fold g ps m q = m q \<or> fold g ps m q = x"
proof (induction ps arbitrary: m)
  case (Cons p ps)
  have "fold g ps (g p m) q = g p m q \<or> fold g ps (g p m) q = x" using Cons by blast
  moreover have "g p m q = m q \<or> g p m q = x" by (rule Cons.prems)
  ultimately show ?case by auto
qed simp

lemma make_dirs_entry: "make_dirs p fs q = fs q \<or> make_dirs p fs q = Some Directory"
  unfolding make_dirs_def by (rule fold_entry) simp

lemma ancestors_length: "q \<in> set (ancestors acc p) \<Longrightarrow> length q \<le> length acc + length p"
  by (induction acc p rule: ancestors.induct) (auto split: if_splits)

lemma below_length: "below d p \<Longrightarrow> length d < length p"
  by (auto simp: below_def HasPrefix_iff)

lemma make_dirs_below: "below d p \<Longrightarrow> make_dirs d fs p = fs p"
  using ancestors_length [of p "[]" d] below_length [of d p] by (intro make_dirs_other) auto

lemma lookup_absent: "fs p = None \<Longrightarrow> lookup_node fs p = None"
  by (simp add: lookup_node_def final_name_plain)

lemma filepath_Join_below: "HasPrefix d ''/'' \<Longrightarrow> d \<noteq> ''/'' \<Longrightarrow> n \<noteq> [] \<Longrightarrow> below d (filepath_Join d n)"
  by (cases d) (auto simp: filepath_Join_def path_join_def below_def HasPrefix_def)

text \<open>The first steps of rendering an environment, when no operation of the file system fails.\<close>

definition cleared :: "string \<Rightarrow> tree \<Rightarrow> tree" where
  "cleared d fs = make_dirs d (remove_tree d fs)"

lemma cleared_below: "below d p \<Longrightarrow> cleared d fs p = None"
  by (simp add: cleared_def make_dirs_below remove_tree_def)

lemma run_RemoveAll: "fs_fault w = (\<lambda>_ _. None) \<Longrightarrow> run_state (RemoveAll d) w = (Inr (), (tick w)\<lparr>files := remove_tree d (files w)\<rparr>)"
  by (simp add: RemoveAll_def run_fs_call)

lemma clear_steps:
  assumes "fs_fault w = (\<lambda>_ _. None)"
  shows "\<exists>v. run_state (onErr (RemoveAll d) h (\<lambda>_. onErr (MkdirAll d m) h' (\<lambda>_. k))) w = run_state k v \<and>
     files v = cleared d (files w) \<and> fs_fault v = (\<lambda>_ _. None)"
proof -
  have "lookup_node (remove_tree d (files w)) d = None" by (intro lookup_absent) (simp add: remove_tree_def)
  then have "run_state (onErr (RemoveAll d) h (\<lambda>_. onErr (MkdirAll d m) h' (\<lambda>_. k))) w =
      run_state k ((tick (tick w))\<lparr>files := cleared d (files w)\<rparr>)"
    using assms by (simp add: run_onErr run_RemoveAll MkdirAll_def run_fs_call cleared_def tick_def)
  then show ?thesis using assms by (intro exI [of _ "(tick (tick w))\<lparr>files := cleared d (files w)\<rparr>"] conjI) simp_all
qed

section \<open>Properties of the applications\<close>

text \<open>
  C11: where the resources of a kustomization are written. After a successful split the file of a resource,
  named after its kind and its name, holds the last resource with that file name, and no other entry of
  the file system has changed, except that directories were made. So resources of the same kind and
  name, in different namespaces for instance, or with a colon where another has an underscore, replace
  each other.
\<close>

theorem split_last_wins:
  assumes "run_state (SplitResMapToDir l rs d) w = (Inr (), w')"
    and "\<And>r t. r \<in> set rs \<Longrightarrow> files w (resource_path l d r) \<noteq> Some (Symlink t)"
  shows "(\<forall>q. q \<notin> resource_path l d ` set rs \<longrightarrow> files w' q = files w q \<or> files w' q = Some Directory) \<and>
    (\<forall>pre r post. rs = pre @ r # post \<and> resource_path l d r \<notin> resource_path l d ` set post \<longrightarrow>
       (\<exists>y m. resource_yaml l r = Inr y \<and> files w' (resource_path l d r) = Some (File y m)))"
proof -
  from assms(1) obtain u where u: "run_state (MkdirAll d mode755) w = (Inr (), u)"
    and rest: "run_state (forE (write_resource l d) rs) u = (Inr (), w')"
    by (auto simp: SplitResMapToDir_def elim!: onErr_Inr_elim)
  have dirs: "files u q = files w q \<or> files u q = Some Directory" for q
    using u make_dirs_entry [of d "files w" q] by (auto simp: MkdirAll_def run_fs_call split: option.splits node.splits)
  have "files u (resource_path l d r) \<noteq> Some (Symlink t)" if "r \<in> set rs" for r t
    using assms(2) [OF that] dirs [of "resource_path l d r"] by auto
  note ws = write_resources [OF rest this]
  show ?thesis using ws(1) ws(2) dirs by auto
qed

text \<open>Resources that are their kind, their name and their text.\<close>

definition plain_kustomize :: "('w, string \<times> string \<times> string) kustomize_lib" where
  "plain_kustomize = \<lparr>krusty_Run = (\<lambda>_. ret []), GetKind = fst, GetName = (\<lambda>r. fst (snd r)), resource_yaml = (\<lambda>r. Inr (snd (snd r))),
     AsYaml = (\<lambda>rs. Inr (concat (map (\<lambda>r. snd (snd r)) rs))), NewResMapFromBytes = (\<lambda>_. Inr []), write_out = (\<lambda>_. ret ())\<rparr>"

theorem split_last_wins_witness:
  "\<exists>y m. files (snd (run_state (SplitResMapToDir plain_kustomize [(''Secret'', ''db'', ''ns: a''), (''Secret'', ''db'', ''ns: b'')] ''/out'')
     (calm_world Map.empty))) ''/out/Secret-db.yaml'' = Some (File y m) \<and> y = ''ns: b''"
proof -
  let ?l = "plain_kustomize :: (world, string \<times> string \<times> string) kustomize_lib"
  let ?r = "run_state (SplitResMapToDir ?l [(''Secret'', ''db'', ''ns: a''), (''Secret'', ''db'', ''ns: b'')] ''/out'') (calm_world Map.empty)"
  have "fst ?r = Inr ()" by code_simp
  then have run: "?r = (Inr (), snd ?r)" by (simp add: prod_eq_iff)
  have "(\<exists>y m. resource_yaml ?l (''Secret'', ''db'', ''ns: b'') = Inr y \<and>
      files (snd ?r) (resource_path ?l ''/out'' (''Secret'', ''db'', ''ns: b'')) = Some (File y m))"
  proof -
    have "files (calm_world Map.empty :: world) (resource_path ?l ''/out'' r) \<noteq> Some (Symlink t)" for r t by simp
    from spec [OF spec [OF spec [OF conjunct2 [OF split_last_wins [OF run this]], of "[(''Secret'', ''db'', ''ns: a'')]"],
      of "(''Secret'', ''db'', ''ns: b'')"], of "[]"] show ?thesis by (simp only: append.simps list.set(1) image_empty) simp
  qed
  moreover have "resource_path ?l ''/out'' (''Secret'', ''db'', ''ns: b'') = ''/out/Secret-db.yaml''" by code_simp
  ultimately show ?thesis by (auto simp: plain_kustomize_def)
qed

text \<open>
  C12: rendering an environment removes the destination before it reads the sources. When the directory of
  the stages is the destination or lies in it, the command fails and everything below the destination
  is lost, the sources with it.
\<close>

theorem render_all_destroys_sources:
  assumes "fs_fault w = (\<lambda>_ _. None)" and "lookup_node (files w) appstagesDir = Some Directory"
    and "HasPrefix destDir ''/''" and "destDir \<noteq> ''/''" and "appstagesDir = destDir \<or> below destDir appstagesDir"
    and "\<And>fs d. set (dir_order fs d) \<subseteq> entry_names fs d"
  shows "\<exists>e w'. run_state (runRenderAll l dir_order unmarshal appstagesDir destDir baseDir) w = (Inl e, w') \<and>
    (\<forall>p. below destDir p \<longrightarrow> files w' p = None)"
proof -
  let ?k = "onErr (ReadDir dir_order appstagesDir) (Wrap ''failed to read appstages directory'') (\<lambda>names.
     State_Monad.bind (gets files) (\<lambda>fs.
     if stage_dirs fs appstagesDir names = []
     then throw (Errorf (''no appstage- prefixed directories found in '' @ appstagesDir))
     else forE (render_stage l dir_order unmarshal destDir baseDir) (stage_dirs fs appstagesDir names)))"
  obtain v where run: "run_state (runRenderAll l dir_order unmarshal appstagesDir destDir baseDir) w = run_state ?k v"
    and v: "files v = cleared destDir (files w)" "fs_fault v = (\<lambda>_ _. None)"
    using clear_steps [of "tick w" destDir _ mode755 _ ?k] assms(1,2)
    by (simp add: runRenderAll_def run_onErr [of "DirExists appstagesDir"] run_DirExists) metis
  have none: "files v p = None" if "below destDir p" for p using that by (simp add: v(1) cleared_below)
  have "\<exists>e. run_state ?k v = (Inl e, tick v)"
  proof (cases "lookup_node (files v) appstagesDir")
    case (Some n)
    then have eq: "appstagesDir = destDir" using assms(5) none lookup_absent by fastforce
    have "files v (filepath_Join destDir n) = None" if "n \<in> set (dir_order (files v) destDir)" for n
      using that assms(6) by (intro none filepath_Join_below [OF assms(3,4)]) (auto simp: entry_names_def)
    then have "filter (\<lambda>n. files v (filepath_Join destDir n) = Some Directory \<and> HasPrefix n ''appstage-'') (dir_order (files v) destDir) = []"
      unfolding filter_empty_conv by simp
    then have "stage_dirs (files v) destDir (dir_order (files v) destDir) = []" by (simp add: stage_dirs_def)
    with Some eq v(2) show ?thesis
      by (cases n) (auto simp: run_onErr ReadDir_def run_fs_call)
  next
    case None
    with v(2) show ?thesis by (simp add: run_onErr ReadDir_def run_fs_call)
  qed
  with run none show ?thesis by auto
qed

theorem render_all_destroys_sources_witness:
  "\<exists>e w'. run_state (runRenderAll plain_kustomize (\<lambda>_ _. []) (\<lambda>_. Inl ErrNotFound) ''/repo/apps'' ''/repo'' ''/repo'')
      (calm_world [''/repo'' \<mapsto> Directory, ''/repo/apps'' \<mapsto> Directory, ''/repo/apps/README'' \<mapsto> File ''text'' mode644]) = (Inl e, w') \<and>
    files w' ''/repo/apps/README'' = None"
proof -
  have "below ''/repo'' ''/repo/apps/README''" and b: "below ''/repo'' ''/repo/apps''" by code_simp+
  moreover have "\<exists>e w'. run_state (runRenderAll plain_kustomize (\<lambda>_ _. []) (\<lambda>_. Inl ErrNotFound) ''/repo/apps'' ''/repo'' ''/repo'')
      (calm_world [''/repo'' \<mapsto> Directory, ''/repo/apps'' \<mapsto> Directory, ''/repo/apps/README'' \<mapsto> File ''text'' mode644]) = (Inl e, w') \<and>
    (\<forall>p. below ''/repo'' p \<longrightarrow> files w' p = None)"
    by (rule render_all_destroys_sources) (use b in \<open>simp_all add: HasPrefix_def lookup_node_def final_name_plain\<close>)
  ultimately show ?thesis by blast
qed

text \<open>
  A signing key that is installed is the one in the secrets. Its file gets mode 0400 only when it did not
  exist before: writing keeps the mode of an existing file.
\<close>

lemma signing_key_installed:
  assumes "run_state (InstallSigningKey l opts) w = (Inr (), w')"
  shows "\<exists>c docs n k m. file_content w (sk_SecretsFile opts) = Some c \<and> decrypt l c = Inr docs \<and>
    signing_key l (sk_KeyName opts) docs = Inr (n, k) \<and>
    lookup_node (files w') (filepath_Join (sk_DestDir opts) (n @ ''.rsa'')) = Some (File k m) \<and>
    (\<not> path_exists w (filepath_Join (sk_DestDir opts) (n @ ''.rsa'')) \<longrightarrow> m = mode400)"
proof -
  from assms obtain c docs n k w1 u v where c: "run_state (ReadFile (sk_SecretsFile opts)) (tick w) = (Inr c, w1)"
      "decrypt l c = Inr docs" "signing_key l (sk_KeyName opts) docs = Inr (n, k)"
    and m: "run_state (MkdirAll (sk_DestDir opts) mode755) w1 = (Inr (), u)"
    and wr: "run_state (WriteFile (filepath_Join (sk_DestDir opts) (n @ ''.rsa'')) k mode400) u = (Inr (), v)"
    and st: "\<exists>i. run_state (Stat (filepath_Join (sk_DestDir opts) (n @ ''.rsa''))) v = (Inr i, w')"
    by (auto simp: InstallSigningKey_def run_Exists elim!: onErr_Inr_elim split: sum.splits if_splits option.splits)
  let ?p = "filepath_Join (sk_DestDir opts) (n @ ''.rsa'')"
  have w1: "file_content w (sk_SecretsFile opts) = Some c" "w1 = tick (tick w)" using ReadFile_ok [OF c(1)] by simp_all
  have w': "files w' = files v" using st by (auto simp: run_Stat)
  have "or_directory (lookup_node (files w) ?p) (lookup_node (files u) ?p)"
    using MkdirAll_dirs [OF m] w1(2) by (simp add: only_dirs_added_def)
  moreover obtain m where "lookup_node (files v) ?p = Some (File k m)"
      "(\<forall>a b. lookup_node (files u) ?p \<noteq> Some (File a b)) \<Longrightarrow> m = mode400"
    using wr WriteFile_over(1) [OF wr] WriteFile_created(1) [OF wr] by blast
  ultimately have "lookup_node (files w') ?p = Some (File k m) \<and> (\<not> path_exists w ?p \<longrightarrow> m = mode400)"
    by (auto simp: w' or_directory_def path_exists_def)
  with c w1 show ?thesis by blast
qed


end
