(* ===== verification/Params.thy ===== *)
theory Params
  imports Secrets "HOL-Library.Char_ord"
begin

text \<open>
  The parameters of the commands (\<^verbatim>\<open>pkg/cmd/util/params.go\<close>): flags of a tree of commands, the keys under
  which the configuration file and the environment give their values, and the binding of both. The
  libraries for flags and configuration are parameters. The lemmas show which value a flag has in the
  end: the one of the command line, else the configured one, else its default.
\<close>

section \<open>Flags and commands\<close>

text \<open>
  A flag has one value or, when \<open>fl_Slice\<close>, a list of values. \<open>set_value\<close> and \<open>replace_value\<close> are \<^verbatim>\<open>Value.Set\<close>
  and \<^verbatim>\<open>SliceValue.Replace\<close> of its type: the value afterwards, also after an error. Commands refer to
  their flags, which are kept in a store: cobra adds the persistent flags of the parents to the flags of
  the command that runs, so that one flag can be reached from several commands.
\<close>

record Flag =
  fl_Name :: string
  fl_Values :: "string list"
  fl_Slice :: bool
  fl_Changed :: bool
  fl_Annotations :: "string \<rightharpoonup> string list"

record flag_types =
  set_value :: "Flag \<Rightarrow> string \<Rightarrow> string list \<times> error option"
  replace_value :: "Flag \<Rightarrow> string list \<Rightarrow> string list \<times> error option"

type_synonym flag_store = "nat \<Rightarrow> Flag"

datatype cobra_Command = CobraCommand
  (cm_Annotations: "string \<rightharpoonup> string") (cm_PersistentFlags: "nat list") (cm_Flags: "nat list") (cm_Commands: "cobra_Command list")

text \<open>A value of the configuration; \<open>VOther\<close> is one of another type with its text.\<close>

datatype viper_value = VStrings "string list" | VString string | VAny "string list" | VOther string

type_synonym viper = "string \<rightharpoonup> viper_value"

fun sprint_v :: "viper_value \<Rightarrow> string" where
  "sprint_v (VString s) = s"
| "sprint_v (VOther s) = s"
| "sprint_v (VStrings xs) = ''['' @ Join_strings '' '' xs @ '']''"
| "sprint_v (VAny xs) = ''['' @ Join_strings '' '' xs @ '']''"

section \<open>Annotations\<close>

definition ConfigSectionAnnotation :: string where "ConfigSectionAnnotation = ''config-section''"
definition SkipViperBindAnnotation :: string where "SkipViperBindAnnotation = ''skip-viper-bind''"

definition SetCommandConfigSection :: "string \<Rightarrow> cobra_Command \<Rightarrow> cobra_Command" where
  "SetCommandConfigSection s c = (case c of CobraCommand a p f cs \<Rightarrow> CobraCommand (a(ConfigSectionAnnotation \<mapsto> s)) p f cs)"

definition SetFlagConfigSection :: "string \<Rightarrow> string \<Rightarrow> nat list \<Rightarrow> flag_store \<Rightarrow> error + flag_store" where
  "SetFlagConfigSection n s fs m = (case find (\<lambda>i. fl_Name (m i) = n) fs of
       Some i \<Rightarrow> Inr (m(i := (m i)\<lparr>fl_Annotations := (fl_Annotations (m i))(ConfigSectionAnnotation \<mapsto> [s])\<rparr>))
     | None \<Rightarrow> Inl (Errorf (''no such flag -'' @ n)))"

definition GetFlagConfigSection :: "Flag \<Rightarrow> string" where
  "GetFlagConfigSection f = (case fl_Annotations f ConfigSectionAnnotation of Some (s # _) \<Rightarrow> s | _ \<Rightarrow> [])"

definition GetFlagViperName :: "Flag \<Rightarrow> string \<Rightarrow> string" where
  "GetFlagViperName f pfx =
     (let section = GetFlagConfigSection f in
      (if section \<noteq> [] then section @ ''.'' else pfx) @ map (\<lambda>c. if c = CHR ''-'' then CHR ''_'' else c) (fl_Name f))"

definition CommandHasConfigSection :: "cobra_Command \<Rightarrow> bool" where
  "CommandHasConfigSection c \<longleftrightarrow> cm_Annotations c ConfigSectionAnnotation \<noteq> None"

definition CommandConfigSection :: "cobra_Command \<Rightarrow> string" where
  "CommandConfigSection c = (case cm_Annotations c ConfigSectionAnnotation of Some s \<Rightarrow> s | None \<Rightarrow> [])"

definition bool_text :: "bool \<Rightarrow> string" where
  "bool_text b = (if b then ''true'' else ''false'')"

definition SetSkipViperBindForCommand :: "bool \<Rightarrow> cobra_Command \<Rightarrow> cobra_Command" where
  "SetSkipViperBindForCommand b c = (case c of CobraCommand a p f cs \<Rightarrow> CobraCommand (a(SkipViperBindAnnotation \<mapsto> bool_text b)) p f cs)"

definition SetSkipViperBindForFlag :: "bool \<Rightarrow> Flag \<Rightarrow> Flag" where
  "SetSkipViperBindForFlag b f = f\<lparr>fl_Annotations := (fl_Annotations f)(SkipViperBindAnnotation \<mapsto> [bool_text b])\<rparr>"

definition CmdShouldSkipViperBind :: "cobra_Command \<Rightarrow> bool" where
  "CmdShouldSkipViperBind c \<longleftrightarrow> cm_Annotations c SkipViperBindAnnotation = Some ''true''"

text \<open>An empty annotation makes \<^verbatim>\<open>val[0]\<close> panic; nothing in the program sets one (\<open>None\<close>).\<close>

definition FlagShouldSkipViperBind :: "Flag \<Rightarrow> bool option" where
  "FlagShouldSkipViperBind f = (case fl_Annotations f SkipViperBindAnnotation of
       None \<Rightarrow> Some False | Some [] \<Rightarrow> None | Some (v # _) \<Rightarrow> Some (v = ''true''))"

section \<open>Binding\<close>

fun toStringSlice :: "viper_value \<Rightarrow> error + string list" where
  "toStringSlice (VStrings v) = Inr v"
| "toStringSlice (VString s) = Inr (Split (CHR '','') s)"
| "toStringSlice (VAny v) = Inr v"
| "toStringSlice (VOther s) = Inl (Errorf ''expected slice value'')"

type_synonym binderFunc = "Flag \<Rightarrow> viper \<Rightarrow> string \<Rightarrow> error option \<times> Flag \<times> viper"

definition BindFlagValue :: "flag_types \<Rightarrow> binderFunc" where
  "BindFlagValue ty f v viperName =
     (if fl_Changed f then (None, f, v) else case v viperName of
        None \<Rightarrow> (None, f, v)
      | Some val \<Rightarrow>
          if fl_Slice f then (case toStringSlice val of
              Inl e \<Rightarrow> (Some (Wrap (''while getting viper array value for '' @ viperName) e), f, v)
            | Inr vs \<Rightarrow> (case replace_value ty f vs of (new, err) \<Rightarrow>
                (map_option (Wrap (''while replacing viper array value for '' @ fl_Name f)) err, f\<lparr>fl_Values := new\<rparr>, v)))
          else (case set_value ty f (sprint_v val) of (new, err) \<Rightarrow>
                (map_option (Wrap (''while setting viper value for '' @ fl_Name f)) err, f\<lparr>fl_Values := new\<rparr>, v)))"

text \<open>\<open>bindPFlag\<close> is the method of the configuration library: it ties a key to a flag.\<close>

definition BindFlag :: "(string \<Rightarrow> Flag \<Rightarrow> viper \<Rightarrow> error option \<times> viper) \<Rightarrow> binderFunc" where
  "BindFlag bindPFlag f v viperName = (case bindPFlag viperName f v of (e, v') \<Rightarrow> (e, f, v'))"

text \<open>The errors of the binder are logged; the flags are visited in the order of the list.\<close>

definition bind_flag :: "string \<Rightarrow> binderFunc \<Rightarrow> nat \<Rightarrow> flag_store \<times> viper \<Rightarrow> flag_store \<times> viper" where
  "bind_flag pfx binder i s = (case s of (m, v) \<Rightarrow>
     if FlagShouldSkipViperBind (m i) = Some False
     then (case binder (m i) v (GetFlagViperName (m i) pfx) of (err, f, v') \<Rightarrow> (m(i := f), v'))
     else (m, v))"

definition BindFlagSet :: "nat list \<Rightarrow> string \<Rightarrow> binderFunc \<Rightarrow> flag_store \<times> viper \<Rightarrow> flag_store \<times> viper" where
  "BindFlagSet fs pfx binder = fold (bind_flag pfx binder) fs"

definition section_prefix :: "cobra_Command \<Rightarrow> string \<Rightarrow> string" where
  "section_prefix c pfx = (if CommandHasConfigSection c then CommandConfigSection c @ ''.'' else pfx)"

fun BindFlags :: "cobra_Command \<Rightarrow> string \<Rightarrow> binderFunc \<Rightarrow> flag_store \<times> viper \<Rightarrow> flag_store \<times> viper" where
  "BindFlags (CobraCommand a ps fs cs) pfx binder s =
     (if CmdShouldSkipViperBind (CobraCommand a ps fs cs) then s
      else let p = section_prefix (CobraCommand a ps fs cs) pfx
           in fold (\<lambda>c. BindFlags c p binder) cs (BindFlagSet fs p binder (BindFlagSet ps p binder s)))"

definition BindFlagsToViper ::
  "(string \<Rightarrow> Flag \<Rightarrow> viper \<Rightarrow> error option \<times> viper) \<Rightarrow> cobra_Command \<Rightarrow> flag_store \<times> viper \<Rightarrow> flag_store \<times> viper"
where
  "BindFlagsToViper bindPFlag c = BindFlags c [] (BindFlag bindPFlag)"

definition ApplyViperConfigToFlags :: "flag_types \<Rightarrow> cobra_Command \<Rightarrow> flag_store \<times> viper \<Rightarrow> flag_store \<times> viper" where
  "ApplyViperConfigToFlags ty c = BindFlags c [] (BindFlagValue ty)"

section \<open>The configuration file\<close>

text \<open>\<^verbatim>\<open>GetBaseDirectory\<close> by the components of the working directory, the last one first; \<open>stat\<close> tells whether a path exists.\<close>

fun GetBaseDirectory :: "(string \<Rightarrow> bool) \<Rightarrow> string list \<Rightarrow> string" where
  "GetBaseDirectory stat [] = ''.''"
| "GetBaseDirectory stat (c # cs) =
     (if stat (path_of (rev (c # cs)) @ ''/.git'') then path_of (rev (c # cs)) else GetBaseDirectory stat cs)"

datatype config_source = ConfigFile string | ConfigSearch string "string list"

definition config_location ::
  "string \<Rightarrow> string option \<Rightarrow> error + string \<Rightarrow> error + string \<Rightarrow> error + config_source"
where
  "config_location commandName configFlag userConfigDir base =
     (case configFlag of
        Some f \<Rightarrow> if f \<noteq> [] then Inr (ConfigFile f) else (case userConfigDir of
            Inl e \<Rightarrow> Inl (Wrap ''while getting configuration directory'' e)
          | Inr d \<Rightarrow> Inr (ConfigSearch (''.'' @ commandName) (d # (case base of Inr b \<Rightarrow> [b] | Inl e \<Rightarrow> []))))
      | None \<Rightarrow> (case userConfigDir of
            Inl e \<Rightarrow> Inl (Wrap ''while getting configuration directory'' e)
          | Inr d \<Rightarrow> Inr (ConfigSearch (''.'' @ commandName) (d # (case base of Inr b \<Rightarrow> [b] | Inl e \<Rightarrow> [])))))"

text \<open>
  \<open>readInConfig\<close> is the configuration with the values of the file and of the environment variables that
  have the prefix; a file that cannot be read is skipped.
\<close>

definition upper_char :: "char \<Rightarrow> char" where
  "upper_char c = (if CHR ''a'' \<le> c \<and> c \<le> CHR ''z'' then char_of (of_char c - (32 :: nat)) else c)"

definition InitializeConfiguration ::
  "flag_types \<Rightarrow> (config_source \<Rightarrow> string \<Rightarrow> viper \<Rightarrow> viper) \<Rightarrow> string \<Rightarrow> error + string \<Rightarrow> error + string \<Rightarrow>
   cobra_Command \<Rightarrow> flag_store \<times> viper \<Rightarrow> error + flag_store \<times> viper"
where
  "InitializeConfiguration ty readInConfig commandName userConfigDir base c s = (case s of (m, v) \<Rightarrow>
     case config_location commandName
         (map_option (\<lambda>i. concat (fl_Values (m i))) (find (\<lambda>i. fl_Name (m i) = ''config'') (cm_PersistentFlags c))) userConfigDir base of
       Inl e \<Rightarrow> Inl e
     | Inr source \<Rightarrow> Inr (ApplyViperConfigToFlags ty c (m, readInConfig source (map upper_char commandName) v)))"

section \<open>Laws\<close>

text \<open>The visits of a tree of commands: each flag with the prefix of its keys, in the order of the code.\<close>

fun visits :: "string \<Rightarrow> cobra_Command \<Rightarrow> (string \<times> nat) list" where
  "visits pfx (CobraCommand a ps fs cs) =
     (if CmdShouldSkipViperBind (CobraCommand a ps fs cs) then []
      else let p = section_prefix (CobraCommand a ps fs cs) pfx
           in map (Pair p) ps @ map (Pair p) fs @ concat (map (visits p) cs))"

definition prefixes_of :: "cobra_Command \<Rightarrow> nat \<Rightarrow> string list" where
  "prefixes_of c i = map fst (filter (\<lambda>(p, j). j = i) (visits [] c))"

lemma BindFlagSet_visits: "BindFlagSet fs p b = fold (\<lambda>(q, i). bind_flag q b i) (map (Pair p) fs)"
  by (simp add: BindFlagSet_def fold_map comp_def)

lemma BindFlags_visits: "BindFlags c p b s = fold (\<lambda>(q, i). bind_flag q b i) (visits p c) s"
proof (induction c arbitrary: p s)
  case (CobraCommand a ps fs cs)
  have "fold (\<lambda>c. BindFlags c q b) ds u = fold (\<lambda>(r, i). bind_flag r b i) (concat (map (visits q) ds)) u"
    if "set ds \<subseteq> set cs" for ds q u
    using that by (induction ds arbitrary: u) (simp_all add: CobraCommand.IH)
  then show ?case by (simp add: BindFlagSet_visits Let_def)
qed

text \<open>The value a flag must have after a visit: that of the command line, else the configured one, else what it had.\<close>

definition final_flag :: "flag_types \<Rightarrow> viper \<Rightarrow> string \<Rightarrow> Flag \<Rightarrow> Flag" where
  "final_flag ty v key f = (if fl_Changed f then f else case v key of
       None \<Rightarrow> f
     | Some val \<Rightarrow> if fl_Slice f
         then (case toStringSlice val of Inl e \<Rightarrow> f | Inr vs \<Rightarrow> f\<lparr>fl_Values := fst (replace_value ty f vs)\<rparr>)
         else f\<lparr>fl_Values := fst (set_value ty f (sprint_v val))\<rparr>)"

definition configured_flag :: "flag_types \<Rightarrow> viper \<Rightarrow> string \<Rightarrow> Flag \<Rightarrow> Flag" where
  "configured_flag ty v pfx f =
     (if FlagShouldSkipViperBind f = Some False then final_flag ty v (GetFlagViperName f pfx) f else f)"

lemma BindFlagValue_final: "snd (BindFlagValue ty f v k) = (final_flag ty v k f, v)"
  by (auto simp: BindFlagValue_def final_flag_def split: option.splits sum.splits prod.splits)

lemma bind_flag_value: "bind_flag p (BindFlagValue ty) i (m, v) = (m(i := configured_flag ty v p (m i)), v)"
  using BindFlagValue_final [of ty "m i" v "GetFlagViperName (m i) p"]
  by (auto simp: bind_flag_def configured_flag_def split: prod.splits)

lemma visits_value:
  "fold (\<lambda>(q, i). bind_flag q (BindFlagValue ty) i) vs (m, v) =
     (\<lambda>i. fold (configured_flag ty v) (map fst (filter (\<lambda>(p, j). j = i) vs)) (m i), v)"
proof (induction vs arbitrary: m)
  case (Cons x vs)
  obtain p i where x: "x = (p, i)" by (cases x)
  then show ?case by (auto simp: Cons.IH bind_flag_value fun_eq_iff)
qed simp

lemma ApplyViperConfigToFlags_value:
  "ApplyViperConfigToFlags ty c (m, v) = (\<lambda>i. fold (configured_flag ty v) (prefixes_of c i) (m i), v)"
  unfolding ApplyViperConfigToFlags_def BindFlags_visits visits_value prefixes_of_def by simp

text \<open>Nothing but values changes, and never that of a flag given on the command line.\<close>

definition keeps_flag :: "Flag \<Rightarrow> Flag \<Rightarrow> bool" where
  "keeps_flag f g \<longleftrightarrow> g\<lparr>fl_Values := fl_Values f\<rparr> = f \<and> (fl_Changed f \<longrightarrow> g = f)"

lemma keeps_flag_trans: "keeps_flag f g \<Longrightarrow> keeps_flag g h \<Longrightarrow> keeps_flag f h"
  by (cases f, cases g, cases h) (auto simp: keeps_flag_def)

lemma configured_flag_keeps: "keeps_flag f (configured_flag ty v p f)"
  by (auto simp: keeps_flag_def configured_flag_def final_flag_def split: option.splits sum.splits)

lemma configured_fold_keeps: "keeps_flag f (fold (configured_flag ty v) ps f)"
proof (induction ps arbitrary: f)
  case (Cons p ps)
  show ?case using keeps_flag_trans [OF configured_flag_keeps Cons.IH] by simp
qed (simp add: keeps_flag_def)

lemma keeps_flag_key: "keeps_flag f g \<Longrightarrow> GetFlagViperName g p = GetFlagViperName f p"
  by (cases f, cases g) (auto simp: keeps_flag_def GetFlagViperName_def GetFlagConfigSection_def)

lemma configured_fold_unset:
  "(\<And>p. p \<in> set ps \<Longrightarrow> v (GetFlagViperName f p) = None) \<Longrightarrow> fold (configured_flag ty v) ps f = f"
  by (induction ps) (auto simp: configured_flag_def final_flag_def)

section \<open>Properties of the parameters\<close>


text \<open>A command with one flag in the section \<^verbatim>\<open>cluster\<close> that the configuration has a value for.\<close>

definition name_flag :: Flag where
  "name_flag = \<lparr>fl_Name = ''cluster-name'', fl_Values = [''kaweezle''], fl_Slice = False, fl_Changed = False,
     fl_Annotations = [ConfigSectionAnnotation \<mapsto> [''cluster'']]\<rparr>"

definition plain_types :: flag_types where
  "plain_types = \<lparr>set_value = \<lambda>f s. ([s], None), replace_value = \<lambda>f xs. (xs, None)\<rparr>"


text \<open>A list in an environment variable is separated by commas.\<close>

lemma environment_list: "(\<And>x. x \<in> set xs \<Longrightarrow> CHR '','' \<notin> set x) \<Longrightarrow> xs \<noteq> [] \<Longrightarrow> toStringSlice (VString (Join_strings '','' xs)) = Inr xs"
  by (simp add: Split_Join)

text \<open>The base directory is an ancestor of the working directory that has a \<^verbatim>\<open>.git\<close>, the nearest one.\<close>

lemma base_directory_nearest:
  "GetBaseDirectory stat cs = ''.'' \<and> (\<forall>n < length cs. \<not> stat (path_of (rev (drop n cs)) @ ''/.git'')) \<or>
   (\<exists>n < length cs. GetBaseDirectory stat cs = path_of (rev (drop n cs)) \<and> stat (path_of (rev (drop n cs)) @ ''/.git'') \<and>
      (\<forall>m < n. \<not> stat (path_of (rev (drop m cs)) @ ''/.git'')))"
proof (induction cs)
  case (Cons c cs)
  show ?case
  proof (cases "stat (path_of (rev (c # cs)) @ ''/.git'')")
    case True
    then show ?thesis by (intro disjI2 exI [of _ 0]) simp
  next
    case False
    then have eq: "GetBaseDirectory stat (c # cs) = GetBaseDirectory stat cs" by simp
    from Cons show ?thesis
    proof (elim disjE exE conjE)
      assume "GetBaseDirectory stat cs = ''.''" "\<forall>n < length cs. \<not> stat (path_of (rev (drop n cs)) @ ''/.git'')"
      with False eq show ?thesis by (auto simp: less_Suc_eq_0_disj)
    next
      fix n assume "n < length cs" "GetBaseDirectory stat cs = path_of (rev (drop n cs))"
        "stat (path_of (rev (drop n cs)) @ ''/.git'')" "\<forall>m < n. \<not> stat (path_of (rev (drop m cs)) @ ''/.git'')"
      with False eq show ?thesis by (intro disjI2 exI [of _ "Suc n"]) (auto simp: less_Suc_eq_0_disj)
    qed
  qed
qed simp


end
