(* ===== verification/Images.thy ===== *)
theory Images
  imports Checkers Applications Params
begin

text \<open>
  What the configuration of a cluster implies: the container images it needs (\<^verbatim>\<open>pkg/config/config.go\<close>), the
  kustomization it is set up with (\<^verbatim>\<open>pkg/provision/base.go\<close>), the configuration given to kubeadm
  (\<^verbatim>\<open>newInitData\<close> of \<^verbatim>\<open>pkg/cmd/init.go\<close>), the commands \<^verbatim>\<open>iknite kustomize\<close> and the wait for the container
  service (\<^verbatim>\<open>pkg/cri/wait.go\<close>). Kubeadm, kustomize and the YAML library are parameters. The lemmas show
  that the list of images is exact, sorted and without duplicates, how long the wait can last, and what
  of the specification reaches kubeadm.
\<close>

section \<open>The container service\<close>

record CRICondition =
  cri_Type :: string
  cri_Reason :: string
  cri_Message :: string
  cri_Status :: bool

definition cri_ready :: "CRICondition list \<Rightarrow> bool" where
  "cri_ready cs \<longleftrightarrow> length cs \<ge> 2 \<and> length (filter (\<lambda>c. \<not> cri_Status c) cs) = 0"

definition crictl_info :: command where
  "crictl_info = Cmd ''/usr/bin/crictl'' [''--runtime-endpoint'', ''unix://'' @ ContainerServiceSock, ''info'']"

text \<open>The loop with the attempts that are left; the two seconds between them are not modelled.\<close>

fun container_service_loop :: "(string \<Rightarrow> error + CRICondition list) \<Rightarrow> nat \<Rightarrow> ('x, bool) io" where
  "container_service_loop unmarshal 0 = ret False"
| "container_service_loop unmarshal (Suc retries) =
     onErr (Exists ContainerServiceSock) (Wrap (''error while checking container service sock '' @ ContainerServiceSock)) (\<lambda>exist.
     if \<not> exist then container_service_loop unmarshal retries
     else State_Monad.bind (host_Run ''/usr/bin/crictl'' [''--runtime-endpoint'', ''unix://'' @ ContainerServiceSock, ''info'']) (\<lambda>(out, err).
       case err of
         Some e \<Rightarrow> container_service_loop unmarshal retries
       | None \<Rightarrow> (case unmarshal out of
             Inl e \<Rightarrow> container_service_loop unmarshal retries
           | Inr conditions \<Rightarrow> if cri_ready conditions then ret True else container_service_loop unmarshal retries)))"

definition WaitForContainerService :: "(string \<Rightarrow> error + CRICondition list) \<Rightarrow> ('x, bool) io" where
  "WaitForContainerService unmarshal = container_service_loop unmarshal 3"

section \<open>The kustomization\<close>

text \<open>
  \<open>urlParse\<close> gives the scheme and the host of a URL, \<open>None\<close> when it is not one. The embedded kustomization
  is built in memory: \<open>embedded\<close> is its result.
\<close>

definition isBaseKustomizationAvailable :: "(string \<Rightarrow> (string \<times> string) option) \<Rightarrow> string \<Rightarrow> ('x, bool) io" where
  "isBaseKustomizationAvailable urlParse dirname =
     (if (case urlParse dirname of Some (scheme, h) \<Rightarrow> scheme \<noteq> [] \<and> h \<noteq> [] | None \<Rightarrow> False) then ret True
      else onErr (Exists (filepath_Join dirname ''kustomization.yaml'')) (Wrap ''while testing for directory'') ret)"

definition GetBaseKustomizationResources ::
  "('x world_scheme, 'r) kustomize_lib \<Rightarrow> error + 'r list \<Rightarrow> (string \<Rightarrow> (string \<times> string) option) \<Rightarrow> string \<Rightarrow> bool \<Rightarrow> ('x, 'r list) io"
where
  "GetBaseKustomizationResources l embedded urlParse dirname forceEmbedded =
     onErr (isBaseKustomizationAvailable urlParse dirname) (Wrap ''while checking for base kustomization'') (\<lambda>ok.
     if \<not> ok \<or> forceEmbedded then State_Monad.return embedded else BuildOnFileSystem l dirname)"

text \<open>\<open>running\<close> is \<^verbatim>\<open>CheckClusterRunning\<close> and \<open>kust\<close> is \<^verbatim>\<open>Kustomize\<close>, both of \<^verbatim>\<open>pkg/k8s\<close>, with the client.\<close>

definition performKustomize ::
  "('x world_scheme, 'c, 'p, 'o) kube_tools \<Rightarrow> string \<Rightarrow> ('c \<Rightarrow> int \<Rightarrow> int \<Rightarrow> ('x world_scheme, error option) state) \<Rightarrow>
   ('c \<Rightarrow> ('x, unit) io) \<Rightarrow> WaitOptions \<Rightarrow> ('x, unit) io"
where
  "performKustomize k rootConfig running kust waitOptions =
     onErr (NewClientFromFile k rootConfig) (Wrap ''while loading local cluster configuration'') (\<lambda>kubeClient.
     case RESTClient k kubeClient of
       Inl e \<Rightarrow> throw (Wrap ''failed to create REST client'' e)
     | Inr restClient \<Rightarrow>
         State_Monad.bind (running restClient (Retries waitOptions) (OkResponses waitOptions)) (\<lambda>err. case err of
           Some e \<Rightarrow> throw (Wrap ''failed to check if cluster is running'' e)
         | None \<Rightarrow> onErr (kust kubeClient) (Wrap ''failed to apply kustomize configuration'') (\<lambda>_.
             if HasLoop waitOptions
             then State_Monad.bind (with_counters (Poll (workloads_poller k) waitOptions
                    (WorkloadsReadyCondition (workloads_access k kubeClient) None))) (\<lambda>err. case err of
                 Some e \<Rightarrow> throw (Wrap ''failed to wait for workloads'' e)
               | None \<Rightarrow> ret ())
             else ret ())))"

definition performPrintKustomize ::
  "('x world_scheme, 'r) kustomize_lib \<Rightarrow> error + 'r list \<Rightarrow> (string \<Rightarrow> (string \<times> string) option) \<Rightarrow> KustomizeOptions \<Rightarrow> ('x, unit) io"
where
  "performPrintKustomize l embedded urlParse opts =
     onErr (GetBaseKustomizationResources l embedded urlParse (ko_Kustomization opts) (ForceEmbedded opts))
       (Wrap ''while getting kustomization resources'') (\<lambda>rs.
     onErr (WriteToWriter l rs) (Wrap ''while writing kustomization resources'') (\<lambda>_. ret ()))"

section \<open>Images\<close>

text \<open>What the code uses of YAML nodes \<open>'n\<close>; resources are nodes with a group and a kind.\<close>

record 'n rnode_lib =
  rn_Lookup :: "'n \<Rightarrow> string list \<Rightarrow> error + 'n option"
  rn_Elements :: "'n \<Rightarrow> error + 'n list"
  rn_Value :: "'n \<Rightarrow> string"
  rn_Group :: "'n \<Rightarrow> string"
  rn_Kind :: "'n \<Rightarrow> string"
  rn_Name :: "'n \<Rightarrow> string"

definition GetKubeVipImage :: string where "GetKubeVipImage = ''ghcr.io/kube-vip/kube-vip:v1.1.2''"
definition GetKineImage :: string where "GetKineImage = ''ghcr.io/k3s-io/kine:v0.14.12''"

text \<open>The results of a function on the elements of a list, or the first error.\<close>

fun collect :: "('a \<Rightarrow> error + 'b list) \<Rightarrow> 'a list \<Rightarrow> error + 'b list" where
  "collect g [] = Inr []"
| "collect g (x # xs) = (case g x of
     Inl e \<Rightarrow> Inl e
   | Inr ys \<Rightarrow> (case collect g xs of Inl e \<Rightarrow> Inl e | Inr zs \<Rightarrow> Inr (ys @ zs)))"

definition container_image :: "'n rnode_lib \<Rightarrow> 'n \<Rightarrow> error + string list" where
  "container_image l c = (case rn_Lookup l c [''image''] of
       Inl e \<Rightarrow> Inl (Wrap ''failed to lookup image'' e)
     | Inr None \<Rightarrow> Inr []
     | Inr (Some i) \<Rightarrow> Inr [rn_Value l i])"

definition containers_path :: "string \<Rightarrow> string \<Rightarrow> string list" where
  "containers_path kind t = (if kind = ''CronJob'' then [''spec'', ''jobTemplate'', ''spec'', ''template'', ''spec'', t]
     else [''spec'', ''template'', ''spec'', t])"

definition GetResourceImages :: "'n rnode_lib \<Rightarrow> 'n \<Rightarrow> error + string list" where
  "GetResourceImages l rn = collect (\<lambda>t. case rn_Lookup l rn (containers_path (rn_Kind l rn) t) of
       Inl e \<Rightarrow> Inl (Wrap (''failed to lookup '' @ t) e)
     | Inr None \<Rightarrow> Inr []
     | Inr (Some cs) \<Rightarrow> (case rn_Elements l cs of
           Inl e \<Rightarrow> Inl (Wrap (''failed to get '' @ t @ '' elements'') e)
         | Inr els \<Rightarrow> collect (container_image l) els)) [''containers'', ''initContainers'']"

definition GetContainerEnvVar :: "'n rnode_lib \<Rightarrow> 'n \<Rightarrow> string \<Rightarrow> string \<Rightarrow> error + string" where
  "GetContainerEnvVar l rn container var =
     (case rn_Lookup l rn [''spec'', ''template'', ''spec'', ''containers'', ''[name='' @ container @ '']'', ''env'', ''[name='' @ var @ '']''] of
        Inl e \<Rightarrow> Inl (Wrap (''failed to get env var '' @ var @ '' from container '' @ container) e)
      | Inr None \<Rightarrow> Inr []
      | Inr (Some envVar) \<Rightarrow> (case rn_Lookup l envVar [''value''] of
            Inl e \<Rightarrow> Inl (Wrap (''failed to get value from env var '' @ var) e)
          | Inr None \<Rightarrow> Inr []
          | Inr (Some v) \<Rightarrow> Inr (rn_Value l v)))"

definition getKGatewayGatewayImage :: "'n rnode_lib \<Rightarrow> 'n \<Rightarrow> error + string" where
  "getKGatewayGatewayImage l rn = (case GetContainerEnvVar l rn ''controller'' ''KGW_DEFAULT_IMAGE_REGISTRY'' of
       Inl e \<Rightarrow> Inl (Wrap ''failed to get KGW_DEFAULT_IMAGE_REGISTRY env from kgateway controller'' e)
     | Inr registry \<Rightarrow> (case GetContainerEnvVar l rn ''controller'' ''KGW_DEFAULT_IMAGE_TAG'' of
           Inl e \<Rightarrow> Inl (Wrap ''failed to get KGW_DEFAULT_IMAGE_TAG env from kgateway controller'' e)
         | Inr version \<Rightarrow> Inr (if registry \<noteq> [] \<and> version \<noteq> [] then registry @ ''/envoy-wrapper:'' @ version
             else ''ghcr.io/kgateway-dev/envoy-wrapper'')))"

definition workloadKinds :: "(string \<times> string) list" where
  "workloadKinds = [(''apps'', ''DaemonSet''), (''apps'', ''Deployment''), (''apps'', ''StatefulSet''), (''apps'', ''ReplicaSet''),
     (''apps'', ''ReplicationController''), (''batch'', ''Job''), (''batch'', ''CronJob'')]"

definition workload_images :: "'n rnode_lib \<Rightarrow> 'n \<Rightarrow> error + string list" where
  "workload_images l rn = (case GetResourceImages l rn of
       Inl e \<Rightarrow> Inl (Wrap ''failed to get images from resource'' e)
     | Inr is \<Rightarrow> if rn_Kind l rn = ''Deployment'' \<and> rn_Name l rn = ''kgateway''
         then (case getKGatewayGatewayImage l rn of
             Inl e \<Rightarrow> Inl (Wrap ''failed to get kgateway gateway image'' e) | Inr i \<Rightarrow> Inr (is @ [i]))
         else Inr is)"

definition getKustomizationImages :: "'n rnode_lib \<Rightarrow> ('x, 'n list) io \<Rightarrow> ('x, string list) io" where
  "getKustomizationImages l resources =
     onErr resources (Wrap ''failed to get resources from base kustomizations'') (\<lambda>rs.
     State_Monad.return (collect (workload_images l) (filter (\<lambda>r. (rn_Group l r, rn_Kind l r) \<in> set workloadKinds) rs)))"

section \<open>The configuration for kubeadm\<close>

text \<open>The fields iknite reads or writes; \<open>'k\<close> and \<open>'i\<close> are the rest, \<open>'e\<close> is the configuration of the flags.\<close>

record 'k cluster_cfg =
  cc_KubernetesVersion :: string
  cc_ControlPlaneEndpoint :: string
  cc_PodSubnet :: string
  cc_FeatureGates :: "(string \<times> bool) list"
  cc_CertSANs :: "string list"
  cc_Rest :: 'k

record ('k, 'i) init_cfg =
  ic_Cluster :: "'k cluster_cfg"
  ic_AdvertiseAddress :: string
  ic_KubeletExtraArgs :: "(string \<times> string) list"
  ic_NodeName :: string
  ic_IgnorePreflightErrors :: "string list"
  ic_SyncPeriod :: nat
  ic_MaxPerCore :: "int option"
  ic_FailSwapOn :: "bool option"
  ic_DryRun :: bool
  ic_Rest :: 'i

text \<open>
  What is called of kubeadm and of the configuration library. \<open>proxy_typed\<close> and \<open>kubelet_typed\<close> are the type
  assertions on the component configurations, \<open>None\<close> when the configuration has no such component.
\<close>

record ('k, 'i, 'e) kubeadm =
  decode_settings :: "IkniteClusterSpec \<Rightarrow> error + IkniteClusterSpec"
  external_defaults :: "'e \<Rightarrow> 'e"
  cluster_defaults :: "'k cluster_cfg \<Rightarrow> 'k cluster_cfg"
  NewFeatureGate :: "string \<Rightarrow> error + (string \<times> bool) list"
  ValidateMixedArguments :: "error option"
  bto_ApplyTo :: "'e \<Rightarrow> error + 'e"
  LoadOrDefaultInitConfiguration :: "string \<Rightarrow> 'e \<Rightarrow> 'k cluster_cfg \<Rightarrow> bool \<Rightarrow> error + ('k, 'i) init_cfg"
  proxy_typed :: "('k, 'i) init_cfg \<Rightarrow> bool option"
  kubelet_typed :: "('k, 'i) init_cfg \<Rightarrow> bool option"
  ValidateIgnorePreflightErrors :: "string list \<Rightarrow> string list \<Rightarrow> error + string list"
  external_NodeName :: "'e \<Rightarrow> string"
  VerifyAPIServerBindAddress :: "string \<Rightarrow> error option"
  ValidateVersion :: "(string \<times> bool) list \<Rightarrow> string \<Rightarrow> error option"
  UsingExternalCA :: "('k, 'i) init_cfg \<Rightarrow> bool \<times> error option"
  ValidateKubeconfigsForExternalCA :: "string \<Rightarrow> ('k, 'i) init_cfg \<Rightarrow> error option"
  UsingExternalFrontProxyCA :: "('k, 'i) init_cfg \<Rightarrow> bool \<times> error option"
  GetControlPlaneImages :: "'k cluster_cfg \<Rightarrow> string list"

definition DecodeIkniteConfig :: "('k, 'i, 'e) kubeadm \<Rightarrow> IkniteClusterSpec \<Rightarrow> error + IkniteClusterSpec" where
  "DecodeIkniteConfig a spec = (case decode_settings a spec of
       Inl e \<Rightarrow> Inl (Wrap ''failed to decode cluster settings'' e) | Inr s \<Rightarrow> Inr s)"

text \<open>The same function for the internal and the external version of the configuration.\<close>

definition ApplyIkniteClusterSpecToClusterConfiguration :: "IkniteClusterSpec \<Rightarrow> 'k cluster_cfg \<Rightarrow> 'k cluster_cfg" where
  "ApplyIkniteClusterSpecToClusterConfiguration spec kc =
     kc\<lparr>cc_KubernetesVersion := ''v'' @ KubernetesVersion spec,
         cc_ControlPlaneEndpoint := (if DomainName spec \<noteq> [] then DomainName spec else cc_ControlPlaneEndpoint kc)\<rparr>"

definition ApplyIkniteClusterSpecToInitConfiguration :: "IkniteClusterSpec \<Rightarrow> ('k, 'i) init_cfg \<Rightarrow> ('k, 'i) init_cfg" where
  "ApplyIkniteClusterSpecToInitConfiguration spec kc =
     kc\<lparr>ic_Cluster := ApplyIkniteClusterSpecToClusterConfiguration spec (ic_Cluster kc),
         ic_AdvertiseAddress := ip_opt_String (Ip spec),
         ic_KubeletExtraArgs := ic_KubeletExtraArgs kc @ [(''node-ip'', ip_opt_String (Ip spec))]\<rparr>"

definition MarshalIkniteConfig ::
  "(IkniteClusterSpec \<Rightarrow> error + string) \<Rightarrow> (IkniteClusterSpec \<Rightarrow> error + string) \<Rightarrow> IkniteClusterSpec \<Rightarrow> string \<Rightarrow> error + string"
where
  "MarshalIkniteConfig to_yaml to_json spec format =
     (if format = ''yaml'' \<or> format = [] then map_sum (Wrap ''failed to marshal iknite config'') id (to_yaml spec)
      else if format = ''json'' then map_sum (Wrap ''failed to marshal iknite config'') id (to_json spec)
      else Inl (Errorf (''unsupported output format: '' @ format)))"

definition PrintIkniteConfig ::
  "(string \<Rightarrow> ('x, unit) io) \<Rightarrow> (IkniteClusterSpec \<Rightarrow> error + string) \<Rightarrow> (IkniteClusterSpec \<Rightarrow> error + string) \<Rightarrow>
   IkniteClusterSpec \<Rightarrow> string \<Rightarrow> ('x, unit) io"
where
  "PrintIkniteConfig write to_yaml to_json spec format =
     (case MarshalIkniteConfig to_yaml to_json spec format of
        Inl e \<Rightarrow> throw (Wrap ''failed to marshal iknite config'' e)
      | Inr output \<Rightarrow> onErr (write output) (Wrap ''failed to write iknite config'') (\<lambda>_.
          onErr (write [CHR 0x0A]) (Wrap ''failed to write newline'') (\<lambda>_. ret ())))"

text \<open>
  The flags of the specification: their names and the values they start with, which are those of the
  specification with its defaults. All are put in the section \<^verbatim>\<open>cluster\<close>.
\<close>

definition cluster_flag :: "string \<Rightarrow> string \<Rightarrow> Flag" where
  "cluster_flag n x = \<lparr>fl_Name = n, fl_Values = [x], fl_Slice = False, fl_Changed = False,
     fl_Annotations = [ConfigSectionAnnotation \<mapsto> [''cluster'']]\<rparr>"

definition AddIkniteClusterFlags :: "IkniteClusterSpec \<Rightarrow> bool \<Rightarrow> Flag list" where
  "AddIkniteClusterFlags spec wsl = (let s = with_defaults wsl spec in
     [cluster_flag ''ip'' (ip_opt_String (Ip s)), cluster_flag ''create-ip'' (bool_text (CreateIp s)),
      cluster_flag ''network-interface'' (NetworkInterface s), cluster_flag ''domain-name'' (DomainName s),
      cluster_flag ''enable-mdns'' (bool_text (EnableMDNS s)), cluster_flag ''kubernetes-version'' (KubernetesVersion s),
      cluster_flag ''cluster-name'' (ClusterName s), cluster_flag ''kustomization'' (Kustomization s),
      cluster_flag ''use-etcd'' (bool_text (UseEtcd s))])"

text \<open>The keys under which the fields of the specification are decoded; a field with no tag goes by its name.\<close>

definition spec_keys :: "string list" where
  "spec_keys = [''kubernetes_version'', ''domain_name'', ''network_interface'', ''cluster_name'', ''kustomization'',
     ''api_backend_database_directory'', ''ip'', ''status_server_port'', ''status_update_interval_seconds'',
     ''status_update_long_interval_seconds'', ''create_ip'', ''enable_mdns'', ''use_etcd'']"

definition PodSubnet :: string where "PodSubnet = ''10.244.0.0/16''"

definition ensure_kine :: "IkniteClusterSpec \<Rightarrow> string list \<Rightarrow> string list" where
  "ensure_kine spec images = (if UseEtcd spec then images else reject_lines ''etcd:'' (images @ [GetKineImage]))"

definition GetIkniteImages ::
  "('k, 'i, 'e) kubeadm \<Rightarrow> 'e \<Rightarrow> 'k cluster_cfg \<Rightarrow> ('x, string list) io \<Rightarrow> IkniteClusterSpec \<Rightarrow> ('x, string list) io"
where
  "GetIkniteImages a externalInitCfg clusterCfg kustomizationImages spec =
     (case LoadOrDefaultInitConfiguration a [] externalInitCfg
         (ApplyIkniteClusterSpecToClusterConfiguration spec (clusterCfg\<lparr>cc_PodSubnet := PodSubnet\<rparr>)) True of
        Inl e \<Rightarrow> throw (Wrap ''failed to load or default init configuration'' e)
      | Inr kc0 \<Rightarrow>
          let kc = ApplyIkniteClusterSpecToInitConfiguration spec kc0;
              images = ensure_kine spec (GetControlPlaneImages a (ic_Cluster kc))
          in onErr kustomizationImages (Wrap ''failed to get images from kustomization'') (\<lambda>kis.
             ret (remdups_adj (sort (images @ kis)))))"

record ('k, 'e) initOptions =
  io_cfgPath :: string
  io_dryRun :: bool
  io_kubeconfigDir :: string
  io_featureGatesString :: string
  io_ignorePreflightErrors :: "string list"
  io_externalInitCfg :: 'e
  io_externalClusterCfg :: "'k cluster_cfg"
  io_uploadCerts :: bool
  io_skipCRIDetect :: bool
  io_ikniteCfg :: IkniteClusterSpec

definition newInitOptions :: "('k, 'i, 'e) kubeadm \<Rightarrow> 'e \<Rightarrow> 'k cluster_cfg \<Rightarrow> bool \<Rightarrow> ('k, 'e) initOptions" where
  "newInitOptions a e k wsl =
     \<lparr>io_cfgPath = [], io_dryRun = False, io_kubeconfigDir = ''/etc/kubernetes'', io_featureGatesString = [],
      io_ignorePreflightErrors = [''all''], io_externalInitCfg = external_defaults a e,
      io_externalClusterCfg = (cluster_defaults a k)\<lparr>cc_PodSubnet := PodSubnet\<rparr>, io_uploadCerts = False,
      io_skipCRIDetect = False, io_ikniteCfg = with_defaults wsl zero_spec\<rparr>"

text \<open>What is set of the configuration of the components: the period in seconds.\<close>

definition adapt_components :: "('k, 'i, 'e) kubeadm \<Rightarrow> ('k, 'i) init_cfg \<Rightarrow> error + ('k, 'i) init_cfg" where
  "adapt_components a kc =
     (case proxy_typed a kc of
        None \<Rightarrow> Inl (Panic ''invalid memory address or nil pointer dereference'')
      | Some False \<Rightarrow> Inl (Errorf ''could not convert the KubeletConfiguration to a typed object'')
      | Some True \<Rightarrow> (case kubelet_typed a kc of
          None \<Rightarrow> Inl (Errorf ''no kubelet component config found'')
        | Some False \<Rightarrow> Inl (Errorf ''could not convert the KubeletConfiguration to a typed object'')
        | Some True \<Rightarrow> Inr (kc\<lparr>ic_SyncPeriod := 10, ic_MaxPerCore := Some 0, ic_FailSwapOn := Some False\<rparr>)))"

text \<open>The checks of external certificate authorities; \<open>Inr\<close> says whether one is used.\<close>

definition external_CAs :: "('k, 'i, 'e) kubeadm \<Rightarrow> ('k, 'e) initOptions \<Rightarrow> ('k, 'i) init_cfg \<Rightarrow> error + bool" where
  "external_CAs a o' kc = (case UsingExternalCA a kc of (externalCA, err) \<Rightarrow>
     case (if externalCA then (case err of
             Some e \<Rightarrow> Some (Wrap ''invalid or incomplete external CA'' e)
           | None \<Rightarrow> map_option (Wrap ''failed to validate kubeconfigs for external CA'')
               (ValidateKubeconfigsForExternalCA a (io_kubeconfigDir o') kc)) else None) of
       Some e \<Rightarrow> Inl e
     | None \<Rightarrow> (case UsingExternalFrontProxyCA a kc of (front, err) \<Rightarrow>
         if front \<and> err \<noteq> None then Inl (Wrap ''invalid or incomplete external front-proxy CA'' (the err))
         else if io_uploadCerts o' \<and> (externalCA \<or> front)
         then Inl (Errorf (''can'' @ [CHR 0x27] @ ''t use upload-certs with an external CA or an external front-proxy CA''))
         else Inr externalCA))"

text \<open>The configuration before the certificate authorities are looked at, with the decoded specification.\<close>

definition validated_config ::
  "('k, 'i, 'e) kubeadm \<Rightarrow> ('k, 'e) initOptions \<Rightarrow> error + IkniteClusterSpec \<times> ('k, 'i) init_cfg"
where
  "validated_config a o' =
     (case DecodeIkniteConfig a (io_ikniteCfg o') of
        Inl e \<Rightarrow> Inl (Wrap ''failed to decode iknite config'' e)
      | Inr spec \<Rightarrow> (case NewFeatureGate a (io_featureGatesString o') of
            Inl e \<Rightarrow> Inl (Wrap ''failed to parse feature gates'' e)
          | Inr gates \<Rightarrow> (case ValidateMixedArguments a of
                Some e \<Rightarrow> Inl (Wrap ''failed to validate mixed arguments'' e)
              | None \<Rightarrow> (case bto_ApplyTo a (external_defaults a (io_externalInitCfg o')) of
                    Inl e \<Rightarrow> Inl (Wrap ''failed to apply bootstrap token options'' e)
                  | Inr ext \<Rightarrow> (case LoadOrDefaultInitConfiguration a (io_cfgPath o') ext
                        ((ApplyIkniteClusterSpecToClusterConfiguration spec (cluster_defaults a (io_externalClusterCfg o')))
                           \<lparr>cc_FeatureGates := gates\<rparr>) (io_skipCRIDetect o') of
                        Inl e \<Rightarrow> Inl (Wrap ''failed to load or default init configuration'' e)
                      | Inr kc0 \<Rightarrow> (case adapt_components a kc0 of
                            Inl e \<Rightarrow> Inl e
                          | Inr kc1 \<Rightarrow> (case ValidateIgnorePreflightErrors a (io_ignorePreflightErrors o') (ic_IgnorePreflightErrors kc1) of
                                Inl e \<Rightarrow> Inl (Wrap ''failed to validate ignore preflight errors'' e)
                              | Inr ignored \<Rightarrow>
                                  let kc = kc1\<lparr>ic_IgnorePreflightErrors := ignored,
                                        ic_NodeName := (if external_NodeName a ext \<noteq> [] then external_NodeName a ext else ic_NodeName kc1)\<rparr>
                                  in case VerifyAPIServerBindAddress a (ic_AdvertiseAddress kc) of
                                      Some e \<Rightarrow> Inl (Wrap ''failed to verify API server bind address'' e)
                                    | None \<Rightarrow> (case ValidateVersion a (cc_FeatureGates (ic_Cluster kc)) (cc_KubernetesVersion (ic_Cluster kc)) of
                                          Some e \<Rightarrow> Inl (Wrap ''failed to validate version'' e)
                                        | None \<Rightarrow> Inr (spec, kc)))))))))"

definition with_SAN :: "string \<Rightarrow> ('k, 'i) init_cfg \<Rightarrow> ('k, 'i) init_cfg" where
  "with_SAN externalIP kc = kc\<lparr>ic_Cluster := (ic_Cluster kc)\<lparr>cc_CertSANs := cc_CertSANs (ic_Cluster kc) @ [externalIP]\<rparr>\<rparr>"

text \<open>
  The data of the phases, as the configuration, the specification, the directory of a dry run and whether
  the certificate authority is external; the other fields are those of the options. \<open>hasContext\<close> says that
  the command has a context.
\<close>

definition newInitData ::
  "('k, 'i, 'e) kubeadm \<Rightarrow> ('x, string) io \<Rightarrow> bool \<Rightarrow> ('k, 'e) initOptions \<Rightarrow>
   ('x, ('k, 'i) init_cfg \<times> IkniteClusterSpec \<times> string \<times> bool) io"
where
  "newInitData a createTempDir hasContext o' = (case validated_config a o' of
       Inl e \<Rightarrow> throw e
     | Inr (spec, kc) \<Rightarrow>
         onErr (if io_dryRun o' \<or> ic_DryRun kc then createTempDir else ret [])
           (Wrap (''couldn'' @ [CHR 0x27] @ ''t create a temporary directory'')) (\<lambda>tempDir.
         case external_CAs a o' kc of
           Inl e \<Rightarrow> throw e
         | Inr external \<Rightarrow>
             let kc' = ApplyIkniteClusterSpecToInitConfiguration spec kc
             in if \<not> hasContext then throw (Errorf ''command context is nil'')
                else State_Monad.bind GetOutboundIP (\<lambda>r.
                  let externalIP = (case r of Inl e \<Rightarrow> [] | Inr i \<Rightarrow> ip_String i)
                  in ret (with_SAN externalIP kc', spec, tempDir, external))))"

section \<open>Laws\<close>

text \<open>The attempts of the wait for the container service are one each, and the last one of a success found it ready.\<close>

lemma Exists_frame: "run_state (Exists p) w = (r, w') \<Longrightarrow> trace w' = trace w"
  by (auto simp: Exists_def run_fs_call tick_def split: option.splits)

lemma host_Run_trace: "run_state (host_Run c xs) w = (r, w') \<Longrightarrow> trace w' = trace w @ [Ran (Cmd c xs)]"
  by (auto simp: host_Run_def run_command_def tick_def State_Monad.bind_def split: prod.splits option.splits)

lemma container_service_attempt:
  assumes "run_state (container_service_loop u (Suc n)) w = (r, w')"
  obtains (sock_error) e where "run_state (Exists ContainerServiceSock) w = (Inl e, w')" "isl r"
  | (again) ms w1 where "trace w1 = trace w @ ms" "ms = [] \<or> ms = [Ran crictl_info]"
      "run_state (container_service_loop u n) w1 = (r, w')"
  | (ready) w1 out cs where "run_state (Exists ContainerServiceSock) w = (Inr True, w1)"
      "run_state (host_Run ''/usr/bin/crictl'' [''--runtime-endpoint'', ''unix://'' @ ContainerServiceSock, ''info'']) w1 = ((out, None), w')"
      "u out = Inr cs" "cri_ready cs" "r = Inr True"
proof -
  obtain x w1 where ex: "run_state (Exists ContainerServiceSock) w = (x, w1)" by (cases "run_state (Exists ContainerServiceSock) w")
  show thesis
  proof (cases "x = Inr True")
    case False
    have silent: "trace w1 = trace w @ []" using Exists_frame [OF ex] by simp
    from False assms ex show thesis
      by (cases x) (auto simp: run_onErr intro: sock_error again [OF silent])
  next
    case True
    obtain out err w2 where run: "run_state (host_Run ''/usr/bin/crictl'' [''--runtime-endpoint'', ''unix://'' @ ContainerServiceSock, ''info'']) w1 = ((out, err), w2)"
      by (metis prod.exhaust)
    have mark: "trace w2 = trace w @ [Ran crictl_info]"
      using host_Run_trace [OF run] Exists_frame [OF ex] by (simp add: crictl_info_def)
    show thesis
    proof (cases "err = None \<and> (\<exists>cs. u out = Inr cs \<and> cri_ready cs)")
      case True
      with \<open>x = Inr True\<close> assms ex run show thesis by (auto simp: run_onErr run_simps intro: ready)
    next
      case False
      with \<open>x = Inr True\<close> assms ex run have "run_state (container_service_loop u n) w2 = (r, w')"
        by (auto simp: run_onErr run_simps split: option.splits sum.splits)
      then show thesis using again [of w2] mark by simp
    qed
  qed
qed

lemma container_service_runs:
  "run_state (container_service_loop u n) w = (r, w') \<Longrightarrow>
   \<exists>k \<le> n. trace w' = trace w @ replicate k (Ran crictl_info)"
proof (induction n arbitrary: w)
  case (Suc n)
  from Suc.prems show ?case
  proof (cases rule: container_service_attempt)
    case (sock_error e)
    then show ?thesis using Exists_frame [OF sock_error(1)] by (intro exI [of _ 0]) simp
  next
    case (again ms w1)
    then obtain k where "k \<le> n" "trace w' = trace w1 @ replicate k (Ran crictl_info)" using Suc.IH by blast
    with again(1,2) show ?thesis by (intro exI [of _ "length ms + k"]) auto
  next
    case (ready w1 out cs)
    then have "trace w' = trace w @ [Ran crictl_info]"
      using host_Run_trace [OF ready(2)] Exists_frame [OF ready(1)] by (simp add: crictl_info_def)
    then show ?thesis by (intro exI [of _ 1]) simp
  qed
qed simp

lemma container_service_found:
  "run_state (container_service_loop u n) w = (Inr True, w') \<Longrightarrow>
   \<exists>w1 out cs. run_state (run_command crictl_info) w1 = ((out, None), w') \<and> u out = Inr cs \<and> cri_ready cs"
proof (induction n arbitrary: w)
  case (Suc n)
  from Suc.prems show ?case
  proof (cases rule: container_service_attempt)
    case (ready w1 out cs)
    from ready(2) have "run_state (run_command crictl_info) w1 = ((out, None), w')"
      by (auto simp: host_Run_def crictl_info_def State_Monad.bind_def split: prod.splits option.splits)
    with ready(3,4) show ?thesis by blast
  qed (use Suc.IH in auto)
qed simp

text \<open>Collecting images: those of every element.\<close>

lemma collect_set: "collect g xs = Inr ys \<Longrightarrow> set ys = (\<Union>x \<in> set xs. set (projr (g x))) \<and> (\<forall>x \<in> set xs. \<not> isl (g x))"
  by (induction xs arbitrary: ys) (auto split: sum.splits)

lemma sort_compact: "sorted (remdups_adj (sort xs)) \<and> distinct (remdups_adj (sort xs)) \<and> set (remdups_adj (sort xs)) = set xs"
  for xs :: "'a :: linorder list"
proof -
  have "distinct (remdups_adj ys)" if "sorted ys" for ys :: "'a list"
    using that by (induction ys rule: remdups_adj.induct) auto
  then show ?thesis by (simp add: sorted_remdups_adj)
qed

lemma ensure_kine_set:
  "set (ensure_kine spec is) = (if UseEtcd spec then set is else {i \<in> set is. \<not> Contains i ''etcd:''} \<union> {GetKineImage})"
proof -
  have "\<not> Contains GetKineImage ''etcd:''" by (simp add: GetKineImage_def) code_simp
  then show ?thesis by (auto simp: ensure_kine_def reject_lines_def)
qed

definition kustomization_images :: "'n rnode_lib \<Rightarrow> 'n list \<Rightarrow> string set" where
  "kustomization_images l rs =
     (\<Union>r \<in> {r \<in> set rs. (rn_Group l r, rn_Kind l r) \<in> set workloadKinds}. set (projr (workload_images l r)))"

lemma getKustomizationImages_set:
  assumes "run_state (getKustomizationImages l resources) w = (Inr is, w')"
  obtains rs where "run_state resources w = (Inr rs, w')" "set is = kustomization_images l rs"
proof -
  obtain rs where rs: "run_state resources w = (Inr rs, w')"
      "collect (workload_images l) (filter (\<lambda>r. (rn_Group l r, rn_Kind l r) \<in> set workloadKinds) rs) = Inr is"
    using assms by (auto simp: getKustomizationImages_def run_onErr split: prod.splits sum.splits)
  show thesis using that [OF rs(1)] collect_set [OF rs(2)] by (auto simp: kustomization_images_def)
qed


text \<open>A release of kubeadm with three images, and a kustomization with one deployment of one container.\<close>

definition small_kubeadm :: "(unit, unit, unit) kubeadm" where
  "small_kubeadm = \<lparr>decode_settings = Inr, external_defaults = id, cluster_defaults = id, NewFeatureGate = \<lambda>s. Inr [],
     ValidateMixedArguments = None, bto_ApplyTo = Inr,
     LoadOrDefaultInitConfiguration = \<lambda>p e k skip. Inr \<lparr>ic_Cluster = k, ic_AdvertiseAddress = ''10.0.0.7'', ic_KubeletExtraArgs = [],
       ic_NodeName = ''node'', ic_IgnorePreflightErrors = [], ic_SyncPeriod = 30, ic_MaxPerCore = None, ic_FailSwapOn = None,
       ic_DryRun = False, ic_Rest = ()\<rparr>,
     proxy_typed = \<lambda>_. Some True, kubelet_typed = \<lambda>_. Some True, ValidateIgnorePreflightErrors = \<lambda>x y. Inr (x @ y),
     external_NodeName = \<lambda>_. [], VerifyAPIServerBindAddress = \<lambda>_. None, ValidateVersion = \<lambda>_ _. None,
     UsingExternalCA = \<lambda>_. (False, None), ValidateKubeconfigsForExternalCA = \<lambda>_ _. None,
     UsingExternalFrontProxyCA = \<lambda>_. (False, None),
     GetControlPlaneImages = \<lambda>k. [''kube-proxy:'' @ cc_KubernetesVersion k, ''etcd:3.6'', ''kube-apiserver:'' @ cc_KubernetesVersion k]\<rparr>"

definition one_container :: "nat rnode_lib" where
  "one_container = \<lparr>rn_Lookup = \<lambda>n p. Inr (if p = [''spec'', ''template'', ''spec'', ''containers''] then Some 1
       else if p = [''image''] then Some 2 else None),
     rn_Elements = \<lambda>n. Inr [3], rn_Value = \<lambda>n. ''etcd:own'', rn_Group = \<lambda>n. ''apps'', rn_Kind = \<lambda>n. ''Deployment'', rn_Name = \<lambda>n. ''store''\<rparr>"

definition empty_cluster_cfg :: "unit cluster_cfg" where
  "empty_cluster_cfg = \<lparr>cc_KubernetesVersion = [], cc_ControlPlaneEndpoint = [], cc_PodSubnet = [], cc_FeatureGates = [],
     cc_CertSANs = [], cc_Rest = ()\<rparr>"

abbreviation wsl_spec :: IkniteClusterSpec where "wsl_spec \<equiv> with_defaults True zero_spec"

lemma wsl_spec_simps [simp]: "UseEtcd wsl_spec = False" "Ip wsl_spec = Some WslIPAddress" "DomainName wsl_spec = WSLHostName"
  by (simp_all add: with_defaults_def zero_spec_def Let_def or_default_def)

lemma one_container_images: "workload_images one_container n = Inr [''etcd:own'']"
  by (simp add: workload_images_def GetResourceImages_def container_image_def containers_path_def one_container_def)


text \<open>Every flag of the specification has a key that a field is decoded from.\<close>

lemma flags_decoded:
  "f \<in> set (AddIkniteClusterFlags spec wsl) \<Longrightarrow> \<exists>k \<in> set spec_keys. GetFlagViperName f pfx = ''cluster.'' @ k"
proof -
  have key: "GetFlagViperName (cluster_flag n x) pfx = ''cluster.'' @ map (\<lambda>c. if c = CHR ''-'' then CHR ''_'' else c) n" for n x
    by (simp add: GetFlagViperName_def GetFlagConfigSection_def cluster_flag_def)
  show "f \<in> set (AddIkniteClusterFlags spec wsl) \<Longrightarrow> ?thesis"
    unfolding AddIkniteClusterFlags_def Let_def by (auto simp: key spec_keys_def)
qed

text \<open>What the steps of \<^verbatim>\<open>newInitData\<close> leave in the configuration.\<close>

lemma adapt_components_fields:
  "adapt_components a kc = Inr kc' \<Longrightarrow> kc' = kc\<lparr>ic_SyncPeriod := 10, ic_MaxPerCore := Some 0, ic_FailSwapOn := Some False\<rparr>"
  by (auto simp: adapt_components_def split: option.splits bool.splits)

lemma external_CAs_upload: "external_CAs a o' kc = Inr external \<Longrightarrow> \<not> (io_uploadCerts o' \<and> external)"
  by (auto simp: external_CAs_def split: prod.splits option.splits if_splits)

lemma validated_config_steps:
  assumes "validated_config a o' = Inr (spec, kc)"
  obtains gates ext loaded ignored where "DecodeIkniteConfig a (io_ikniteCfg o') = Inr spec"
    "LoadOrDefaultInitConfiguration a (io_cfgPath o') ext
       ((ApplyIkniteClusterSpecToClusterConfiguration spec (cluster_defaults a (io_externalClusterCfg o')))\<lparr>cc_FeatureGates := gates\<rparr>)
       (io_skipCRIDetect o') = Inr loaded"
    "kc = loaded\<lparr>ic_SyncPeriod := 10, ic_MaxPerCore := Some 0, ic_FailSwapOn := Some False, ic_IgnorePreflightErrors := ignored,
       ic_NodeName := (if external_NodeName a ext \<noteq> [] then external_NodeName a ext else ic_NodeName loaded)\<rparr>"
    "VerifyAPIServerBindAddress a (ic_AdvertiseAddress loaded) = None"
proof -
  obtain gates ext loaded kc1 ignored where decoded: "DecodeIkniteConfig a (io_ikniteCfg o') = Inr spec"
    and load: "LoadOrDefaultInitConfiguration a (io_cfgPath o') ext
       ((ApplyIkniteClusterSpecToClusterConfiguration spec (cluster_defaults a (io_externalClusterCfg o')))\<lparr>cc_FeatureGates := gates\<rparr>)
       (io_skipCRIDetect o') = Inr loaded"
    and adapted: "adapt_components a loaded = Inr kc1"
    and kc: "kc = kc1\<lparr>ic_IgnorePreflightErrors := ignored,
       ic_NodeName := (if external_NodeName a ext \<noteq> [] then external_NodeName a ext else ic_NodeName kc1)\<rparr>"
    and verified: "VerifyAPIServerBindAddress a (ic_AdvertiseAddress kc1) = None"
    using assms unfolding validated_config_def Let_def by (auto simp del: if_split split: sum.splits option.splits)
  note kc1 = adapt_components_fields [OF adapted]
  show thesis
    by (rule that [OF decoded load, of ignored]) (use kc verified in \<open>simp_all add: kc1\<close>)
qed

lemmas apply_defs = ApplyIkniteClusterSpecToInitConfiguration_def ApplyIkniteClusterSpecToClusterConfiguration_def

lemma newInitData_last:
  assumes "validated_config a o' = Inr (spec, kc0)"
    and "run_state (newInitData a createTempDir hasContext o') w = (Inr (kc, spec', dir, external), w')"
  obtains w1 where "w' = tick w1" "external_CAs a o' kc0 = Inr external"
    "kc = with_SAN (case outbound_result w1 (clock w1) of Inl e \<Rightarrow> [] | Inr i \<Rightarrow> ip_String i)
      (ApplyIkniteClusterSpecToInitConfiguration spec kc0)"
proof -
  let ?temp = "if io_dryRun o' \<or> ic_DryRun kc0 then createTempDir else ret []"
  obtain r w1 where temp: "run_state ?temp w = (r, w1)" by (cases "run_state ?temp w")
  have "w' = tick w1 \<and> external_CAs a o' kc0 = Inr external \<and> kc = with_SAN (case outbound_result w1 (clock w1) of Inl e \<Rightarrow> [] | Inr i \<Rightarrow> ip_String i)
      (ApplyIkniteClusterSpecToInitConfiguration spec kc0)"
    using assms(2) unfolding newInitData_def assms(1) Let_def
    by (auto simp: run_onErr temp run_simps GetOutboundIP_def split: sum.splits if_splits)
  then show thesis using that by blast
qed

text \<open>
  C13: what of the specification reaches kubeadm. When \<^verbatim>\<open>newInitData\<close> succeeds, the configuration is the
  loaded one with the version, the domain name (if there is one) and the address of the decoded
  specification, the address also being the node address given to the kubelet; the kubelet accepts swap,
  the proxy synchronises every ten seconds, and the certificates to upload are not those of an external
  authority. The names of the server certificate end with the outbound address, which is the empty name
  if it could not be found. The address that was verified is the one that was loaded, not the one used.
\<close>

theorem init_data_configured:
  assumes made: "run_state (newInitData a createTempDir hasContext o') w = (Inr (kc, spec, dir, external), w')"
  shows "DecodeIkniteConfig a (io_ikniteCfg o') = Inr spec \<and>
    cc_KubernetesVersion (ic_Cluster kc) = ''v'' @ KubernetesVersion spec \<and>
    ic_AdvertiseAddress kc = ip_opt_String (Ip spec) \<and>
    ic_FailSwapOn kc = Some False \<and> ic_SyncPeriod kc = 10 \<and> ic_MaxPerCore kc = Some 0 \<and> \<not> (io_uploadCerts o' \<and> external) \<and>
    (\<exists>ext gates loaded w1. w' = tick w1 \<and> LoadOrDefaultInitConfiguration a (io_cfgPath o') ext
        ((ApplyIkniteClusterSpecToClusterConfiguration spec (cluster_defaults a (io_externalClusterCfg o')))\<lparr>cc_FeatureGates := gates\<rparr>)
        (io_skipCRIDetect o') = Inr loaded \<and>
      VerifyAPIServerBindAddress a (ic_AdvertiseAddress loaded) = None \<and>
      cc_ControlPlaneEndpoint (ic_Cluster kc) =
        (if DomainName spec \<noteq> [] then DomainName spec else cc_ControlPlaneEndpoint (ic_Cluster loaded)) \<and>
      ic_KubeletExtraArgs kc = ic_KubeletExtraArgs loaded @ [(''node-ip'', ip_opt_String (Ip spec))] \<and>
      cc_CertSANs (ic_Cluster kc) = cc_CertSANs (ic_Cluster loaded) @
        [case outbound_result w1 (clock w1) of Inl e \<Rightarrow> [] | Inr i \<Rightarrow> ip_String i])"
proof -
  obtain kc0 where valid: "validated_config a o' = Inr (spec, kc0)"
    using made by (auto simp: newInitData_def run_onErr run_simps Let_def split: sum.splits prod.splits if_splits)
  then obtain w1 where w1: "w' = tick w1" and cas: "external_CAs a o' kc0 = Inr external"
    and kc: "kc = with_SAN (case outbound_result w1 (clock w1) of Inl e \<Rightarrow> [] | Inr i \<Rightarrow> ip_String i)
      (ApplyIkniteClusterSpecToInitConfiguration spec kc0)"
    using made by (rule newInitData_last)
  from valid show ?thesis
  proof (rule validated_config_steps)
    fix gates ext loaded ignored
    assume decoded: "DecodeIkniteConfig a (io_ikniteCfg o') = Inr spec"
      and load: "LoadOrDefaultInitConfiguration a (io_cfgPath o') ext
       ((ApplyIkniteClusterSpecToClusterConfiguration spec (cluster_defaults a (io_externalClusterCfg o')))\<lparr>cc_FeatureGates := gates\<rparr>)
       (io_skipCRIDetect o') = Inr loaded"
      and kc0: "kc0 = loaded\<lparr>ic_SyncPeriod := 10, ic_MaxPerCore := Some 0, ic_FailSwapOn := Some False, ic_IgnorePreflightErrors := ignored,
       ic_NodeName := (if external_NodeName a ext \<noteq> [] then external_NodeName a ext else ic_NodeName loaded)\<rparr>"
      and verified: "VerifyAPIServerBindAddress a (ic_AdvertiseAddress loaded) = None"
    let ?name = "case outbound_result w1 (clock w1) of Inl e \<Rightarrow> [] | Inr i \<Rightarrow> ip_String i"
    have "cc_ControlPlaneEndpoint (ic_Cluster kc) = (if DomainName spec \<noteq> [] then DomainName spec else cc_ControlPlaneEndpoint (ic_Cluster loaded))"
      "ic_KubeletExtraArgs kc = ic_KubeletExtraArgs loaded @ [(''node-ip'', ip_opt_String (Ip spec))]"
      "cc_CertSANs (ic_Cluster kc) = cc_CertSANs (ic_Cluster loaded) @ [?name]"
      unfolding kc kc0 with_SAN_def by (simp_all add: apply_defs)
    moreover have "cc_KubernetesVersion (ic_Cluster kc) = ''v'' @ KubernetesVersion spec" "ic_AdvertiseAddress kc = ip_opt_String (Ip spec)"
      "ic_FailSwapOn kc = Some False" "ic_SyncPeriod kc = 10" "ic_MaxPerCore kc = Some 0"
      unfolding kc kc0 with_SAN_def by (simp_all add: apply_defs)
    ultimately show ?thesis using w1 decoded load verified external_CAs_upload [OF cas]
      by (intro conjI exI [of _ ext] exI [of _ gates] exI [of _ loaded] exI [of _ w1])
  qed
qed

theorem init_data_configured_witness:
  "\<exists>kc dir ext w'. run_state (newInitData small_kubeadm (ret []) True (newInitOptions small_kubeadm () empty_cluster_cfg True))
     (calm_world Map.empty) = (Inr (kc, wsl_spec, dir, ext), w') \<and> ic_AdvertiseAddress kc = ip_String WslIPAddress"
proof -
  obtain kc w' where run: "run_state (newInitData small_kubeadm (ret []) True (newInitOptions small_kubeadm () empty_cluster_cfg True))
     (calm_world Map.empty) = (Inr (kc, wsl_spec, [], False), w')"
    by (simp add: newInitData_def validated_config_def DecodeIkniteConfig_def newInitOptions_def small_kubeadm_def adapt_components_def
        external_CAs_def ApplyIkniteClusterSpecToInitConfiguration_def run_onErr run_simps GetOutboundIP_def Let_def)
  have "ic_AdvertiseAddress kc = ip_String WslIPAddress" using init_data_configured [OF run] by (simp add: ip_opt_String_def)
  with run show ?thesis by blast
qed

text \<open>
  The wait for the container service asks at most three times; it reports success only when the last
  thing it did was to ask and find at least two conditions, all of them true.
\<close>

lemma wait_container_service:
  assumes "run_state (WaitForContainerService u) w = (r, w')"
  shows "(\<exists>k \<le> 3. trace w' = trace w @ replicate k (Ran crictl_info)) \<and>
    (r = Inr True \<longrightarrow> (\<exists>w1 out cs. run_state (run_command crictl_info) w1 = ((out, None), w') \<and> u out = Inr cs \<and>
       length cs \<ge> 2 \<and> (\<forall>c \<in> set cs. cri_Status c)))"
proof (intro conjI impI)
  show "\<exists>k \<le> 3. trace w' = trace w @ replicate k (Ran crictl_info)"
    using container_service_runs assms unfolding WaitForContainerService_def by blast
next
  assume "r = Inr True"
  with assms have "run_state (container_service_loop u 3) w = (Inr True, w')" by (simp add: WaitForContainerService_def)
  from container_service_found [OF this]
  show "\<exists>w1 out cs. run_state (run_command crictl_info) w1 = ((out, None), w') \<and> u out = Inr cs \<and>
       length cs \<ge> 2 \<and> (\<forall>c \<in> set cs. cri_Status c)"
    unfolding cri_ready_def by (simp add: filter_empty_conv)
qed

end
