(* ===== verification/Commands.thy ===== *)
theory Commands
  imports Kubewait Images
begin

text \<open>
  What the commands do around the operations of the other theories: the configuration of iknite itself
  (\<^verbatim>\<open>pkg/cmd/root.go\<close>), the data of \<^verbatim>\<open>iknite reset\<close> (\<^verbatim>\<open>pkg/cmd/reset.go\<close>), \<^verbatim>\<open>iknite info\<close> and \<^verbatim>\<open>iknite mdns\<close>, the commands
  for secrets (\<^verbatim>\<open>pkg/cmd/secrets\<close>), flags with several destinations (\<^verbatim>\<open>pkg/utils/kustomize.go\<close>) and the file
  system that kustomize sees (\<^verbatim>\<open>pkg/host/kustomize_fs_wrapper.go\<close>, \<^verbatim>\<open>pkg/provision/base.go\<close>). The lemmas show which
  programs obey \<^verbatim>\<open>--config\<close>, that a reset does not need the cluster, and that every destination of a flag
  gets its value.
\<close>

section \<open>Configuration of iknite\<close>

text \<open>The variable of the package, which nothing sets.\<close>

definition cfgFile :: string where "cfgFile = []"

definition initConfig ::
  "flag_types \<Rightarrow> (config_source \<Rightarrow> string \<Rightarrow> viper \<Rightarrow> viper) \<Rightarrow> cobra_Command \<Rightarrow> flag_store \<times> viper \<Rightarrow> flag_store \<times> viper"
where
  "initConfig ty readInConfig c s = (case s of (m, v) \<Rightarrow>
     ApplyViperConfigToFlags ty c (m, readInConfig
       (if cfgFile \<noteq> [] then ConfigFile cfgFile else ConfigSearch ''iknite'' [''$HOME/.config/iknite/'', ''/etc/iknite.d/''])
       ''iknite'' v))"

text \<open>What iknite does before every command; \<open>spec_of\<close> is the specification that the flags are the fields of.\<close>

definition iknite_PersistentPreRunE ::
  "('k, 'i, 'e) kubeadm \<Rightarrow> flag_types \<Rightarrow> (config_source \<Rightarrow> string \<Rightarrow> viper \<Rightarrow> viper) \<Rightarrow> (flag_store \<Rightarrow> IkniteClusterSpec) \<Rightarrow>
   cobra_Command \<Rightarrow> flag_store \<times> viper \<Rightarrow> error + IkniteClusterSpec"
where
  "iknite_PersistentPreRunE a ty readInConfig spec_of c s =
     map_sum (Wrap ''while decoding iknite config'') id (DecodeIkniteConfig a (spec_of (fst (initConfig ty readInConfig c s))))"

text \<open>The flags of a set that are added to another set; \<open>addFlag\<close> is the method of the library for flags.\<close>

definition inheritsFlags :: "flag_store \<Rightarrow> (nat \<Rightarrow> 'f \<Rightarrow> 'f) \<Rightarrow> string list \<Rightarrow> nat list \<Rightarrow> 'f \<Rightarrow> 'f" where
  "inheritsFlags m addFlag names source target =
     fold (\<lambda>i fs. fold (\<lambda>n gs. if fl_Name (m i) = n then addFlag i gs else gs) names fs) source target"

text \<open>What kubewait does before its command: the variables of the file of the environment count for the flags.\<close>

definition kubewait_PersistentPreRunE ::
  "flag_types \<Rightarrow> (flag_store \<times> viper \<Rightarrow> error + flag_store \<times> viper) \<Rightarrow>
   ('x world_scheme, (error + bool) \<times> (string \<rightharpoonup> string)) state \<Rightarrow> ((string \<rightharpoonup> string) \<Rightarrow> viper \<Rightarrow> viper) \<Rightarrow>
   cobra_Command \<Rightarrow> flag_store \<times> viper \<Rightarrow> ('x, flag_store \<times> viper) io"
where
  "kubewait_PersistentPreRunE ty initialize readEnv withEnv c s = (case initialize s of
       Inl e \<Rightarrow> throw (Wrap ''while initializing configuration'' e)
     | Inr (m, v) \<Rightarrow> State_Monad.bind readEnv (\<lambda>(r, env). case r of
         Inl e \<Rightarrow> throw (Wrap ''while reading env file'' e)
       | Inr ok \<Rightarrow> ret (if ok then ApplyViperConfigToFlags ty c (m, withEnv env v) else (m, v))))"

section \<open>Flags with several destinations\<close>

text \<open>A destination is a variable, by address; other values check what they are given.\<close>

datatype flag_value = StringValue nat | OtherValue "string \<Rightarrow> error option" | MultiStringValue "flag_value list"

text \<open>The loop over the values of a \<^verbatim>\<open>MultiStringValue\<close> ends with the first error.\<close>

fun multi_Set :: "('v \<Rightarrow> 's \<Rightarrow> error option \<times> 's) \<Rightarrow> 'v list \<Rightarrow> 's \<Rightarrow> error option \<times> 's" where
  "multi_Set g [] st = (None, st)"
| "multi_Set g (v # vs) st = (case g v st of
     (Some e, st') \<Rightarrow> (Some (Wrap ''while setting a multi string value'' e), st')
   | (None, st') \<Rightarrow> multi_Set g vs st')"

lemma multi_Set_cong [fundef_cong]:
  "vs = ws \<Longrightarrow> st = st' \<Longrightarrow> (\<And>x u. x \<in> set ws \<Longrightarrow> g x u = h x u) \<Longrightarrow> multi_Set g vs st = multi_Set h ws st'"
proof (induction ws arbitrary: vs st st')
  case (Cons w ws)
  have "multi_Set g ws u = multi_Set h ws u" for u using Cons.prems(3) by (intro Cons.IH) auto
  with Cons.prems show ?case by (simp split: prod.splits option.splits)
qed simp

fun value_Set :: "string \<Rightarrow> flag_value \<Rightarrow> (nat \<Rightarrow> string) \<Rightarrow> error option \<times> (nat \<Rightarrow> string)" where
  "value_Set s (StringValue n) st = (None, st(n := s))"
| "value_Set s (OtherValue g) st = (g s, st)"
| "value_Set s (MultiStringValue vs) st = multi_Set (value_Set s) vs st"

fun value_String :: "flag_value \<Rightarrow> (nat \<Rightarrow> string) \<Rightarrow> string" where
  "value_String (StringValue n) st = st n"
| "value_String (OtherValue g) st = []"
| "value_String (MultiStringValue []) st = []"
| "value_String (MultiStringValue (v # vs)) st = value_String v st"

text \<open>The new destination is looked up by the name of one flag, whatever the flag is called.\<close>

definition AddStringFlagDestination ::
  "string \<Rightarrow> flag_value \<Rightarrow> nat \<Rightarrow> (nat \<Rightarrow> string) \<Rightarrow> error + flag_value \<times> (nat \<Rightarrow> string)"
where
  "AddStringFlagDestination name ev dest st =
     (if name = ''kustomization'' then Inr (MultiStringValue [ev, StringValue dest], st(dest := value_String ev st))
      else Inl (Panic ''invalid memory address or nil pointer dereference''))"

section \<open>Information\<close>

text \<open>\<open>println\<close> writes to the standard output; \<^verbatim>\<open>cobra.CheckErr\<close> ends the program with the error.\<close>

definition append_content :: "string \<Rightarrow> string \<Rightarrow> ('x, unit) io" where
  "append_content p out = State (\<lambda>w. (Inr (), case final_name (files w) p of
       None \<Rightarrow> w
     | Some q \<Rightarrow> (case files w q of Some (File c mo) \<Rightarrow> w\<lparr>files := (files w)(q \<mapsto> File (c @ out) mo)\<rparr> | _ \<Rightarrow> w)))"

definition performInfo ::
  "(string \<Rightarrow> ('x, unit) io) \<Rightarrow> (string \<Rightarrow> string) \<Rightarrow> (IkniteClusterSpec \<Rightarrow> error + string) \<Rightarrow> (IkniteClusterSpec \<Rightarrow> error + string) \<Rightarrow>
   IkniteClusterSpec \<Rightarrow> string \<Rightarrow> string \<Rightarrow> ('x, unit) io"
where
  "performInfo stdout cleanPath to_yaml to_json spec outputFormat outputDestination =
     (if outputDestination \<noteq> [] \<and> outputDestination \<noteq> ''stdout''
      then onErr (Create (cleanPath outputDestination)) id (\<lambda>_.
             PrintIkniteConfig (append_content (cleanPath outputDestination)) to_yaml to_json spec outputFormat)
      else PrintIkniteConfig stdout to_yaml to_json spec outputFormat)"

text \<open>\<open>kustomizationImages\<close> is \<^verbatim>\<open>getKustomizationImages\<close> for a location and whether the embedded one is forced.\<close>

definition performImages ::
  "(string \<Rightarrow> ('x, unit) io) \<Rightarrow> ('k, 'i, 'e) kubeadm \<Rightarrow> 'e \<Rightarrow> 'k cluster_cfg \<Rightarrow> (string \<Rightarrow> bool \<Rightarrow> ('x, string list) io) \<Rightarrow>
   IkniteClusterSpec \<Rightarrow> KustomizeOptions \<Rightarrow> ('x, unit) io"
where
  "performImages println a ext clusterCfg kustomizationImages spec opts =
     onErr (GetIkniteImages a ext clusterCfg (kustomizationImages (Kustomization spec) (ForceEmbedded opts)) spec) id (\<lambda>images.
       forE (\<lambda>image. State_Monad.bind (println image) (\<lambda>_. ret ())) images)"

definition defaultIkniteConf :: "error + string \<Rightarrow> string" where
  "defaultIkniteConf userHome = (case userHome of Inl e \<Rightarrow> [] | Inr home \<Rightarrow> filepath_Join (filepath_Join home ''.kube'') ''iknite.conf'')"

definition performInfoStatus ::
  "('x world_scheme, 'c, 'p, 'o) kube_tools \<Rightarrow> ('c \<Rightarrow> string \<Rightarrow> ('x, string) io) \<Rightarrow> ('c \<Rightarrow> string \<Rightarrow> string) \<Rightarrow>
   (string \<Rightarrow> ('x, unit) io) \<Rightarrow> string \<Rightarrow> ('x, unit) io"
where
  "performInfoStatus k doRaw url println configPath =
     onErr (NewClientFromFile k configPath) (Wrap (''failed to load iknite config from '' @ configPath)) (\<lambda>kubeClient.
     case RESTClient k kubeClient of
       Inl e \<Rightarrow> throw (Wrap ''failed to create REST client'' e)
     | Inr restClient \<Rightarrow>
         onErr (doRaw restClient ''/status'') (Wrap (''error while getting iknite status '' @ url restClient ''/status'')) (\<lambda>body.
         State_Monad.bind (println body) (\<lambda>_. ret ())))"

text \<open>\<open>newServer\<close> starts a responder for names; a query gives the two lines to print.\<close>

definition performMdnsTest ::
  "(string list \<Rightarrow> ('x, 's) io) \<Rightarrow> ('s \<Rightarrow> string \<Rightarrow> ('x, string \<times> string) io) \<Rightarrow> ('s \<Rightarrow> ('x world_scheme, unit) state) \<Rightarrow>
   (string \<Rightarrow> ('x, unit) io) \<Rightarrow> IkniteClusterSpec \<Rightarrow> ('x, unit) io"
where
  "performMdnsTest newServer query close println spec =
     onErr (newServer []) id (\<lambda>conn. State_Monad.bind
       (onErr (query conn (DomainName spec)) (Wrap (''cannot query domain '' @ DomainName spec)) (\<lambda>(answer, src).
        onErr (println answer) (Wrap ''cannot write mdns answer'') (\<lambda>_.
        onErr (println src) (Wrap ''cannot write mdns source'') (\<lambda>_. ret ()))))
       (\<lambda>r. State_Monad.bind (close conn) (\<lambda>_. State_Monad.return r)))"

section \<open>Secrets\<close>

text \<open>\<^verbatim>\<open>strings.TrimRight(s, "\r\n")\<close>\<close>

definition TrimRightCRNL :: "string \<Rightarrow> string" where
  "TrimRightCRNL s = rev (dropWhile (\<lambda>c. c = CHR 0x0A \<or> c = CHR 0x0D) (rev s))"

definition secrets_set_command ::
  "('b, 'mk, 'dk, 'm, 'v, 'id) sops_lib \<Rightarrow> error + string \<Rightarrow> ('x, string) io \<Rightarrow> secrets_Options \<Rightarrow> string \<Rightarrow> string option \<Rightarrow> ('x, unit) io"
where
  "secrets_set_command l userHome stdin opts path val = (case val of
       Some v \<Rightarrow> SetSecret l userHome opts path v
     | None \<Rightarrow> onErr stdin (Wrap ''failed to read value from stdin'') (\<lambda>data.
         SetSecret l userHome opts path (TrimRightCRNL data)))"

definition secrets_get_command ::
  "('b, 'mk, 'dk, 'm, 'v, 'id) sops_lib \<Rightarrow> error + string \<Rightarrow> (string \<Rightarrow> ('x, unit) io) \<Rightarrow> secrets_Options \<Rightarrow> string \<Rightarrow> ('x, unit) io"
where
  "secrets_get_command l userHome println opts path =
     onErr (GetSecret l userHome opts path) (Wrap ''failed to get secret'') (\<lambda>val.
     onErr (println val) (Wrap ''error while outputting result'') (\<lambda>_. ret ()))"

definition secrets_remove_command ::
  "('b, 'mk, 'dk, 'm, 'v, 'id) sops_lib \<Rightarrow> error + string \<Rightarrow> secrets_Options \<Rightarrow> string \<Rightarrow> ('x, unit) io"
where
  "secrets_remove_command l userHome opts path = RemoveSecret l userHome opts path"

definition secrets_init_command ::
  "('priv, 'pub) ssh_lib \<Rightarrow> ('b, 'mk, 'dk, 'm, 'v, 'id) sops_lib \<Rightarrow> error + string \<Rightarrow> (string \<Rightarrow> ('x, unit) io) \<Rightarrow> secrets_Options \<Rightarrow> ('x, unit) io"
where
  "secrets_init_command h l userHome println opts =
     onErr (InitSecrets h l userHome opts) (Wrap ''failed to initialize secrets'') (\<lambda>messages.
       forE (\<lambda>message. onErr (println message) (Wrap ''error while outputting result'') (\<lambda>_. ret ())) messages)"

section \<open>The file system for kustomize\<close>

text \<open>The methods that do more than to pass the call on; \<open>absPath\<close> is \<^verbatim>\<open>Abs\<close> of the file system.\<close>

definition kfs_Mkdir :: "string \<Rightarrow> ('x, unit) io" where "kfs_Mkdir p = MkdirAll p mode755"
definition kfs_MkdirAll :: "string \<Rightarrow> ('x, unit) io" where "kfs_MkdirAll p = MkdirAll p mode755"
definition kfs_WriteFile :: "string \<Rightarrow> string \<Rightarrow> ('x, unit) io" where "kfs_WriteFile p data = WriteFile p data mode644"

definition kfs_ReadDir :: "(tree \<Rightarrow> string \<Rightarrow> string list) \<Rightarrow> string \<Rightarrow> ('x, string list) io" where
  "kfs_ReadDir order p = onErr (ReadDir order p) (Wrap (''while getting '' @ p @ '' contents'')) ret"

definition kfs_Exists :: "string \<Rightarrow> ('x world_scheme, bool) state" where
  "kfs_Exists p = State_Monad.bind (Exists p) (\<lambda>r. State_Monad.return (case r of Inl e \<Rightarrow> False | Inr b \<Rightarrow> b))"

definition kfs_IsDir :: "string \<Rightarrow> ('x world_scheme, bool) state" where
  "kfs_IsDir p = State_Monad.bind (DirExists p) (\<lambda>r. State_Monad.return (case r of Inl e \<Rightarrow> False | Inr b \<Rightarrow> b))"

definition kfs_CleanedAbs :: "(string \<Rightarrow> ('x, string) io) \<Rightarrow> (string \<Rightarrow> string) \<Rightarrow> string \<Rightarrow> ('x, string \<times> string) io" where
  "kfs_CleanedAbs absPath base p =
     onErr (absPath p) (Wrap ''while getting absolute path'') (\<lambda>actualPath.
     onErr (DirExists actualPath) (Wrap ''while checking if path is a directory'') (\<lambda>isDir.
     ret (if isDir then (actualPath, []) else (filepath_Dir actualPath, base actualPath))))"

text \<open>
  The copy of the embedded directory into another file system, here a map; \<open>writeFault\<close> is the error of a
  write to it. The entries are names, and whether they are directories.
\<close>

fun copy_entries ::
  "(string \<Rightarrow> error + string) \<Rightarrow> (string \<Rightarrow> error option) \<Rightarrow> string \<Rightarrow> string \<Rightarrow> (string \<times> bool) list \<Rightarrow> (string \<rightharpoonup> string) \<Rightarrow>
   error option \<times> (string \<rightharpoonup> string)"
where
  "copy_entries readFile writeFault outDir inDir [] fs = (None, fs)"
| "copy_entries readFile writeFault outDir inDir ((n, isDir) # es) fs =
     (if isDir then copy_entries readFile writeFault outDir inDir es fs
      else case readFile (inDir @ ''/'' @ n) of
        Inl e \<Rightarrow> (Some (Wrap (''while reading embedded file '' @ n) e), fs)
      | Inr payload \<Rightarrow> (case writeFault (outDir @ ''/'' @ n) of
          Some e \<Rightarrow> (Some (Wrap (''while writing '' @ n @ '' to temp dir '' @ outDir) e), fs)
        | None \<Rightarrow> copy_entries readFile writeFault outDir inDir es (fs(outDir @ ''/'' @ n \<mapsto> payload))))"

definition createTempKustomizeDirectory ::
  "(string \<Rightarrow> error + (string \<times> bool) list) \<Rightarrow> (string \<Rightarrow> error + string) \<Rightarrow> (string \<Rightarrow> error option) \<Rightarrow> string \<Rightarrow> string \<Rightarrow>
   (string \<rightharpoonup> string) \<Rightarrow> error option \<times> (string \<rightharpoonup> string)"
where
  "createTempKustomizeDirectory readDir readFile writeFault outDir inDir fs = (case readDir inDir of
       Inl e \<Rightarrow> (Some (Wrap (''while reading files of '' @ inDir) e), fs)
     | Inr es \<Rightarrow> copy_entries readFile writeFault outDir inDir es fs)"

section \<open>Reset\<close>

record reset_cfg =
  rc_CertificatesDir :: string
  rc_CRISocket :: string
  rc_DryRun :: bool
  rc_Force :: bool
  rc_CleanupTmpDir :: bool
  rc_IgnorePreflightErrors :: "string list"
  rc_SkipPhases :: "string list"

record resetOptions =
  ro_kubeconfigPath :: string
  ro_cfgPath :: string
  ro_ignorePreflightErrors :: "string list"
  ro_externalCfg :: reset_cfg
  ro_skipCRIDetect :: bool
  ro_ikniteCfg :: IkniteClusterSpec

text \<open>
  What is called of kubeadm, with clients \<open>'c\<close> and configurations of the cluster \<open>'i\<close>; \<open>flags_Changed\<close> tells
  the flags that were given, and \<open>dry_WithKubeConfigFile\<close> is the error of the client of a dry run.
\<close>

record ('w, 'c, 'i) reset_lib =
  reset_defaults :: "reset_cfg \<Rightarrow> reset_cfg"
  reset_ValidateMixedArguments :: "error option"
  LoadOrDefaultResetConfiguration :: "string \<Rightarrow> reset_cfg \<Rightarrow> bool \<Rightarrow> bool \<Rightarrow> error + reset_cfg"
  ValueFromFlagsOrConfig :: "string \<Rightarrow> bool \<Rightarrow> bool \<Rightarrow> bool"
  flags_Changed :: "string \<Rightarrow> bool"
  dry_FakeClient :: 'c
  dry_WithKubeConfigFile :: "string \<Rightarrow> ('w, error + unit) state"
  FetchInitConfigurationFromCluster :: "'c \<Rightarrow> ('w, error + 'i) state"
  reset_ValidateIgnorePreflightErrors :: "string list \<Rightarrow> string list \<Rightarrow> error + string list"
  with_IgnorePreflightErrors :: "string list \<Rightarrow> 'i \<Rightarrow> 'i"
  init_CertificatesDir :: "'i \<Rightarrow> string"
  resetDetectCRISocket :: "reset_cfg \<Rightarrow> 'i option \<Rightarrow> error + string"

record ('c, 'i) resetData =
  rd_certificatesDir :: string
  rd_client :: "'c option"
  rd_criSocketPath :: string
  rd_ignorePreflightErrors :: "string list"
  rd_cfg :: "'i option"
  rd_resetCfg :: reset_cfg
  rd_dryRun :: bool
  rd_forceReset :: bool
  rd_cleanupTmpDir :: bool
  rd_spec :: IkniteClusterSpec

definition newResetOptions :: "('w, 'c, 'i) reset_lib \<Rightarrow> reset_cfg \<Rightarrow> bool \<Rightarrow> resetOptions" where
  "newResetOptions l zero wsl = \<lparr>ro_kubeconfigPath = ''/etc/kubernetes/admin.conf'', ro_cfgPath = [],
     ro_ignorePreflightErrors = [''all''], ro_externalCfg = reset_defaults l (zero\<lparr>rc_Force := True\<rparr>),
     ro_skipCRIDetect = False, ro_ikniteCfg = with_defaults wsl zero_spec\<rparr>"

text \<open>The client, if there is one, and the configuration of the cluster, if it could be read; no error is reported.\<close>

definition reset_client ::
  "('x world_scheme, 'k, 'p, 'o) kube_tools \<Rightarrow> ('x world_scheme, 'k, 'i) reset_lib \<Rightarrow> bool \<Rightarrow> string \<Rightarrow>
   ('x world_scheme, 'k option \<times> 'i option) state"
where
  "reset_client k l isDry path =
     State_Monad.bind
       (if isDry then State_Monad.bind (Stat path) (\<lambda>r. case r of
            Inl e \<Rightarrow> State_Monad.return (Some (dry_FakeClient l), False)
          | Inr _ \<Rightarrow> State_Monad.bind (dry_WithKubeConfigFile l path) (\<lambda>r. State_Monad.return (Some (dry_FakeClient l), \<not> isl r)))
        else State_Monad.bind (ClientSetFromFile k path) (\<lambda>r. State_Monad.return (case r of Inl e \<Rightarrow> (None, False) | Inr c \<Rightarrow> (Some c, True))))
       (\<lambda>(c, ok). case c of
          Some c' \<Rightarrow> if ok then State_Monad.bind (FetchInitConfigurationFromCluster l c') (\<lambda>r. State_Monad.return (c, case r of Inl e \<Rightarrow> None | Inr i \<Rightarrow> Some i))
             else State_Monad.return (c, None)
        | None \<Rightarrow> State_Monad.return (None, None))"

text \<open>\<^verbatim>\<open>initCfg.CertificatesDir\<close> with a nil \<^verbatim>\<open>initCfg\<close> panics.\<close>

definition reset_certificates_dir ::
  "('w, 'c, 'i) reset_lib \<Rightarrow> resetOptions \<Rightarrow> reset_cfg \<Rightarrow> 'i option \<Rightarrow> error + string"
where
  "reset_certificates_dir l opts resetCfg initCfg =
     (if flags_Changed l ''cert-dir'' then Inr (rc_CertificatesDir (ro_externalCfg opts))
      else if rc_CertificatesDir resetCfg \<noteq> [] then Inr (rc_CertificatesDir resetCfg)
      else case initCfg of
          None \<Rightarrow> Inl (Panic ''invalid memory address or nil pointer dereference'')
        | Some i \<Rightarrow> Inr (if init_CertificatesDir l i \<noteq> [] then init_CertificatesDir l i else ''/etc/kubernetes/pki''))"

text \<open>\<open>decode\<close> is \<open>DecodeIkniteConfig\<close>.\<close>

definition newResetData ::
  "('x world_scheme, 'k, 'p, 'o) kube_tools \<Rightarrow> ('x world_scheme, 'k, 'i) reset_lib \<Rightarrow> (IkniteClusterSpec \<Rightarrow> error + IkniteClusterSpec) \<Rightarrow>
   bool \<Rightarrow> bool \<Rightarrow> resetOptions \<Rightarrow> ('x, ('k, 'i) resetData) io"
where
  "newResetData k l decode hasContext allowExperimental opts =
     (case reset_ValidateMixedArguments l of
        Some e \<Rightarrow> throw (Wrap ''failed to validate mixed arguments'' e)
      | None \<Rightarrow> (case decode (ro_ikniteCfg opts) of
          Inl e \<Rightarrow> throw (Wrap ''failed to decode iknite config'' e)
        | Inr spec \<Rightarrow> (case LoadOrDefaultResetConfiguration l (ro_cfgPath opts) (ro_externalCfg opts) allowExperimental (ro_skipCRIDetect opts) of
            Inl e \<Rightarrow> throw (Wrap ''failed to load or default reset configuration'' e)
          | Inr resetCfg \<Rightarrow>
              let dry = ValueFromFlagsOrConfig l ''dry-run'' (rc_DryRun resetCfg) (rc_DryRun (ro_externalCfg opts)) in
              State_Monad.bind (reset_client k l dry (ro_kubeconfigPath opts)) (\<lambda>(c, initCfg).
              case reset_ValidateIgnorePreflightErrors l (ro_ignorePreflightErrors opts) (rc_IgnorePreflightErrors resetCfg) of
                Inl e \<Rightarrow> throw (Wrap ''failed to validate ignore preflight errors'' e)
              | Inr ignored \<Rightarrow>
                  let initCfg' = map_option (with_IgnorePreflightErrors l ignored) initCfg in
                  case (if rc_CRISocket (ro_externalCfg opts) \<noteq> [] then Inr (rc_CRISocket (ro_externalCfg opts))
                        else resetDetectCRISocket l resetCfg initCfg') of
                    Inl e \<Rightarrow> throw e
                  | Inr socket \<Rightarrow> (case reset_certificates_dir l opts resetCfg initCfg' of
                      Inl e \<Rightarrow> throw e
                    | Inr certs \<Rightarrow>
                        if \<not> hasContext then throw (Errorf ''command context is nil'')
                        else ret \<lparr>rd_certificatesDir = certs, rd_client = c, rd_criSocketPath = socket, rd_ignorePreflightErrors = ignored,
                          rd_cfg = initCfg', rd_resetCfg = resetCfg, rd_dryRun = dry,
                          rd_forceReset = ValueFromFlagsOrConfig l ''force'' (rc_Force resetCfg) (rc_Force (ro_externalCfg opts)),
                          rd_cleanupTmpDir = ValueFromFlagsOrConfig l ''cleanup-tmp-dir'' (rc_CleanupTmpDir resetCfg)
                            (rc_CleanupTmpDir (ro_externalCfg opts)), rd_spec = spec\<rparr>)))))"

text \<open>The phases to skip: those of the command line, else those of the configuration.\<close>

definition reset_skipPhases :: "string list \<Rightarrow> ('c, 'i) resetData \<Rightarrow> string list" where
  "reset_skipPhases skips d = (if skips = [] then rc_SkipPhases (rd_resetCfg d) else skips)"

section \<open>Laws\<close>

lemma initConfig_value:
  "initConfig ty read c (m, v) =
     (let v' = read (ConfigSearch ''iknite'' [''$HOME/.config/iknite/'', ''/etc/iknite.d/'']) ''iknite'' v
      in (\<lambda>i. fold (configured_flag ty v') (prefixes_of c i) (m i), v'))"
  by (simp add: initConfig_def cfgFile_def ApplyViperConfigToFlags_value Let_def)

text \<open>A flag given on the command line.\<close>

definition given :: "string \<Rightarrow> Flag \<Rightarrow> Flag" where
  "given x f = f\<lparr>fl_Values := [x], fl_Changed := True\<rparr>"


text \<open>A program with the flag and another one, and a configuration with a value only in its file.\<close>

definition two_flags :: flag_store where
  "two_flags i = (if i = 0 then cluster_flag ''config'' [] else name_flag)"

definition only_in_file :: "config_source \<Rightarrow> string \<Rightarrow> viper \<Rightarrow> viper" where
  "only_in_file s env v = (case s of ConfigFile p \<Rightarrow> v(''cluster.cluster_name'' \<mapsto> VString p) | ConfigSearch n ds \<Rightarrow> v)"


text \<open>A flag with a further destination: it starts with the value of the flag, and gets every value the flag gets.\<close>

lemma destination_follows:
  assumes "AddStringFlagDestination name (StringValue n) dest st = Inr (val, st')"
  shows "st' dest = st n \<and> value_Set s val st' = (None, st'(n := s, dest := s)) \<and> value_String val (snd (value_Set s val st')) = s"
  using assms by (auto simp: AddStringFlagDestination_def split: if_splits)

text \<open>The copied files are exactly those of the directory, and no directory is copied.\<close>

lemma copied_entries:
  assumes "copy_entries readFile writeFault outDir inDir es fs = (None, fs')" "distinct (map fst es)"
  shows "fs' p = (if p \<in> (\<lambda>(n, d). outDir @ ''/'' @ n) ` {e \<in> set es. \<not> snd e}
     then Some (projr (readFile (inDir @ ''/'' @ drop (Suc (length outDir)) p))) else fs p)"
  using assms
proof (induction es arbitrary: fs)
  case (Cons e es)
  obtain n d where e: "e = (n, d)" by (cases e)
  show ?case
  proof (cases d)
    case True
    with Cons e show ?thesis by auto
  next
    case False
    with Cons.prems e obtain payload where payload: "readFile (inDir @ ''/'' @ n) = Inr payload"
      "copy_entries readFile writeFault outDir inDir es (fs(outDir @ ''/'' @ n \<mapsto> payload)) = (None, fs')"
      by (auto split: sum.splits option.splits)
    from Cons.IH [OF payload(2)] Cons.prems(2) e False payload(1) show ?thesis by auto
  qed
qed simp

text \<open>
  A reset does not need the cluster: with valid options, a socket and a directory for certificates it
  gets its data whatever the machine and the cluster answer. Without a configured directory it panics
  exactly when the configuration of the cluster cannot be read.
\<close>

lemma reset_without_cluster:
  assumes valid: "reset_ValidateMixedArguments l = None" "decode (ro_ikniteCfg opts) = Inr spec"
      "LoadOrDefaultResetConfiguration l (ro_cfgPath opts) (ro_externalCfg opts) ex (ro_skipCRIDetect opts) = Inr cfg'"
      "reset_ValidateIgnorePreflightErrors l (ro_ignorePreflightErrors opts) (rc_IgnorePreflightErrors cfg') = Inr ignored"
      "rc_CRISocket (ro_externalCfg opts) \<noteq> []"
    and seen: "run_state (reset_client k l (ValueFromFlagsOrConfig l ''dry-run'' (rc_DryRun cfg') (rc_DryRun (ro_externalCfg opts)))
      (ro_kubeconfigPath opts)) w = ((c, initCfg), w')"
    and run: "run_state (newResetData k l decode True ex opts) w = (r, w'')"
  shows "w'' = w' \<and> (isl r \<longleftrightarrow> \<not> flags_Changed l ''cert-dir'' \<and> rc_CertificatesDir cfg' = [] \<and> initCfg = None)"
  using run valid unfolding newResetData_def Let_def
  by (auto simp: run_simps seen reset_certificates_dir_def split: option.splits if_splits)

end
