(* ===== verification/Spec2Isabelle.thy ===== *)
theory Spec2Isabelle
  imports Commands
begin

text \<open>
  A verification development of iknite, a tool that sets up and runs a Kubernetes cluster of one node on
  Alpine Linux, together with its companions \<^verbatim>\<open>iknitectl\<close> and \<^verbatim>\<open>kubewait\<close>. Paths are relative to \<^verbatim>\<open>src/\<close>.

  \<^bold>\<open>The program.\<close> \<^verbatim>\<open>iknite init\<close> runs a workflow of phases, those of kubeadm and its own: it prepares the
  machine, writes manifests, starts the kubelet and supervises it, applies a kustomization, publishes its
  status in a file and through a server with client certificates, watches the workloads and finally waits
  to be stopped. All phases share one object with the status of the cluster; a bus carries its changes to
  the server. \<^verbatim>\<open>iknite start\<close> runs init as a service and waits for it, \<^verbatim>\<open>iknite status\<close> runs a forest of checks
  that depend on each other, each in its own goroutine, \<^verbatim>\<open>iknite clean\<close> takes a cluster down.
  \<^verbatim>\<open>iknitectl\<close> renders applications and keeps secrets; \<^verbatim>\<open>kubewait\<close> waits for the resources of namespaces and
  then runs a script.

  \<^bold>\<open>How it is modelled.\<close> Go functions are definitions of the same name. Code with effects is in the state
  monad of the library over a \<open>world\<close> (theory \<open>Host\<close>): a file tree with links and modes, a trace of what was
  done to the machine, and oracles that say, for each point of time, which file operation fails and what a
  command, a process or the network answers. Nothing is assumed of the oracles, so that every theorem holds
  whatever fails. Errors are values of \<open>error + 'a\<close> with the texts and the wrapping of the code; a panic is the
  error \<open>Panic\<close>, or \<open>None\<close>. Concurrent code (the bus, the monitor and the last phase, the check runner, the
  supervision of the kubelet) is a step relation, and its theorems hold for every interleaving. Code outside
  the repository is a record of functions given as an argument.

  \<^bold>\<open>Theories.\<close>
  \<^item> \<open>Prelude\<close>: errors, the monad, text and numbers, and the locale \<open>frame\<close>, a reflexive and transitive relation
    between states; operations that keep it compose. It is interpreted by the component theories for what
    each needs to stay the same: the files, the oracles, existing files, the trace, the status, the hooks.
  \<^item> \<open>Host\<close>, \<open>Host_Laws\<close>: \<^verbatim>\<open>pkg/host\<close>; the locale \<open>file_contract\<close> says what a read returns after a write and is
    interpreted on the file operations.
  \<^item> \<open>Cluster\<close>: \<^verbatim>\<open>pkg/apis/iknite\<close>, the cluster object with its states, defaults and persistence: round trips
    through the file and JSON, agreement of counters and lists, every outcome of loading.
  \<^item> \<open>Alpine\<close>, \<open>Runtime_Env\<close>: \<^verbatim>\<open>pkg/alpine\<close> and \<^verbatim>\<open>pkg/k8s/runtime_environment.go\<close>, services, pid files,
    addresses and the preparation of the machine: what a successful preparation leaves on the machine.
  \<^item> \<open>Cleaner\<close>: \<^verbatim>\<open>pkg/k8s/clean.go\<close>, the reset phases and \<^verbatim>\<open>pkg/cmd/clean.go\<close>: what a dry run can do, what is
    removed and what never is.
  \<^item> \<open>Kubelet\<close>: \<^verbatim>\<open>pkg/k8s/kubelet.go\<close>, start, supervision loop and probes: the order of its events, how it
    ends, and that no kubelet is started twice.
  \<^item> \<open>Utils\<close>: \<^verbatim>\<open>pkg/utils\<close>, bus, shutdown hooks and polling: delivery and the race of a panic, what the success
    of a wait means.
  \<^item> \<open>Kube_Config\<close>, \<open>Workloads\<close>: \<^verbatim>\<open>pkg/k8s\<close> (\<^verbatim>\<open>config.go\<close>, \<^verbatim>\<open>client.go\<close>, \<^verbatim>\<open>kstatus.go\<close>): kubeconfig files, the
    configuration that is applied once, states of workloads, bounded retries.
  \<^item> \<open>Init_Data\<close>, \<open>Phases\<close>, \<open>Stopping\<close>, \<open>Network_Phases\<close>, \<open>Workflow\<close>: \<^verbatim>\<open>pkg/cmd/init_data.go\<close>,
    \<^verbatim>\<open>pkg/k8s/phases/init\<close>, \<^verbatim>\<open>pkg/cmd/init.go\<close>. The status refines a plan: it names the phase that ran last and never
    goes back; every view of it agrees after an update. The last phase, the interleaving of the monitor with
    it, the addresses of load balancers, the phases that are skipped, the one signal to the kubelet.
  \<^item> \<open>Checks\<close>, \<open>Checkers\<close>: \<^verbatim>\<open>pkg/check\<close>, \<^verbatim>\<open>pkg/checkers\<close>, \<^verbatim>\<open>pkg/cmd/start.go\<close>. The locale \<open>result_forest\<close> collects what the
    allocation of results guarantees and is interpreted on it. Termination of every run with a bound, meaning of
    every verdict, absence of deadlock for the checks of \<^verbatim>\<open>iknite status\<close>, and a cycle that blocks for ever.
  \<^item> \<open>Server\<close>: \<^verbatim>\<open>pkg/pki\<close>, \<^verbatim>\<open>pkg/server\<close>: certificates and the answers of the server.
  \<^item> \<open>Kubewait\<close>: \<^verbatim>\<open>pkg/kubewait\<close>: readiness that has settled, and the bootstrap after it.
  \<^item> \<open>Secrets\<close>: \<^verbatim>\<open>pkg/secrets\<close>: set and get of secrets, private keys that are never overwritten.
  \<^item> \<open>Applications\<close>: \<^verbatim>\<open>pkg/kustomize\<close>, \<^verbatim>\<open>pkg/cmd/iknitectl\<close>: rendering, splitting, signing keys.
  \<^item> \<open>Params\<close>: \<^verbatim>\<open>pkg/cmd/util/params.go\<close>: flags, configuration file and environment, and which one wins.
  \<^item> \<open>Images\<close>: \<^verbatim>\<open>pkg/config\<close>, \<^verbatim>\<open>pkg/cri\<close>, \<^verbatim>\<open>pkg/provision\<close>, \<^verbatim>\<open>newInitData\<close> of \<^verbatim>\<open>pkg/cmd/init.go\<close>: the images of a
    cluster and the configuration given to kubeadm.
  \<^item> \<open>Commands\<close>: \<^verbatim>\<open>pkg/cmd/root.go\<close>, \<^verbatim>\<open>reset.go\<close>, \<^verbatim>\<open>info.go\<close>, \<^verbatim>\<open>mdns.go\<close> and \<^verbatim>\<open>pkg/cmd/secrets\<close>: which programs obey
    \<^verbatim>\<open>--config\<close>, and a reset that does not need the cluster.

  \<^bold>\<open>Bounds.\<close> Loops are structural recursion on what is left, so there is no fuel that could run out: 40 symbolic
  links (the limit of Linux), three attempts to list a resource type and to reach the container service, the
  retries of the probes. \<open>daemon_run\<close> takes the number of its steps; six are enough, and \<open>daemon_run_is_runDaemonize\<close>
  shows that they give the phase of the code. The check runner is a relation; 205 actions bound every run of the
  checks of \<^verbatim>\<open>iknite status\<close>. Numbers are \<open>int\<close> or \<open>nat\<close>: the program does arithmetic only on small counters.

  \<^bold>\<open>Contracts of code outside the repository\<close>, each a hypothesis that a witness meets with concrete functions:
  \<open>poller_contract\<close> (a poller calls the condition until it is done or gives up), \<open>config_map_laws\<close> (what the API
  server returns after it accepted a config map), \<open>sops_contract\<close> and \<open>branch_contract\<close> (an encrypted file is
  decrypted to what was encrypted; a value that was set is found).

  \<^bold>\<open>Not modelled.\<close> The terminal user interface and the text of logs; command objects, flag declarations and
  accessors of loggers; generated code, test doubles and development tools; time, but for the order of events
  and the settle period of \<^verbatim>\<open>kubewait\<close>; Kubernetes, kubeadm, kustomize, helm, SOPS and cryptography, which are parameters; IPv6 addresses.
\<close>

end
